(* ===== verification/Prelude.thy ===== *)
theory Prelude
  imports Main "HOL-Library.Word" "HOL-Library.State_Monad"
begin

text \<open>
  Shared ground of the development.

  The operator is straight-line Go code that talks to the outside through calls: requests to the
  Kubernetes API, SSH sessions, the clock. A routine is a computation of the library's state monad
  over \<open>('w, 'q) sys\<close>: the unknown world \<open>'w\<close> the calls act on, and the list of
  requests \<open>'q\<close> the code has issued so far. What a call does to the world and what it answers is
  a parameter of the model; which requests are issued, with which arguments and in which order, is
  what the code decides.

  The effect logic (\<open>emits\<close>) is a small proof system over such computations, in which a routine's
  requests are checked one by one and a fact about an answer is carried to the code that uses it.
\<close>

named_theorems emit_rules \<open>rules of the effect logic for the primitive calls and shared routines\<close>
named_theorems call_defs \<open>definitions of the primitive calls\<close>

type_synonym i32 = "32 word"
type_synonym duration = int

subsection \<open>Computations that issue requests\<close>

record ('w, 'q) sys =
  world :: 'w
  trace :: "'q list"

text \<open>A Go function either runs to its return or panics.\<close>

datatype 'a go = Panicked string | Ran 'a

definition call :: "'q \<Rightarrow> ('w \<Rightarrow> 'a \<times> 'w) \<Rightarrow> (('w, 'q) sys, 'a) state" where
  "call q f = State (\<lambda>s. case f (world s) of (r, w') \<Rightarrow> (r, \<lparr>world = w', trace = trace s @ [q]\<rparr>))"

definition start :: "'w \<Rightarrow> ('w, 'q) sys" where
  "start w = \<lparr>world = w, trace = []\<rparr>"

definition requests :: "(('w, 'q) sys, 'a) state \<Rightarrow> 'w \<Rightarrow> 'q list" where
  "requests m w = trace (snd (run_state m (start w)))"

definition answer :: "(('w, 'q) sys, 'a) state \<Rightarrow> 'w \<Rightarrow> 'a" where
  "answer m w = fst (run_state m (start w))"

definition after :: "(('w, 'q) sys, 'a) state \<Rightarrow> 'w \<Rightarrow> 'w" where
  "after m w = world (snd (run_state m (start w)))"

text \<open>\<open>emits \<phi> \<psi> m\<close>: from every state, \<open>m\<close> appends requests that satisfy \<open>\<phi>\<close> and
  returns a value that satisfies \<open>\<psi>\<close>.\<close>

definition emits :: "('q \<Rightarrow> bool) \<Rightarrow> ('a \<Rightarrow> bool) \<Rightarrow> (('w, 'q) sys, 'a) state \<Rightarrow> bool" where
  "emits \<phi> \<psi> m \<longleftrightarrow>
     (\<forall>s. \<psi> (fst (run_state m s)) \<and>
          (\<exists>qs. trace (snd (run_state m s)) = trace s @ qs \<and> list_all \<phi> qs))"

subsection \<open>Machine integers of Go\<close>

definition wrap64 :: "int \<Rightarrow> int" where
  "wrap64 x = signed_take_bit 63 x"

definition int32_min :: int where "int32_min = - (2 ^ 31)"
definition int32_max :: int where "int32_max = 2 ^ 31 - 1"
definition int64_min :: int where "int64_min = - (2 ^ 63)"
definition int64_max :: int where "int64_max = 2 ^ 63 - 1"

subsection \<open>Running computations\<close>

lemma run_call [simp]:
  "run_state (call q f) s =
     (fst (f (world s)), \<lparr>world = snd (f (world s)), trace = trace s @ [q]\<rparr>)"
  by (simp add: call_def split: prod.split)

lemma start_simps [simp]: "world (start w) = w" "trace (start w) = []"
  by (simp_all add: start_def)

lemma emitsI:
  assumes "\<And>s. \<psi> (fst (run_state m s))"
    and "\<And>s. \<exists>qs. trace (snd (run_state m s)) = trace s @ qs \<and> list_all \<phi> qs"
  shows "emits \<phi> \<psi> m"
  using assms by (simp add: emits_def)

lemma emits_return [emit_rules]: "\<psi> x \<Longrightarrow> emits \<phi> \<psi> (State_Monad.return x)"
  by (simp add: emits_def)

lemma emits_call: "\<phi> q \<Longrightarrow> (\<And>w. \<psi> (fst (f w))) \<Longrightarrow> emits \<phi> \<psi> (call q f)"
  by (simp add: emits_def)

lemma emits_bind:
  assumes m: "emits \<phi> \<chi> m" and f: "\<And>x. \<chi> x \<Longrightarrow> emits \<phi> \<psi> (f x)"
  shows "emits \<phi> \<psi> (State_Monad.bind m f)"
proof (rule emitsI)
  fix s
  obtain x s' where run: "run_state m s = (x, s')" by fastforce
  with m have x: "\<chi> x" and "\<exists>qs. trace s' = trace s @ qs \<and> list_all \<phi> qs"
    by (auto simp: emits_def dest: spec [of _ s])
  then obtain qs where qs: "trace s' = trace s @ qs" "list_all \<phi> qs" by blast
  from f [OF x] obtain ps where
    ps: "trace (snd (run_state (f x) s')) = trace s' @ ps" "list_all \<phi> ps"
    by (auto simp: emits_def)
  from f [OF x] run show "\<psi> (fst (run_state (State_Monad.bind m f) s))"
    by (simp add: emits_def)
  from qs ps run show "\<exists>qs. trace (snd (run_state (State_Monad.bind m f) s)) = trace s @ qs
      \<and> list_all \<phi> qs"
    by (intro exI [of _ "qs @ ps"]) simp
qed

text \<open>The forms the proof search uses: a bind whose first part is a plain call, and a call at the
  end of a routine.\<close>

lemma emits_bind_call [emit_rules]:
  assumes "\<phi> q" and "\<And>x. emits \<phi> \<psi> (f x)"
  shows "emits \<phi> \<psi> (State_Monad.bind (call q g) f)"
  using assms by (intro emits_bind [where \<chi> = "\<lambda>_. True"] emits_call) auto

lemma emits_bind_call_law:
  assumes "\<phi> q" and "\<And>w. \<chi> (fst (g w))" and "\<And>x. \<chi> x \<Longrightarrow> emits \<phi> \<psi> (f x)"
  shows "emits \<phi> \<psi> (State_Monad.bind (call q g) f)"
  using assms by (intro emits_bind [where \<chi> = \<chi>] emits_call)

lemma emits_weaken:
  assumes "emits \<phi> \<psi> m" and "\<And>q. \<phi> q \<Longrightarrow> \<phi>' q" and "\<And>x. \<psi> x \<Longrightarrow> \<psi>' x"
  shows "emits \<phi>' \<psi>' m"
proof (rule emitsI)
  fix s
  from assms show "\<psi>' (fst (run_state m s))" by (simp add: emits_def)
  from assms(1) obtain qs where
    "trace (snd (run_state m s)) = trace s @ qs" "list_all \<phi> qs"
    by (auto simp: emits_def)
  with assms(2) show "\<exists>qs. trace (snd (run_state m s)) = trace s @ qs \<and> list_all \<phi>' qs"
    by (auto simp: list_all_iff)
qed

lemma emits_requests: "emits \<phi> \<psi> m \<Longrightarrow> q \<in> set (requests m w) \<Longrightarrow> \<phi> q"
  by (auto simp: emits_def requests_def list_all_iff dest: spec [of _ "start w"])

lemma emits_answer: "emits \<phi> \<psi> m \<Longrightarrow> \<psi> (answer m w)"
  by (simp add: emits_def answer_def)

lemma find_SomeD: "find P xs = Some x \<Longrightarrow> x \<in> set xs \<and> P x"
  by (induction xs) (auto split: if_splits)

text \<open>\<open>holds m w Q\<close>: run in the world \<open>w\<close>, \<open>m\<close> returns a value and leaves a world that satisfy
  \<open>Q\<close>.\<close>

definition holds :: "(('w, 'q) sys, 'a) state \<Rightarrow> 'w \<Rightarrow> ('a \<Rightarrow> 'w \<Rightarrow> bool) \<Rightarrow> bool" where
  "holds m w Q \<longleftrightarrow> (\<forall>s. world s = w \<longrightarrow> Q (fst (run_state m s)) (world (snd (run_state m s))))"

lemma holds_return: "Q x w \<Longrightarrow> holds (State_Monad.return x) w Q"
  by (simp add: holds_def)

lemma holds_bind_call:
  "(\<And>x w'. g w = (x, w') \<Longrightarrow> holds (f x) w' Q) \<Longrightarrow> holds (State_Monad.bind (call q g) f) w Q"
  by (cases "g w") (simp add: holds_def)

lemma holds_bind:
  assumes "holds m w P" and "\<And>x w'. P x w' \<Longrightarrow> holds (f x) w' Q"
  shows "holds (State_Monad.bind m f) w Q"
  unfolding holds_def
proof (intro allI impI)
  fix s :: "('a, 'b) sys"
  assume s: "world s = w"
  obtain x s' where run: "run_state m s = (x, s')" by fastforce
  with assms(1) s have "P x (world s')" by (auto simp: holds_def dest: spec [of _ s])
  from assms(2) [OF this] run show "Q (fst (run_state (State_Monad.bind m f) s))
      (world (snd (run_state (State_Monad.bind m f) s)))"
    by (simp add: holds_def)
qed

lemma holds_weaken: "holds m w P \<Longrightarrow> (\<And>x w'. P x w' \<Longrightarrow> Q x w') \<Longrightarrow> holds m w Q"
  by (simp add: holds_def)

lemma holds_run: "holds m w Q \<Longrightarrow> Q (answer m w) (after m w)"
  by (simp add: holds_def answer_def after_def)

lemmas holds_rules = holds_return holds_bind_call

text \<open>A routine with requests of its own kind inside one with requests of another kind.\<close>

definition via :: "('q \<Rightarrow> 'r) \<Rightarrow> (('w, 'q) sys, 'a) state \<Rightarrow> (('w, 'r) sys, 'a) state" where
  "via f m = State (\<lambda>s. case run_state m (start (world s)) of
     (x, s') \<Rightarrow> (x, \<lparr>world = world s', trace = trace s @ map f (trace s')\<rparr>))"

lemma run_via [simp]:
  "run_state (via f m) s = (answer m (world s), \<lparr>world = after m (world s), trace = trace s @ map f (requests m (world s))\<rparr>)"
  by (simp add: via_def answer_def after_def requests_def split: prod.split)

lemma holds_via: "holds m w Q \<Longrightarrow> holds (via f m) w Q"
  by (simp add: holds_def holds_run)

subsection \<open>Requests and results together\<close>

text \<open>\<open>traces Q m\<close> relates the value a routine returns to the whole list of requests it issued.\<close>

definition traces :: "('a \<Rightarrow> 'q list \<Rightarrow> bool) \<Rightarrow> (('w, 'q) sys, 'a) state \<Rightarrow> bool" where
  "traces Q m \<longleftrightarrow> (\<forall>s. \<exists>qs. trace (snd (run_state m s)) = trace s @ qs \<and> Q (fst (run_state m s)) qs)"

named_theorems trace_rules \<open>rules of the trace logic\<close>

lemma traces_return [trace_rules]: "Q x [] \<Longrightarrow> traces Q (State_Monad.return x)"
  by (simp add: traces_def)

lemma traces_call: "(\<And>x. Q x [q]) \<Longrightarrow> traces Q (call q g)"
  by (simp add: traces_def)

lemma traces_bind:
  assumes "traces P m" and "\<And>x qs. P x qs \<Longrightarrow> traces (\<lambda>y rs. Q y (qs @ rs)) (f x)"
  shows "traces Q (State_Monad.bind m f)"
  unfolding traces_def
proof
  fix s
  obtain x s' where run: "run_state m s = (x, s')" by fastforce
  with assms(1) obtain qs where qs: "trace s' = trace s @ qs" "P x qs"
    by (auto simp: traces_def dest: spec [of _ s])
  with assms(2) obtain rs where "trace (snd (run_state (f x) s')) = trace s' @ rs"
    and "Q (fst (run_state (f x) s')) (qs @ rs)"
    unfolding traces_def by blast
  with run qs show "\<exists>qs. trace (snd (run_state (State_Monad.bind m f) s)) = trace s @ qs \<and>
      Q (fst (run_state (State_Monad.bind m f) s)) qs"
    by simp
qed

lemma traces_bind_call [trace_rules]:
  "(\<And>x. traces (\<lambda>y rs. Q y (q # rs)) (f x)) \<Longrightarrow> traces Q (State_Monad.bind (call q g) f)"
  by (rule traces_bind [OF traces_call [where Q = "\<lambda>_ qs. qs = [q]"]]) simp_all

lemma traces_bind_answer:
  "(\<And>w. traces (\<lambda>y rs. Q y (q # rs)) (f (fst (g w)))) \<Longrightarrow> traces Q (State_Monad.bind (call q g) f)"
  by (rule traces_bind [where P = "\<lambda>x qs. qs = [q] \<and> (\<exists>w. x = fst (g w))"]) (auto simp: traces_def)

lemma traces_emits: "emits \<phi> \<psi> m \<Longrightarrow> traces (\<lambda>x qs. \<psi> x \<and> list_all \<phi> qs) m"
  by (auto simp: traces_def emits_def)

lemma traces_weaken: "traces P m \<Longrightarrow> (\<And>x qs. P x qs \<Longrightarrow> Q x qs) \<Longrightarrow> traces Q m"
  unfolding traces_def by blast

lemma traces_run: "traces Q m \<Longrightarrow> Q (answer m w) (requests m w)"
  unfolding traces_def answer_def requests_def by (auto dest: spec [of _ "start w"])

lemma traces_conj:
  assumes "traces P m" and "traces Q m"
  shows "traces (\<lambda>x qs. P x qs \<and> Q x qs) m"
  unfolding traces_def
proof
  fix s
  from assms obtain qs qs' where "trace (snd (run_state m s)) = trace s @ qs" "P (fst (run_state m s)) qs"
    and "trace (snd (run_state m s)) = trace s @ qs'" "Q (fst (run_state m s)) qs'"
    unfolding traces_def by blast
  then show "\<exists>qs. trace (snd (run_state m s)) = trace s @ qs \<and> P (fst (run_state m s)) qs \<and> Q (fst (run_state m s)) qs"
    by auto
qed

lemma traces_via: "traces Q m \<Longrightarrow> traces (\<lambda>x qs. \<exists>ks. qs = map f ks \<and> Q x ks) (via f m)"
  unfolding traces_def by (auto dest: traces_run simp: traces_def [symmetric])

subsection \<open>Integers\<close>

lemma wrap64_id: "int64_min \<le> x \<Longrightarrow> x \<le> int64_max \<Longrightarrow> wrap64 x = x"
  by (simp add: wrap64_def int64_min_def int64_max_def signed_take_bit_int_eq_self)

lemma sint_i32_bounds: "int32_min \<le> sint (x :: i32)" "sint (x :: i32) \<le> int32_max"
  using sint_range_size [of x] by (simp_all add: int32_min_def int32_max_def word_size)

lemma sint_of_int_i32:
  "int32_min \<le> n \<Longrightarrow> n \<le> int32_max \<Longrightarrow> sint (word_of_int n :: i32) = n"
  by (simp add: int32_min_def int32_max_def sint_sbintrunc' signed_take_bit_int_eq_self)

lemma sint_succ_i32:
  assumes "sint (x :: i32) < int32_max"
  shows "sint (x + 1) = sint x + 1"
proof -
  have "x + 1 = word_of_int (sint x + 1)" by simp
  moreover have "int32_min \<le> sint x + 1" using sint_i32_bounds(1) [of x] by linarith
  ultimately show ?thesis using assms sint_of_int_i32 [of "sint x + 1"] by simp
qed

end
