(* ===== verification/GoStrings.thy ===== *)
theory GoStrings
  imports Prelude
begin

text \<open>
  The parts of Go's packages \<open>strings\<close> and \<open>fmt\<close> that the operator uses. A Go string is a byte
  sequence, here a \<open>string\<close> (a list of 8-bit characters). White space is what
  \<open>unicode.IsSpace\<close> and the scanner of \<open>fmt\<close> accept: the ASCII characters and the UTF-8 encodings
  of the other white-space code points, which are stripped as whole encodings.

  \<open>ToLower\<close> maps ASCII letters and the two non-ASCII code points whose lower-case form is an ASCII
  letter (U+0130 and U+212A); it keeps every other byte. The callers only compare the result with
  ASCII patterns, and no other code point contributes to such a match.
\<close>

subsection \<open>Package strings\<close>

definition HasPrefix :: "string \<Rightarrow> string \<Rightarrow> bool" where
  "HasPrefix s p \<longleftrightarrow> take (length p) s = p"

definition HasSuffix :: "string \<Rightarrow> string \<Rightarrow> bool" where
  "HasSuffix s p \<longleftrightarrow> length p \<le> length s \<and> drop (length s - length p) s = p"

definition TrimPrefix :: "string \<Rightarrow> string \<Rightarrow> string" where
  "TrimPrefix s p = (if HasPrefix s p then drop (length p) s else s)"

fun Contains :: "string \<Rightarrow> string \<Rightarrow> bool" where
  "Contains [] p = (p = [])"
| "Contains (c # s) p = (HasPrefix (c # s) p \<or> Contains s p)"

fun Split :: "string \<Rightarrow> char \<Rightarrow> string list" where
  "Split [] c = [[]]"
| "Split (x # xs) c =
     (if x = c then [] # Split xs c
      else case Split xs c of [] \<Rightarrow> [[x]] | l # ls \<Rightarrow> (x # l) # ls)"

fun Join :: "string list \<Rightarrow> string \<Rightarrow> string" where
  "Join [] sep = []"
| "Join [l] sep = l"
| "Join (l # l' # ls) sep = l @ sep @ Join (l' # ls) sep"

definition TrimRight :: "string \<Rightarrow> string \<Rightarrow> string" where
  "TrimRight s cutset = rev (dropWhile (\<lambda>c. c \<in> set cutset) (rev s))"

definition lower_char :: "char \<Rightarrow> char" where
  "lower_char c =
     (let n = (of_char c :: nat) in if 65 \<le> n \<and> n \<le> 90 then char_of (n + 32) else c)"

fun ToLower :: "string \<Rightarrow> string" where
  "ToLower [] = []"
| "ToLower (a # s) =
     (case s of
        b # t \<Rightarrow>
          if a = CHR 0xC4 \<and> b = CHR 0xB0 then CHR ''i'' # ToLower t
          else (case t of
                  c # u \<Rightarrow>
                    if a = CHR 0xE2 \<and> b = CHR 0x84 \<and> c = CHR 0xAA then CHR ''k'' # ToLower u
                    else lower_char a # ToLower s
                | [] \<Rightarrow> lower_char a # ToLower s)
      | [] \<Rightarrow> [lower_char a])"

definition newline :: char where
  "newline = CHR 0x0A"

text \<open>The encodings of the white-space code points.\<close>

definition space_runes :: "string list" where
  "space_runes =
     [[CHR 0x09], [CHR 0x0A], [CHR 0x0B], [CHR 0x0C], [CHR 0x0D], [CHR 0x20],
      [CHR 0xC2, CHR 0x85], [CHR 0xC2, CHR 0xA0],
      [CHR 0xE1, CHR 0x9A, CHR 0x80],
      [CHR 0xE2, CHR 0x80, CHR 0x80], [CHR 0xE2, CHR 0x80, CHR 0x81], [CHR 0xE2, CHR 0x80, CHR 0x82],
      [CHR 0xE2, CHR 0x80, CHR 0x83], [CHR 0xE2, CHR 0x80, CHR 0x84], [CHR 0xE2, CHR 0x80, CHR 0x85],
      [CHR 0xE2, CHR 0x80, CHR 0x86], [CHR 0xE2, CHR 0x80, CHR 0x87], [CHR 0xE2, CHR 0x80, CHR 0x88],
      [CHR 0xE2, CHR 0x80, CHR 0x89], [CHR 0xE2, CHR 0x80, CHR 0x8A],
      [CHR 0xE2, CHR 0x80, CHR 0xA8], [CHR 0xE2, CHR 0x80, CHR 0xA9],
      [CHR 0xE2, CHR 0x80, CHR 0xAF], [CHR 0xE2, CHR 0x81, CHR 0x9F],
      [CHR 0xE3, CHR 0x80, CHR 0x80]]"

definition match_rune :: "string list \<Rightarrow> string \<Rightarrow> string option" where
  "match_rune rs s = find (\<lambda>r. r \<noteq> [] \<and> HasPrefix s r) rs"

lemma match_rune_Some:
  "match_rune rs s = Some r \<Longrightarrow> r \<noteq> [] \<and> HasPrefix s r \<and> r \<in> set rs"
  unfolding match_rune_def by (auto simp: find_Some_iff)

lemma HasPrefix_length: "HasPrefix s r \<Longrightarrow> length r \<le> length s"
  by (metis HasPrefix_def length_take min.cobounded1)

function strip :: "string list \<Rightarrow> string \<Rightarrow> string" where
  "strip rs s = (case match_rune rs s of None \<Rightarrow> s | Some r \<Rightarrow> strip rs (drop (length r) s))"
  by pat_completeness auto
termination
proof (relation "measure (\<lambda>(rs, s). length s)", simp, clarsimp)
  fix rs s r
  assume "match_rune rs s = Some r"
  then have "r \<noteq> []" and "length r \<le> length s"
    by (auto dest: match_rune_Some HasPrefix_length)
  then show "length s - length r < length s" by (cases r) auto
qed

declare strip.simps [simp del]

definition TrimSpace :: "string \<Rightarrow> string" where
  "TrimSpace s = rev (strip (map rev space_runes) (rev (strip space_runes s)))"

subsection \<open>Package fmt: decimal numbers\<close>

definition digit_char :: "nat \<Rightarrow> char" where
  "digit_char d = char_of (48 + d)"

definition is_digit :: "char \<Rightarrow> bool" where
  "is_digit c \<longleftrightarrow> 48 \<le> (of_char c :: nat) \<and> (of_char c :: nat) \<le> 57"

definition digit_value :: "char \<Rightarrow> nat" where
  "digit_value c = of_char c - 48"

fun show_nat :: "nat \<Rightarrow> string" where
  "show_nat n = (if n < 10 then [digit_char n] else show_nat (n div 10) @ [digit_char (n mod 10)])"

declare show_nat.simps [simp del]

definition show_int :: "int \<Rightarrow> string" where
  "show_int i = (if i < 0 then CHR ''-'' # show_nat (nat (- i)) else show_nat (nat i))"

definition show_bool :: "bool \<Rightarrow> string" where
  "show_bool b = (if b then ''true'' else ''false'')"

definition digits_value :: "string \<Rightarrow> nat" where
  "digits_value ds = foldl (\<lambda>a c. 10 * a + digit_value c) 0 ds"

text \<open>The steps of \<open>fmt.Sscanf\<close> on the format of the caller: a decimal \<open>int32\<close>, a space of the
  format (one or more spaces of the input, or its end), and literal text. \<open>None\<close> is the scanner's
  error.\<close>

definition scan_sign :: "string \<Rightarrow> int \<times> string" where
  "scan_sign s = (case s of
       c # t \<Rightarrow> if c = CHR ''-'' then (-1, t) else if c = CHR ''+'' then (1, t) else (1, s)
     | [] \<Rightarrow> (1, s))"

definition line_runes :: "string list" where
  "line_runes = filter (\<lambda>r. r \<noteq> [newline]) space_runes"

definition scan_int32 :: "string \<Rightarrow> (int \<times> string) option" where
  "scan_int32 s =
     (let (sg, t) = scan_sign (strip line_runes s);
          ds = takeWhile is_digit t;
          v = sg * int (digits_value ds)
      in if ds = [] then None
         else if v < int64_min \<or> int64_max < v then None
         else if v < int32_min \<or> int32_max < v then None
         else Some (v, dropWhile is_digit t))"

definition scan_space :: "string \<Rightarrow> string option" where
  "scan_space s = (if s = [] then Some []
     else case match_rune line_runes s of
       None \<Rightarrow> None
     | Some _ \<Rightarrow> Some (strip line_runes s))"

definition scan_literal :: "string \<Rightarrow> string \<Rightarrow> string option" where
  "scan_literal lit s = (if HasPrefix s lit then Some (drop (length lit) s) else None)"

definition sscanf_files_restored :: "string \<Rightarrow> int option" where
  "sscanf_files_restored s =
     (case scan_int32 s of None \<Rightarrow> None | Some (v, s1) \<Rightarrow>
      case scan_space s1 of None \<Rightarrow> None | Some s2 \<Rightarrow>
      case scan_literal ''files'' s2 of None \<Rightarrow> None | Some s3 \<Rightarrow>
      case scan_space s3 of None \<Rightarrow> None | Some s4 \<Rightarrow>
      case scan_literal ''restored'' s4 of None \<Rightarrow> None | Some _ \<Rightarrow> Some v)"

subsection \<open>Prefixes, suffixes, splitting\<close>

lemma HasPrefix_iff: "HasPrefix s p \<longleftrightarrow> (\<exists>t. s = p @ t)"
  unfolding HasPrefix_def by (metis append_eq_conv_conj append_take_drop_id)

lemma HasPrefix_append [simp]: "HasPrefix (p @ t) p"
  by (simp add: HasPrefix_def)

lemma HasSuffix_iff: "HasSuffix s p \<longleftrightarrow> (\<exists>t. s = t @ p)"
proof
  assume "HasSuffix s p"
  then have "s = take (length s - length p) s @ p"
    unfolding HasSuffix_def by (metis append_take_drop_id)
  then show "\<exists>t. s = t @ p" ..
qed (auto simp: HasSuffix_def)

lemma HasSuffix_append [simp]: "HasSuffix (s @ p) p"
  by (auto simp: HasSuffix_iff)

lemma TrimPrefix_append [simp]: "TrimPrefix (p @ t) p = t"
  by (simp add: TrimPrefix_def)

lemma Split_nonempty [simp]: "Split s c \<noteq> []"
  by (induction s) (auto split: list.splits)

lemma Join_Cons: "ls \<noteq> [] \<Longrightarrow> Join (l # ls) sep = l @ sep @ Join ls sep"
  by (cases ls) auto

lemma Join_append:
  "ks \<noteq> [] \<Longrightarrow> ls \<noteq> [] \<Longrightarrow> Join (ks @ ls) sep = Join ks sep @ sep @ Join ls sep"
proof (induction ks rule: list_nonempty_induct)
  case (cons k ks)
  then show ?case by (simp add: Join_Cons)
qed (simp add: Join_Cons)

lemma Join_Split [simp]: "Join (Split s c) [c] = s"
proof (induction s)
  case (Cons x xs)
  then show ?case
    by (cases "Split xs c"; cases "tl (Split xs c)") (auto simp: Join_Cons)
qed simp

lemma Split_no_sep: "l \<in> set (Split s c) \<Longrightarrow> c \<notin> set l"
proof (induction s arbitrary: l)
  case (Cons x xs)
  then show ?case
    by (cases "Split xs c") (auto split: if_splits)
qed simp

lemma Split_single: "c \<notin> set s \<Longrightarrow> Split s c = [s]"
  by (induction s) auto

lemma Split_append_sep: "c \<notin> set l \<Longrightarrow> Split (l @ c # t) c = l # Split t c"
  by (induction l) auto

lemma Split_Join:
  "ls \<noteq> [] \<Longrightarrow> (\<forall>l \<in> set ls. c \<notin> set l) \<Longrightarrow> Split (Join ls [c]) c = ls"
proof (induction ls rule: list_nonempty_induct)
  case (cons l ls)
  then show ?case by (simp add: Join_Cons Split_append_sep)
qed (simp add: Split_single)

lemma TrimRight_suffix: "\<exists>t. s = TrimRight s cs @ t \<and> set t \<subseteq> set cs"
proof -
  let ?p = "\<lambda>c. c \<in> set cs"
  have "rev s = takeWhile ?p (rev s) @ dropWhile ?p (rev s)" by simp
  then have "s = rev (dropWhile ?p (rev s)) @ rev (takeWhile ?p (rev s))"
    by (metis rev_append rev_rev_ident)
  moreover have "set (rev (takeWhile ?p (rev s))) \<subseteq> set cs" by (auto dest: set_takeWhileD)
  ultimately show ?thesis unfolding TrimRight_def by blast
qed

lemma TrimRight_last: "TrimRight s cs \<noteq> [] \<Longrightarrow> last (TrimRight s cs) \<notin> set cs"
  unfolding TrimRight_def by (metis last_rev hd_dropWhile rev_is_Nil_conv)

lemma TrimRight_all: "set s \<subseteq> set cs \<Longrightarrow> TrimRight s cs = []"
  by (auto simp: TrimRight_def)

lemma TrimRight_keep: "s = [] \<or> last s \<notin> set cs \<Longrightarrow> TrimRight s cs = s"
  unfolding TrimRight_def
  by (cases s rule: rev_cases) auto

lemma TrimRight_idem [simp]: "TrimRight (TrimRight s cs) cs = TrimRight s cs"
  using TrimRight_last by (intro TrimRight_keep) blast

subsection \<open>White space\<close>

lemma strip_None: "match_rune rs s = None \<Longrightarrow> strip rs s = s"
  by (subst strip.simps) simp

lemma strip_suffix: "\<exists>t. s = t @ strip rs s"
proof (induction rs s rule: strip.induct)
  case (1 rs s)
  show ?case
  proof (cases "match_rune rs s")
    case (Some r)
    with "1" obtain t where t: "drop (length r) s = t @ strip rs (drop (length r) s)" by blast
    then have "s = (take (length r) s @ t) @ strip rs (drop (length r) s)"
      by (metis append_assoc append_take_drop_id)
    moreover from Some have "strip rs s = strip rs (drop (length r) s)"
      by (simp add: strip.simps [of rs s])
    ultimately show ?thesis by metis
  qed (auto simp: strip_None)
qed

text \<open>A character that begins no white-space encoding.\<close>

definition dark :: "char \<Rightarrow> bool" where
  "dark c \<longleftrightarrow> c \<notin> set (map hd space_runes) \<and> c \<notin> set (map last space_runes)"

lemma match_rune_dark:
  assumes "\<forall>r \<in> set rs. r \<noteq> [] \<longrightarrow> hd r \<noteq> c"
  shows "match_rune rs (c # s) = None"
proof (rule ccontr)
  assume "match_rune rs (c # s) \<noteq> None"
  then obtain r where r: "r \<noteq> []" "HasPrefix (c # s) r" "r \<in> set rs"
    by (auto dest: match_rune_Some)
  then have "hd r = c" by (cases r) (auto simp: HasPrefix_def)
  with r assms show False by blast
qed

lemma hd_ne_if_notin: "c \<notin> set (map hd rs) \<Longrightarrow> \<forall>r \<in> set rs. r \<noteq> [] \<longrightarrow> hd r \<noteq> c"
  by auto

lemma strip_dark: "dark c \<Longrightarrow> strip space_runes (c # s) = c # s"
  by (intro strip_None match_rune_dark hd_ne_if_notin) (simp add: dark_def)

lemma strip_rev_dark: "dark c \<Longrightarrow> strip (map rev space_runes) (c # s) = c # s"
  by (intro strip_None match_rune_dark hd_ne_if_notin)
    (simp add: dark_def hd_rev)

lemma strip_line_dark: "dark c \<Longrightarrow> strip line_runes (c # s) = c # s"
  by (intro strip_None match_rune_dark hd_ne_if_notin) (auto simp: dark_def line_runes_def)

lemma TrimSpace_dark:
  assumes "s \<noteq> []" and "dark (hd s)" and "dark (last s)"
  shows "TrimSpace s = s"
proof -
  from assms have "strip space_runes s = s" by (cases s) (auto simp: strip_dark)
  moreover from assms have "strip (map rev space_runes) (rev s) = rev s"
    by (cases s rule: rev_cases) (auto simp: strip_rev_dark)
  ultimately show ?thesis by (simp add: TrimSpace_def)
qed

subsection \<open>Printing and scanning numbers\<close>

lemma of_char_digit_char: "d < 10 \<Longrightarrow> (of_char (digit_char d) :: nat) = 48 + d"
  by (simp add: digit_char_def)

lemma digit_char_simps [simp]:
  "d < 10 \<Longrightarrow> is_digit (digit_char d)"
  "d < 10 \<Longrightarrow> digit_value (digit_char d) = d"
  by (simp_all add: is_digit_def digit_value_def of_char_digit_char)

lemma show_nat_nonempty [simp]: "show_nat n \<noteq> []"
  by (subst show_nat.simps) simp

lemma show_nat_digits: "list_all is_digit (show_nat n)"
proof (induction n rule: show_nat.induct)
  case (1 n)
  then show ?case by (subst show_nat.simps) auto
qed

lemma digits_value_snoc: "digits_value (ds @ [c]) = 10 * digits_value ds + digit_value c"
  by (simp add: digits_value_def)

lemma digits_value_show_nat [simp]: "digits_value (show_nat n) = n"
proof (induction n rule: show_nat.induct)
  case (1 n)
  show ?case
  proof (cases "n < 10")
    case True
    then show ?thesis by (subst show_nat.simps) (simp add: digits_value_def)
  next
    case False
    then have "show_nat n = show_nat (n div 10) @ [digit_char (n mod 10)]"
      by (subst show_nat.simps) simp
    with "1" False show ?thesis by (simp add: digits_value_snoc)
  qed
qed

lemma digit_dark: "is_digit c \<Longrightarrow> dark c"
  unfolding is_digit_def dark_def space_runes_def by auto

lemma minus_dark: "dark CHR ''-''"
  by (simp add: dark_def space_runes_def)

lemma digit_not_sign: "is_digit c \<Longrightarrow> c \<noteq> CHR ''-'' \<and> c \<noteq> CHR ''+''"
  by (auto simp: is_digit_def)

lemma show_nat_Cons: "\<exists>d ds. show_nat n = d # ds \<and> is_digit d"
  using show_nat_digits [of n] by (cases "show_nat n") auto

lemma takeWhile_digits:
  assumes "t = [] \<or> \<not> is_digit (hd t)"
  shows "takeWhile is_digit (show_nat n @ t) = show_nat n"
    and "dropWhile is_digit (show_nat n @ t) = t"
  using assms show_nat_digits [of n]
  by (cases t; simp add: list_all_iff takeWhile_append2 dropWhile_append2)+

text \<open>The scanner reads back what \<open>%d\<close> prints.\<close>

lemma scan_int32_show_int:
  assumes "int32_min \<le> v" and "v \<le> int32_max" and "t = [] \<or> \<not> is_digit (hd t)"
  shows "scan_int32 (show_int v @ t) = Some (v, t)"
proof -
  obtain d ds where d: "show_nat (nat \<bar>v\<bar>) = d # ds" "is_digit d"
    using show_nat_Cons by blast
  have sign: "scan_sign (strip line_runes (show_int v @ t)) =
      (if v < 0 then -1 else 1, show_nat (nat \<bar>v\<bar>) @ t)"
    using d by (auto simp: show_int_def scan_sign_def strip_line_dark minus_dark digit_dark
        dest: digit_not_sign)
  moreover have "int64_min \<le> v \<and> v \<le> int64_max"
    using assms by (simp add: int32_min_def int32_max_def int64_min_def int64_max_def)
  ultimately show ?thesis
    using assms by (simp add: scan_int32_def takeWhile_digits)
qed

lemma scan_int32_bounds: "scan_int32 s = Some (v, t) \<Longrightarrow> int32_min \<le> v \<and> v \<le> int32_max"
  by (auto simp: scan_int32_def Let_def split: prod.splits if_splits)

end
