(* ===== verification/GoErrors.thy ===== *)
theory GoErrors
  imports GoStrings
begin

text \<open>
  Error values. An error is what an API call answered (with the reason the server gave), an error
  the code made with \<open>fmt.Errorf\<close>, an error wrapped by \<open>fmt.Errorf\<close> with \<open>%w\<close>, the
  operator's own \<open>TransientError\<close> (internal/controller/errors.go), or one of the two errors of a
  Go context. Every wrapping format of the operator ends in \<open>": %w"\<close>.
\<close>

datatype api_reason = ReasonNotFound | ReasonAlreadyExists | ReasonConflict | ReasonOther

datatype goerror =
    ApiError api_reason string
  | TransientError string
  | Errorf string
  | Wrapf string goerror
  | DeadlineExceeded
  | Canceled

fun Error :: "goerror \<Rightarrow> string" where
  "Error (ApiError r msg) = msg"
| "Error (TransientError msg) = msg"
| "Error (Errorf msg) = msg"
| "Error (Wrapf msg e) = msg @ '': '' @ Error e"
| "Error DeadlineExceeded = ''context deadline exceeded''"
| "Error Canceled = ''context canceled''"

definition NewTransientError :: "string \<Rightarrow> goerror" where
  "NewTransientError msg = TransientError msg"

fun IsTransient :: "goerror \<Rightarrow> bool" where
  "IsTransient (TransientError msg) = True"
| "IsTransient _ = False"

text \<open>\<open>Unwrap\<close> of a \<open>TransientError\<close> is nil; a wrapped error unwraps to what it wraps.\<close>

fun Unwrap :: "goerror \<Rightarrow> goerror option" where
  "Unwrap (Wrapf msg e) = Some e"
| "Unwrap _ = None"

text \<open>\<open>Format\<close>: the text written for a verb, with the \<open>+\<close> flag and the quoting function of
  \<open>%q\<close> as arguments; a verb outside the switch writes nothing.\<close>

definition Format :: "(string \<Rightarrow> string) \<Rightarrow> string \<Rightarrow> bool \<Rightarrow> char \<Rightarrow> string" where
  "Format quote msg plusFlag verb =
     (if verb = CHR ''v'' \<and> plusFlag then ''transient error: '' @ msg
      else if verb = CHR ''v'' \<or> verb = CHR ''s'' then msg
      else if verb = CHR ''q'' then quote msg
      else [])"

text \<open>The reason of an API error is looked up through the wrappers.\<close>

fun reason_of :: "goerror \<Rightarrow> api_reason option" where
  "reason_of (ApiError r msg) = Some r"
| "reason_of (Wrapf msg e) = reason_of e"
| "reason_of _ = None"

definition IsNotFound :: "goerror \<Rightarrow> bool" where
  "IsNotFound e \<longleftrightarrow> reason_of e = Some ReasonNotFound"

definition IsAlreadyExists :: "goerror \<Rightarrow> bool" where
  "IsAlreadyExists e \<longleftrightarrow> reason_of e = Some ReasonAlreadyExists"

definition IsConflict :: "goerror \<Rightarrow> bool" where
  "IsConflict e \<longleftrightarrow> reason_of e = Some ReasonConflict"

lemma IsTransient_iff: "IsTransient e \<longleftrightarrow> (\<exists>msg. e = TransientError msg)"
  by (cases e) auto

end
