(* ===== verification/ApiTypes.thy ===== *)
theory ApiTypes
  imports GoErrors
begin

text \<open>
  The objects the restore controller reads and writes. The \<open>VirtualMachineFileRestore\<close> resource is
  api/v1alpha1/virtualmachinefilerestore_types.go, field by field, with the metadata the controller
  uses. Of the foreign objects (KubeVirt virtual machines, CDI data volumes, snapshots, pods,
  secrets) the records hold the fields the operator reads or sets; the alternatives of a volume or
  disk that it never builds are kept as uninterpreted text. A pointer field is an \<open>option\<close>.

  \<open>RestorePhase\<close> is a string type in Go: its constants are constructors, the empty string is
  \<open>RestorePhaseUnset\<close>, and any other text is \<open>RestorePhaseUnknown\<close>.
\<close>

type_synonym key = "string \<times> string" \<comment> \<open>namespace and name\<close>
type_synonym time = int \<comment> \<open>nanoseconds\<close>

definition second :: duration where "second = 1000000000"
definition minute :: duration where "minute = 60 * second"
definition millisecond :: duration where "millisecond = 1000000"

subsection \<open>The restore resource\<close>

record PVCSource =
  pvcs_Name :: string
  pvcs_Namespace :: string

record VolumeSnapshotSource =
  vss_Name :: string
  vss_Namespace :: string

record RemoteSource =
  rs_Name :: string
  rs_Bucket :: string

record RestoreSource =
  src_PVC :: "PVCSource option"
  src_Snapshot :: "VolumeSnapshotSource option"
  src_Remote :: "RemoteSource option"

record TypedLocalObjectReference =
  ref_APIGroup :: "string option"
  ref_Kind :: string
  ref_Name :: string

record VirtualMachineFileRestoreSpec =
  Target :: TypedLocalObjectReference
  Source :: RestoreSource
  SourcePath :: string

datatype RestorePhase =
    RestorePhaseUnset
  | RestorePhaseNew
  | RestorePhaseInit
  | RestorePhaseHotplugging
  | RestorePhaseWaitingForAttachment
  | RestorePhaseSSHConnecting
  | RestorePhaseRestoring
  | RestorePhaseVolumeReady
  | RestorePhaseCleanup
  | RestorePhaseSucceeded
  | RestorePhaseFailed
  | RestorePhaseUnknown string

fun phase_string :: "RestorePhase \<Rightarrow> string" where
  "phase_string RestorePhaseUnset = ''''"
| "phase_string RestorePhaseNew = ''New''"
| "phase_string RestorePhaseInit = ''Init''"
| "phase_string RestorePhaseHotplugging = ''Hotplugging''"
| "phase_string RestorePhaseWaitingForAttachment = ''WaitingForAttachment''"
| "phase_string RestorePhaseSSHConnecting = ''SSHConnecting''"
| "phase_string RestorePhaseRestoring = ''Restoring''"
| "phase_string RestorePhaseVolumeReady = ''VolumeReady''"
| "phase_string RestorePhaseCleanup = ''Cleanup''"
| "phase_string RestorePhaseSucceeded = ''Succeeded''"
| "phase_string RestorePhaseFailed = ''Failed''"
| "phase_string (RestorePhaseUnknown s) = s"

datatype ConditionStatus = ConditionTrue | ConditionFalse | ConditionUnknown

record Condition =
  c_Type :: string
  c_Status :: ConditionStatus
  c_ObservedGeneration :: int
  c_LastTransitionTime :: time
  c_Reason :: string
  c_Message :: string

record VirtualMachineFileRestoreStatus =
  Phase :: RestorePhase
  Conditions :: "Condition list"
  StartTime :: "time option"
  CompletionTime :: "time option"
  RestoredFilesCount :: "i32 option"
  ErrorMessage :: string
  MountPath :: string
  AttachmentRetries :: i32
  SSHRetries :: i32
  LastAttachmentCheckTime :: "time option"
  LastSSHCheckTime :: "time option"

record VirtualMachineFileRestore =
  vmfr_Name :: string
  vmfr_Namespace :: string
  vmfr_Generation :: int
  vmfr_DeletionTimestamp :: "time option"
  vmfr_Finalizers :: "string list"
  vmfr_Spec :: VirtualMachineFileRestoreSpec
  vmfr_Status :: VirtualMachineFileRestoreStatus

type_synonym vmfr = VirtualMachineFileRestore

definition with_status ::
  "vmfr \<Rightarrow> (VirtualMachineFileRestoreStatus \<Rightarrow> VirtualMachineFileRestoreStatus) \<Rightarrow> vmfr" where
  "with_status v f = v\<lparr>vmfr_Status := f (vmfr_Status v)\<rparr>"

subsection \<open>Foreign objects\<close>

datatype VolumeSource =
    PersistentVolumeClaim (claim_name: string) (hotpluggable: bool)
  | OtherVolumeSource string

record Volume =
  vol_Name :: string
  vol_Source :: VolumeSource

datatype DiskDevice = DiskTarget (disk_bus: string) (disk_readonly: bool) | OtherDiskDevice string

record Disk =
  disk_Name :: string
  disk_Device :: DiskDevice
  disk_Serial :: string

record VMTemplate =
  tmpl_Volumes :: "Volume list"
  tmpl_Disks :: "Disk list"

record VirtualMachine =
  vm_Name :: string
  vm_Namespace :: string
  vm_Template :: "VMTemplate option"

datatype VolumePhase = VolumePhaseReady | VolumePhaseOther string

record VolumeStatus =
  vs_Name :: string
  vs_Phase :: VolumePhase
  vs_Target :: string
  vs_HotplugVolume :: "string option"

record Interface =
  if_Name :: string
  if_IP :: string

record VirtualMachineInstance =
  vmi_Name :: string
  vmi_Namespace :: string
  vmi_UID :: string
  vmi_Annotations :: "(string \<rightharpoonup> string) option"
  vmi_GuestOSName :: string
  vmi_Interfaces :: "Interface list"
  vmi_VolumeStatus :: "VolumeStatus list"

record Pod =
  pod_Name :: string
  pod_IP :: string
  pod_OwnerUIDs :: "string list"

record PersistentVolumeClaimObject =
  pvc_Name :: string
  pvc_Namespace :: string

record VolumeSnapshot =
  snap_Name :: string
  snap_Namespace :: string
  snap_Status :: "string option option" \<comment> \<open>status, then the bound content's name\<close>

record VolumeSnapshotContent =
  snapc_Name :: string
  snapc_SourceVolumeMode :: "string option"

record DataVolume =
  dv_Name :: string
  dv_Namespace :: string
  dv_Labels :: "(string \<times> string) list"
  dv_SourceSnapshot :: "key option"
  dv_AccessModes :: "string list"
  dv_VolumeMode :: "string option"
  dv_Phase :: string

record Secret =
  sec_Name :: string
  sec_Namespace :: string
  sec_Type :: string
  sec_Data :: "string \<rightharpoonup> string"

subsection \<open>Results of a reconciliation\<close>

record Result =
  Requeue :: bool
  RequeueAfter :: duration

type_synonym reply = "Result \<times> goerror option"
type_synonym outcome = "reply go"

definition no_requeue :: Result where
  "no_requeue = \<lparr>Requeue = False, RequeueAfter = 0\<rparr>"

definition done_ok :: outcome where
  "done_ok = Ran (no_requeue, None)"

definition fail_with :: "goerror \<Rightarrow> outcome" where
  "fail_with e = Ran (no_requeue, Some e)"

definition requeue_now :: outcome where
  "requeue_now = Ran (\<lparr>Requeue = True, RequeueAfter = 0\<rparr>, None)"

definition requeue_after :: "duration \<Rightarrow> outcome" where
  "requeue_after d = Ran (\<lparr>Requeue = False, RequeueAfter = d\<rparr>, None)"

lemma with_status_simps [simp]:
  "vmfr_Name (with_status v f) = vmfr_Name v"
  "vmfr_Namespace (with_status v f) = vmfr_Namespace v"
  "vmfr_Generation (with_status v f) = vmfr_Generation v"
  "vmfr_DeletionTimestamp (with_status v f) = vmfr_DeletionTimestamp v"
  "vmfr_Finalizers (with_status v f) = vmfr_Finalizers v"
  "vmfr_Spec (with_status v f) = vmfr_Spec v"
  "vmfr_Status (with_status v f) = f (vmfr_Status v)"
  by (simp_all add: with_status_def)

lemma phase_string_inj:
  assumes "phase_string p = phase_string q"
    and "\<And>s. p \<noteq> RestorePhaseUnknown s" and "\<And>s. q \<noteq> RestorePhaseUnknown s"
  shows "p = q"
  using assms by (cases p; cases q) auto

end
