(* ===== verification/Cluster.thy ===== *)
theory Cluster
  imports ApiTypes
begin

text \<open>
  The interface between the restore controller and everything outside it: the cached client
  \<open>r.Client\<close>, the uncached \<open>r.APIReader\<close>, the event recorder, the clock, and the packages
  \<open>golang.org/x/crypto/ssh\<close> and \<open>controllerutil\<close>. Its code is not part of the repository, so it is
  a parameter: a record \<open>env\<close> with one function per call, each acting on an unknown world.
  The calls of the code are the computations of the second part; each leaves its \<open>request\<close> on the
  trace.

  \<open>Patch\<close> is given the object before the change (the argument of \<open>client.MergeFrom\<close>) and
  the changed object, and answers the object the server returned, which replaces the one in memory.
  A failed call leaves the object in memory as the code had set it.
\<close>

subsection \<open>The outside\<close>

text \<open>The two checks of a host key that the SSH package offers; the first accepts any.\<close>

datatype host_key_callback = InsecureIgnoreHostKey | FixedHostKey string

record ClientConfig =
  cfg_User :: string
  cfg_Signer :: string
  cfg_HostKeyCallback :: host_key_callback
  cfg_Timeout :: duration
  cfg_KeyExchanges :: "string list"
  cfg_Ciphers :: "string list"
  cfg_MACs :: "string list"

type_synonym ssh_conn = nat

text \<open>How the \<open>select\<close> over a running command ends: the command finished, or the context did.\<close>

datatype session_end = CommandDone "goerror option" | ContextDone goerror

record 'w env =
  get_vmfr :: "key \<Rightarrow> 'w \<Rightarrow> (goerror + vmfr) \<times> 'w"
  update_vmfr :: "vmfr \<Rightarrow> 'w \<Rightarrow> (goerror + vmfr) \<times> 'w"
  patch_vmfr_status :: "vmfr \<Rightarrow> vmfr \<Rightarrow> 'w \<Rightarrow> (goerror + vmfr) \<times> 'w"
  get_vm :: "key \<Rightarrow> 'w \<Rightarrow> (goerror + VirtualMachine) \<times> 'w"
  patch_vm :: "VirtualMachine \<Rightarrow> VirtualMachine \<Rightarrow> 'w \<Rightarrow> (goerror + VirtualMachine) \<times> 'w"
  get_vmi :: "key \<Rightarrow> 'w \<Rightarrow> (goerror + VirtualMachineInstance) \<times> 'w"
  get_pvc :: "key \<Rightarrow> 'w \<Rightarrow> (goerror + PersistentVolumeClaimObject) \<times> 'w"
  get_snapshot :: "key \<Rightarrow> 'w \<Rightarrow> (goerror + VolumeSnapshot) \<times> 'w"
  list_pods :: "string \<Rightarrow> string \<Rightarrow> 'w \<Rightarrow> (goerror + Pod list) \<times> 'w"
  create_dv :: "DataVolume \<Rightarrow> 'w \<Rightarrow> (goerror + unit) \<times> 'w"
  delete_dv :: "key \<Rightarrow> 'w \<Rightarrow> (goerror + unit) \<times> 'w"
  read_snapshot :: "key \<Rightarrow> 'w \<Rightarrow> (goerror + VolumeSnapshot) \<times> 'w"
  read_content :: "string \<Rightarrow> 'w \<Rightarrow> (goerror + VolumeSnapshotContent) \<times> 'w"
  read_dv :: "key \<Rightarrow> 'w \<Rightarrow> (goerror + DataVolume) \<times> 'w"
  read_secret :: "key \<Rightarrow> 'w \<Rightarrow> (goerror + Secret) \<times> 'w"
  record_event :: "string \<Rightarrow> string \<Rightarrow> string \<Rightarrow> 'w \<Rightarrow> unit \<times> 'w"
  clock :: "'w \<Rightarrow> time \<times> 'w"
  parse_private_key :: "string \<Rightarrow> goerror + string"
  dial :: "string \<Rightarrow> ClientConfig \<Rightarrow> 'w \<Rightarrow> (goerror + ssh_conn) \<times> 'w"
  new_session :: "ssh_conn \<Rightarrow> 'w \<Rightarrow> goerror option \<times> 'w"
  session_run :: "ssh_conn \<Rightarrow> string \<Rightarrow> duration \<Rightarrow> 'w \<Rightarrow> session_end \<times> 'w"
  session_signal :: "ssh_conn \<Rightarrow> 'w \<Rightarrow> unit \<times> 'w"
  session_output :: "ssh_conn \<Rightarrow> 'w \<Rightarrow> (string \<times> string) \<times> 'w"
  session_close :: "ssh_conn \<Rightarrow> 'w \<Rightarrow> unit \<times> 'w"
  client_close :: "ssh_conn \<Rightarrow> 'w \<Rightarrow> unit \<times> 'w"
  context_err :: "'w \<Rightarrow> goerror option \<times> 'w"
  contains_finalizer :: "string list \<Rightarrow> string \<Rightarrow> bool"
  add_finalizer :: "string list \<Rightarrow> string \<Rightarrow> string list"
  remove_finalizer :: "string list \<Rightarrow> string \<Rightarrow> string list"

subsection \<open>Requests and calls\<close>

datatype request =
    ReqGetVMFR key
  | ReqUpdateVMFR vmfr
  | ReqPatchStatus vmfr vmfr
  | ReqGetVM key
  | ReqPatchVM VirtualMachine VirtualMachine
  | ReqGetVMI key
  | ReqGetPVC key
  | ReqGetSnapshot key
  | ReqListPods string string
  | ReqCreateDV DataVolume
  | ReqDeleteDV key
  | ReqReadSnapshot key
  | ReqReadContent string
  | ReqReadDV key
  | ReqReadSecret key
  | ReqEvent string string string
  | ReqClock
  | ReqDial string ClientConfig
  | ReqNewSession
  | ReqRun string duration
  | ReqSignal
  | ReqOutput
  | ReqCloseSession
  | ReqCloseClient
  | ReqContextErr

type_synonym ('w, 'a) cmd = "(('w, request) sys, 'a) state"

definition GetVMFR :: "'w env \<Rightarrow> key \<Rightarrow> ('w, goerror + vmfr) cmd" where
  [call_defs]: "GetVMFR E k = call (ReqGetVMFR k) (get_vmfr E k)"

definition UpdateVMFR :: "'w env \<Rightarrow> vmfr \<Rightarrow> ('w, goerror + vmfr) cmd" where
  [call_defs]: "UpdateVMFR E v = call (ReqUpdateVMFR v) (update_vmfr E v)"

definition PatchStatus :: "'w env \<Rightarrow> vmfr \<Rightarrow> vmfr \<Rightarrow> ('w, goerror + vmfr) cmd" where
  "PatchStatus E old new = call (ReqPatchStatus old new) (patch_vmfr_status E old new)"

definition GetVM :: "'w env \<Rightarrow> key \<Rightarrow> ('w, goerror + VirtualMachine) cmd" where
  [call_defs]: "GetVM E k = call (ReqGetVM k) (get_vm E k)"

definition PatchVM ::
  "'w env \<Rightarrow> VirtualMachine \<Rightarrow> VirtualMachine \<Rightarrow> ('w, goerror + VirtualMachine) cmd" where
  [call_defs]: "PatchVM E old new = call (ReqPatchVM old new) (patch_vm E old new)"

definition GetVMI :: "'w env \<Rightarrow> key \<Rightarrow> ('w, goerror + VirtualMachineInstance) cmd" where
  [call_defs]: "GetVMI E k = call (ReqGetVMI k) (get_vmi E k)"

definition GetPVC :: "'w env \<Rightarrow> key \<Rightarrow> ('w, goerror + PersistentVolumeClaimObject) cmd" where
  [call_defs]: "GetPVC E k = call (ReqGetPVC k) (get_pvc E k)"

definition GetSnapshot :: "'w env \<Rightarrow> key \<Rightarrow> ('w, goerror + VolumeSnapshot) cmd" where
  [call_defs]: "GetSnapshot E k = call (ReqGetSnapshot k) (get_snapshot E k)"

definition ListPods :: "'w env \<Rightarrow> string \<Rightarrow> string \<Rightarrow> ('w, goerror + Pod list) cmd" where
  [call_defs]: "ListPods E ns domain = call (ReqListPods ns domain) (list_pods E ns domain)"

definition CreateDV :: "'w env \<Rightarrow> DataVolume \<Rightarrow> ('w, goerror + unit) cmd" where
  [call_defs]: "CreateDV E dv = call (ReqCreateDV dv) (create_dv E dv)"

definition DeleteDV :: "'w env \<Rightarrow> key \<Rightarrow> ('w, goerror + unit) cmd" where
  [call_defs]: "DeleteDV E k = call (ReqDeleteDV k) (delete_dv E k)"

definition ReadSnapshot :: "'w env \<Rightarrow> key \<Rightarrow> ('w, goerror + VolumeSnapshot) cmd" where
  [call_defs]: "ReadSnapshot E k = call (ReqReadSnapshot k) (read_snapshot E k)"

definition ReadContent :: "'w env \<Rightarrow> string \<Rightarrow> ('w, goerror + VolumeSnapshotContent) cmd" where
  [call_defs]: "ReadContent E n = call (ReqReadContent n) (read_content E n)"

definition ReadDV :: "'w env \<Rightarrow> key \<Rightarrow> ('w, goerror + DataVolume) cmd" where
  [call_defs]: "ReadDV E k = call (ReqReadDV k) (read_dv E k)"

definition ReadSecret :: "'w env \<Rightarrow> key \<Rightarrow> ('w, goerror + Secret) cmd" where
  [call_defs]: "ReadSecret E k = call (ReqReadSecret k) (read_secret E k)"

definition RecordEvent :: "'w env \<Rightarrow> string \<Rightarrow> string \<Rightarrow> string \<Rightarrow> ('w, unit) cmd" where
  [call_defs]: "RecordEvent E ty reason msg =
     call (ReqEvent ty reason msg) (record_event E ty reason msg)"

definition Now :: "'w env \<Rightarrow> ('w, time) cmd" where
  [call_defs]: "Now E = call ReqClock (clock E)"

text \<open>\<open>time.Since\<close> saturates at the ends of the 64-bit range.\<close>

definition time_sub :: "time \<Rightarrow> time \<Rightarrow> duration" where
  "time_sub t u = max int64_min (min int64_max (t - u))"

definition Since :: "'w env \<Rightarrow> time \<Rightarrow> ('w, duration) cmd" where
  [call_defs]: "Since E t = do { now \<leftarrow> call ReqClock (clock E); State_Monad.return (time_sub now t) }"

definition Dial :: "'w env \<Rightarrow> string \<Rightarrow> ClientConfig \<Rightarrow> ('w, goerror + ssh_conn) cmd" where
  [call_defs]: "Dial E addr cfg = call (ReqDial addr cfg) (dial E addr cfg)"

definition NewSession :: "'w env \<Rightarrow> ssh_conn \<Rightarrow> ('w, goerror option) cmd" where
  [call_defs]: "NewSession E c = call ReqNewSession (new_session E c)"

definition SessionRun :: "'w env \<Rightarrow> ssh_conn \<Rightarrow> string \<Rightarrow> duration \<Rightarrow> ('w, session_end) cmd" where
  [call_defs]: "SessionRun E c command limit =
     call (ReqRun command limit) (session_run E c command limit)"

definition SessionSignal :: "'w env \<Rightarrow> ssh_conn \<Rightarrow> ('w, unit) cmd" where
  [call_defs]: "SessionSignal E c = call ReqSignal (session_signal E c)"

definition SessionOutput :: "'w env \<Rightarrow> ssh_conn \<Rightarrow> ('w, string \<times> string) cmd" where
  [call_defs]: "SessionOutput E c = call ReqOutput (session_output E c)"

definition SessionClose :: "'w env \<Rightarrow> ssh_conn \<Rightarrow> ('w, unit) cmd" where
  [call_defs]: "SessionClose E c = call ReqCloseSession (session_close E c)"

definition ClientClose :: "'w env \<Rightarrow> ssh_conn \<Rightarrow> ('w, unit) cmd" where
  [call_defs]: "ClientClose E c = call ReqCloseClient (client_close E c)"

definition ContextErr :: "'w env \<Rightarrow> ('w, goerror option) cmd" where
  [call_defs]: "ContextErr E = call ReqContextErr (context_err E)"

subsection \<open>Classes of requests\<close>

text \<open>Requests that only observe: reads of the API, the clock, a context.\<close>

fun is_read :: "request \<Rightarrow> bool" where
  "is_read (ReqUpdateVMFR v) = False"
| "is_read (ReqPatchStatus b n) = False"
| "is_read (ReqPatchVM b n) = False"
| "is_read (ReqCreateDV dv) = False"
| "is_read (ReqDeleteDV k) = False"
| "is_read (ReqEvent t r m) = False"
| "is_read (ReqDial a cfg) = False"
| "is_read ReqNewSession = False"
| "is_read (ReqRun c d) = False"
| "is_read ReqSignal = False"
| "is_read ReqCloseSession = False"
| "is_read ReqCloseClient = False"
| "is_read _ = True"

text \<open>The status patches of a run, each with the object before and after the change, and the patches
  of virtual machines.\<close>

fun status_patches :: "request list \<Rightarrow> (vmfr \<times> vmfr) list" where
  "status_patches [] = []"
| "status_patches (ReqPatchStatus b n # qs) = (b, n) # status_patches qs"
| "status_patches (q # qs) = status_patches qs"

fun vm_patches :: "request list \<Rightarrow> (VirtualMachine \<times> VirtualMachine) list" where
  "vm_patches [] = []"
| "vm_patches (ReqPatchVM b n # qs) = (b, n) # vm_patches qs"
| "vm_patches (q # qs) = vm_patches qs"

lemma status_patches_iff: "(b, n) \<in> set (status_patches qs) \<longleftrightarrow> ReqPatchStatus b n \<in> set qs"
  by (induction qs rule: status_patches.induct) auto

lemma vm_patches_iff: "(b, n) \<in> set (vm_patches qs) \<longleftrightarrow> ReqPatchVM b n \<in> set qs"
  by (induction qs rule: vm_patches.induct) auto

lemma time_sub_bounds: "int64_min \<le> time_sub t u" "time_sub t u \<le> int64_max"
  by (simp_all add: time_sub_def int64_min_def int64_max_def)

end
