(* ===== verification/GuestOS.thy ===== *)
theory GuestOS
  imports Cluster
begin

text \<open>
  internal/controller/os.go: which guest runs in a virtual machine instance, and the paths inside
  the guest that follow from it.
\<close>

definition osTypeLinux :: string where "osTypeLinux = ''linux''"
definition osTypeWindows :: string where "osTypeWindows = ''windows''"
definition osAnnotationKey :: string where "osAnnotationKey = ''vm.kubevirt.io/os''"
definition linuxMountPath :: string where "linuxMountPath = ''/backup''"
definition windowsMountPath :: string where "windowsMountPath = ''C:'' @ [CHR 0x5C] @ ''backup''"
definition linuxHelperScript :: string where "linuxHelperScript = ''/usr/local/bin/filerestore.sh''"

definition windowsHelperScript :: string where
  "windowsHelperScript =
     [CHR 0x22] @ ''C:'' @ [CHR 0x5C] @ ''Program Files'' @ [CHR 0x5C] @ ''filerestore'' @
     [CHR 0x5C] @ ''filerestore.bat'' @ [CHR 0x22]"

definition DetectGuestOS :: "VirtualMachineInstance \<Rightarrow> string" where
  "DetectGuestOS vmi =
     (case Option.bind (vmi_Annotations vmi) (\<lambda>m. m osAnnotationKey) of
        Some (c # cs) \<Rightarrow>
          if HasPrefix (ToLower (c # cs)) osTypeWindows then osTypeWindows else osTypeLinux
      | _ \<Rightarrow>
          if vmi_GuestOSName vmi \<noteq> '''' then
            (if Contains (ToLower (vmi_GuestOSName vmi)) osTypeWindows then osTypeWindows
             else osTypeLinux)
          else osTypeLinux)"

definition getMountPath :: "VirtualMachineInstance \<Rightarrow> string \<Rightarrow> string" where
  "getMountPath vmi sourceName =
     (let osType = DetectGuestOS vmi
      in if osType = osTypeWindows then windowsMountPath @ ''-'' @ sourceName
         else linuxMountPath @ ''-'' @ sourceName)"

definition GetHelperScriptPath :: "string \<Rightarrow> string" where
  "GetHelperScriptPath osType =
     (if osType = osTypeWindows then windowsHelperScript else linuxHelperScript)"

subsection \<open>Facts\<close>

lemmas os_defs = osTypeLinux_def osTypeWindows_def linuxMountPath_def windowsMountPath_def
  linuxHelperScript_def windowsHelperScript_def

lemma DetectGuestOS_range: "DetectGuestOS vmi \<in> {osTypeLinux, osTypeWindows}"
  by (auto simp: DetectGuestOS_def split: option.splits list.splits)

lemma getMountPath_nonempty [simp]: "getMountPath vmi n \<noteq> ''''"
  by (simp add: getMountPath_def os_defs)

lemma getMountPath_inj: "getMountPath vmi n = getMountPath vmi n' \<longleftrightarrow> n = n'"
  by (simp add: getMountPath_def Let_def)

end
