(* ===== verification/SSH.thy ===== *)
theory SSH
  imports GuestOS
begin

text \<open>
  internal/controller/ssh.go: opening an SSH connection to the guest, running a command with a time
  limit, and the command lines of the guest helper.
\<close>

subsection \<open>Connections\<close>

definition fipsKeyExchanges :: "string list" where
  "fipsKeyExchanges = [''ecdh-sha2-nistp256'', ''ecdh-sha2-nistp384'', ''ecdh-sha2-nistp521'',
     ''diffie-hellman-group14-sha256'']"

definition fipsCiphers :: "string list" where
  "fipsCiphers = [''aes128-gcm@openssh.com'', ''aes256-gcm@openssh.com'', ''aes128-ctr'',
     ''aes192-ctr'', ''aes256-ctr'']"

definition fipsMACs :: "string list" where
  "fipsMACs = [''hmac-sha2-256-etm@openssh.com'', ''hmac-sha2-256'',
     ''hmac-sha2-512-etm@openssh.com'', ''hmac-sha2-512'']"

definition ssh_config :: "string \<Rightarrow> ClientConfig" where
  "ssh_config signer = \<lparr>cfg_User = ''filerestore'', cfg_Signer = signer,
     cfg_HostKeyCallback = InsecureIgnoreHostKey, cfg_Timeout = 10 * second,
     cfg_KeyExchanges = fipsKeyExchanges, cfg_Ciphers = fipsCiphers, cfg_MACs = fipsMACs\<rparr>"

text \<open>\<open>net.JoinHostPort\<close>: a host with a colon is an IPv6 literal and is bracketed.\<close>

definition JoinHostPort :: "string \<Rightarrow> string \<Rightarrow> string" where
  "JoinHostPort host port =
     (if CHR '':'' \<in> set host then ''['' @ host @ '']:'' @ port else host @ '':'' @ port)"

definition ConnectSSH :: "'w env \<Rightarrow> string \<Rightarrow> string \<Rightarrow> ('w, goerror + ssh_conn) cmd" where
  "ConnectSSH E ip privateKey =
     (if ip = '''' then State_Monad.return (Inl (Errorf ''IP address cannot be empty''))
      else if privateKey = '''' then State_Monad.return (Inl (Errorf ''private key cannot be empty''))
      else (case parse_private_key E privateKey of
          Inl err \<Rightarrow> State_Monad.return (Inl (Wrapf ''failed to parse private key'' err))
        | Inr signer \<Rightarrow> do {
            r \<leftarrow> Dial E (JoinHostPort ip ''22'') (ssh_config signer);
            State_Monad.return (case r of
                Inl err \<Rightarrow> Inl (Wrapf ''failed to dial SSH'' err)
              | Inr c \<Rightarrow> Inr c)
          }))"

text \<open>\<open>RunCommand\<close>: standard output, standard error, and the error. The session is closed on every
  path on which it was opened; when the context ends first, the remote process is signalled and
  the output captured so far is returned with the context's error.\<close>

definition RunCommand ::
  "'w env \<Rightarrow> ssh_conn \<Rightarrow> string \<Rightarrow> duration \<Rightarrow> ('w, string \<times> string \<times> goerror option) cmd" where
  "RunCommand E c command limit = do {
     sessionErr \<leftarrow> NewSession E c;
     case sessionErr of
       Some err \<Rightarrow> State_Monad.return ('''', '''', Some (Wrapf ''failed to create session'' err))
     | None \<Rightarrow> do {
         fin \<leftarrow> SessionRun E c command limit;
         case fin of
           ContextDone ctxErr \<Rightarrow> do {
             SessionSignal E c;
             out \<leftarrow> SessionOutput E c;
             SessionClose E c;
             State_Monad.return (fst out, snd out, Some (Wrapf ''command cancelled'' ctxErr))
           }
         | CommandDone err \<Rightarrow> do {
             out \<leftarrow> SessionOutput E c;
             SessionClose E c;
             State_Monad.return (fst out, snd out, err)
           }
       }
   }"

subsection \<open>Command lines\<close>

definition slashes :: string where
  "slashes = ''/'' @ [CHR 0x5C]"

definition quoted :: "string \<Rightarrow> string" where
  "quoted s = [CHR 0x22] @ s @ [CHR 0x22]"

definition BuildSSHCommand :: "string \<Rightarrow> string \<Rightarrow> string \<Rightarrow> string \<Rightarrow> string go" where
  "BuildSSHCommand osType volumeName mountPath sourcePath =
     (if volumeName = '''' then Panicked ''BuildSSHCommand called with empty volumeName''
      else if mountPath = '''' then Panicked ''BuildSSHCommand called with empty mountPath''
      else
        (let scriptPath = GetHelperScriptPath osType;
             mountPath = TrimRight mountPath slashes;
             sourcePath = TrimRight sourcePath slashes
         in Ran (if osType = osTypeWindows then
                   (if sourcePath \<noteq> '''' then
                      scriptPath @ '' restore --serial '' @ volumeName @
                      '' --mount-path '' @ quoted mountPath @ '' --source-path '' @ quoted sourcePath
                    else
                      scriptPath @ '' restore --serial '' @ volumeName @
                      '' --mount-path '' @ quoted mountPath)
                 else
                   (if sourcePath \<noteq> '''' then
                      scriptPath @ '' restore --serial '' @ volumeName @
                      '' --mount-path '' @ mountPath @ '' --source-path '' @ sourcePath
                    else
                      scriptPath @ '' restore --serial '' @ volumeName @
                      '' --mount-path '' @ mountPath))))"

definition BuildCleanupCommand :: "string \<Rightarrow> string \<Rightarrow> string go" where
  "BuildCleanupCommand osType mountPath =
     (if mountPath = '''' then Panicked ''BuildCleanupCommand called with empty mountPath''
      else
        (let scriptPath = GetHelperScriptPath osType
         in Ran (if osType = osTypeWindows
                 then scriptPath @ '' cleanup --mount-path '' @ quoted mountPath
                 else scriptPath @ '' cleanup --mount-path '' @ mountPath)))"

text \<open>\<open>TruncateOutput\<close> keeps the last lines of an output. Its callers pass the constants 20, 50 and
  100.\<close>

definition TruncateOutput :: "string \<Rightarrow> nat \<Rightarrow> string" where
  "TruncateOutput output maxLines =
     (if output = '''' then ''''
      else
        (let lines = Split output newline
         in if length lines \<le> maxLines then output
            else Join (drop (length lines - maxLines) lines) [newline]))"

subsection \<open>Facts\<close>

text \<open>A connection is only ever dialled with the FIPS algorithm lists, to port 22 of the given
  address.\<close>

definition fips_dial :: "string \<Rightarrow> ClientConfig \<Rightarrow> bool" where
  "fips_dial addr cfg \<longleftrightarrow>
     (\<exists>ip signer. ip \<noteq> [] \<and> addr = JoinHostPort ip ''22'' \<and> cfg = ssh_config signer)"

lemma emits_ConnectSSH [emit_rules]:
  assumes "\<And>cfg. fips_dial (JoinHostPort ip ''22'') cfg \<Longrightarrow> \<phi> (ReqDial (JoinHostPort ip ''22'') cfg)"
  shows "emits \<phi> (\<lambda>_. True) (ConnectSSH E ip k)"
  using assms
  by (auto simp: ConnectSSH_def call_defs fips_dial_def intro!: emit_rules split: sum.split)

lemma emits_RunCommand [emit_rules]:
  assumes "\<phi> (ReqRun command limit)" and "\<phi> ReqNewSession" and "\<phi> ReqSignal"
    and "\<phi> ReqOutput" and "\<phi> ReqCloseSession"
  shows "emits \<phi> (\<lambda>_. True) (RunCommand E c command limit)"
  using assms
  by (auto simp: RunCommand_def call_defs intro!: emit_rules
      split: option.split session_end.split)

lemma TruncateOutput_Split:
  assumes "0 < n"
  shows "Split (TruncateOutput s n) newline = drop (length (Split s newline) - n) (Split s newline)"
proof (cases "s = '''' \<or> length (Split s newline) \<le> n")
  case False
  let ?ls = "Split s newline"
  from False assms have "Split (Join (drop (length ?ls - n) ?ls) [newline]) newline = drop (length ?ls - n) ?ls"
    by (intro Split_Join) (auto dest: in_set_dropD Split_no_sep)
  with False show ?thesis by (simp add: TruncateOutput_def Let_def)
qed (use assms in \<open>auto simp: TruncateOutput_def\<close>)

lemma TruncateOutput_suffix: "HasSuffix s (TruncateOutput s n)"
proof (cases "s = '''' \<or> length (Split s newline) \<le> n \<or> n = 0")
  case False
  let ?ls = "Split s newline" and ?k = "length (Split s newline) - n"
  from False have "take ?k ?ls \<noteq> []" and "drop ?k ?ls \<noteq> []" by auto
  then have "Join ?ls [newline] =
      Join (take ?k ?ls) [newline] @ [newline] @ Join (drop ?k ?ls) [newline]"
    using Join_append [of "take ?k ?ls" "drop ?k ?ls" "[newline]"] by simp
  then have "HasSuffix s (Join (drop ?k ?ls) [newline])"
    by (metis HasSuffix_append Join_Split append_assoc)
  with False show ?thesis by (simp add: TruncateOutput_def Let_def)
qed (auto simp: TruncateOutput_def HasSuffix_iff)

end
