(* ===== verification/Network.thy ===== *)
theory Network
  imports Cluster
begin

text \<open>
  internal/controller/network.go: the address the operator opens its SSH connection to.
\<close>

definition defaultInterfaceName :: string where "defaultInterfaceName = ''default''"

text \<open>The two loops over \<open>podList.Items\<close> and the owner references of an item.\<close>

definition owned_by :: "string \<Rightarrow> Pod \<Rightarrow> bool" where
  "owned_by uid pod \<longleftrightarrow> uid \<in> set (pod_OwnerUIDs pod)"

definition getPodForVMI :: "'w env \<Rightarrow> VirtualMachineInstance \<Rightarrow> ('w, goerror + Pod) cmd" where
  "getPodForVMI E vmi = do {
     r \<leftarrow> ListPods E (vmi_Namespace vmi) (vmi_Name vmi);
     State_Monad.return (case r of
         Inl err \<Rightarrow> Inl (Wrapf (''failed to list pods for VMI '' @ vmi_Namespace vmi @ ''/'' @ vmi_Name vmi) err)
       | Inr pods \<Rightarrow>
           (case find (owned_by (vmi_UID vmi)) pods of
              Some pod \<Rightarrow> Inr pod
            | None \<Rightarrow> Inl (Errorf (''virt-launcher pod not found for VMI '' @ vmi_Namespace vmi @ ''/'' @ vmi_Name vmi))))
   }"

definition GetVMIPAddress ::
  "'w env \<Rightarrow> VirtualMachineInstance option \<Rightarrow> ('w, goerror + string) cmd" where
  "GetVMIPAddress E vmiPtr =
     (case vmiPtr of
        None \<Rightarrow> State_Monad.return (Inl (Errorf ''VMI is nil''))
      | Some vmi \<Rightarrow>
        (case find (\<lambda>i. if_Name i = defaultInterfaceName \<and> if_IP i \<noteq> '''') (vmi_Interfaces vmi) of
           Some i \<Rightarrow> State_Monad.return (Inr (if_IP i))
         | None \<Rightarrow>
           (case find (\<lambda>i. if_IP i \<noteq> '''') (vmi_Interfaces vmi) of
              Some i \<Rightarrow> State_Monad.return (Inr (if_IP i))
            | None \<Rightarrow> do {
                r \<leftarrow> getPodForVMI E vmi;
                State_Monad.return (case r of
                    Inl err \<Rightarrow> Inl err
                  | Inr pod \<Rightarrow> if pod_IP pod = '''' then Inl (Errorf ''pod IP not available'')
                             else Inr (pod_IP pod))
              })))"

subsection \<open>Facts\<close>

text \<open>Whatever the answers, only the pods of the instance's own namespace and domain are listed,
  and an address that is returned is not empty.\<close>

lemma emits_GetVMIPAddress [emit_rules]:
  assumes "\<And>ns d. \<phi> (ReqListPods ns d)"
  shows "emits \<phi> (\<lambda>r. \<forall>ip. r = Inr ip \<longrightarrow> ip \<noteq> '''') (GetVMIPAddress E vmi)"
  using assms
  by (auto simp: GetVMIPAddress_def getPodForVMI_def call_defs find_Some_iff
      intro!: emits_return emits_bind_call split: option.splits sum.splits if_splits)

lemma getPodForVMI_owner:
  assumes "answer (getPodForVMI E vmi) w = Inr pod"
  shows "vmi_UID vmi \<in> set (pod_OwnerUIDs pod)"
  using assms
  by (auto simp: answer_def getPodForVMI_def call_defs owned_by_def find_Some_iff
      split: sum.splits option.splits)

end
