(* ===== verification/Hotplug.thy ===== *)
theory Hotplug
  imports SSH Network
begin

text \<open>
  internal/controller/hotplug.go: attaching the restore volume to the target virtual machine and
  removing it again. A virtual machine without a template makes the code panic (a nil pointer), as
  an empty resource name does in \<open>GetVolumeName\<close>.
\<close>

definition nil_panic :: string where
  "nil_panic = ''invalid memory address or nil pointer dereference''"

definition GetVolumeName :: "string \<Rightarrow> string go" where
  "GetVolumeName crName =
     (if crName = '''' then Panicked ''GetVolumeName called with empty crName''
      else Ran (crName @ ''-restore''))"

definition getSnapshotSourceVolumeMode ::
  "'w env \<Rightarrow> string \<Rightarrow> string \<Rightarrow> ('w, goerror + string option) cmd" where
  "getSnapshotSourceVolumeMode E snapshotName snapshotNamespace = do {
     r \<leftarrow> ReadSnapshot E (snapshotNamespace, snapshotName);
     case r of
       Inl err \<Rightarrow> State_Monad.return (Inl (Wrapf
           (''failed to get VolumeSnapshot '' @ snapshotNamespace @ ''/'' @ snapshotName) err))
     | Inr snapshot \<Rightarrow>
         (case snap_Status snapshot of
            Some (Some (c # cs)) \<Rightarrow> do {
              r2 \<leftarrow> ReadContent E (c # cs);
              State_Monad.return (case r2 of
                  Inl err \<Rightarrow> Inl (Wrapf (''failed to get VolumeSnapshotContent '' @ (c # cs)) err)
                | Inr content \<Rightarrow>
                    (case snapc_SourceVolumeMode content of
                       Some (m # ms) \<Rightarrow> Inr (Some (m # ms))
                     | _ \<Rightarrow> Inr None))
            }
          | _ \<Rightarrow> State_Monad.return (Inr None))
   }"

definition cdi_Succeeded :: string where "cdi_Succeeded = ''Succeeded''"

text \<open>The data volume built for a snapshot source.\<close>

definition new_data_volume :: "vmfr \<Rightarrow> string \<Rightarrow> key \<Rightarrow> string option \<Rightarrow> DataVolume" where
  "new_data_volume v volumeName snapshotKey volumeMode =
     \<lparr>dv_Name = volumeName, dv_Namespace = vmfr_Namespace v,
      dv_Labels = [(''app.kubernetes.io/managed-by'', ''vm-file-restore-operator''),
                   (''filerestore.kubevirt.io/name'', vmfr_Name v)],
      dv_SourceSnapshot = Some snapshotKey, dv_AccessModes = [''ReadWriteOnce''],
      dv_VolumeMode = volumeMode, dv_Phase = ''''\<rparr>"

text \<open>The snapshot branch of \<open>HotplugVolume\<close> (lines 130 to 203): make sure the data volume exists,
  and succeed only when it is provisioned.\<close>

definition snapshot_volume_source ::
  "'w env \<Rightarrow> vmfr \<Rightarrow> string \<Rightarrow> VolumeSnapshotSource \<Rightarrow> ('w, goerror + VolumeSource) cmd" where
  "snapshot_volume_source E v volumeName snap = do {
     let snapshotNamespace = (if vss_Namespace snap = '''' then vmfr_Namespace v else vss_Namespace snap);
     let dvKey = (vmfr_Namespace v, volumeName);
     let settle = (\<lambda>dataVolume.
           if dv_Phase dataVolume \<noteq> cdi_Succeeded
           then Inl (NewTransientError (''DataVolume is provisioning (phase: '' @ dv_Phase dataVolume @ ''), will retry''))
           else Inr (PersistentVolumeClaim volumeName True));
     r \<leftarrow> ReadDV E dvKey;
     case r of
       Inr dataVolume \<Rightarrow> State_Monad.return (settle dataVolume)
     | Inl err \<Rightarrow>
         if IsNotFound err then do {
           modeR \<leftarrow> getSnapshotSourceVolumeMode E (vss_Name snap) snapshotNamespace;
           let volumeMode = (case modeR of Inl modeErr \<Rightarrow> None | Inr m \<Rightarrow> m);
           c \<leftarrow> CreateDV E (new_data_volume v volumeName (snapshotNamespace, vss_Name snap) volumeMode);
           case (case c of Inl createErr \<Rightarrow> if \<not> IsAlreadyExists createErr then Some createErr else None
                 | Inr _ \<Rightarrow> None) of
             Some createErr \<Rightarrow>
               State_Monad.return (Inl (Wrapf ''failed to create DataVolume from snapshot'' createErr))
           | None \<Rightarrow> do {
               r2 \<leftarrow> ReadDV E dvKey;
               State_Monad.return (case r2 of
                   Inl getErr \<Rightarrow> Inl (Wrapf ''failed to get DataVolume'' getErr)
                 | Inr dataVolume \<Rightarrow> settle dataVolume)
             }
         } else State_Monad.return (Inl (Wrapf ''failed to get DataVolume'' err))
   }"

text \<open>The choice of the volume source by the kind of restore source (lines 108 to 208).\<close>

definition volume_source ::
  "'w env \<Rightarrow> vmfr \<Rightarrow> string \<Rightarrow> ('w, goerror + VolumeSource) cmd" where
  "volume_source E v volumeName =
     (let src = Source (vmfr_Spec v) in
      case src_PVC src of
        Some pvc \<Rightarrow>
          (let pvcNamespace = (if pvcs_Namespace pvc = '''' then vmfr_Namespace v else pvcs_Namespace pvc)
           in State_Monad.return
                (if pvcNamespace \<noteq> vmfr_Namespace v
                 then Inl (Errorf (''cross-namespace PVC restore not supported: PVC is in '' @
                        pvcNamespace @ '', VM is in '' @ vmfr_Namespace v))
                 else Inr (PersistentVolumeClaim (pvcs_Name pvc) True)))
      | None \<Rightarrow>
          (case src_Snapshot src of
             Some snap \<Rightarrow> snapshot_volume_source E v volumeName snap
           | None \<Rightarrow>
               State_Monad.return
                 (if src_Remote src \<noteq> None then Inl (Errorf ''remote sources not yet supported'')
                  else Inl (Errorf ''no valid source specified''))))"

definition restore_volume :: "string \<Rightarrow> VolumeSource \<Rightarrow> Volume" where
  "restore_volume volumeName volumeSource = \<lparr>vol_Name = volumeName, vol_Source = volumeSource\<rparr>"

definition restore_disk :: "string \<Rightarrow> Disk" where
  "restore_disk volumeName =
     \<lparr>disk_Name = volumeName, disk_Device = DiskTarget ''scsi'' False, disk_Serial = volumeName\<rparr>"

definition plug :: "string \<Rightarrow> VolumeSource \<Rightarrow> VMTemplate \<Rightarrow> VMTemplate" where
  "plug volumeName volumeSource t =
     t\<lparr>tmpl_Volumes := tmpl_Volumes t @ [restore_volume volumeName volumeSource],
       tmpl_Disks := tmpl_Disks t @ [restore_disk volumeName]\<rparr>"

definition unplug :: "string \<Rightarrow> VMTemplate \<Rightarrow> VMTemplate" where
  "unplug volumeName t =
     t\<lparr>tmpl_Volumes := filter (\<lambda>vol. vol_Name vol \<noteq> volumeName) (tmpl_Volumes t),
       tmpl_Disks := filter (\<lambda>disk. disk_Name disk \<noteq> volumeName) (tmpl_Disks t)\<rparr>"

definition HotplugVolume ::
  "'w env \<Rightarrow> vmfr \<Rightarrow> VirtualMachine \<Rightarrow> ('w, goerror option go) cmd" where
  "HotplugVolume E v vm =
     (case GetVolumeName (vmfr_Name v) of
        Panicked p \<Rightarrow> State_Monad.return (Panicked p)
      | Ran volumeName \<Rightarrow>
        (case vm_Template vm of
           None \<Rightarrow> State_Monad.return (Panicked nil_panic)
         | Some t \<Rightarrow>
           (case find (\<lambda>vol. HasSuffix (vol_Name vol) ''-restore'' \<and> vol_Name vol \<noteq> volumeName)
                   (tmpl_Volumes t) of
              Some vol \<Rightarrow> State_Monad.return (Ran (Some (Errorf
                  (''another restore is in progress (volume '' @ vol_Name vol @ '' exists), cannot hotplug''))))
            | None \<Rightarrow>
              (let volumeExists = list_ex (\<lambda>vol. vol_Name vol = volumeName) (tmpl_Volumes t);
                   diskExists = list_ex (\<lambda>disk. disk_Name disk = volumeName) (tmpl_Disks t)
               in if volumeExists \<and> diskExists then State_Monad.return (Ran None)
                  else if volumeExists \<or> diskExists then State_Monad.return (Ran (Some (Errorf
                    (''partial hotplug detected (volume='' @ show_bool volumeExists @ '', disk='' @
                     show_bool diskExists @ ''), needs cleanup''))))
                  else do {
                    srcR \<leftarrow> volume_source E v volumeName;
                    case srcR of
                      Inl err \<Rightarrow> State_Monad.return (Ran (Some err))
                    | Inr volumeSource \<Rightarrow> do {
                        r \<leftarrow> PatchVM E vm (vm\<lparr>vm_Template := Some (plug volumeName volumeSource t)\<rparr>);
                        State_Monad.return (Ran (case r of
                            Inl err \<Rightarrow> Some (Wrapf ''failed to hotplug volume to VM'' err)
                          | Inr _ \<Rightarrow> None))
                      }
                  }))))"

definition UnplugVolume ::
  "'w env \<Rightarrow> vmfr \<Rightarrow> VirtualMachine \<Rightarrow> ('w, goerror option go) cmd" where
  "UnplugVolume E v vm =
     (case GetVolumeName (vmfr_Name v) of
        Panicked p \<Rightarrow> State_Monad.return (Panicked p)
      | Ran volumeName \<Rightarrow>
        (case vm_Template vm of
           None \<Rightarrow> State_Monad.return (Panicked nil_panic)
         | Some t \<Rightarrow> do {
             r \<leftarrow> PatchVM E vm (vm\<lparr>vm_Template := Some (unplug volumeName t)\<rparr>);
             case r of
               Inl err \<Rightarrow> State_Monad.return (Ran (Some (Wrapf ''failed to unplug volume from VM'' err)))
             | Inr _ \<Rightarrow>
                 if src_Snapshot (Source (vmfr_Spec v)) \<noteq> None then do {
                   d \<leftarrow> DeleteDV E (vmfr_Namespace v, volumeName);
                   State_Monad.return (Ran (case d of
                       Inl err \<Rightarrow> if \<not> IsNotFound err then Some (Wrapf ''delete DataVolume'' err) else None
                     | Inr _ \<Rightarrow> None))
                 } else State_Monad.return (Ran None)
           }))"

end
