(* ===== verification/Reconciler.thy ===== *)
theory Reconciler
  imports Hotplug
begin

text \<open>
  The methods of \<open>VirtualMachineFileRestoreReconciler\<close> the phase handlers share
  (internal/controller/virtualmachinefilerestore_controller.go): the operator's namespace, the SSH
  key, the list of conditions, and the best-effort cleanup.
\<close>

record VirtualMachineFileRestoreReconciler =
  OperatorNamespace :: string

type_synonym reconciler = VirtualMachineFileRestoreReconciler

definition finalizerName :: string where "finalizerName = ''filerestore.kubevirt.io/cleanup''"
definition OperatorResourceName :: string where "OperatorResourceName = ''vm-file-restore-operator-ssh''"
definition SSHAuthPrivateKey :: string where "SSHAuthPrivateKey = ''ssh-privatekey''"

definition target_key :: "vmfr \<Rightarrow> key" where
  "target_key v = (vmfr_Namespace v, ref_Name (Target (vmfr_Spec v)))"

definition getOperatorNamespace :: "reconciler \<Rightarrow> string" where
  "getOperatorNamespace R =
     (if OperatorNamespace R \<noteq> '''' then OperatorNamespace R else ''file-restore'')"

definition getSSHPrivateKey :: "'w env \<Rightarrow> reconciler \<Rightarrow> ('w, goerror + string) cmd" where
  "getSSHPrivateKey E R = do {
     r \<leftarrow> ReadSecret E (getOperatorNamespace R, OperatorResourceName);
     State_Monad.return (case r of
         Inl err \<Rightarrow> Inl err
       | Inr secret \<Rightarrow>
           (case sec_Data secret SSHAuthPrivateKey of
              None \<Rightarrow> Inl (Errorf (''private key '' @ quoted SSHAuthPrivateKey @ '' not found in secret '' @
                  getOperatorNamespace R @ ''/'' @ OperatorResourceName))
            | Some privateKey \<Rightarrow> Inr privateKey))
   }"

text \<open>\<open>setCondition\<close> replaces the first condition of the same type in place, or appends. \<open>None\<close> is
  the nil pointer, for which it does nothing.\<close>

fun set_condition :: "Condition list \<Rightarrow> Condition \<Rightarrow> Condition list" where
  "set_condition [] new = [new]"
| "set_condition (c # cs) new =
     (if c_Type c = c_Type new then new # cs else c # set_condition cs new)"

definition setCondition :: "Condition list option \<Rightarrow> Condition \<Rightarrow> Condition list option" where
  "setCondition conditions newCondition =
     (case conditions of None \<Rightarrow> None | Some cs \<Rightarrow> Some (set_condition cs newCondition))"

text \<open>The SSH part of \<open>cleanup\<close>: an open connection is returned, since it is closed when
  \<open>cleanup\<close> itself returns. Every error is dropped.\<close>

definition ssh_cleanup :: "'w env \<Rightarrow> reconciler \<Rightarrow> vmfr \<Rightarrow> VirtualMachineInstance \<Rightarrow> ('w, ssh_conn option go) cmd" where
  "ssh_cleanup E R v vmi = do {
     let osType = DetectGuestOS vmi;
     ipR \<leftarrow> GetVMIPAddress E (Some vmi);
     case ipR of
       Inl _ \<Rightarrow> State_Monad.return (Ran None)
     | Inr ip \<Rightarrow> do {
         keyR \<leftarrow> getSSHPrivateKey E R;
         case keyR of
           Inl _ \<Rightarrow> State_Monad.return (Ran None)
         | Inr privateKey \<Rightarrow>
             if MountPath (vmfr_Status v) = '''' then State_Monad.return (Ran None)
             else do {
               connR \<leftarrow> ConnectSSH E ip privateKey;
               case connR of
                 Inl _ \<Rightarrow> State_Monad.return (Ran None)
               | Inr c \<Rightarrow>
                   (case BuildCleanupCommand osType (MountPath (vmfr_Status v)) of
                      Panicked p \<Rightarrow> do { ClientClose E c; State_Monad.return (Panicked p) }
                    | Ran cleanupCmd \<Rightarrow> do {
                        RunCommand E c cleanupCmd (30 * second);
                        State_Monad.return (Ran (Some c))
                      })
             }
       }
   }"

definition close_conn :: "'w env \<Rightarrow> ssh_conn option \<Rightarrow> ('w, unit) cmd" where
  "close_conn E conn = (case conn of None \<Rightarrow> State_Monad.return () | Some c \<Rightarrow> ClientClose E c)"

text \<open>The last part of \<open>cleanup\<close>: remove the volume from the machine, ignoring the error.\<close>

definition unplug_cleanup :: "'w env \<Rightarrow> vmfr \<Rightarrow> ('w, unit go) cmd" where
  "unplug_cleanup E v = do {
     r \<leftarrow> GetVM E (target_key v);
     case r of
       Inl _ \<Rightarrow> State_Monad.return (Ran ())
     | Inr vm \<Rightarrow> do {
         u \<leftarrow> UnplugVolume E v vm;
         State_Monad.return (case u of Panicked p \<Rightarrow> Panicked p | Ran _ \<Rightarrow> Ran ())
       }
   }"

text \<open>\<open>cleanup\<close> never returns an error; it can only panic.\<close>

definition cleanup :: "'w env \<Rightarrow> reconciler \<Rightarrow> vmfr \<Rightarrow> ('w, unit go) cmd" where
  "cleanup E R v = do {
     r \<leftarrow> GetVMI E (target_key v);
     case r of
       Inl _ \<Rightarrow> unplug_cleanup E v
     | Inr vmi \<Rightarrow> do {
         s \<leftarrow> ssh_cleanup E R v vmi;
         case s of
           Panicked p \<Rightarrow> State_Monad.return (Panicked p)
         | Ran conn \<Rightarrow> do {
             u \<leftarrow> unplug_cleanup E v;
             close_conn E conn;
             State_Monad.return u
           }
       }
   }"

end
