(* ===== verification/Phases.thy ===== *)
theory Phases
  imports Reconciler
begin

text \<open>
  internal/controller/phases.go: the handlers of the restore phases. A handler gets the resource as
  it was read and returns what \<open>Reconcile\<close> returns; each status change is a merge patch, after
  which the code works on the object the server answered with.
\<close>

subsection \<open>The file count in the output of the guest helper\<close>

definition matchFileCount :: "string \<Rightarrow> i32 \<times> bool" where
  "matchFileCount line =
     (case sscanf_files_restored line of Some n \<Rightarrow> (word_of_int n, True) | None \<Rightarrow> (0, False))"

definition helper_prefix :: string where "helper_prefix = ''[filerestore] ''"

fun parse_lines :: "string list \<Rightarrow> i32" where
  "parse_lines [] = - 1"
| "parse_lines (l # ls) =
     (let line = TrimSpace l
      in if \<not> HasPrefix line helper_prefix then parse_lines ls
         else (case matchFileCount (TrimPrefix line helper_prefix) of
                 (count, True) \<Rightarrow> count
               | (_, False) \<Rightarrow> parse_lines ls))"

definition ParseRestoredFileCount :: "string \<Rightarrow> i32" where
  "ParseRestoredFileCount stdout = parse_lines (Split stdout newline)"

subsection \<open>Shared steps\<close>

definition getSourceName :: "vmfr \<Rightarrow> string" where
  "getSourceName v =
     (case src_PVC (Source (vmfr_Spec v)) of
        Some pvc \<Rightarrow> pvcs_Name pvc
      | None \<Rightarrow>
          (case src_Snapshot (Source (vmfr_Spec v)) of
             Some snap \<Rightarrow> vss_Name snap
           | None \<Rightarrow> vmfr_Name v))"

definition event_normal :: string where "event_normal = ''Normal''"
definition event_warning :: string where "event_warning = ''Warning''"

definition transitionPhase ::
  "'w env \<Rightarrow> vmfr \<Rightarrow> RestorePhase \<Rightarrow> string \<Rightarrow> ('w, outcome) cmd" where
  "transitionPhase E v newPhase message = do {
     let oldPhase = Phase (vmfr_Status v);
     started \<leftarrow> (if oldPhase = RestorePhaseUnset \<or> oldPhase = RestorePhaseNew
                then do { now \<leftarrow> Now E; State_Monad.return (Some now) }
                else State_Monad.return (StartTime (vmfr_Status v)));
     completed \<leftarrow> (if newPhase = RestorePhaseSucceeded \<or> newPhase = RestorePhaseFailed
                  then do { now \<leftarrow> Now E; State_Monad.return (Some now) }
                  else State_Monad.return (CompletionTime (vmfr_Status v)));
     r \<leftarrow> PatchStatus E v (with_status v (\<lambda>s. s\<lparr>Phase := newPhase, StartTime := started,
            CompletionTime := completed\<rparr>));
     case r of
       Inl err \<Rightarrow> State_Monad.return (fail_with err)
     | Inr _ \<Rightarrow> do {
         RecordEvent E (if newPhase = RestorePhaseFailed then event_warning else event_normal)
           (phase_string newPhase) message;
         State_Monad.return requeue_now
       }
   }"

definition bump_retry :: "string \<Rightarrow> VirtualMachineFileRestoreStatus \<Rightarrow> VirtualMachineFileRestoreStatus" where
  "bump_retry retryType s =
     (if retryType = ''attachment'' then s\<lparr>AttachmentRetries := AttachmentRetries s + 1\<rparr>
      else if retryType = ''ssh'' then s\<lparr>SSHRetries := SSHRetries s + 1\<rparr>
      else s)"

definition backoff :: "duration \<Rightarrow> i32 \<Rightarrow> duration" where
  "backoff baseDelay retries =
     (let delay = (if 5 \<le> sint retries \<and> sint retries < 10 then wrap64 (baseDelay * 2)
                   else if 10 \<le> sint retries then wrap64 (baseDelay * 4)
                   else baseDelay)
      in if 30 * second < delay then 30 * second else delay)"

definition incrementRetryAndRequeue ::
  "'w env \<Rightarrow> vmfr \<Rightarrow> string \<Rightarrow> duration \<Rightarrow> ('w, outcome) cmd" where
  "incrementRetryAndRequeue E v retryType baseDelay = do {
     r \<leftarrow> PatchStatus E v (with_status v (bump_retry retryType));
     State_Monad.return (case r of
         Inl err \<Rightarrow> fail_with (Wrapf (''failed to increment '' @ retryType @ '' retry counter'') err)
       | Inr v' \<Rightarrow>
           requeue_after (backoff baseDelay
             (if retryType = ''attachment'' then AttachmentRetries (vmfr_Status v')
              else SSHRetries (vmfr_Status v'))))
   }"

definition failed_condition :: "vmfr \<Rightarrow> time \<Rightarrow> string \<Rightarrow> Condition" where
  "failed_condition v now detail =
     \<lparr>c_Type = ''RestoreCompleted'', c_Status = ConditionFalse,
      c_ObservedGeneration = vmfr_Generation v, c_LastTransitionTime = now,
      c_Reason = ''RestoreFailed'', c_Message = TruncateOutput detail 100\<rparr>"

definition failed_status ::
  "vmfr \<Rightarrow> time \<Rightarrow> time \<Rightarrow> goerror \<Rightarrow> string \<Rightarrow> VirtualMachineFileRestoreStatus \<Rightarrow> VirtualMachineFileRestoreStatus" where
  "failed_status v now now' err detail s =
     s\<lparr>Phase := RestorePhaseFailed, ErrorMessage := Error err, CompletionTime := Some now,
       Conditions := the (setCondition (Some (Conditions s)) (failed_condition v now' detail))\<rparr>"

definition failRestore ::
  "'w env \<Rightarrow> reconciler \<Rightarrow> vmfr \<Rightarrow> goerror \<Rightarrow> string \<Rightarrow> ('w, outcome) cmd" where
  "failRestore E R v err detail = do {
     now \<leftarrow> Now E;
     now' \<leftarrow> Now E;
     r \<leftarrow> PatchStatus E v (with_status v (failed_status v now now' err detail));
     case r of
       Inl updateErr \<Rightarrow> State_Monad.return (fail_with updateErr)
     | Inr v' \<Rightarrow> do {
         RecordEvent E event_warning ''RestoreFailed''
           (Error err @ '': '' @ TruncateOutput detail 100);
         c \<leftarrow> cleanup E R v';
         State_Monad.return (case c of Panicked p \<Rightarrow> Panicked p | Ran _ \<Rightarrow> done_ok)
       }
   }"

subsection \<open>Init\<close>

definition source_count :: "RestoreSource \<Rightarrow> nat" where
  "source_count src =
     (if src_PVC src \<noteq> None then 1 else 0) + (if src_Snapshot src \<noteq> None then 1 else 0) +
     (if src_Remote src \<noteq> None then 1 else 0)"

text \<open>Lines 298 to 315: store the mount path, then move on to \<open>Hotplugging\<close>.\<close>

definition init_accept ::
  "'w env \<Rightarrow> vmfr \<Rightarrow> VirtualMachineInstance \<Rightarrow> ('w, outcome) cmd" where
  "init_accept E v vmi = do {
     let mountPath = getMountPath vmi (getSourceName v);
     r \<leftarrow> PatchStatus E v (with_status v (\<lambda>s. s\<lparr>MountPath := mountPath\<rparr>));
     case r of
       Inl err \<Rightarrow> State_Monad.return (fail_with err)
     | Inr v' \<Rightarrow> transitionPhase E v' RestorePhaseHotplugging
                 ''Validation complete, starting volume hotplug''
   }"

text \<open>Lines 260 to 296: the source exists.\<close>

definition init_source ::
  "'w env \<Rightarrow> reconciler \<Rightarrow> vmfr \<Rightarrow> VirtualMachineInstance \<Rightarrow> ('w, outcome) cmd" where
  "init_source E R v vmi =
     (let src = Source (vmfr_Spec v) in
      case src_PVC src of
        Some pvc \<Rightarrow> do {
          let pvcNamespace = (if pvcs_Namespace pvc = '''' then vmfr_Namespace v else pvcs_Namespace pvc);
          r \<leftarrow> GetPVC E (pvcNamespace, pvcs_Name pvc);
          case r of
            Inl err \<Rightarrow>
              if IsNotFound err
              then failRestore E R v err (''source PVC '' @ pvcNamespace @ ''/'' @ pvcs_Name pvc @ '' not found'')
              else failRestore E R v err ''failed to get source PVC''
          | Inr _ \<Rightarrow> init_accept E v vmi
        }
      | None \<Rightarrow>
          (case src_Snapshot src of
             Some snap \<Rightarrow> do {
               let snapshotNamespace = (if vss_Namespace snap = '''' then vmfr_Namespace v else vss_Namespace snap);
               r \<leftarrow> GetSnapshot E (snapshotNamespace, vss_Name snap);
               case r of
                 Inl err \<Rightarrow>
                   if IsNotFound err
                   then failRestore E R v err (''source snapshot '' @ snapshotNamespace @ ''/'' @ vss_Name snap @ '' not found'')
                   else failRestore E R v err ''failed to get source snapshot''
               | Inr _ \<Rightarrow> init_accept E v vmi
             }
           | None \<Rightarrow>
               if src_Remote src \<noteq> None
               then failRestore E R v (Errorf ''remote sources not supported'')
                      ''remote restore source is not yet implemented''
               else init_accept E v vmi))"

definition handleInitPhase :: "'w env \<Rightarrow> reconciler \<Rightarrow> vmfr \<Rightarrow> ('w, outcome) cmd" where
  "handleInitPhase E R v =
     (let sourceCount = source_count (Source (vmfr_Spec v)); name = ref_Name (Target (vmfr_Spec v)) in
      if sourceCount = 0 then
        failRestore E R v (Errorf ''no source specified'') ''must specify exactly one of pvc, snapshot, or remote''
      else if sourceCount > 1 then
        failRestore E R v (Errorf ''multiple sources specified'') ''must specify exactly one of pvc, snapshot, or remote''
      else do {
        vmR \<leftarrow> GetVM E (target_key v);
        case vmR of
          Inl err \<Rightarrow>
            if IsNotFound err then failRestore E R v err (''target VM '' @ name @ '' not found'')
            else failRestore E R v err ''failed to get target VM''
        | Inr vm \<Rightarrow> do {
            vmiR \<leftarrow> GetVMI E (target_key v);
            case vmiR of
              Inl err \<Rightarrow>
                if IsNotFound err
                then failRestore E R v err (''target VM '' @ name @ '' is not running (no VMI found)'')
                else failRestore E R v err ''failed to get VMI''
            | Inr vmi \<Rightarrow> init_source E R v vmi
          }
      })"

subsection \<open>Hotplugging\<close>

definition handleHotpluggingPhase :: "'w env \<Rightarrow> reconciler \<Rightarrow> vmfr \<Rightarrow> ('w, outcome) cmd" where
  "handleHotpluggingPhase E R v = do {
     vmR \<leftarrow> GetVM E (target_key v);
     case vmR of
       Inl err \<Rightarrow> failRestore E R v err ''failed to get target VM for hotplug''
     | Inr vm \<Rightarrow> do {
         h \<leftarrow> HotplugVolume E v vm;
         case h of
           Panicked p \<Rightarrow> State_Monad.return (Panicked p)
         | Ran (Some err) \<Rightarrow>
             if IsTransient err then State_Monad.return (requeue_after (5 * second))
             else failRestore E R v err ''failed to hotplug volume to VM''
         | Ran None \<Rightarrow>
             (case GetVolumeName (vmfr_Name v) of
                Panicked p \<Rightarrow> State_Monad.return (Panicked p)
              | Ran _ \<Rightarrow> do {
                  RecordEvent E event_normal ''VolumeHotplug'' ''Volume hotplugged to VM'';
                  transitionPhase E v RestorePhaseWaitingForAttachment
                    ''Volume hotplug initiated, waiting for attachment''
                })
       }
   }"

subsection \<open>Waiting for the attachment\<close>

definition maxAttachmentWait :: int where "maxAttachmentWait = 60"
definition maxSSHWait :: int where "maxSSHWait = 24"

text \<open>The rate limit shared by the two polling phases: \<open>Some d\<close> asks to come back after \<open>d\<close>.\<close>

definition rate_limit :: "'w env \<Rightarrow> time option \<Rightarrow> ('w, duration option) cmd" where
  "rate_limit E lastCheck =
     (case lastCheck of
        None \<Rightarrow> State_Monad.return None
      | Some t \<Rightarrow> do {
          timeSinceLastCheck \<leftarrow> Since E t;
          State_Monad.return (if timeSinceLastCheck < 5 * second
            then Some (wrap64 (5 * second - timeSinceLastCheck)) else None)
        })"

text \<open>A counter is reset with a patch of its own; if that fails, the code goes on with the counter
  reset in memory only.\<close>

definition reset_counter ::
  "'w env \<Rightarrow> (VirtualMachineFileRestoreStatus \<Rightarrow> i32) \<Rightarrow>
   (VirtualMachineFileRestoreStatus \<Rightarrow> VirtualMachineFileRestoreStatus) \<Rightarrow> vmfr \<Rightarrow> ('w, vmfr) cmd" where
  "reset_counter E count reset v =
     (if 0 < sint (count (vmfr_Status v)) then do {
        r \<leftarrow> PatchStatus E v (with_status v reset);
        State_Monad.return (case r of Inl _ \<Rightarrow> with_status v reset | Inr v' \<Rightarrow> v')
      } else State_Monad.return v)"

text \<open>Lines 405 to 441: what the status of the volume means.\<close>

definition attachment_check ::
  "'w env \<Rightarrow> reconciler \<Rightarrow> vmfr \<Rightarrow> string \<Rightarrow> VolumeStatus option \<Rightarrow> ('w, outcome) cmd" where
  "attachment_check E R v volumeName volumeStatus =
     (case volumeStatus of
        None \<Rightarrow> incrementRetryAndRequeue E v ''attachment'' (5 * second)
      | Some vs \<Rightarrow>
          if vs_Phase vs \<noteq> VolumePhaseReady then incrementRetryAndRequeue E v ''attachment'' (5 * second)
          else if vs_Target vs = '''' then incrementRetryAndRequeue E v ''attachment'' (5 * second)
          else if vs_HotplugVolume vs = None then
            failRestore E R v (Errorf ''volume is not a hotplug volume'')
              (''Volume '' @ volumeName @ '' exists but is not marked as hotplugged'')
          else do {
            v' \<leftarrow> reset_counter E AttachmentRetries (\<lambda>s. s\<lparr>AttachmentRetries := 0\<rparr>) v;
            transitionPhase E v' RestorePhaseSSHConnecting ''Volume attached, establishing SSH connection''
          })"

definition handleWaitingForAttachmentPhase ::
  "'w env \<Rightarrow> reconciler \<Rightarrow> vmfr \<Rightarrow> ('w, outcome) cmd" where
  "handleWaitingForAttachmentPhase E R v =
     (if maxAttachmentWait \<le> sint (AttachmentRetries (vmfr_Status v)) then
        failRestore E R v (Errorf ''volume attachment timeout'')
          (''volume did not attach after '' @ show_int maxAttachmentWait @ '' attempts (5 minutes)'')
      else do {
        limited \<leftarrow> rate_limit E (LastAttachmentCheckTime (vmfr_Status v));
        case limited of
          Some remainingWait \<Rightarrow> State_Monad.return (requeue_after remainingWait)
        | None \<Rightarrow> do {
            vmiR \<leftarrow> GetVMI E (target_key v);
            case vmiR of
              Inl err \<Rightarrow> failRestore E R v err ''failed to get VMI''
            | Inr vmi \<Rightarrow>
                (case GetVolumeName (vmfr_Name v) of
                   Panicked p \<Rightarrow> State_Monad.return (Panicked p)
                 | Ran volumeName \<Rightarrow> do {
                     now \<leftarrow> Now E;
                     r \<leftarrow> PatchStatus E v (with_status v (\<lambda>s. s\<lparr>LastAttachmentCheckTime := Some now\<rparr>));
                     case r of
                       Inl err \<Rightarrow> State_Monad.return (fail_with err)
                     | Inr v' \<Rightarrow> attachment_check E R v' volumeName
                         (find (\<lambda>vs. vs_Name vs = volumeName) (vmi_VolumeStatus vmi))
                   })
          }
      })"

subsection \<open>Connecting\<close>

text \<open>Lines 500 to 533, with the deferred close of the connection.\<close>

definition ssh_attempt ::
  "'w env \<Rightarrow> vmfr \<Rightarrow> string \<Rightarrow> string \<Rightarrow> ('w, outcome) cmd" where
  "ssh_attempt E v ip privateKey = do {
     connR \<leftarrow> ConnectSSH E ip privateKey;
     case connR of
       Inl err \<Rightarrow> incrementRetryAndRequeue E v ''ssh'' (5 * second)
     | Inr c \<Rightarrow> do {
         v' \<leftarrow> reset_counter E SSHRetries (\<lambda>s. s\<lparr>SSHRetries := 0\<rparr>) v;
         res \<leftarrow> transitionPhase E v' RestorePhaseRestoring ''SSH connected, starting restore'';
         ClientClose E c;
         State_Monad.return res
       }
   }"

definition handleSSHConnectingPhase :: "'w env \<Rightarrow> reconciler \<Rightarrow> vmfr \<Rightarrow> ('w, outcome) cmd" where
  "handleSSHConnectingPhase E R v =
     (if maxSSHWait \<le> sint (SSHRetries (vmfr_Status v)) then
        failRestore E R v (Errorf ''SSH connection timeout'')
          (''SSH connection failed after '' @ show_int maxSSHWait @ '' attempts (2 minutes)'')
      else do {
        limited \<leftarrow> rate_limit E (LastSSHCheckTime (vmfr_Status v));
        case limited of
          Some remainingWait \<Rightarrow> State_Monad.return (requeue_after remainingWait)
        | None \<Rightarrow> do {
            now \<leftarrow> Now E;
            r \<leftarrow> PatchStatus E v (with_status v (\<lambda>s. s\<lparr>LastSSHCheckTime := Some now\<rparr>));
            case r of
              Inl err \<Rightarrow> State_Monad.return (fail_with err)
            | Inr v' \<Rightarrow> do {
                vmiR \<leftarrow> GetVMI E (target_key v');
                case vmiR of
                  Inl err \<Rightarrow> failRestore E R v' err ''failed to get VMI''
                | Inr vmi \<Rightarrow> do {
                    ipR \<leftarrow> GetVMIPAddress E (Some vmi);
                    case ipR of
                      Inl err \<Rightarrow> failRestore E R v' err ''failed to get VM IP address''
                    | Inr ip \<Rightarrow> do {
                        keyR \<leftarrow> getSSHPrivateKey E R;
                        case keyR of
                          Inl err \<Rightarrow> failRestore E R v' err ''failed to get SSH private key''
                        | Inr privateKey \<Rightarrow> ssh_attempt E v' ip privateKey
                      }
                  }
              }
          }
      })"

subsection \<open>Restoring\<close>

text \<open>Lines 592 to 630: record the result of the command.\<close>

definition restore_finish :: "'w env \<Rightarrow> vmfr \<Rightarrow> string \<Rightarrow> ('w, outcome) cmd" where
  "restore_finish E v stdout = do {
     let parsed = ParseRestoredFileCount stdout;
     let fileCount = (if sint parsed < 0 then 0 else parsed);
     let manual = (SourcePath (vmfr_Spec v) = '''');
     let nextPhase = (if manual then RestorePhaseVolumeReady else RestorePhaseCleanup);
     let eventMsg = (if manual
           then ''Volume mounted at '' @ MountPath (vmfr_Status v) @ '', ready for manual restore''
           else ''Restored '' @ show_int (sint fileCount) @ '' files, cleaning up'');
     let v1 = (if manual then with_status v (\<lambda>s. s\<lparr>Phase := nextPhase\<rparr>)
               else with_status v (\<lambda>s. s\<lparr>RestoredFilesCount := Some fileCount, Phase := nextPhase\<rparr>));
     r \<leftarrow> PatchStatus E v v1;
     case r of
       Inl err \<Rightarrow> State_Monad.return (fail_with err)
     | Inr v' \<Rightarrow> do {
         RecordEvent E event_normal (phase_string nextPhase) eventMsg;
         State_Monad.return requeue_now
       }
   }"

text \<open>Lines 569 to 630: build and run the command over an open connection.\<close>

definition restore_run ::
  "'w env \<Rightarrow> reconciler \<Rightarrow> vmfr \<Rightarrow> VirtualMachineInstance \<Rightarrow> ssh_conn \<Rightarrow> ('w, outcome) cmd" where
  "restore_run E R v vmi c =
     (case GetVolumeName (vmfr_Name v) of
        Panicked p \<Rightarrow> State_Monad.return (Panicked p)
      | Ran volumeName \<Rightarrow>
        (case BuildSSHCommand (DetectGuestOS vmi) volumeName (MountPath (vmfr_Status v))
                (SourcePath (vmfr_Spec v)) of
           Panicked p \<Rightarrow> State_Monad.return (Panicked p)
         | Ran command \<Rightarrow> do {
             out \<leftarrow> RunCommand E c command (10 * minute);
             case out of
               (stdout, stderr, Some err) \<Rightarrow> do {
                 ctxErr \<leftarrow> ContextErr E;
                 if ctxErr = Some DeadlineExceeded
                 then failRestore E R v (Errorf ''restore command timeout'')
                        ''restore command timed out after 10 minutes''
                 else failRestore E R v err
                        (''restore command failed: '' @ Error err @ [newline] @
                         ''stdout: '' @ TruncateOutput stdout 50 @ [newline] @
                         ''stderr: '' @ TruncateOutput stderr 50)
               }
             | (stdout, stderr, None) \<Rightarrow> restore_finish E v stdout
           }))"

definition handleRestoringPhase :: "'w env \<Rightarrow> reconciler \<Rightarrow> vmfr \<Rightarrow> ('w, outcome) cmd" where
  "handleRestoringPhase E R v = do {
     vmiR \<leftarrow> GetVMI E (target_key v);
     case vmiR of
       Inl err \<Rightarrow> failRestore E R v err ''failed to get VMI''
     | Inr vmi \<Rightarrow> do {
         ipR \<leftarrow> GetVMIPAddress E (Some vmi);
         case ipR of
           Inl err \<Rightarrow> failRestore E R v err ''failed to get VM IP address''
         | Inr ip \<Rightarrow> do {
             keyR \<leftarrow> getSSHPrivateKey E R;
             case keyR of
               Inl err \<Rightarrow> failRestore E R v err ''failed to get SSH private key''
             | Inr privateKey \<Rightarrow> do {
                 connR \<leftarrow> ConnectSSH E ip privateKey;
                 case connR of
                   Inl err \<Rightarrow> failRestore E R v err (''failed to establish SSH connection to '' @ ip)
                 | Inr c \<Rightarrow> do {
                     res \<leftarrow> restore_run E R v vmi c;
                     ClientClose E c;
                     State_Monad.return res
                   }
               }
           }
       }
   }"

subsection \<open>Manual mode, and cleaning up after an automatic restore\<close>

definition handleVolumeReadyPhase :: "'w env \<Rightarrow> reconciler \<Rightarrow> vmfr \<Rightarrow> ('w, outcome) cmd" where
  "handleVolumeReadyPhase E R v = State_Monad.return done_ok"

definition restored_or_zero :: "vmfr \<Rightarrow> i32" where
  "restored_or_zero v = (case RestoredFilesCount (vmfr_Status v) of None \<Rightarrow> 0 | Some n \<Rightarrow> n)"

text \<open>Lines 698 to 708.\<close>

definition cleanup_done :: "'w env \<Rightarrow> vmfr \<Rightarrow> ('w, outcome) cmd" where
  "cleanup_done E v = do {
     RecordEvent E event_normal ''VolumeUnplugged'' ''Volume unplugged from VM'';
     transitionPhase E v RestorePhaseSucceeded
       (''Restore completed successfully ('' @ show_int (sint (restored_or_zero v)) @ '' files)'')
   }"

definition handleCleanupPhase :: "'w env \<Rightarrow> reconciler \<Rightarrow> vmfr \<Rightarrow> ('w, outcome) cmd" where
  "handleCleanupPhase E R v = do {
     vmR \<leftarrow> GetVM E (target_key v);
     case vmR of
       Inl err \<Rightarrow>
         if IsNotFound err then
           (case RestoredFilesCount (vmfr_Status v) of
              Some n \<Rightarrow> transitionPhase E v RestorePhaseSucceeded
                (''Restored '' @ show_int (sint n) @ '' files (VM was deleted during cleanup)'')
            | None \<Rightarrow> failRestore E R v err ''target VM was deleted before restore could complete'')
         else failRestore E R v err ''failed to get target VM for cleanup''
     | Inr vm \<Rightarrow> do {
         u \<leftarrow> UnplugVolume E v vm;
         case u of
           Panicked p \<Rightarrow> State_Monad.return (Panicked p)
         | Ran (Some err) \<Rightarrow> failRestore E R v err ''failed to unplug volume from VM''
         | Ran None \<Rightarrow>
             (case GetVolumeName (vmfr_Name v) of
                Panicked p \<Rightarrow> State_Monad.return (Panicked p)
              | Ran volumeName \<Rightarrow> do {
                  vmiR \<leftarrow> GetVMI E (target_key v);
                  case vmiR of
                    Inl err \<Rightarrow>
                      if \<not> IsNotFound err
                      then failRestore E R v err ''failed to get VMI for unplug verification''
                      else cleanup_done E v
                  | Inr vmi \<Rightarrow>
                      if list_ex (\<lambda>vs. vs_Name vs = volumeName) (vmi_VolumeStatus vmi)
                      then State_Monad.return (requeue_after (5 * second))
                      else cleanup_done E v
                })
       }
   }"

definition getPhaseHandler ::
  "RestorePhase \<Rightarrow> ('w env \<Rightarrow> reconciler \<Rightarrow> vmfr \<Rightarrow> ('w, outcome) cmd) option" where
  "getPhaseHandler p =
     (case p of
        RestorePhaseNew \<Rightarrow> Some handleInitPhase
      | RestorePhaseUnset \<Rightarrow> Some handleInitPhase
      | RestorePhaseInit \<Rightarrow> Some handleInitPhase
      | RestorePhaseHotplugging \<Rightarrow> Some handleHotpluggingPhase
      | RestorePhaseWaitingForAttachment \<Rightarrow> Some handleWaitingForAttachmentPhase
      | RestorePhaseSSHConnecting \<Rightarrow> Some handleSSHConnectingPhase
      | RestorePhaseRestoring \<Rightarrow> Some handleRestoringPhase
      | RestorePhaseVolumeReady \<Rightarrow> Some handleVolumeReadyPhase
      | RestorePhaseCleanup \<Rightarrow> Some handleCleanupPhase
      | _ \<Rightarrow> None)"

end
