(* ===== verification/Reconcile.thy ===== *)
theory Reconcile
  imports Phases
begin

text \<open>
  \<open>Reconcile\<close> of internal/controller/virtualmachinefilerestore_controller.go: deletion with its
  finalizer, the finalizer of a new resource, terminal phases, and the dispatch to a phase handler.
\<close>

definition maxRetries :: nat where "maxRetries = 3"

text \<open>The loop that removes the finalizer, by the number of attempts left. A failed refetch or update
  is retried until the last attempt, whose error is returned.\<close>

fun remove_finalizer_loop :: "'w env \<Rightarrow> key \<Rightarrow> nat \<Rightarrow> vmfr \<Rightarrow> ('w, outcome) cmd" where
  "remove_finalizer_loop E k 0 v = State_Monad.return done_ok"
| "remove_finalizer_loop E k (Suc left) v = do {
     let attempt = maxRetries - Suc left;
     let attempt_on = (\<lambda>u. do {
           let u' = u\<lparr>vmfr_Finalizers := remove_finalizer E (vmfr_Finalizers u) finalizerName\<rparr>;
           r \<leftarrow> UpdateVMFR E u';
           case r of
             Inr _ \<Rightarrow> State_Monad.return done_ok
           | Inl err \<Rightarrow> if left = 0 then State_Monad.return (fail_with err)
                       else remove_finalizer_loop E k left u'
         });
     if 0 < attempt then do {
       g \<leftarrow> GetVMFR E k;
       case g of
         Inl err \<Rightarrow> if left = 0 then State_Monad.return (fail_with err)
                   else remove_finalizer_loop E k left v
       | Inr u \<Rightarrow> attempt_on u
     } else attempt_on v
   }"

text \<open>The body of \<open>Reconcile\<close> for a resource that was found (from line 89 on).\<close>

definition reconcile_found :: "'w env \<Rightarrow> reconciler \<Rightarrow> key \<Rightarrow> vmfr \<Rightarrow> ('w, outcome) cmd" where
  "reconcile_found E R k v =
     (if vmfr_DeletionTimestamp v \<noteq> None then
        (if contains_finalizer E (vmfr_Finalizers v) finalizerName then do {
           c \<leftarrow> cleanup E R v;
           case c of
             Panicked p \<Rightarrow> State_Monad.return (Panicked p)
           | Ran _ \<Rightarrow> remove_finalizer_loop E k maxRetries v
         } else State_Monad.return done_ok)
      else if \<not> contains_finalizer E (vmfr_Finalizers v) finalizerName then do {
        r \<leftarrow> UpdateVMFR E (v\<lparr>vmfr_Finalizers := add_finalizer E (vmfr_Finalizers v) finalizerName\<rparr>);
        State_Monad.return (case r of Inl err \<Rightarrow> fail_with err | Inr _ \<Rightarrow> requeue_now)
      }
      else if Phase (vmfr_Status v) = RestorePhaseSucceeded
            \<or> Phase (vmfr_Status v) = RestorePhaseFailed then
        State_Monad.return done_ok
      else
        (case getPhaseHandler (Phase (vmfr_Status v)) of
           None \<Rightarrow> failRestore E R v (Errorf (''unknown phase: '' @ phase_string (Phase (vmfr_Status v))))
                    ''invalid phase - manual intervention required''
         | Some handler \<Rightarrow> handler E R v))"

definition Reconcile :: "'w env \<Rightarrow> reconciler \<Rightarrow> key \<Rightarrow> ('w, outcome) cmd" where
  "Reconcile E R k = do {
     g \<leftarrow> GetVMFR E k;
     case g of
       Inl err \<Rightarrow> State_Monad.return (if IsNotFound err then done_ok else fail_with err)
     | Inr v \<Rightarrow> reconcile_found E R k v
   }"

end
