(* ===== verification/Contracts.thy ===== *)
theory Contracts
  imports Reconcile
begin

text \<open>
  What the reconciler promises, and what it relies on.

  \<open>phase_step\<close> is the state machine of a restore: the moves the handlers make between phases.
  \<open>status_ok\<close> is the invariant of a stored status. \<open>lawful\<close> describes, request by
  request, everything the reconciler may do to the cluster and to the guest on behalf of one
  resource.

  The locale \<open>status_api\<close> is the interface to the API server: the answer to a status patch is the
  patched object. Times may come back less precise (the API keeps whole seconds), so the contract
  leaves their value open and only fixes whether they are set.
\<close>

subsection \<open>The phases as a state machine\<close>

inductive phase_step :: "RestorePhase \<Rightarrow> RestorePhase \<Rightarrow> bool" where
  step_accept: "p = RestorePhaseUnset \<or> p = RestorePhaseNew \<or> p = RestorePhaseInit \<Longrightarrow>
     phase_step p RestorePhaseHotplugging"
| step_hotplug: "phase_step RestorePhaseHotplugging RestorePhaseWaitingForAttachment"
| step_attach: "phase_step RestorePhaseWaitingForAttachment RestorePhaseSSHConnecting"
| step_connect: "phase_step RestorePhaseSSHConnecting RestorePhaseRestoring"
| step_mount: "phase_step RestorePhaseRestoring RestorePhaseVolumeReady"
| step_restore: "phase_step RestorePhaseRestoring RestorePhaseCleanup"
| step_finish: "phase_step RestorePhaseCleanup RestorePhaseSucceeded"
| step_fail: "p \<noteq> RestorePhaseVolumeReady \<Longrightarrow> p \<noteq> RestorePhaseSucceeded \<Longrightarrow> p \<noteq> RestorePhaseFailed \<Longrightarrow>
     phase_step p RestorePhaseFailed"

definition terminal :: "RestorePhase \<Rightarrow> bool" where
  "terminal p \<longleftrightarrow> p = RestorePhaseSucceeded \<or> p = RestorePhaseFailed"

definition past_init :: "RestorePhase \<Rightarrow> bool" where
  "past_init p \<longleftrightarrow> p \<in> {RestorePhaseHotplugging, RestorePhaseWaitingForAttachment,
     RestorePhaseSSHConnecting, RestorePhaseRestoring, RestorePhaseVolumeReady,
     RestorePhaseCleanup, RestorePhaseSucceeded}"

subsection \<open>The invariant of a status\<close>

definition failure_reported :: "VirtualMachineFileRestoreStatus \<Rightarrow> bool" where
  "failure_reported s \<longleftrightarrow> (\<exists>c \<in> set (Conditions s). c_Type c = ''RestoreCompleted'' \<and>
     c_Status c = ConditionFalse \<and> c_Reason c = ''RestoreFailed'')"

definition times_ok :: "VirtualMachineFileRestoreStatus \<Rightarrow> bool" where
  "times_ok s \<longleftrightarrow>
     (past_init (Phase s) \<or> Phase s = RestorePhaseInit \<longrightarrow> StartTime s \<noteq> None) \<and>
     (terminal (Phase s) \<longleftrightarrow> CompletionTime s \<noteq> None)"

definition mode_ok :: "VirtualMachineFileRestoreSpec \<Rightarrow> VirtualMachineFileRestoreStatus \<Rightarrow> bool" where
  "mode_ok spec s \<longleftrightarrow>
     (Phase s = RestorePhaseVolumeReady \<longrightarrow> SourcePath spec = '''') \<and>
     (Phase s = RestorePhaseCleanup \<or> Phase s = RestorePhaseSucceeded \<longrightarrow>
        SourcePath spec \<noteq> '''' \<and> (\<exists>n. RestoredFilesCount s = Some n \<and> 0 \<le> sint n)) \<and>
     (Phase s \<noteq> RestorePhaseCleanup \<and> \<not> terminal (Phase s) \<longrightarrow> RestoredFilesCount s = None)"

definition retries_ok :: "VirtualMachineFileRestoreStatus \<Rightarrow> bool" where
  "retries_ok s \<longleftrightarrow>
     0 \<le> sint (AttachmentRetries s) \<and> sint (AttachmentRetries s) \<le> maxAttachmentWait \<and>
     0 \<le> sint (SSHRetries s) \<and> sint (SSHRetries s) \<le> maxSSHWait"

definition status_ok :: "VirtualMachineFileRestoreSpec \<Rightarrow> VirtualMachineFileRestoreStatus \<Rightarrow> bool" where
  "status_ok spec s \<longleftrightarrow>
     (past_init (Phase s) \<longrightarrow> MountPath s \<noteq> '''') \<and>
     (if Phase s = RestorePhaseFailed then failure_reported s else ErrorMessage s = '''') \<and>
     times_ok s \<and> mode_ok spec s \<and> retries_ok s"

lemmas status_ok_defs = status_ok_def times_ok_def mode_ok_def retries_ok_def

subsection \<open>The interface to the API server\<close>

definition same_restore :: "vmfr \<Rightarrow> vmfr \<Rightarrow> bool" where
  "same_restore v u \<longleftrightarrow> vmfr_Name u = vmfr_Name v \<and> vmfr_Namespace u = vmfr_Namespace v \<and>
     vmfr_Spec u = vmfr_Spec v"

definition timeless :: "Condition \<Rightarrow> Condition" where
  "timeless c = c\<lparr>c_LastTransitionTime := 0\<rparr>"

definition status_agrees ::
  "VirtualMachineFileRestoreStatus \<Rightarrow> VirtualMachineFileRestoreStatus \<Rightarrow> bool" where
  "status_agrees s t \<longleftrightarrow>
     Phase t = Phase s \<and> map timeless (Conditions t) = map timeless (Conditions s) \<and>
     (StartTime t = None \<longleftrightarrow> StartTime s = None) \<and> (CompletionTime t = None \<longleftrightarrow> CompletionTime s = None) \<and>
     RestoredFilesCount t = RestoredFilesCount s \<and> ErrorMessage t = ErrorMessage s \<and>
     MountPath t = MountPath s \<and> AttachmentRetries t = AttachmentRetries s \<and>
     SSHRetries t = SSHRetries s \<and>
     (LastAttachmentCheckTime t = None \<longleftrightarrow> LastAttachmentCheckTime s = None) \<and>
     (LastSSHCheckTime t = None \<longleftrightarrow> LastSSHCheckTime s = None)"

definition echoes :: "vmfr \<Rightarrow> vmfr \<Rightarrow> bool" where
  "echoes new v \<longleftrightarrow> same_restore new v \<and> status_agrees (vmfr_Status new) (vmfr_Status v)"

subsection \<open>What the reconciler may do\<close>

definition volume_of :: "vmfr \<Rightarrow> string" where
  "volume_of v = vmfr_Name v @ ''-restore''"

definition fresh :: "string \<Rightarrow> VMTemplate \<Rightarrow> bool" where
  "fresh n t \<longleftrightarrow> (\<forall>vol \<in> set (tmpl_Volumes t). vol_Name vol \<noteq> n) \<and>
     (\<forall>disk \<in> set (tmpl_Disks t). disk_Name disk \<noteq> n)"

definition no_other_restore :: "string \<Rightarrow> VMTemplate \<Rightarrow> bool" where
  "no_other_restore n t \<longleftrightarrow>
     (\<forall>vol \<in> set (tmpl_Volumes t). HasSuffix (vol_Name vol) ''-restore'' \<longrightarrow> vol_Name vol = n)"

text \<open>A change of the virtual machine: the restore volume is taken out, or it is added to a machine
  that has no restore volume at all.\<close>

definition vm_change :: "string \<Rightarrow> VirtualMachine \<Rightarrow> VirtualMachine \<Rightarrow> bool" where
  "vm_change n b m \<longleftrightarrow> (\<exists>t. vm_Template b = Some t \<and>
     (m = b\<lparr>vm_Template := Some (unplug n t)\<rparr> \<or>
      (\<exists>claim. m = b\<lparr>vm_Template := Some (plug n (PersistentVolumeClaim claim True) t)\<rparr> \<and>
         fresh n t \<and> no_other_restore n t)))"

definition helper_command :: "vmfr \<Rightarrow> string \<Rightarrow> duration \<Rightarrow> bool" where
  "helper_command v command limit \<longleftrightarrow> (\<exists>os path. path \<noteq> '''' \<and>
     ((BuildCleanupCommand os path = Ran command \<and> limit = 30 * second) \<or>
      (BuildSSHCommand os (volume_of v) path (SourcePath (vmfr_Spec v)) = Ran command \<and>
       limit = 10 * minute)))"

text \<open>A resource the code may store in place of the one it read: same identity and specification, and
  a status that satisfies the invariant if the one that was read did. A \<open>derived\<close> resource is also
  still in the phase that was read: it is what a handler works on.\<close>

definition sound :: "vmfr \<Rightarrow> vmfr \<Rightarrow> bool" where
  "sound v u \<longleftrightarrow> same_restore v u \<and>
     (status_ok (vmfr_Spec v) (vmfr_Status v) \<longrightarrow> status_ok (vmfr_Spec u) (vmfr_Status u))"

definition derived :: "vmfr \<Rightarrow> vmfr \<Rightarrow> bool" where
  "derived v u \<longleftrightarrow> sound v u \<and> Phase (vmfr_Status u) = Phase (vmfr_Status v)"

definition phase_move :: "vmfr \<Rightarrow> vmfr \<Rightarrow> bool" where
  "phase_move b n \<longleftrightarrow> Phase (vmfr_Status n) = Phase (vmfr_Status b) \<or>
     phase_step (Phase (vmfr_Status b)) (Phase (vmfr_Status n))"

fun lawful :: "reconciler \<Rightarrow> vmfr \<Rightarrow> request \<Rightarrow> bool" where
  "lawful R v (ReqGetVMFR k) = (k = (vmfr_Namespace v, vmfr_Name v))"
| "lawful R v (ReqUpdateVMFR u) = (vmfr_Namespace u = vmfr_Namespace v \<and> vmfr_Name u = vmfr_Name v)"
| "lawful R v (ReqPatchStatus b n) = (derived v b \<and> sound v n \<and> phase_move b n)"
| "lawful R v (ReqGetVM k) = (k = target_key v)"
| "lawful R v (ReqPatchVM b n) = vm_change (volume_of v) b n"
| "lawful R v (ReqGetVMI k) = (k = target_key v)"
| "lawful R v (ReqCreateDV dv) = (dv_Name dv = volume_of v \<and> dv_Namespace dv = vmfr_Namespace v)"
| "lawful R v (ReqDeleteDV k) = (k = (vmfr_Namespace v, volume_of v) \<and>
     src_Snapshot (Source (vmfr_Spec v)) \<noteq> None)"
| "lawful R v (ReqReadDV k) = (k = (vmfr_Namespace v, volume_of v))"
| "lawful R v (ReqReadSecret k) = (k = (getOperatorNamespace R, OperatorResourceName))"
| "lawful R v (ReqDial addr cfg) = fips_dial addr cfg"
| "lawful R v (ReqRun command limit) = helper_command v command limit"
| "lawful R v _ = True"

inductive_simps phase_step_simps [simp]:
  "phase_step p RestorePhaseHotplugging"
  "phase_step p RestorePhaseWaitingForAttachment"
  "phase_step p RestorePhaseSSHConnecting"
  "phase_step p RestorePhaseRestoring"
  "phase_step p RestorePhaseVolumeReady"
  "phase_step p RestorePhaseCleanup"
  "phase_step p RestorePhaseSucceeded"
  "phase_step p RestorePhaseFailed"

inductive_simps phase_step_from_simps:
  "phase_step RestorePhaseVolumeReady q"
  "phase_step RestorePhaseSucceeded q"
  "phase_step RestorePhaseFailed q"

subsection \<open>Facts about the contracts\<close>

lemma same_restore_refl [simp]: "same_restore v v"
  by (simp add: same_restore_def)

lemma same_restore_with_status [simp]: "same_restore v (with_status u f) = same_restore v u"
  by (simp add: same_restore_def)

lemma echoes_same_restore: "echoes n u \<Longrightarrow> same_restore v n \<Longrightarrow> same_restore v u"
  by (simp add: echoes_def same_restore_def)

lemma same_restore_keys:
  assumes "same_restore v u"
  shows "target_key u = target_key v" and "volume_of u = volume_of v"
    and "vmfr_Namespace u = vmfr_Namespace v" and "vmfr_Spec u = vmfr_Spec v"
    and "vmfr_Name u = vmfr_Name v"
  using assms by (simp_all add: same_restore_def target_key_def volume_of_def)

lemma echoes_status:
  assumes "echoes n u"
  shows "Phase (vmfr_Status u) = Phase (vmfr_Status n)"
    and "MountPath (vmfr_Status u) = MountPath (vmfr_Status n)"
    and "AttachmentRetries (vmfr_Status u) = AttachmentRetries (vmfr_Status n)"
    and "SSHRetries (vmfr_Status u) = SSHRetries (vmfr_Status n)"
    and "vmfr_Spec u = vmfr_Spec n" and "vmfr_Name u = vmfr_Name n"
    and "RestoredFilesCount (vmfr_Status u) = RestoredFilesCount (vmfr_Status n)"
  using assms by (simp_all add: echoes_def status_agrees_def same_restore_def)

lemma timeless_simps [simp]:
  "c_Type (timeless c) = c_Type c" "c_Status (timeless c) = c_Status c"
  "c_Reason (timeless c) = c_Reason c" "c_Message (timeless c) = c_Message c"
  by (simp_all add: timeless_def)

lemma failure_reported_timeless:
  "failure_reported s \<longleftrightarrow> (\<exists>c \<in> set (map timeless (Conditions s)). c_Type c = ''RestoreCompleted'' \<and>
     c_Status c = ConditionFalse \<and> c_Reason c = ''RestoreFailed'')"
  by (simp add: failure_reported_def)

lemma status_ok_agrees: "status_agrees s t \<Longrightarrow> status_ok spec t \<longleftrightarrow> status_ok spec s"
  by (simp add: status_agrees_def status_ok_defs failure_reported_timeless)

lemma GetVolumeName_Ran: "GetVolumeName (vmfr_Name v) = Ran n \<longleftrightarrow> vmfr_Name v \<noteq> '''' \<and> n = volume_of v"
  by (auto simp: GetVolumeName_def volume_of_def)

lemma set_condition_member: "new \<in> set (set_condition cs new)"
  by (induction cs) auto

lemma failed_status_reported: "failure_reported (failed_status v now now' err detail s)"
  unfolding failure_reported_def
  by (rule bexI [of _ "failed_condition v now' detail"])
    (simp_all add: failed_status_def setCondition_def set_condition_member failed_condition_def)

subsection \<open>The shared routines obey the law\<close>

lemma lawful_reads [simp]:
  "lawful R v (ReqListPods ns d)" "lawful R v (ReqEvent a b c)" "lawful R v ReqClock"
  "lawful R v ReqNewSession" "lawful R v ReqSignal" "lawful R v ReqOutput"
  "lawful R v ReqCloseSession" "lawful R v ReqCloseClient" "lawful R v ReqContextErr"
  by simp_all

lemma vm_change_unplug:
  "vm_Template vm = Some t \<Longrightarrow> vm_change n vm (vm\<lparr>vm_Template := Some (unplug n t)\<rparr>)"
  by (auto simp: vm_change_def)

lemma vm_change_plug:
  "vm_Template vm = Some t \<Longrightarrow> fresh n t \<Longrightarrow> no_other_restore n t \<Longrightarrow>
   vm_change n vm (vm\<lparr>vm_Template := Some (plug n (PersistentVolumeClaim claim True) t)\<rparr>)"
  by (auto simp: vm_change_def)

lemma helper_cleanup:
  "BuildCleanupCommand os path = Ran command \<Longrightarrow> helper_command v command (30 * second)"
  unfolding helper_command_def
  by (rule exI [of _ os], rule exI [of _ path]) (auto simp: BuildCleanupCommand_def split: if_splits)

lemma helper_restore:
  "BuildSSHCommand os (volume_of v) path (SourcePath (vmfr_Spec v)) = Ran command \<Longrightarrow>
   helper_command v command (10 * minute)"
  unfolding helper_command_def
  by (rule exI [of _ os], rule exI [of _ path]) (auto simp: BuildSSHCommand_def split: if_splits)

lemma emits_snapshot_mode:
  "emits (lawful R v) (\<lambda>_. True) (getSnapshotSourceVolumeMode E n ns)"
  by (auto simp: getSnapshotSourceVolumeMode_def call_defs intro!: emit_rules
      split: option.split sum.split list.split)

lemma emits_volume_source:
  assumes "same_restore v u"
  shows "emits (lawful R v) (\<lambda>r. \<forall>src. r = Inr src \<longrightarrow> (\<exists>claim. src = PersistentVolumeClaim claim True))
    (volume_source E u (volume_of v))"
  using same_restore_keys [OF assms]
  by (auto simp: volume_source_def snapshot_volume_source_def call_defs Let_def new_data_volume_def
      intro!: emit_rules emits_bind [OF emits_snapshot_mode]
      split: option.split sum.splits if_splits)

lemma fresh_iff:
  "fresh n t \<longleftrightarrow> \<not> list_ex (\<lambda>vol. vol_Name vol = n) (tmpl_Volumes t) \<and>
     \<not> list_ex (\<lambda>disk. disk_Name disk = n) (tmpl_Disks t)"
  by (auto simp: fresh_def list_ex_iff)

lemma no_other_restore_iff:
  "no_other_restore n t \<longleftrightarrow>
     find (\<lambda>vol. HasSuffix (vol_Name vol) ''-restore'' \<and> vol_Name vol \<noteq> n) (tmpl_Volumes t) = None"
  by (auto simp: no_other_restore_def find_None_iff)

lemma emits_HotplugVolume:
  assumes "same_restore v u"
  shows "emits (lawful R v) (\<lambda>_. True) (HotplugVolume E u vm)"
proof (cases "GetVolumeName (vmfr_Name u)")
  case (Ran n)
  with same_restore_keys [OF assms] have n: "n = volume_of v" by (simp add: GetVolumeName_Ran)
  note src = emits_bind [OF emits_volume_source [OF assms, of R E]]
  show ?thesis
    unfolding HotplugVolume_def Ran n
    by (auto simp: Let_def call_defs
        intro!: emits_return src emits_bind_call vm_change_plug
        simp flip: fresh_iff no_other_restore_iff split: option.split sum.split)
qed (simp add: HotplugVolume_def emits_return)

lemma emits_UnplugVolume:
  assumes "same_restore v u"
  shows "emits (lawful R v) (\<lambda>_. True) (UnplugVolume E u vm)"
proof (cases "GetVolumeName (vmfr_Name u)")
  case (Ran n)
  with same_restore_keys [OF assms] have "n = volume_of v" by (simp add: GetVolumeName_Ran)
  with same_restore_keys [OF assms] show ?thesis
    unfolding UnplugVolume_def Ran
    by (auto simp: call_defs intro!: emit_rules vm_change_unplug split: option.split sum.split)
qed (simp add: UnplugVolume_def emits_return)

lemma emits_getSSHPrivateKey: "emits (lawful R v) (\<lambda>_. True) (getSSHPrivateKey E R)"
  by (auto simp: getSSHPrivateKey_def call_defs intro!: emit_rules)

lemma emits_connect: "emits (lawful R v) (\<lambda>_. True) (ConnectSSH E ip k)"
  by (rule emits_ConnectSSH) simp

lemma emits_ip: "emits (lawful R v) (\<lambda>r. \<forall>ip. r = Inr ip \<longrightarrow> ip \<noteq> '''') (GetVMIPAddress E vmi)"
  by (rule emits_GetVMIPAddress) simp

lemma emits_command:
  "helper_command v command limit \<Longrightarrow> emits (lawful R v) (\<lambda>_. True) (RunCommand E c command limit)"
  by (rule emits_RunCommand) simp_all

lemmas ssh_steps = emits_bind [OF emits_ip] emits_bind [OF emits_getSSHPrivateKey]
  emits_bind [OF emits_connect] emits_bind [OF emits_command]

lemma emits_cleanup:
  assumes "same_restore v u"
  shows "emits (lawful R v) (\<lambda>_. True) (cleanup E R u)"
proof -
  note keys = same_restore_keys [OF assms]
  have ssh: "emits (lawful R v) (\<lambda>_. True) (ssh_cleanup E R u vmi)" for vmi
    unfolding ssh_cleanup_def
    by (auto simp: Let_def call_defs intro!: emit_rules ssh_steps helper_cleanup
        split: sum.split go.split)
  have unplug: "emits (lawful R v) (\<lambda>_. True) (unplug_cleanup E u)"
    unfolding unplug_cleanup_def
    by (auto simp: call_defs keys intro!: emit_rules emits_bind [OF emits_UnplugVolume [OF assms]]
        split: sum.split)
  have close: "emits (lawful R v) (\<lambda>_. True) (close_conn E conn)" for conn
    unfolding close_conn_def
    by (auto simp: call_defs intro!: emit_rules emits_call split: option.split)
  show ?thesis
    unfolding cleanup_def
    by (auto simp: call_defs keys
        intro!: emit_rules unplug emits_bind [OF ssh] emits_bind [OF unplug] emits_bind [OF close]
        split: sum.split go.split)
qed

subsection \<open>The handlers obey the law, over an API server that echoes status patches\<close>

text \<open>Each kind of status change keeps the invariant.\<close>

lemma phase_class_simps [simp]:
  "past_init RestorePhaseHotplugging" "past_init RestorePhaseWaitingForAttachment"
  "past_init RestorePhaseSSHConnecting" "past_init RestorePhaseRestoring"
  "past_init RestorePhaseVolumeReady" "past_init RestorePhaseCleanup"
  "past_init RestorePhaseSucceeded" "\<not> past_init RestorePhaseFailed"
  "terminal RestorePhaseSucceeded" "terminal RestorePhaseFailed"
  "\<not> terminal RestorePhaseUnset" "\<not> terminal RestorePhaseNew" "\<not> terminal RestorePhaseInit"
  "\<not> terminal RestorePhaseHotplugging" "\<not> terminal RestorePhaseWaitingForAttachment"
  "\<not> terminal RestorePhaseSSHConnecting" "\<not> terminal RestorePhaseRestoring"
  "\<not> terminal RestorePhaseVolumeReady" "\<not> terminal RestorePhaseCleanup"
  by (simp_all add: past_init_def terminal_def)

lemma retries_ok_update [simp]:
  "retries_ok (s\<lparr>Phase := q\<rparr>) = retries_ok s"
  "retries_ok (s\<lparr>StartTime := t\<rparr>) = retries_ok s"
  "retries_ok (s\<lparr>CompletionTime := t\<rparr>) = retries_ok s"
  "retries_ok (s\<lparr>Conditions := cs\<rparr>) = retries_ok s"
  "retries_ok (s\<lparr>ErrorMessage := msg\<rparr>) = retries_ok s"
  "retries_ok (s\<lparr>MountPath := msg\<rparr>) = retries_ok s"
  "retries_ok (s\<lparr>RestoredFilesCount := n\<rparr>) = retries_ok s"
  "retries_ok (s\<lparr>LastAttachmentCheckTime := t\<rparr>) = retries_ok s"
  "retries_ok (s\<lparr>LastSSHCheckTime := t\<rparr>) = retries_ok s"
  by (simp_all add: retries_ok_def)

lemma failure_reported_update [simp]:
  "failure_reported (s\<lparr>AttachmentRetries := n\<rparr>) = failure_reported s"
  "failure_reported (s\<lparr>SSHRetries := n\<rparr>) = failure_reported s"
  "failure_reported (s\<lparr>MountPath := msg\<rparr>) = failure_reported s"
  "failure_reported (s\<lparr>LastAttachmentCheckTime := t\<rparr>) = failure_reported s"
  "failure_reported (s\<lparr>LastSSHCheckTime := t\<rparr>) = failure_reported s"
  by (simp_all add: failure_reported_def)

lemmas status_ok_parts = status_ok_def times_ok_def mode_ok_def

lemma status_ok_move:
  assumes "status_ok spec s" and "phase_step (Phase s) q"
    and "q \<in> {RestorePhaseHotplugging, RestorePhaseWaitingForAttachment, RestorePhaseSSHConnecting,
              RestorePhaseRestoring, RestorePhaseSucceeded}"
    and "q = RestorePhaseHotplugging \<Longrightarrow> MountPath s \<noteq> ''''"
    and "started = (if Phase s = RestorePhaseUnset \<or> Phase s = RestorePhaseNew then Some now else StartTime s)"
    and "completed = (if q = RestorePhaseSucceeded then Some now' else CompletionTime s)"
  shows "status_ok spec (s\<lparr>Phase := q, StartTime := started, CompletionTime := completed\<rparr>)"
proof -
  consider "q = RestorePhaseHotplugging" | "q = RestorePhaseWaitingForAttachment"
    | "q = RestorePhaseSSHConnecting" | "q = RestorePhaseRestoring" | "q = RestorePhaseSucceeded"
    using assms(3) by auto
  then show ?thesis
    by cases (use assms in \<open>auto simp: status_ok_parts\<close>)+
qed

lemma status_ok_fail:
  assumes "status_ok spec s"
  shows "status_ok spec (failed_status v now now' err detail s)"
proof -
  from assms have "retries_ok s" by (simp add: status_ok_def)
  then show ?thesis
    using failed_status_reported [of v now now' err detail s]
    by (simp add: status_ok_def times_ok_def mode_ok_def) (simp add: failed_status_def)
qed

lemma bump_retry_fields [simp]:
  "Phase (bump_retry y s) = Phase s" "MountPath (bump_retry y s) = MountPath s"
  "StartTime (bump_retry y s) = StartTime s" "CompletionTime (bump_retry y s) = CompletionTime s"
  "ErrorMessage (bump_retry y s) = ErrorMessage s"
  "RestoredFilesCount (bump_retry y s) = RestoredFilesCount s"
  "failure_reported (bump_retry y s) = failure_reported s"
  by (simp_all add: bump_retry_def)

lemma status_ok_bump:
  assumes "status_ok spec s"
    and "retryType = ''attachment'' \<Longrightarrow> sint (AttachmentRetries s) < maxAttachmentWait"
    and "retryType = ''ssh'' \<Longrightarrow> sint (SSHRetries s) < maxSSHWait"
  shows "status_ok spec (bump_retry retryType s)"
proof -
  have "sint (AttachmentRetries s + 1) = sint (AttachmentRetries s) + 1" if "retryType = ''attachment''"
    using assms(2) that
    by (intro sint_succ_i32) (simp add: maxAttachmentWait_def int32_max_def)
  moreover have "sint (SSHRetries s + 1) = sint (SSHRetries s) + 1" if "retryType = ''ssh''"
    using assms(3) that by (intro sint_succ_i32) (simp add: maxSSHWait_def int32_max_def)
  moreover from assms(1) have "retries_ok s" by (simp add: status_ok_def)
  ultimately have "retries_ok (bump_retry retryType s)"
    using assms(2,3) by (auto simp: bump_retry_def retries_ok_def)
  with assms(1) show ?thesis
    by (simp add: status_ok_parts)
qed

lemma status_ok_reset:
  assumes "status_ok spec s"
  shows "status_ok spec (s\<lparr>AttachmentRetries := 0\<rparr>)"
    and "status_ok spec (s\<lparr>SSHRetries := 0\<rparr>)"
    and "status_ok spec (s\<lparr>LastAttachmentCheckTime := t\<rparr>)"
    and "status_ok spec (s\<lparr>LastSSHCheckTime := t\<rparr>)"
    and "m \<noteq> '''' \<Longrightarrow> status_ok spec (s\<lparr>MountPath := m\<rparr>)"
proof -
  have "retries_ok (s\<lparr>AttachmentRetries := 0\<rparr>)" and "retries_ok (s\<lparr>SSHRetries := 0\<rparr>)"
    using assms
    by (simp_all add: status_ok_def retries_ok_def maxAttachmentWait_def maxSSHWait_def)
  with assms show "status_ok spec (s\<lparr>AttachmentRetries := 0\<rparr>)"
    and "status_ok spec (s\<lparr>SSHRetries := 0\<rparr>)"
    by (simp_all add: status_ok_parts)
qed (use assms in \<open>simp_all add: status_ok_parts\<close>)

lemma status_ok_finish:
  assumes "status_ok spec s" and "Phase s = RestorePhaseRestoring"
  shows "SourcePath spec = '''' \<Longrightarrow> status_ok spec (s\<lparr>Phase := RestorePhaseVolumeReady\<rparr>)"
    and "SourcePath spec \<noteq> '''' \<Longrightarrow> 0 \<le> sint n \<Longrightarrow>
      status_ok spec (s\<lparr>RestoredFilesCount := Some n, Phase := RestorePhaseCleanup\<rparr>)"
  using assms by (simp_all add: status_ok_parts)

lemma derived_refl [simp]: "derived v v"
  by (simp add: derived_def sound_def)

lemma derived_same: "derived v u \<Longrightarrow> same_restore v u"
  by (simp add: derived_def sound_def)

lemma sound_echoes: "echoes n u \<Longrightarrow> sound v n \<Longrightarrow> sound v u"
  by (auto simp: sound_def echoes_def same_restore_def status_ok_agrees)

lemma derived_echoes: "echoes n u \<Longrightarrow> derived v n \<Longrightarrow> derived v u"
  using sound_echoes by (auto simp: derived_def echoes_status)

lemma sound_with_status:
  assumes "derived v u"
    and "status_ok (vmfr_Spec u) (vmfr_Status u) \<Longrightarrow> status_ok (vmfr_Spec u) (f (vmfr_Status u))"
  shows "sound v (with_status u f)"
  using assms by (auto simp: derived_def sound_def)

lemma derived_with_status:
  assumes "derived v u"
    and "status_ok (vmfr_Spec u) (vmfr_Status u) \<Longrightarrow> status_ok (vmfr_Spec u) (f (vmfr_Status u))"
    and "Phase (f (vmfr_Status u)) = Phase (vmfr_Status u)"
  shows "derived v (with_status u f)"
  using assms by (auto simp: derived_def sound_def)

lemma lawful_patch:
  assumes "derived v u"
    and "status_ok (vmfr_Spec u) (vmfr_Status u) \<Longrightarrow> status_ok (vmfr_Spec u) (f (vmfr_Status u))"
    and "Phase (f (vmfr_Status u)) = Phase (vmfr_Status u) \<or>
         phase_step (Phase (vmfr_Status u)) (Phase (f (vmfr_Status u)))"
  shows "lawful R v (ReqPatchStatus u (with_status u f))"
  using assms sound_with_status [of v u f] by (simp add: phase_move_def)

lemmas derived_keys = same_restore_keys [OF derived_same]

definition live :: "RestorePhase \<Rightarrow> bool" where
  "live p \<longleftrightarrow> p \<noteq> RestorePhaseVolumeReady \<and> p \<noteq> RestorePhaseSucceeded \<and> p \<noteq> RestorePhaseFailed"

locale status_api =
  fixes E :: "'w env"
  assumes patch_echo: "patch_vmfr_status E old new w = (Inr v, w') \<Longrightarrow> echoes new v"
begin

text \<open>The rule for a status patch: the continuation gets an answer that echoes the patched
  object.\<close>

lemma emits_PatchStatus:
  assumes "\<phi> (ReqPatchStatus old new)"
    and "\<And>err. emits \<phi> \<psi> (f (Inl err))"
    and "\<And>v'. echoes new v' \<Longrightarrow> emits \<phi> \<psi> (f (Inr v'))"
  shows "emits \<phi> \<psi> (State_Monad.bind (PatchStatus E old new) f)"
  unfolding PatchStatus_def
proof (rule emits_bind_call_law [where \<chi> = "\<lambda>r. \<forall>v. r = Inr v \<longrightarrow> echoes new v"])
  fix w
  show "\<forall>v. fst (patch_vmfr_status E old new w) = Inr v \<longrightarrow> echoes new v"
    by (metis patch_echo prod.collapse)
next
  fix r :: "goerror + vmfr"
  assume "\<forall>v. r = Inr v \<longrightarrow> echoes new v"
  with assms(2,3) show "emits \<phi> \<psi> (f r)" by (cases r) auto
qed (fact assms(1))

lemma emits_transition:
  assumes "derived v u" and "phase_step (Phase (vmfr_Status u)) q"
    and "q \<in> {RestorePhaseHotplugging, RestorePhaseWaitingForAttachment, RestorePhaseSSHConnecting,
              RestorePhaseRestoring, RestorePhaseSucceeded}"
    and "q = RestorePhaseHotplugging \<Longrightarrow> MountPath (vmfr_Status u) \<noteq> ''''"
  shows "emits (lawful R v) (\<lambda>_. True) (transitionPhase E u q msg)"
proof -
  let ?s = "vmfr_Status u"
  have "q \<noteq> RestorePhaseFailed" using assms(3) by auto
  moreover have "lawful R v (ReqPatchStatus u
      (with_status u (\<lambda>s. s\<lparr>Phase := q, StartTime := started, CompletionTime := completed\<rparr>)))"
    if "started = (if Phase ?s = RestorePhaseUnset \<or> Phase ?s = RestorePhaseNew then Some now else StartTime ?s)"
      and "completed = (if q = RestorePhaseSucceeded then Some now' else CompletionTime ?s)"
    for now now' started completed
    using assms(2) status_ok_move [OF _ assms(2) assms(3) assms(4) that]
    by (intro lawful_patch assms(1)) simp_all
  ultimately show ?thesis
    unfolding transitionPhase_def Let_def call_defs
    by (auto simp del: lawful.simps(3) intro!: emit_rules emits_PatchStatus split: if_split)
qed

lemma emits_failRestore:
  assumes "derived v u" and "live (Phase (vmfr_Status u))"
  shows "emits (lawful R v) (\<lambda>_. True) (failRestore E R u err detail)"
proof -
  have patch: "lawful R v (ReqPatchStatus u (with_status u (failed_status u now now' err detail)))" for now now'
    using assms(2) by (intro lawful_patch assms(1) status_ok_fail) (simp_all add: failed_status_def live_def)
  have echo: "same_restore v v'" if "echoes (with_status u f) v'" for v' f
    using echoes_same_restore [OF that] derived_same [OF assms(1)] by simp
  show ?thesis unfolding failRestore_def call_defs
    by (intro emits_bind_call emits_PatchStatus patch lawful_reads)
      (auto intro!: emit_rules emits_bind [OF emits_cleanup] dest: echo)
qed

lemma emits_incrementRetry:
  assumes "derived v u"
    and "retryType = ''attachment'' \<Longrightarrow> sint (AttachmentRetries (vmfr_Status u)) < maxAttachmentWait"
    and "retryType = ''ssh'' \<Longrightarrow> sint (SSHRetries (vmfr_Status u)) < maxSSHWait"
  shows "emits (lawful R v) (\<lambda>_. True) (incrementRetryAndRequeue E u retryType d)"
  using assms unfolding incrementRetryAndRequeue_def
  by (auto simp del: lawful.simps(3)
      intro!: emit_rules emits_PatchStatus lawful_patch status_ok_bump)

lemma emits_reset_counter:
  assumes "derived v u" and "\<And>s. Phase (reset s) = Phase s"
    and "\<And>s. status_ok (vmfr_Spec u) s \<Longrightarrow> status_ok (vmfr_Spec u) (reset s)"
  shows "emits (lawful R v) (\<lambda>r. derived v r \<and> Phase (vmfr_Status r) = Phase (vmfr_Status u))
    (reset_counter E count reset u)"
proof -
  have "derived v (with_status u reset)" using assms by (intro derived_with_status)
  with assms show ?thesis unfolding reset_counter_def
    by (auto simp: echoes_status simp del: lawful.simps(3)
        intro!: emit_rules emits_PatchStatus lawful_patch dest: derived_echoes [where v = v])
qed

lemma emits_rate_limit: "emits (lawful R v) (\<lambda>_. True) (rate_limit E t)"
  by (auto simp: rate_limit_def call_defs intro!: emit_rules split: option.split)

lemma emits_init_accept:
  assumes "derived v u"
    and "Phase (vmfr_Status u) \<in> {RestorePhaseUnset, RestorePhaseNew, RestorePhaseInit}"
  shows "emits (lawful R v) (\<lambda>_. True) (init_accept E u vmi)"
proof -
  let ?u = "with_status u (\<lambda>s. s\<lparr>MountPath := getMountPath vmi (getSourceName u)\<rparr>)"
  have u: "derived v ?u" using assms(1) by (intro derived_with_status status_ok_reset) simp_all
  have "emits (lawful R v) (\<lambda>_. True) (transitionPhase E u' RestorePhaseHotplugging msg)"
    if "echoes ?u u'" for u' msg
    using assms(2) derived_echoes [OF that u]
    by (intro emits_transition) (auto simp: echoes_status [OF that])
  with assms(1) show ?thesis
    unfolding init_accept_def Let_def
    by (intro emits_PatchStatus lawful_patch) (auto intro!: emit_rules status_ok_reset)
qed

lemma emits_init:
  assumes "derived v u"
    and "Phase (vmfr_Status u) \<in> {RestorePhaseUnset, RestorePhaseNew, RestorePhaseInit}"
  shows "emits (lawful R v) (\<lambda>_. True) (handleInitPhase E R u)"
proof -
  have "live (Phase (vmfr_Status u))" using assms(2) by (auto simp: live_def)
  note fail = emits_failRestore [OF assms(1) this]
  have "emits (lawful R v) (\<lambda>_. True) (init_source E R u vmi)" for vmi
    unfolding init_source_def Let_def call_defs
    by (auto intro!: emit_rules fail emits_init_accept [OF assms] split: option.split sum.split)
  then show ?thesis
    unfolding handleInitPhase_def Let_def call_defs
    by (auto simp: derived_keys [OF assms(1)] intro!: emit_rules fail split: sum.split)
qed

lemma emits_hotplugging:
  assumes "derived v u" and "Phase (vmfr_Status u) = RestorePhaseHotplugging"
  shows "emits (lawful R v) (\<lambda>_. True) (handleHotpluggingPhase E R u)"
proof -
  have "live (Phase (vmfr_Status u))" using assms(2) by (simp add: live_def)
  note fail = emits_failRestore [OF assms(1) this]
    and plug = emits_bind [OF emits_HotplugVolume [OF derived_same [OF assms(1)]]]
  show ?thesis
    unfolding handleHotpluggingPhase_def call_defs
    using assms
    by (auto simp: derived_keys [OF assms(1)]
        intro!: emit_rules fail emits_transition plug split: sum.split go.split option.split)
qed

end

end
