(* ===== verification/Lawful.thy ===== *)
theory Lawful
  imports Contracts
begin

text \<open>
  Every request of the reconciler is \<open>lawful\<close>: the remaining handlers and \<open>Reconcile\<close> itself, over
  an API server that echoes status patches (\<open>status_api\<close>).
\<close>

text \<open>\<open>Get\<close> of a restore resource answers the resource of that name.\<close>

locale restore_api = status_api E for E :: "'w env" +
  assumes get_named: "get_vmfr E k w = (Inr v, w') \<Longrightarrow> vmfr_Namespace v = fst k \<and> vmfr_Name v = snd k"

context status_api
begin

lemma emits_attachment_check:
  assumes "derived v u" and "Phase (vmfr_Status u) = RestorePhaseWaitingForAttachment"
    and "sint (AttachmentRetries (vmfr_Status u)) < maxAttachmentWait"
  shows "emits (lawful R v) (\<lambda>_. True) (attachment_check E R u n vs)"
proof -
  have "live (Phase (vmfr_Status u))" using assms(2) by (simp add: live_def)
  note fail = emits_failRestore [OF assms(1) this]
    and retry = emits_incrementRetry [OF assms(1), of "''attachment''"]
    and reset = emits_reset_counter [OF assms(1), of "\<lambda>s. s\<lparr>AttachmentRetries := 0\<rparr>"]
  show ?thesis
    unfolding attachment_check_def
    using assms(2,3)
    by (auto intro!: fail retry emits_bind [OF reset] emits_transition status_ok_reset split: option.split)
qed

lemma emits_waiting:
  assumes "derived v u" and "Phase (vmfr_Status u) = RestorePhaseWaitingForAttachment"
  shows "emits (lawful R v) (\<lambda>_. True) (handleWaitingForAttachmentPhase E R u)"
proof (cases "maxAttachmentWait \<le> sint (AttachmentRetries (vmfr_Status u))")
  case True
  then show ?thesis
    unfolding handleWaitingForAttachmentPhase_def
    using assms by (auto simp: live_def intro!: emits_failRestore)
next
  case False
  have check: "emits (lawful R v) (\<lambda>_. True) (attachment_check E R u' n vs)"
    if "echoes (with_status u (\<lambda>s. s\<lparr>LastAttachmentCheckTime := Some now\<rparr>)) u'" for u' now n vs
    using assms False
    by (intro emits_attachment_check derived_echoes [OF that] derived_with_status status_ok_reset)
      (auto simp: echoes_status [OF that])
  have fail: "emits (lawful R v) (\<lambda>_. True) (failRestore E R u err detail)" for err detail
    using assms by (intro emits_failRestore) (simp_all add: live_def)
  from False show ?thesis
    unfolding handleWaitingForAttachmentPhase_def call_defs
    using assms
    by (auto simp: derived_keys [OF assms(1)] simp del: lawful.simps(3)
        intro!: emit_rules emits_bind [OF emits_rate_limit] emits_PatchStatus lawful_patch fail check
          status_ok_reset
        split: option.split sum.split go.split)
qed

lemma emits_ssh_attempt:
  assumes "derived v u" and "Phase (vmfr_Status u) = RestorePhaseSSHConnecting"
    and "sint (SSHRetries (vmfr_Status u)) < maxSSHWait"
  shows "emits (lawful R v) (\<lambda>_. True) (ssh_attempt E u ip k)"
proof -
  note retry = emits_incrementRetry [OF assms(1), of "''ssh''"]
    and reset = emits_reset_counter [OF assms(1), of "\<lambda>s. s\<lparr>SSHRetries := 0\<rparr>"]
  have move: "emits (lawful R v) (\<lambda>_. True) (transitionPhase E u' RestorePhaseRestoring msg)"
    if "derived v u' \<and> Phase (vmfr_Status u') = Phase (vmfr_Status u)" for u' msg
    using that assms(2) by (intro emits_transition) auto
  show ?thesis
    unfolding ssh_attempt_def call_defs
    using assms(3)
    by (auto intro!: emits_bind [OF emits_connect] retry emits_bind [OF reset] emits_bind [OF move]
        emit_rules status_ok_reset split: sum.split)
qed

lemma emits_connecting:
  assumes "derived v u" and "Phase (vmfr_Status u) = RestorePhaseSSHConnecting"
  shows "emits (lawful R v) (\<lambda>_. True) (handleSSHConnectingPhase E R u)"
proof (cases "maxSSHWait \<le> sint (SSHRetries (vmfr_Status u))")
  case True
  then show ?thesis
    unfolding handleSSHConnectingPhase_def
    using assms by (auto simp: live_def intro!: emits_failRestore)
next
  case False
  let ?u = "\<lambda>now. with_status u (\<lambda>s. s\<lparr>LastSSHCheckTime := Some now\<rparr>)"
  have echo: "derived v u'" "Phase (vmfr_Status u') = RestorePhaseSSHConnecting"
    "sint (SSHRetries (vmfr_Status u')) < maxSSHWait" if "echoes (?u now) u'" for u' now
    using assms False
    by (auto simp: echoes_status [OF that]
        intro!: derived_echoes [OF that] derived_with_status status_ok_reset)
  have key: "target_key u' = target_key v" if "echoes (?u now) u'" for u' now
    using echo(1) [OF that] by (rule derived_keys)
  have attempt: "emits (lawful R v) (\<lambda>_. True) (ssh_attempt E u' ip k)"
    and fail: "emits (lawful R v) (\<lambda>_. True) (failRestore E R u' err detail)"
    if "echoes (?u now) u'" for u' now ip k err detail
    using echo [OF that] by (auto intro!: emits_ssh_attempt emits_failRestore simp: live_def)
  from False show ?thesis
    unfolding handleSSHConnectingPhase_def call_defs
    using assms
    by (auto simp del: lawful.simps(3)
        intro!: key emit_rules ssh_steps emits_bind [OF emits_rate_limit] emits_PatchStatus lawful_patch
          fail attempt status_ok_reset
        split: option.split sum.split)
qed

lemma emits_restore_finish:
  assumes "derived v u" and "Phase (vmfr_Status u) = RestorePhaseRestoring"
  shows "emits (lawful R v) (\<lambda>_. True) (restore_finish E u out)"
  using assms unfolding restore_finish_def Let_def call_defs
  by (auto simp del: lawful.simps(3)
      intro!: emit_rules emits_PatchStatus lawful_patch status_ok_finish)

lemma emits_restoring:
  assumes "derived v u" and "Phase (vmfr_Status u) = RestorePhaseRestoring"
  shows "emits (lawful R v) (\<lambda>_. True) (handleRestoringPhase E R u)"
proof -
  have "live (Phase (vmfr_Status u))" using assms(2) by (simp add: live_def)
  note fail = emits_failRestore [OF assms(1) this]
  have run: "emits (lawful R v) (\<lambda>_. True) (restore_run E R u vmi c)" for vmi c
  proof (cases "GetVolumeName (vmfr_Name u)")
    case (Ran n)
    with derived_keys [OF assms(1)] have n: "n = volume_of v" by (simp add: GetVolumeName_Ran)
    show ?thesis
      unfolding restore_run_def Ran n call_defs
      by (auto simp: derived_keys [OF assms(1)]
          intro!: emit_rules emits_bind [OF emits_command] helper_restore fail
            emits_restore_finish [OF assms]
          split: go.split option.split)
  qed (simp add: restore_run_def emits_return)
  show ?thesis
    unfolding handleRestoringPhase_def call_defs
    by (auto simp: derived_keys [OF assms(1)]
        intro!: emit_rules ssh_steps fail emits_bind [OF run] split: sum.split)
qed

lemma emits_cleanup_phase:
  assumes "derived v u" and "Phase (vmfr_Status u) = RestorePhaseCleanup"
  shows "emits (lawful R v) (\<lambda>_. True) (handleCleanupPhase E R u)"
proof -
  have "live (Phase (vmfr_Status u))" using assms(2) by (simp add: live_def)
  note fail = emits_failRestore [OF assms(1) this]
  have succeed: "emits (lawful R v) (\<lambda>_. True) (transitionPhase E u RestorePhaseSucceeded msg)" for msg
    using assms by (intro emits_transition) auto
  show ?thesis
    unfolding handleCleanupPhase_def cleanup_done_def call_defs
    by (auto simp: derived_keys [OF assms(1)]
        intro!: emit_rules fail succeed emits_bind [OF emits_UnplugVolume [OF derived_same [OF assms(1)]]]
        split: sum.split go.split option.split)
qed

text \<open>Whatever the phase of the resource that was read, the dispatched handler is lawful.\<close>

lemma emits_handler:
  assumes "getPhaseHandler (Phase (vmfr_Status v)) = Some h"
  shows "emits (lawful R v) (\<lambda>_. True) (h E R v)"
  using assms
  by (auto simp: getPhaseHandler_def handleVolumeReadyPhase_def split: RestorePhase.splits
      intro!: emits_init emits_hotplugging emits_waiting emits_connecting emits_restoring
        emits_cleanup_phase emits_return)

end

context restore_api
begin

lemma emits_GetVMFR:
  assumes "\<phi> (ReqGetVMFR k)" and "\<And>err. emits \<phi> \<psi> (f (Inl err))"
    and "\<And>v. vmfr_Namespace v = fst k \<and> vmfr_Name v = snd k \<Longrightarrow> emits \<phi> \<psi> (f (Inr v))"
  shows "emits \<phi> \<psi> (State_Monad.bind (GetVMFR E k) f)"
  unfolding GetVMFR_def
proof (rule emits_bind_call_law [where \<chi> = "\<lambda>r. \<forall>v. r = Inr v \<longrightarrow> vmfr_Namespace v = fst k \<and> vmfr_Name v = snd k"])
  fix w
  show "\<forall>v. fst (get_vmfr E k w) = Inr v \<longrightarrow> vmfr_Namespace v = fst k \<and> vmfr_Name v = snd k"
    by (metis get_named prod.collapse)
next
  fix r :: "goerror + vmfr"
  assume "\<forall>v. r = Inr v \<longrightarrow> vmfr_Namespace v = fst k \<and> vmfr_Name v = snd k"
  with assms(2,3) show "emits \<phi> \<psi> (f r)" by (cases r) auto
qed (fact assms(1))

lemma emits_remove_finalizer_loop:
  assumes "vmfr_Namespace v = fst k \<and> vmfr_Name v = snd k" and "vmfr_Namespace u = fst k \<and> vmfr_Name u = snd k"
  shows "emits (lawful R v) (\<lambda>_. True) (remove_finalizer_loop E k n u)"
  using assms(2)
proof (induction n arbitrary: u)
  case 0
  then show ?case by (simp add: emits_return)
next
  case (Suc n)
  have upd: "emits (lawful R v) (\<lambda>_. True) (State_Monad.bind
      (UpdateVMFR E (u'\<lparr>vmfr_Finalizers := fs\<rparr>)) (\<lambda>r. case r of
         Inl err \<Rightarrow> if n = 0 then State_Monad.return (fail_with err)
                   else remove_finalizer_loop E k n (u'\<lparr>vmfr_Finalizers := fs\<rparr>)
       | Inr _ \<Rightarrow> State_Monad.return done_ok))" if "vmfr_Namespace u' = fst k \<and> vmfr_Name u' = snd k" for u' fs
    using that assms(1) Suc.IH unfolding UpdateVMFR_def
    by (auto intro!: emits_bind_call emits_return split: sum.split)
  show ?case
    using Suc.prems assms(1)
    by (auto simp: Let_def intro!: emits_GetVMFR upd Suc.IH emit_rules)
qed

lemma emits_reconcile_found:
  assumes "vmfr_Namespace v = fst k \<and> vmfr_Name v = snd k"
  shows "emits (lawful R v) (\<lambda>_. True) (reconcile_found E R k v)"
proof -
  have lv: "live (Phase (vmfr_Status v))" if "getPhaseHandler (Phase (vmfr_Status v))
      = (None :: ('w env \<Rightarrow> reconciler \<Rightarrow> vmfr \<Rightarrow> ('w, outcome) cmd) option)"
    "Phase (vmfr_Status v) \<noteq> RestorePhaseSucceeded" "Phase (vmfr_Status v) \<noteq> RestorePhaseFailed"
    using that by (auto simp: live_def getPhaseHandler_def split: RestorePhase.splits)
  note rules = emit_rules emits_bind [OF emits_cleanup] emits_failRestore lv
    emits_remove_finalizer_loop
  show ?thesis
  proof (cases "getPhaseHandler (Phase (vmfr_Status v))
      :: ('w env \<Rightarrow> reconciler \<Rightarrow> vmfr \<Rightarrow> ('w, outcome) cmd) option")
    case None
    with assms show ?thesis
      unfolding reconcile_found_def UpdateVMFR_def by (auto intro!: rules split: go.split)
  next
    case (Some h)
    with assms emits_handler [OF Some, of R] show ?thesis
      unfolding reconcile_found_def UpdateVMFR_def by (auto intro!: rules split: go.split)
  qed
qed

text \<open>All requests of one reconciliation: the read of the resource, then lawful requests on behalf of
  the resource that was read.\<close>

lemma requests_Reconcile:
  assumes "q \<in> set (requests (Reconcile E R k) w)"
  shows "q = ReqGetVMFR k \<or> (\<exists>v. fst (get_vmfr E k w) = Inr v \<and> lawful R v q)"
proof (cases "fst (get_vmfr E k w)")
  case (Inl err)
  with assms show ?thesis by (simp add: requests_def Reconcile_def GetVMFR_def)
next
  case (Inr v)
  then have "vmfr_Namespace v = fst k \<and> vmfr_Name v = snd k" by (metis get_named prod.collapse)
  note body = emits_reconcile_found [OF this, of R]
  let ?s = "\<lparr>world = snd (get_vmfr E k w), trace = [ReqGetVMFR k]\<rparr>"
  from body obtain qs where "trace (snd (run_state (reconcile_found E R k v) ?s)) = trace ?s @ qs"
    and "list_all (lawful R v) qs"
    unfolding emits_def by blast
  with assms Inr show ?thesis
    by (auto simp: requests_def Reconcile_def GetVMFR_def list_all_iff)
qed

end

end
