(* ===== verification/Lifecycle.thy ===== *)
theory Lifecycle
  imports Lawful
begin

text \<open>
  The life of a stored resource, over any number of reconciliations.

  \<open>stored\<close> collects the resources the API server can hold under a key: a resource as a user creates
  it (its status is a subresource, so it starts empty), then any sequence of status patches sent by
  reconciliations of the resource that was last stored, and of changes of its metadata. A
  reconciliation may stop after any prefix of its patches (each patch is one step), so a crash
  between two patches is covered. The specification of a resource is taken as fixed, and the
  controller as the only writer of its status.
\<close>

definition empty_status :: VirtualMachineFileRestoreStatus where
  "empty_status = \<lparr>Phase = RestorePhaseUnset, Conditions = [], StartTime = None, CompletionTime = None,
     RestoredFilesCount = None, ErrorMessage = '''', MountPath = '''', AttachmentRetries = 0,
     SSHRetries = 0, LastAttachmentCheckTime = None, LastSSHCheckTime = None\<rparr>"

inductive stored :: "'w env \<Rightarrow> reconciler \<Rightarrow> key \<Rightarrow> vmfr \<Rightarrow> bool"
  for E :: "'w env" and R :: reconciler and k :: key where
  created: "vmfr_Namespace v = fst k \<Longrightarrow> vmfr_Name v = snd k \<Longrightarrow> vmfr_Status v = empty_status \<Longrightarrow>
     stored E R k v"
| patched: "stored E R k v \<Longrightarrow> fst (get_vmfr E k w) = Inr v \<Longrightarrow>
     ReqPatchStatus b n \<in> set (requests (Reconcile E R k) w) \<Longrightarrow> echoes n u \<Longrightarrow> stored E R k u"
| touched: "stored E R k v \<Longrightarrow> same_restore v u \<Longrightarrow> vmfr_Status u = vmfr_Status v \<Longrightarrow> stored E R k u"

text \<open>What a machine has besides one volume name, and its volumes that look like restore volumes.\<close>

definition others :: "string \<Rightarrow> VMTemplate \<Rightarrow> Volume list \<times> Disk list" where
  "others n t = (filter (\<lambda>vol. vol_Name vol \<noteq> n) (tmpl_Volumes t), filter (\<lambda>d. disk_Name d \<noteq> n) (tmpl_Disks t))"

definition restore_volumes :: "VMTemplate \<Rightarrow> Volume list" where
  "restore_volumes t = filter (\<lambda>vol. HasSuffix (vol_Name vol) ''-restore'') (tmpl_Volumes t)"

lemma empty_status_ok: "status_ok spec empty_status"
  by (simp add: empty_status_def status_ok_defs maxAttachmentWait_def maxSSHWait_def past_init_def)

subsection \<open>The machine\<close>

lemma unplug_plug: "fresh n t \<Longrightarrow> unplug n (plug n src t) = t"
  by (auto simp: fresh_def unplug_def plug_def restore_volume_def restore_disk_def filter_id_conv)

lemma volume_source_no_patch: "emits (\<lambda>q. vm_patches [q] = []) (\<lambda>_. True) (volume_source E v n)"
proof -
  have mode: "emits (\<lambda>q. vm_patches [q] = []) (\<lambda>_. True) (getSnapshotSourceVolumeMode E s ns)" for s ns
    by (auto simp: getSnapshotSourceVolumeMode_def call_defs intro!: emit_rules
        split: option.split sum.split list.split)
  show ?thesis
    by (auto simp: volume_source_def snapshot_volume_source_def call_defs Let_def
        intro!: emit_rules emits_bind [OF mode] split: option.split sum.splits)
qed

lemma HotplugVolume_patch:
  assumes "ReqPatchVM b m \<in> set (requests (HotplugVolume E v vm) w)"
  shows "b = vm \<and> vmfr_Name v \<noteq> '''' \<and> (\<exists>t src. vm_Template vm = Some t \<and> fresh (volume_of v) t \<and>
    m = vm\<lparr>vm_Template := Some (plug (volume_of v) src t)\<rparr>)"
proof -
  define \<phi> where "\<phi> q \<longleftrightarrow> (\<forall>b m. q = ReqPatchVM b m \<longrightarrow> b = vm \<and> vmfr_Name v \<noteq> '''' \<and>
    (\<exists>t src. vm_Template vm = Some t \<and> fresh (volume_of v) t \<and>
      m = vm\<lparr>vm_Template := Some (plug (volume_of v) src t)\<rparr>))" for q
  have src: "emits \<phi> (\<lambda>_. True) (volume_source E v n)" for n
    by (rule emits_weaken [OF volume_source_no_patch]) (auto simp: \<phi>_def)
  have "emits \<phi> (\<lambda>_. True) (HotplugVolume E v vm)"
    unfolding HotplugVolume_def
    by (auto simp: Let_def GetVolumeName_Ran PatchVM_def \<phi>_def simp flip: fresh_iff
        intro!: emits_return emits_bind [OF src] emits_bind_call
        split: option.split sum.split go.split) (rule exI, rule refl)+
  from emits_requests [OF this assms] show ?thesis by (simp add: \<phi>_def)
qed

lemma UnplugVolume_restores:
  assumes "vmfr_Name v \<noteq> ''''" and "vm_Template vm = Some t" and "fresh (volume_of v) t"
  shows "hd (requests (UnplugVolume E v (vm\<lparr>vm_Template := Some (plug (volume_of v) src t)\<rparr>)) w) =
    ReqPatchVM (vm\<lparr>vm_Template := Some (plug (volume_of v) src t)\<rparr>) vm"
proof -
  from assms(1) have "GetVolumeName (vmfr_Name v) = Ran (volume_of v)" by (simp add: GetVolumeName_Ran)
  moreover from assms(2) have "vm\<lparr>vm_Template := Some t\<rparr> = vm" by (cases vm) simp
  ultimately show ?thesis
    using assms(3) unfolding UnplugVolume_def
    by (auto simp: requests_def call_defs unplug_plug split: sum.split)
qed

text \<open>A change of the machine leaves everything else as it was, and a machine to which the restore
  volume is added has no other restore volume.\<close>

lemma others_plug [simp]: "others n (plug n src t) = others n t"
  by (simp add: others_def plug_def restore_volume_def restore_disk_def)

lemma others_unplug [simp]: "others n (unplug n t) = others n t"
  by (simp add: others_def unplug_def)

lemma restore_volumes_plug:
  assumes "fresh (volume_of v) t" and "no_other_restore (volume_of v) t"
  shows "restore_volumes (plug (volume_of v) src t) = [restore_volume (volume_of v) src]"
  using assms
  by (auto simp: restore_volumes_def plug_def restore_volume_def fresh_def no_other_restore_def
      volume_of_def filter_empty_conv)

lemma vm_change_footprint:
  assumes "vm_change (volume_of v) b m"
  shows "vm_Name m = vm_Name b \<and> vm_Namespace m = vm_Namespace b \<and>
    (\<exists>t t'. vm_Template b = Some t \<and> vm_Template m = Some t' \<and>
       others (volume_of v) t' = others (volume_of v) t \<and>
       (volume_of v \<in> vol_Name ` set (tmpl_Volumes t') \<longrightarrow>
          (\<exists>claim. restore_volumes t' = [restore_volume (volume_of v) (PersistentVolumeClaim claim True)])))"
proof -
  have "volume_of v \<notin> vol_Name ` set (tmpl_Volumes (unplug (volume_of v) t))" for t
    by (auto simp: unplug_def)
  with assms show ?thesis
    unfolding vm_change_def by (auto simp: restore_volumes_plug)
qed

context restore_api
begin

lemma vm_patch_change:
  assumes "fst (get_vmfr E k w) = Inr v" and "ReqPatchVM b m \<in> set (requests (Reconcile E R k) w)"
  shows "vm_change (volume_of v) b m"
  using requests_Reconcile [OF assms(2)] assms(1) by auto

lemma patch_lawful:
  assumes "fst (get_vmfr E k w) = Inr v" and "ReqPatchStatus b n \<in> set (requests (Reconcile E R k) w)"
  shows "derived v b \<and> sound v n \<and> phase_move b n"
  using requests_Reconcile [OF assms(2)] assms(1) by auto

lemma stored_status_ok:
  assumes "stored E R k v"
  shows "status_ok (vmfr_Spec v) (vmfr_Status v)"
  using assms
proof (induction rule: stored.induct)
  case (created v)
  then show ?case by (simp add: empty_status_ok)
next
  case (patched v w b n u)
  from patch_lawful [OF patched.hyps(2,3)] have "sound v n" by blast
  with patched.hyps(4) have "sound v u" by (rule sound_echoes)
  with patched.IH show ?case by (simp add: sound_def)
next
  case (touched v u)
  then show ?case by (simp add: same_restore_def)
qed

lemma stored_key:
  assumes "stored E R k v"
  shows "vmfr_Namespace v = fst k \<and> vmfr_Name v = snd k"
  using assms
proof (induction rule: stored.induct)
  case (patched v w b n u)
  from patch_lawful [OF patched.hyps(2,3)] have "same_restore v n" by (simp add: sound_def)
  with patched.IH patched.hyps(4) show ?case by (simp add: echoes_def same_restore_def)
qed (simp_all add: same_restore_def)

lemma patch_phase:
  assumes "fst (get_vmfr E k w) = Inr v" and "ReqPatchStatus b n \<in> set (requests (Reconcile E R k) w)"
  shows "Phase (vmfr_Status n) = Phase (vmfr_Status v) \<or>
    phase_step (Phase (vmfr_Status v)) (Phase (vmfr_Status n))"
  using patch_lawful [OF assms] by (auto simp: derived_def phase_move_def)

end

end
