(* ===== verification/Totality.thy ===== *)
theory Totality
  imports Lifecycle
begin

text \<open>
  The code panics in three ways: \<open>GetVolumeName\<close> and the two command builders refuse an empty
  argument, and a virtual machine without a template is a nil pointer. None of them is reached by a
  reconciliation of a stored resource: its name is not empty, its status satisfies the invariant,
  and the API server answers machines with a template (the field is required by KubeVirt's schema).
\<close>

definition returns :: "'a go \<Rightarrow> bool" where
  "returns r \<longleftrightarrow> (\<exists>x. r = Ran x)"

text \<open>\<open>returning m\<close>: from every state, \<open>m\<close> returns instead of panicking.\<close>

abbreviation returning :: "(('w, 'q) sys, 'a go) state \<Rightarrow> bool" where
  "returning \<equiv> emits (\<lambda>_. True) returns"

locale cluster_api = restore_api E for E :: "'w env" +
  assumes vm_template: "get_vm E k w = (Inr vm, w') \<Longrightarrow> vm_Template vm \<noteq> None"

lemma returns_simps [simp]:
  "returns (Ran x)" "\<not> returns (Panicked p)" "returns done_ok" "returns requeue_now"
  "returns (requeue_after d)" "returns (fail_with e)"
  by (simp_all add: returns_def done_ok_def requeue_now_def requeue_after_def fail_with_def)

lemma returns_cases: "returns r \<Longrightarrow> (\<And>x. r = Ran x \<Longrightarrow> P) \<Longrightarrow> P"
  by (auto simp: returns_def)

lemma GetVolumeName_named [simp]: "n \<noteq> '''' \<Longrightarrow> GetVolumeName n = Ran (n @ ''-restore'')"
  by (simp add: GetVolumeName_def)

lemma silent_connect: "emits (\<lambda>_. True) (\<lambda>_. True) (ConnectSSH E ip k)"
  by (rule emits_ConnectSSH) simp

lemma silent_command: "emits (\<lambda>_. True) (\<lambda>_. True) (RunCommand E c command limit)"
  by (rule emits_RunCommand) simp_all

lemma silent_ip: "emits (\<lambda>_. True) (\<lambda>_. True) (GetVMIPAddress E vmi)"
  by (rule emits_weaken [OF emits_GetVMIPAddress]) simp_all

lemma silent_key: "emits (\<lambda>_. True) (\<lambda>_. True) (getSSHPrivateKey E R)"
  by (auto simp: getSSHPrivateKey_def call_defs intro!: emit_rules)

lemma silent_close: "emits (\<lambda>_. True) (\<lambda>_. True) (close_conn E conn)"
  by (auto simp: close_conn_def call_defs intro!: emit_rules emits_call split: option.split)

lemma silent_source: "emits (\<lambda>_. True) (\<lambda>_. True) (volume_source E u (vmfr_Name u @ ''-restore''))"
  by (rule emits_weaken [OF emits_volume_source [OF same_restore_refl, unfolded volume_of_def]]) simp_all

lemmas silent_steps = emits_bind [OF silent_connect] emits_bind [OF silent_command]
  emits_bind [OF silent_ip] emits_bind [OF silent_key] emits_bind [OF silent_close]
  emits_bind [OF silent_source]

lemma returning_transition: "returning (transitionPhase E u q msg)"
  unfolding transitionPhase_def Let_def call_defs PatchStatus_def
  by (auto intro!: emit_rules split: sum.split)

lemma returning_incrementRetry: "returning (incrementRetryAndRequeue E u ty d)"
  unfolding incrementRetryAndRequeue_def PatchStatus_def
  by (auto intro!: emit_rules split: sum.split)

lemma silent_reset: "emits (\<lambda>_. True) (\<lambda>_. True) (reset_counter E count reset u)"
  unfolding reset_counter_def PatchStatus_def by (auto intro!: emit_rules split: sum.split)

lemma silent_rate_limit: "emits (\<lambda>_. True) (\<lambda>_. True) (rate_limit E t)"
  by (auto simp: rate_limit_def call_defs intro!: emit_rules split: option.split)

lemma returning_restore_finish: "returning (restore_finish E u out)"
  unfolding restore_finish_def Let_def call_defs PatchStatus_def
  by (auto intro!: emit_rules split: sum.split)

lemma returning_HotplugVolume:
  assumes "vmfr_Name u \<noteq> ''''" and "vm_Template vm \<noteq> None"
  shows "returning (HotplugVolume E u vm)"
  using assms unfolding HotplugVolume_def
  by (auto simp: Let_def call_defs intro!: emit_rules silent_steps split: option.split sum.split)

lemma returning_UnplugVolume:
  assumes "vmfr_Name u \<noteq> ''''" and "vm_Template vm \<noteq> None"
  shows "returning (UnplugVolume E u vm)"
  using assms unfolding UnplugVolume_def
  by (auto simp: call_defs intro!: emit_rules split: option.split sum.split)

lemma returning_ssh_cleanup: "returning (ssh_cleanup E R u vmi)"
  unfolding ssh_cleanup_def BuildCleanupCommand_def
  by (auto simp: Let_def call_defs intro!: emit_rules silent_steps split: sum.split)

lemma returning_remove_finalizer_loop: "returning (remove_finalizer_loop E k n u)"
proof (induction n arbitrary: u)
  case (Suc n)
  then show ?case by (auto simp: Let_def call_defs intro!: emit_rules split: sum.split)
qed (auto intro!: emit_rules)

context cluster_api
begin

lemma returning_GetVM:
  assumes "\<And>err. returning (f (Inl err))" and "\<And>vm. vm_Template vm \<noteq> None \<Longrightarrow> returning (f (Inr vm))"
  shows "returning (State_Monad.bind (GetVM E k) f)"
  unfolding GetVM_def
proof (rule emits_bind_call_law [where \<chi> = "\<lambda>r. \<forall>vm. r = Inr vm \<longrightarrow> vm_Template vm \<noteq> None"])
  show "\<forall>vm. fst (get_vm E k w) = Inr vm \<longrightarrow> vm_Template vm \<noteq> None" for w
    by (metis vm_template prod.collapse)
  show "returning (f r)" if "\<forall>vm. r = Inr vm \<longrightarrow> vm_Template vm \<noteq> None" for r
    using that assms by (cases r) auto
qed simp

lemma returning_cleanup:
  assumes "vmfr_Name u \<noteq> ''''"
  shows "returning (cleanup E R u)"
proof -
  have unplug: "returning (unplug_cleanup E u)"
    unfolding unplug_cleanup_def
    by (auto intro!: returning_GetVM emit_rules emits_bind [OF returning_UnplugVolume] assms
        elim!: returns_cases)
  show ?thesis
    unfolding cleanup_def GetVMI_def
    by (auto intro!: emit_rules unplug emits_bind [OF unplug] silent_steps
        emits_bind [OF returning_ssh_cleanup] split: sum.split elim!: returns_cases)
qed

lemma returning_failRestore:
  assumes "vmfr_Name u \<noteq> ''''"
  shows "returning (failRestore E R u err detail)"
proof -
  have "returning (cleanup E R v')" if "echoes (with_status u f) v'" for v' f
    using assms by (intro returning_cleanup) (simp add: echoes_status(6) [OF that])
  then show ?thesis
    unfolding failRestore_def call_defs
    by (auto intro!: emit_rules emits_PatchStatus emits_bind [where \<chi> = returns] elim!: returns_cases)
qed

lemma returning_init:
  assumes "vmfr_Name u \<noteq> ''''"
  shows "returning (handleInitPhase E R u)"
proof -
  note fail = returning_failRestore [OF assms]
  have accept: "returning (init_accept E u vmi)" for vmi
    unfolding init_accept_def Let_def PatchStatus_def
    by (auto intro!: emit_rules returning_transition split: sum.split)
  show ?thesis
    unfolding handleInitPhase_def init_source_def Let_def call_defs
    by (auto intro!: emit_rules fail accept split: option.split sum.split)
qed

lemma returning_hotplugging:
  assumes "vmfr_Name u \<noteq> ''''"
  shows "returning (handleHotpluggingPhase E R u)"
  unfolding handleHotpluggingPhase_def RecordEvent_def
  using assms
  by (auto intro!: emit_rules returning_GetVM returning_failRestore returning_transition
      emits_bind [OF returning_HotplugVolume] split: option.split elim!: returns_cases)

lemma returning_waiting:
  assumes "vmfr_Name u \<noteq> ''''"
  shows "returning (handleWaitingForAttachmentPhase E R u)"
proof -
  have fail: "returning (failRestore E R v' err detail)" if "echoes (with_status u f) v'" for v' f err detail
    using assms by (intro returning_failRestore) (simp add: echoes_status(6) [OF that])
  have check: "returning (attachment_check E R v' n vs)" if "echoes (with_status u f) v'" for v' f n vs
    unfolding attachment_check_def
    by (auto intro!: fail [OF that] returning_incrementRetry emits_bind [OF silent_reset] returning_transition
        split: option.split)
  show ?thesis
    unfolding handleWaitingForAttachmentPhase_def call_defs
    using assms
    by (auto intro!: emit_rules returning_failRestore emits_bind [OF silent_rate_limit] emits_PatchStatus check
        split: option.split sum.split)
qed

lemma returning_connecting:
  assumes "vmfr_Name u \<noteq> ''''"
  shows "returning (handleSSHConnectingPhase E R u)"
proof -
  have fail: "returning (failRestore E R v' err detail)" if "echoes (with_status u f) v'" for v' f err detail
    using assms by (intro returning_failRestore) (simp add: echoes_status(6) [OF that])
  have attempt: "returning (ssh_attempt E v' ip k)" for v' ip k
    unfolding ssh_attempt_def call_defs
    by (auto intro!: emit_rules silent_steps emits_bind [OF silent_reset] returning_incrementRetry
        emits_bind [OF returning_transition] split: sum.split)
  show ?thesis
  proof (cases "maxSSHWait \<le> sint (SSHRetries (vmfr_Status u))")
    case True
    with returning_failRestore [OF assms] show ?thesis by (simp add: handleSSHConnectingPhase_def)
  next
    case False
    then show ?thesis
      unfolding handleSSHConnectingPhase_def call_defs
      by (auto intro!: emit_rules emits_bind [OF silent_rate_limit] emits_PatchStatus silent_steps fail attempt
          split: option.split sum.split)
  qed
qed

lemma returning_restoring:
  assumes "vmfr_Name u \<noteq> ''''" and "MountPath (vmfr_Status u) \<noteq> ''''"
  shows "returning (handleRestoringPhase E R u)"
proof -
  note fail = returning_failRestore [OF assms(1)]
  have run: "returning (restore_run E R u vmi c)" for vmi c
    unfolding restore_run_def call_defs BuildSSHCommand_def Let_def
    using assms by (auto intro!: emit_rules silent_steps fail returning_restore_finish split: option.split)
  show ?thesis
    unfolding handleRestoringPhase_def call_defs
    by (auto intro!: emit_rules silent_steps fail emits_bind [OF run] split: sum.split)
qed

lemma returning_cleanup_phase:
  assumes "vmfr_Name u \<noteq> ''''"
  shows "returning (handleCleanupPhase E R u)"
  unfolding handleCleanupPhase_def cleanup_done_def call_defs(8-)
  using assms
  by (auto simp: GetVMI_def RecordEvent_def
      intro!: emit_rules returning_GetVM returning_failRestore returning_transition
        emits_bind [OF returning_UnplugVolume] split: option.split sum.split elim!: returns_cases)

lemma returning_handler:
  assumes "getPhaseHandler (Phase (vmfr_Status v)) = Some h" and "vmfr_Name v \<noteq> ''''"
    and "Phase (vmfr_Status v) = RestorePhaseRestoring \<Longrightarrow> MountPath (vmfr_Status v) \<noteq> ''''"
  shows "returning (h E R v)"
  using assms
  by (auto simp: getPhaseHandler_def handleVolumeReadyPhase_def split: RestorePhase.splits
      intro!: returning_init returning_hotplugging returning_waiting returning_connecting
        returning_restoring returning_cleanup_phase emits_return)

lemma returning_found:
  assumes "vmfr_Name v \<noteq> ''''"
    and "Phase (vmfr_Status v) = RestorePhaseRestoring \<Longrightarrow> MountPath (vmfr_Status v) \<noteq> ''''"
  shows "returning (reconcile_found E R k v)"
proof -
  note rules = emit_rules emits_bind [OF returning_cleanup [OF assms(1)]] returning_failRestore [OF assms(1)]
    returning_remove_finalizer_loop
  show ?thesis
  proof (cases "getPhaseHandler (Phase (vmfr_Status v))
      :: ('w env \<Rightarrow> reconciler \<Rightarrow> vmfr \<Rightarrow> ('w, outcome) cmd) option")
    case None
    then show ?thesis
      unfolding reconcile_found_def UpdateVMFR_def
      by (auto intro!: rules split: go.split sum.split elim!: returns_cases)
  next
    case (Some h)
    with returning_handler [OF Some assms, of R] show ?thesis
      unfolding reconcile_found_def UpdateVMFR_def
      by (auto intro!: rules split: go.split sum.split elim!: returns_cases)
  qed
qed

text \<open>A reconciliation of a stored resource returns.\<close>

lemma stored_returns:
  assumes "stored E R k v" and "fst (get_vmfr E k w) = Inr v" and "snd k \<noteq> ''''"
  shows "returns (answer (Reconcile E R k) w)"
proof -
  from stored_status_ok [OF assms(1)] stored_key [OF assms(1)] assms(3)
  have "returning (reconcile_found E R k v)"
    by (intro returning_found) (auto simp: status_ok_def)
  then have "returns (fst (run_state (reconcile_found E R k v) s))" for s
    by (simp add: emits_def)
  with assms(2) show ?thesis by (simp add: answer_def Reconcile_def GetVMFR_def)
qed

end

end
