(* ===== verification/MemCluster.thy ===== *)
theory MemCluster
  imports Totality
begin

text \<open>
  A cluster kept in memory: an executable API server, guest and clock for the parameter \<open>env\<close>. It
  follows the documented behaviour the code relies on. Status patches store and answer the patched
  object with its times cut to whole seconds, as \<open>metav1.Time\<close> is serialised; a hotplugged volume of
  a virtual machine shows up in the volume status of its instance once it is attached; a finalizer
  is in the list or not.

  It shows that the laws of \<open>cluster_api\<close> can be met, and it is what the concrete runs of the
  development are evaluated on.
\<close>

record store =
  st_vmfr :: "key \<Rightarrow> vmfr option"
  st_vm :: "key \<Rightarrow> VirtualMachine option"
  st_vmi :: "key \<Rightarrow> VirtualMachineInstance option"
  st_pvc :: "key \<Rightarrow> PersistentVolumeClaimObject option"
  st_snapshot :: "key \<Rightarrow> VolumeSnapshot option"
  st_content :: "string \<Rightarrow> VolumeSnapshotContent option"
  st_dv :: "key \<Rightarrow> DataVolume option"
  st_delay :: nat \<comment> \<open>how often a new data volume is seen before it is ready\<close>
  st_provisioning :: nat \<comment> \<open>how often the last one will still be\<close>
  st_secret :: "key \<Rightarrow> Secret option"
  st_pods :: "Pod list"
  st_clock :: time
  st_attaches :: bool \<comment> \<open>a hotplugged volume becomes ready\<close>
  st_ssh_up :: bool \<comment> \<open>the guest accepts connections\<close>
  st_exit :: "goerror option" \<comment> \<open>how a guest command ends\<close>
  st_output :: string \<comment> \<open>what a guest command prints\<close>
  st_events :: "string list"

definition not_found :: "string \<Rightarrow> goerror" where
  "not_found what = ApiError ReasonNotFound (what @ '' not found'')"

definition lookup :: "string \<Rightarrow> 'a option \<Rightarrow> 'w \<Rightarrow> (goerror + 'a) \<times> 'w" where
  "lookup what r w = (case r of None \<Rightarrow> Inl (not_found what) | Some x \<Rightarrow> Inr x, w)"

definition whole_seconds :: "time \<Rightarrow> time" where
  "whole_seconds t = t - t mod second"

definition stored_times :: "VirtualMachineFileRestoreStatus \<Rightarrow> VirtualMachineFileRestoreStatus" where
  "stored_times s = s\<lparr>
     Conditions := map (\<lambda>c. c\<lparr>c_LastTransitionTime := whole_seconds (c_LastTransitionTime c)\<rparr>) (Conditions s),
     StartTime := map_option whole_seconds (StartTime s),
     CompletionTime := map_option whole_seconds (CompletionTime s),
     LastAttachmentCheckTime := map_option whole_seconds (LastAttachmentCheckTime s),
     LastSSHCheckTime := map_option whole_seconds (LastSSHCheckTime s)\<rparr>"

definition vmfr_key :: "vmfr \<Rightarrow> key" where
  "vmfr_key v = (vmfr_Namespace v, vmfr_Name v)"

definition vm_key :: "VirtualMachine \<Rightarrow> key" where
  "vm_key vm = (vm_Namespace vm, vm_Name vm)"

definition mem_get_vmfr :: "key \<Rightarrow> store \<Rightarrow> (goerror + vmfr) \<times> store" where
  "mem_get_vmfr k w = lookup ''virtualmachinefilerestore''
     (case st_vmfr w k of Some v \<Rightarrow> if vmfr_key v = k then Some v else None | None \<Rightarrow> None) w"

definition mem_update_vmfr :: "vmfr \<Rightarrow> store \<Rightarrow> (goerror + vmfr) \<times> store" where
  "mem_update_vmfr v w = (case st_vmfr w (vmfr_key v) of
       None \<Rightarrow> (Inl (not_found ''virtualmachinefilerestore''), w)
     | Some u \<Rightarrow> (Inr v, w\<lparr>st_vmfr := (st_vmfr w)(vmfr_key v := Some (v\<lparr>vmfr_Status := vmfr_Status u\<rparr>))\<rparr>))"

definition mem_patch_status :: "vmfr \<Rightarrow> vmfr \<Rightarrow> store \<Rightarrow> (goerror + vmfr) \<times> store" where
  "mem_patch_status old new w = (case st_vmfr w (vmfr_key new) of
       None \<Rightarrow> (Inl (not_found ''virtualmachinefilerestore''), w)
     | Some u \<Rightarrow> (let v = with_status new stored_times
                 in (Inr v, w\<lparr>st_vmfr := (st_vmfr w)(vmfr_key v := Some v)\<rparr>)))"

definition mem_patch_vm :: "VirtualMachine \<Rightarrow> VirtualMachine \<Rightarrow> store \<Rightarrow> (goerror + VirtualMachine) \<times> store" where
  "mem_patch_vm old new w = (case st_vm w (vm_key new) of
       None \<Rightarrow> (Inl (not_found ''virtualmachine''), w)
     | Some u \<Rightarrow> (Inr new, w\<lparr>st_vm := (st_vm w)(vm_key new := Some new)\<rparr>))"

text \<open>The volume status the virtualisation platform reports for the volumes of a machine.\<close>

definition reported_volume :: "bool \<Rightarrow> Volume \<Rightarrow> VolumeStatus" where
  "reported_volume attached vol = \<lparr>vs_Name = vol_Name vol,
     vs_Phase = (if attached then VolumePhaseReady else VolumePhaseOther ''Pending''),
     vs_Target = (if attached then ''sdb'' else ''''),
     vs_HotplugVolume = (case vol_Source vol of PersistentVolumeClaim c True \<Rightarrow> Some c | _ \<Rightarrow> None)\<rparr>"

definition volumes_of :: "VirtualMachine option \<Rightarrow> Volume list" where
  "volumes_of m = (case Option.bind m vm_Template of None \<Rightarrow> [] | Some t \<Rightarrow> tmpl_Volumes t)"

definition mem_get_vmi :: "key \<Rightarrow> store \<Rightarrow> (goerror + VirtualMachineInstance) \<times> store" where
  "mem_get_vmi k w = lookup ''virtualmachineinstance''
     (map_option (\<lambda>vmi. vmi\<lparr>vmi_VolumeStatus :=
        map (reported_volume (st_attaches w)) (volumes_of (st_vm w k))\<rparr>) (st_vmi w k)) w"

definition mem_create_dv :: "DataVolume \<Rightarrow> store \<Rightarrow> (goerror + unit) \<times> store" where
  "mem_create_dv dv w = (let k = (dv_Namespace dv, dv_Name dv) in
     case st_dv w k of
       Some _ \<Rightarrow> (Inl (ApiError ReasonAlreadyExists ''datavolume already exists''), w)
     | None \<Rightarrow> (Inr (), w\<lparr>st_dv := (st_dv w)(k := Some dv), st_provisioning := st_delay w\<rparr>))"

definition mem_read_dv :: "key \<Rightarrow> store \<Rightarrow> (goerror + DataVolume) \<times> store" where
  "mem_read_dv k w = (case st_dv w k of
       None \<Rightarrow> (Inl (not_found ''datavolume''), w)
     | Some dv \<Rightarrow> (case st_provisioning w of
           0 \<Rightarrow> (Inr (dv\<lparr>dv_Phase := cdi_Succeeded\<rparr>), w)
         | Suc n \<Rightarrow> (Inr (dv\<lparr>dv_Phase := ''ImportInProgress''\<rparr>), w\<lparr>st_provisioning := n\<rparr>)))"

definition mem_delete_dv :: "key \<Rightarrow> store \<Rightarrow> (goerror + unit) \<times> store" where
  "mem_delete_dv k w = (case st_dv w k of
       None \<Rightarrow> (Inl (not_found ''datavolume''), w)
     | Some _ \<Rightarrow> (Inr (), w\<lparr>st_dv := (st_dv w)(k := None)\<rparr>))"

definition mem_env :: "store env" where
  "mem_env = \<lparr>
     get_vmfr = mem_get_vmfr,
     update_vmfr = mem_update_vmfr,
     patch_vmfr_status = mem_patch_status,
     get_vm = (\<lambda>k w. lookup ''virtualmachine''
       (case st_vm w k of Some vm \<Rightarrow> if vm_Template vm = None then None else Some vm | None \<Rightarrow> None) w),
     patch_vm = mem_patch_vm,
     get_vmi = mem_get_vmi,
     get_pvc = (\<lambda>k w. lookup ''persistentvolumeclaim'' (st_pvc w k) w),
     get_snapshot = (\<lambda>k w. lookup ''volumesnapshot'' (st_snapshot w k) w),
     list_pods = (\<lambda>ns d w. (Inr (st_pods w), w)),
     create_dv = mem_create_dv,
     delete_dv = mem_delete_dv,
     read_snapshot = (\<lambda>k w. lookup ''volumesnapshot'' (st_snapshot w k) w),
     read_content = (\<lambda>n w. lookup ''volumesnapshotcontent'' (st_content w n) w),
     read_dv = mem_read_dv,
     read_secret = (\<lambda>k w. lookup ''secret'' (st_secret w k) w),
     record_event = (\<lambda>ty reason msg w. ((), w\<lparr>st_events := st_events w @ [reason]\<rparr>)),
     clock = (\<lambda>w. (st_clock w, w)),
     parse_private_key = (\<lambda>k. Inr k),
     dial = (\<lambda>addr cfg w. (if st_ssh_up w then Inr 1 else Inl (Errorf ''connection refused''), w)),
     new_session = (\<lambda>c w. (None, w)),
     session_run = (\<lambda>c command limit w. (CommandDone (st_exit w), w)),
     session_signal = (\<lambda>c w. ((), w)),
     session_output = (\<lambda>c w. ((st_output w, ''''), w)),
     session_close = (\<lambda>c w. ((), w)),
     client_close = (\<lambda>c w. ((), w)),
     context_err = (\<lambda>w. (None, w)),
     contains_finalizer = (\<lambda>fs f. f \<in> set fs),
     add_finalizer = (\<lambda>fs f. if f \<in> set fs then fs else fs @ [f]),
     remove_finalizer = (\<lambda>fs f. filter (\<lambda>g. g \<noteq> f) fs)\<rparr>"

lemma status_agrees_stored_times: "status_agrees s (stored_times s)"
  by (simp add: status_agrees_def stored_times_def timeless_def)

interpretation mem: cluster_api mem_env
proof
  show "echoes new v" if "patch_vmfr_status mem_env old new w = (Inr v, w')" for old new w v w'
    using that
    by (auto simp: mem_env_def mem_patch_status_def Let_def echoes_def same_restore_def
        status_agrees_stored_times split: option.splits)
  show "vmfr_Namespace v = fst k \<and> vmfr_Name v = snd k"
    if "get_vmfr mem_env k w = (Inr v, w')" for k w v w'
    using that
    by (auto simp: mem_env_def mem_get_vmfr_def lookup_def vmfr_key_def split: option.splits if_splits)
  show "vm_Template vm \<noteq> None" if "get_vm mem_env k w = (Inr vm, w')" for k w vm w'
    using that by (auto simp: mem_env_def lookup_def split: option.splits if_splits)
qed

end
