(* ===== verification/Scenario.thy ===== *)
theory Scenario
  imports MemCluster
begin

text \<open>
  A concrete cluster for the in-memory environment: one running virtual machine, one backup claim,
  the operator's key secret, and a restore of \<open>/etc\<close> from the claim. The concrete runs of the
  development start from it.
\<close>

definition demo_spec :: VirtualMachineFileRestoreSpec where
  "demo_spec = \<lparr>Target = \<lparr>ref_APIGroup = Some ''kubevirt.io'', ref_Kind = ''VirtualMachine'', ref_Name = ''vm1''\<rparr>,
     Source = \<lparr>src_PVC = Some \<lparr>pvcs_Name = ''bkp'', pvcs_Namespace = ''''\<rparr>, src_Snapshot = None, src_Remote = None\<rparr>,
     SourcePath = ''/etc''\<rparr>"

definition demo_restore :: vmfr where
  "demo_restore = \<lparr>vmfr_Name = ''r1'', vmfr_Namespace = ''ns'', vmfr_Generation = 1,
     vmfr_DeletionTimestamp = None, vmfr_Finalizers = [finalizerName], vmfr_Spec = demo_spec,
     vmfr_Status = empty_status\<rparr>"

definition demo_key :: key where "demo_key = (''ns'', ''r1'')"

definition demo_vm :: VirtualMachine where
  "demo_vm = \<lparr>vm_Name = ''vm1'', vm_Namespace = ''ns'', vm_Template = Some
     \<lparr>tmpl_Volumes = [\<lparr>vol_Name = ''root'', vol_Source = OtherVolumeSource ''containerDisk''\<rparr>],
      tmpl_Disks = [\<lparr>disk_Name = ''root'', disk_Device = DiskTarget ''virtio'' False, disk_Serial = ''''\<rparr>]\<rparr>\<rparr>"

definition demo_vmi :: VirtualMachineInstance where
  "demo_vmi = \<lparr>vmi_Name = ''vm1'', vmi_Namespace = ''ns'', vmi_UID = ''u1'', vmi_Annotations = None,
     vmi_GuestOSName = ''Fedora'', vmi_Interfaces = [\<lparr>if_Name = ''default'', if_IP = ''10.0.0.5''\<rparr>],
     vmi_VolumeStatus = []\<rparr>"

definition demo_secret :: Secret where
  "demo_secret = \<lparr>sec_Name = OperatorResourceName, sec_Namespace = ''file-restore'', sec_Type = ''Opaque'',
     sec_Data = [SSHAuthPrivateKey \<mapsto> ''key'']\<rparr>"

definition demo_reconciler :: reconciler where
  "demo_reconciler = \<lparr>OperatorNamespace = ''file-restore''\<rparr>"

definition demo_world :: "vmfr \<Rightarrow> VirtualMachine \<Rightarrow> store" where
  "demo_world v vm = \<lparr>st_vmfr = [vmfr_key v \<mapsto> v], st_vm = [vm_key vm \<mapsto> vm],
     st_vmi = [vm_key vm \<mapsto> demo_vmi],
     st_pvc = [(''ns'', ''bkp'') \<mapsto> \<lparr>pvc_Name = ''bkp'', pvc_Namespace = ''ns''\<rparr>],
     st_snapshot = Map.empty, st_content = Map.empty, st_dv = Map.empty,
     st_delay = 0, st_provisioning = 0,
     st_secret = [(''file-restore'', OperatorResourceName) \<mapsto> demo_secret],
     st_pods = [], st_clock = 1000 * second, st_attaches = True, st_ssh_up = True, st_exit = None,
     st_output = ''[filerestore] 3 files restored'' @ [newline], st_events = []\<rparr>"

definition demo :: store where
  "demo = demo_world demo_restore demo_vm"

definition demo_in :: "(VirtualMachineFileRestoreStatus \<Rightarrow> VirtualMachineFileRestoreStatus) \<Rightarrow> vmfr" where
  "demo_in f = with_status demo_restore f"

lemma demo_get: "vmfr_key v = demo_key \<Longrightarrow> fst (get_vmfr mem_env demo_key (demo_world v vm)) = Inr v"
  by (simp add: mem_env_def mem_get_vmfr_def lookup_def demo_world_def)

lemma demo_in_key [simp]: "vmfr_key (demo_in f) = demo_key"
  by (simp add: demo_in_def vmfr_key_def demo_restore_def demo_key_def)

lemma demo_restore_key [simp]: "vmfr_key demo_restore = demo_key"
  by (simp add: vmfr_key_def demo_restore_def demo_key_def)

lemma demo_stored: "stored mem_env R demo_key demo_restore"
  by (rule stored.created) (simp_all add: demo_restore_def demo_key_def)

end
