(* ===== verification/RestoreSafety.thy ===== *)
theory RestoreSafety
  imports Scenario
begin

text \<open>
  What a reconciliation of a restore may do: the phases it moves through, the invariant of the
  stored status, its effects on the machine, on the guest and on the finalizer.
\<close>

subsection \<open>Phases and status\<close>

text \<open>C1. Every status patch a reconciliation sends leaves the resource in the phase it was read in, or
  moves it along one edge of the phase machine.\<close>

theorem reconcile_phase_steps:
  assumes "restore_api E" and "fst (get_vmfr E k w) = Inr v"
    and "(b, n) \<in> set (status_patches (requests (Reconcile E R k) w))"
  shows "Phase (vmfr_Status n) = Phase (vmfr_Status v) \<or>
    phase_step (Phase (vmfr_Status v)) (Phase (vmfr_Status n))"
  using restore_api.patch_phase [OF assms(1,2)] assms(3) by (simp add: status_patches_iff)

theorem reconcile_phase_steps_witness:
  "\<exists>p \<in> set (status_patches (requests (Reconcile mem_env demo_reconciler demo_key) demo)).
     Phase (vmfr_Status (snd p)) = RestorePhaseHotplugging \<and>
     phase_step (Phase (vmfr_Status demo_restore)) (Phase (vmfr_Status (snd p)))"
proof -
  have "\<exists>p \<in> set (status_patches (requests (Reconcile mem_env demo_reconciler demo_key) demo)).
     Phase (vmfr_Status (snd p)) = RestorePhaseHotplugging"
    by code_simp
  then obtain b n where
    "(b, n) \<in> set (status_patches (requests (Reconcile mem_env demo_reconciler demo_key) demo))"
    and "Phase (vmfr_Status n) = RestorePhaseHotplugging" by auto
  with reconcile_phase_steps [OF mem.restore_api_axioms, of demo_key demo demo_restore b n demo_reconciler]
  show ?thesis by (force simp: demo_def demo_get demo_restore_def empty_status_def)
qed

text \<open>C2. Over the whole life of a restore, its stored status satisfies the invariant: a mount path from
  Hotplugging on, a start time, a completion time exactly in the final phases, a reported failure
  exactly in Failed, a file count exactly for automatic restores that ran, manual mode exactly
  without a source path, and retry counters within their budgets.\<close>

theorem stored_resources_ok:
  assumes "restore_api E" and "stored E R k v"
  shows "status_ok (vmfr_Spec v) (vmfr_Status v)"
  using restore_api.stored_status_ok [OF assms] .

theorem stored_resources_ok_witness:
  "status_ok (vmfr_Spec demo_restore) (vmfr_Status demo_restore) \<and>
   stored mem_env demo_reconciler demo_key demo_restore"
  using stored_resources_ok [OF mem.restore_api_axioms demo_stored] demo_stored by simp

text \<open>C3. A reconciliation of a stored resource never panics: it returns a result.\<close>

theorem reconcile_never_panics:
  assumes "cluster_api E" and "stored E R k v" and "fst (get_vmfr E k w) = Inr v" and "snd k \<noteq> ''''"
  shows "\<exists>reply. answer (Reconcile E R k) w = Ran reply"
  using cluster_api.stored_returns [OF assms] by (simp add: returns_def)

theorem reconcile_never_panics_witness:
  "\<exists>reply. answer (Reconcile mem_env demo_reconciler demo_key) demo = Ran reply"
proof (rule reconcile_never_panics [OF mem.cluster_api_axioms demo_stored])
  show "fst (get_vmfr mem_env demo_key demo) = Inr demo_restore" by (simp add: demo_def demo_get)
  show "snd demo_key \<noteq> ''''" by (simp add: demo_key_def)
qed

subsection \<open>Effects\<close>

text \<open>C4. Of the target machine, a reconciliation changes only the restore's own volume and disk: all
  others stay, in order. A machine that has the restore volume after the change has it once and has
  no restore volume of another restore.\<close>

theorem vm_patches_stay_in_footprint:
  assumes "restore_api E" and "fst (get_vmfr E k w) = Inr v"
    and "(b, m) \<in> set (vm_patches (requests (Reconcile E R k) w))"
  shows "vm_Name m = vm_Name b \<and> vm_Namespace m = vm_Namespace b \<and>
    (\<exists>t t'. vm_Template b = Some t \<and> vm_Template m = Some t' \<and>
       others (volume_of v) t' = others (volume_of v) t \<and>
       (volume_of v \<in> vol_Name ` set (tmpl_Volumes t') \<longrightarrow>
          (\<exists>claim. restore_volumes t' = [restore_volume (volume_of v) (PersistentVolumeClaim claim True)])))"
  by (intro vm_change_footprint restore_api.vm_patch_change [OF assms(1,2)])
    (use assms(3) in \<open>simp add: vm_patches_iff\<close>)

theorem vm_patches_stay_in_footprint_witness:
  "let v = demo_in (\<lambda>s. s\<lparr>Phase := RestorePhaseHotplugging\<rparr>) in
   \<exists>p \<in> set (vm_patches (requests (Reconcile mem_env demo_reconciler demo_key) (demo_world v demo_vm))).
     \<exists>t t'. vm_Template (fst p) = Some t \<and> vm_Template (snd p) = Some t' \<and>
       others (volume_of v) t' = others (volume_of v) t"
proof -
  let ?v = "demo_in (\<lambda>s. s\<lparr>Phase := RestorePhaseHotplugging\<rparr>)"
  have "vm_patches (requests (Reconcile mem_env demo_reconciler demo_key) (demo_world ?v demo_vm)) \<noteq> []"
    by code_simp
  then obtain b m where p:
    "(b, m) \<in> set (vm_patches (requests (Reconcile mem_env demo_reconciler demo_key) (demo_world ?v demo_vm)))"
    by (metis list.set_intros(1) neq_Nil_conv surj_pair)
  from vm_patches_stay_in_footprint [OF mem.restore_api_axioms demo_get [OF demo_in_key] p] p
  show ?thesis unfolding Let_def by force
qed

text \<open>C5. Whatever \<open>HotplugVolume\<close> adds to a machine, \<open>UnplugVolume\<close> takes out again: its
  patch of the changed machine restores the original one.\<close>

theorem unplug_undoes_hotplug:
  assumes "(b, m) \<in> set (vm_patches (requests (HotplugVolume E v vm) w))"
  shows "b = vm \<and> hd (requests (UnplugVolume E v m) w') = ReqPatchVM m vm"
  using assms by (auto simp: vm_patches_iff dest!: HotplugVolume_patch intro!: UnplugVolume_restores)

theorem unplug_undoes_hotplug_witness:
  "\<exists>m. vm_patches (requests (HotplugVolume mem_env demo_restore demo_vm) demo) = [(demo_vm, m)] \<and>
     m \<noteq> demo_vm \<and> hd (requests (UnplugVolume mem_env demo_restore m) demo) = ReqPatchVM m demo_vm"
proof -
  let ?ps = "vm_patches (requests (HotplugVolume mem_env demo_restore demo_vm) demo)"
  have "?ps = [(demo_vm, snd (hd ?ps))]" and "snd (hd ?ps) \<noteq> demo_vm" by code_simp+
  with unplug_undoes_hotplug [of demo_vm "snd (hd ?ps)" mem_env demo_restore demo_vm demo demo]
  show ?thesis by (metis list.set_intros(1))
qed

text \<open>C11. A restore that reached a final phase, or whose volume is ready for a manual restore, is left
  alone as long as it is not being deleted and has its finalizer: the reconciliation reads it, changes nothing and
  asks for nothing.\<close>

theorem finished_restores_are_left_alone:
  assumes "fst (get_vmfr E k w) = Inr v" and "vmfr_DeletionTimestamp v = None"
    and "contains_finalizer E (vmfr_Finalizers v) finalizerName"
    and "Phase (vmfr_Status v) \<in> {RestorePhaseSucceeded, RestorePhaseFailed, RestorePhaseVolumeReady}"
  shows "requests (Reconcile E R k) w = [ReqGetVMFR k] \<and> answer (Reconcile E R k) w = done_ok"
  using assms
  by (auto simp: requests_def answer_def Reconcile_def GetVMFR_def reconcile_found_def getPhaseHandler_def
      handleVolumeReadyPhase_def)

theorem finished_restores_are_left_alone_witness:
  "let v = demo_in (\<lambda>s. s\<lparr>Phase := RestorePhaseVolumeReady\<rparr>) in
   requests (Reconcile mem_env demo_reconciler demo_key) (demo_world v demo_vm) = [ReqGetVMFR demo_key]"
  using finished_restores_are_left_alone [of mem_env demo_key
      "demo_world (demo_in (\<lambda>s. s\<lparr>Phase := RestorePhaseVolumeReady\<rparr>)) demo_vm"
      "demo_in (\<lambda>s. s\<lparr>Phase := RestorePhaseVolumeReady\<rparr>)" demo_reconciler]
  by (simp add: demo_get) (simp add: demo_in_def demo_restore_def mem_env_def)

text \<open>C12. The finalizer comes first: a resource without it is only given it, and nothing else is
  requested, so every effect on the cluster or the guest is covered by the cleanup on deletion.\<close>

theorem effects_are_covered_by_finalizer:
  assumes "fst (get_vmfr E k w) = Inr v" and "q \<in> set (requests (Reconcile E R k) w)" and "\<not> is_read q"
  shows "contains_finalizer E (vmfr_Finalizers v) finalizerName \<or>
    (vmfr_DeletionTimestamp v = None \<and>
     q = ReqUpdateVMFR (v\<lparr>vmfr_Finalizers := add_finalizer E (vmfr_Finalizers v) finalizerName\<rparr>))"
proof (rule disjCI)
  assume "\<not> (vmfr_DeletionTimestamp v = None \<and>
     q = ReqUpdateVMFR (v\<lparr>vmfr_Finalizers := add_finalizer E (vmfr_Finalizers v) finalizerName\<rparr>))"
  with assms show "contains_finalizer E (vmfr_Finalizers v) finalizerName"
    by (rule_tac ccontr)
      (auto simp: requests_def Reconcile_def GetVMFR_def UpdateVMFR_def reconcile_found_def split: if_splits)
qed

theorem effects_are_covered_by_finalizer_witness:
  "let v = demo_restore\<lparr>vmfr_Finalizers := []\<rparr>; u = demo_restore\<lparr>vmfr_Finalizers := [finalizerName]\<rparr> in
   requests (Reconcile mem_env demo_reconciler demo_key) (demo_world v demo_vm) = [ReqGetVMFR demo_key, ReqUpdateVMFR u] \<and>
   \<not> is_read (ReqUpdateVMFR u) \<and>
   (contains_finalizer mem_env (vmfr_Finalizers v) finalizerName \<or> vmfr_DeletionTimestamp v = None)"
proof -
  let ?v = "demo_restore\<lparr>vmfr_Finalizers := []\<rparr>" and ?u = "demo_restore\<lparr>vmfr_Finalizers := [finalizerName]\<rparr>"
  have run: "requests (Reconcile mem_env demo_reconciler demo_key) (demo_world ?v demo_vm)
      = [ReqGetVMFR demo_key, ReqUpdateVMFR ?u]" by code_simp
  have "vmfr_key ?v = demo_key" by (simp add: vmfr_key_def demo_restore_def demo_key_def)
  from effects_are_covered_by_finalizer [OF demo_get [OF this], of "ReqUpdateVMFR ?u" demo_reconciler demo_vm] run
  show ?thesis unfolding Let_def by force
qed

end
