(* ===== verification/Progress.thy ===== *)
theory Progress
  imports Totality
begin

text \<open>
  Restores move forward. With the logic \<open>traces\<close>, every
  reconciliation of an unfinished restore is shown to store a status with less work left, unless an
  API call failed or the reply asks to come back later without having stored anything new.
\<close>

subsection \<open>Work left\<close>

definition work_left :: "VirtualMachineFileRestoreStatus \<Rightarrow> nat" where
  "work_left s = (case Phase s of
       RestorePhaseHotplugging \<Rightarrow> 300
     | RestorePhaseWaitingForAttachment \<Rightarrow> 200 + nat (maxAttachmentWait - sint (AttachmentRetries s))
     | RestorePhaseSSHConnecting \<Rightarrow> 100 + nat (maxSSHWait - sint (SSHRetries s))
     | RestorePhaseRestoring \<Rightarrow> 50
     | RestorePhaseCleanup \<Rightarrow> 40
     | RestorePhaseVolumeReady \<Rightarrow> 0 | RestorePhaseSucceeded \<Rightarrow> 0 | RestorePhaseFailed \<Rightarrow> 0
     | _ \<Rightarrow> 400)"

text \<open>A reply without an error comes with a stored status that has less work left (\<open>stores\<close>), or asks
  to come back later, nothing having been stored.\<close>

definition stores :: "vmfr \<Rightarrow> outcome \<Rightarrow> request list \<Rightarrow> bool" where
  "stores v out qs \<longleftrightarrow> (\<forall>r. out = Ran (r, None) \<longrightarrow> status_patches qs \<noteq> [] \<and>
     work_left (vmfr_Status (snd (last (status_patches qs)))) < work_left (vmfr_Status v))"

definition advances :: "vmfr \<Rightarrow> outcome \<Rightarrow> request list \<Rightarrow> bool" where
  "advances v out qs \<longleftrightarrow> stores v out qs \<or> (status_patches qs = [] \<and> (\<exists>d. out = requeue_after d))"

fun writes_vmfr :: "request \<Rightarrow> bool" where
  "writes_vmfr (ReqUpdateVMFR v) = True"
| "writes_vmfr (ReqPatchStatus b n) = True"
| "writes_vmfr _ = False"

lemma status_patches_append [simp]: "status_patches (qs @ rs) = status_patches qs @ status_patches rs"
  by (induction qs rule: status_patches.induct) auto

lemma no_writes_no_patches: "list_all (\<lambda>q. \<not> writes_vmfr q) qs \<Longrightarrow> status_patches qs = []"
  by (induction qs rule: status_patches.induct) auto

lemma stores_Cons [simp]: "stores v out rs \<Longrightarrow> stores v out (q # rs)"
  by (cases q) (auto simp: stores_def)

lemma stores_append [simp]: "stores v out rs \<Longrightarrow> stores v out (qs @ rs)"
  by (auto simp: stores_def)

lemma stores_error [simp]: "stores v (fail_with err) qs"
  by (simp add: stores_def fail_with_def)

lemma stores_panic [simp]: "stores v (Panicked p) qs"
  by (simp add: stores_def)

lemma advances_stores [simp]: "stores v out qs \<Longrightarrow> advances v out qs"
  by (simp add: advances_def)

lemma advances_wait [simp]: "status_patches qs = [] \<Longrightarrow> advances v (requeue_after d) qs"
  by (auto simp: advances_def)

context status_api
begin

lemma traces_PatchStatus:
  assumes "\<And>err. traces (\<lambda>y rs. Q y (ReqPatchStatus old new # rs)) (f (Inl err))"
    and "\<And>v'. echoes new v' \<Longrightarrow> traces (\<lambda>y rs. Q y (ReqPatchStatus old new # rs)) (f (Inr v'))"
  shows "traces Q (State_Monad.bind (PatchStatus E old new) f)"
proof (rule traces_bind)
  show "traces (\<lambda>x qs. qs = [ReqPatchStatus old new] \<and> (\<forall>v. x = Inr v \<longrightarrow> echoes new v)) (PatchStatus E old new)"
    unfolding PatchStatus_def traces_def using patch_echo by (fastforce intro: prod_eqI)
  show "traces (\<lambda>y rs. Q y (qs @ rs)) (f x)"
    if "qs = [ReqPatchStatus old new] \<and> (\<forall>v. x = Inr v \<longrightarrow> echoes new v)" for x qs
    using that assms by (cases x) auto
qed

end

abbreviation quiet :: "('w, 'a) cmd \<Rightarrow> bool" where
  "quiet \<equiv> emits (\<lambda>q. \<not> writes_vmfr q) (\<lambda>_. True)"

lemma quiet_UnplugVolume: "quiet (UnplugVolume E u vm)"
  unfolding UnplugVolume_def
  by (auto simp: call_defs intro!: emit_rules split: sum.split go.split option.split)

lemma quiet_HotplugVolume: "quiet (HotplugVolume E u vm)"
proof -
  have mode: "quiet (getSnapshotSourceVolumeMode E s ns)" for s ns
    by (auto simp: getSnapshotSourceVolumeMode_def call_defs intro!: emit_rules
        split: option.split sum.split list.split)
  have "quiet (volume_source E u n)" for n
    by (auto simp: volume_source_def snapshot_volume_source_def call_defs Let_def
        intro!: emit_rules emits_bind [OF mode] split: option.split sum.splits)
  then show ?thesis
    unfolding HotplugVolume_def
    by (auto simp: Let_def call_defs intro!: emit_rules emits_bind [where \<chi> = "\<lambda>_. True" and m = "volume_source E u n" for n]
        split: option.split sum.split go.split)
qed

lemma quiet_key: "quiet (getSSHPrivateKey E R)"
  by (auto simp: getSSHPrivateKey_def call_defs intro!: emit_rules)

lemma quiet_connect: "quiet (ConnectSSH E ip k)"
  by (rule emits_ConnectSSH) simp

lemma quiet_command: "quiet (RunCommand E c command limit)"
  by (rule emits_RunCommand) simp_all

lemma quiet_ip: "quiet (GetVMIPAddress E vmi)"
  by (rule emits_weaken [OF emits_GetVMIPAddress]) simp_all

lemma quiet_rate_limit: "quiet (rate_limit E t)"
  by (auto simp: rate_limit_def call_defs intro!: emit_rules split: option.split)

lemma quiet_cleanup: "quiet (cleanup E R u)"
proof -
  have ssh: "quiet (ssh_cleanup E R u vmi)" for vmi
    unfolding ssh_cleanup_def
    by (auto simp: Let_def call_defs split: sum.split go.split
        intro!: emit_rules emits_bind [OF quiet_connect] emits_bind [OF quiet_command]
          emits_bind [OF quiet_ip] emits_bind [OF quiet_key])
  have unplug: "quiet (unplug_cleanup E u)"
    unfolding unplug_cleanup_def
    by (auto simp: call_defs intro!: emit_rules emits_bind [OF quiet_UnplugVolume] split: sum.split)
  have close: "quiet (close_conn E conn)" for conn
    by (auto simp: close_conn_def call_defs intro!: emit_rules emits_call split: option.split)
  show ?thesis
    unfolding cleanup_def
    by (auto simp: call_defs split: sum.split go.split
        intro!: emit_rules unplug emits_bind [OF ssh] emits_bind [OF unplug] emits_bind [OF close])
qed

text \<open>A quiet routine inside a longer one: it leaves no status patch on the trace.\<close>

lemma traces_quiet:
  assumes "quiet m" and "\<And>x qs. status_patches qs = [] \<Longrightarrow> traces (\<lambda>y rs. Q y (qs @ rs)) (f x)"
  shows "traces Q (State_Monad.bind m f)"
  using traces_emits [OF assms(1)] by (rule traces_bind) (simp add: assms(2) no_writes_no_patches)

lemmas quiet_steps = traces_quiet [OF quiet_UnplugVolume] traces_quiet [OF quiet_HotplugVolume]
  traces_quiet [OF quiet_key] traces_quiet [OF quiet_connect] traces_quiet [OF quiet_command]
  traces_quiet [OF quiet_ip] traces_quiet [OF quiet_rate_limit] traces_quiet [OF quiet_cleanup]

context status_api
begin

lemma stores_failRestore:
  assumes "0 < work_left (vmfr_Status v)"
  shows "traces (stores v) (failRestore E R u err detail)"
proof -
  have zero: "work_left (failed_status u now now' err detail s) = 0" for now now' s
    by (simp add: failed_status_def work_left_def)
  show ?thesis
    unfolding failRestore_def call_defs
    by (auto intro!: trace_rules traces_PatchStatus quiet_steps
        simp: zero assms stores_def fail_with_def)
qed

lemma stores_transition:
  assumes "\<And>s. Phase s = q \<Longrightarrow> AttachmentRetries s = AttachmentRetries (vmfr_Status u) \<Longrightarrow>
      SSHRetries s = SSHRetries (vmfr_Status u) \<Longrightarrow> work_left s < work_left (vmfr_Status v)"
  shows "traces (stores v) (transitionPhase E u q msg)"
  unfolding transitionPhase_def Let_def call_defs
  by (auto intro!: trace_rules traces_PatchStatus assms
      simp: stores_def fail_with_def)

lemma stores_increment:
  assumes "work_left (bump_retry ty (vmfr_Status u)) < work_left (vmfr_Status v)"
  shows "traces (stores v) (incrementRetryAndRequeue E u ty d)"
  unfolding incrementRetryAndRequeue_def
  using assms
  by (auto intro!: trace_rules traces_PatchStatus simp: stores_def fail_with_def)

lemma stores_restore_finish:
  assumes "Phase (vmfr_Status v) = RestorePhaseRestoring"
  shows "traces (stores v) (restore_finish E u out)"
  unfolding restore_finish_def Let_def call_defs
  using assms
  by (auto intro!: trace_rules traces_PatchStatus simp: stores_def fail_with_def work_left_def)

end

subsection \<open>The handlers\<close>

text \<open>A reconciliation reads the resource and goes on with what it found.\<close>

lemma traces_Reconcile:
  assumes "fst (get_vmfr E k w) = Inr v" and "traces Q (reconcile_found E R k v)"
  shows "\<exists>qs. requests (Reconcile E R k) w = ReqGetVMFR k # qs \<and> Q (answer (Reconcile E R k) w) qs"
proof -
  let ?s = "\<lparr>world = snd (get_vmfr E k w), trace = [ReqGetVMFR k]\<rparr>"
  from assms(2) have "\<exists>qs. trace (snd (run_state (reconcile_found E R k v) ?s)) = trace ?s @ qs \<and>
      Q (fst (run_state (reconcile_found E R k v) ?s)) qs"
    unfolding traces_def by blast
  with assms(1) show ?thesis by (simp add: answer_def requests_def Reconcile_def GetVMFR_def)
qed

lemma work_left_positive:
  assumes "live (Phase s)" shows "0 < work_left s"
  using assms by (auto simp: live_def work_left_def split: RestorePhase.split)

context status_api
begin

lemma advances_init:
  assumes "Phase (vmfr_Status v) \<in> {RestorePhaseUnset, RestorePhaseNew, RestorePhaseInit}"
  shows "traces (stores v) (handleInitPhase E R v)"
proof -
  have full: "work_left (vmfr_Status v) = 400" using assms by (auto simp: work_left_def)
  note fail = traces_weaken [OF stores_failRestore [of v]]
  have move: "traces (stores v) (transitionPhase E u RestorePhaseHotplugging msg)" for u msg
    by (rule stores_transition) (simp add: full, simp add: work_left_def)
  have accept: "traces (stores v) (init_accept E v vmi)" for vmi
    unfolding init_accept_def Let_def
    by (auto intro!: trace_rules traces_PatchStatus traces_weaken [OF move])
  show ?thesis
    unfolding handleInitPhase_def init_source_def Let_def call_defs
    by (auto simp: full intro!: trace_rules fail traces_weaken [OF accept]
      split: option.split sum.split)
qed

lemma advances_hotplugging:
  assumes "Phase (vmfr_Status v) = RestorePhaseHotplugging" and "retries_ok (vmfr_Status v)"
  shows "traces (advances v) (handleHotpluggingPhase E R v)"
proof -
  from assms have pos: "0 < work_left (vmfr_Status v)" by (simp add: work_left_def)
  note fail = traces_weaken [OF stores_failRestore [OF pos]]
  have "traces (stores v) (transitionPhase E v RestorePhaseWaitingForAttachment msg)" for msg
    using assms by (intro stores_transition) (auto simp: retries_ok_def work_left_def maxAttachmentWait_def)
  note move = traces_weaken [OF this]
  show ?thesis
    unfolding handleHotpluggingPhase_def call_defs
    by (auto intro!: trace_rules quiet_steps fail move split: option.split sum.split go.split)
qed

lemma reset_counter_trace:
  assumes "P (vmfr_Status u)" and "\<And>r. echoes (with_status u reset) r \<Longrightarrow> P (vmfr_Status r)"
  shows "traces (\<lambda>r _. P (vmfr_Status r)) (reset_counter E count reset u)"
  unfolding reset_counter_def
  by (auto intro!: trace_rules traces_PatchStatus assms simp: echoes_def status_agrees_def)

lemma advances_attachment_check:
  assumes "Phase (vmfr_Status u) = RestorePhaseWaitingForAttachment" and "retries_ok (vmfr_Status u)"
    and "sint (AttachmentRetries (vmfr_Status u)) < maxAttachmentWait"
    and "work_left (vmfr_Status u) = work_left (vmfr_Status v)"
  shows "traces (stores v) (attachment_check E R u n vs)"
proof -
  have "0 < work_left (vmfr_Status v)" unfolding assms(4) [symmetric] by (simp add: assms(1) work_left_def)
  note fail = traces_weaken [OF stores_failRestore [OF this]]
  have "sint (AttachmentRetries (vmfr_Status u) + 1) = sint (AttachmentRetries (vmfr_Status u)) + 1"
    using assms(3) by (intro sint_succ_i32) (simp add: maxAttachmentWait_def int32_max_def)
  then have retry: "traces (stores v) (incrementRetryAndRequeue E u ''attachment'' d)" for d
    using assms by (intro stores_increment) (simp add: bump_retry_def work_left_def flip: assms(4))
  have move: "traces (stores v) (transitionPhase E r RestorePhaseSSHConnecting msg)"
    if "SSHRetries (vmfr_Status r) = SSHRetries (vmfr_Status u)" for r msg
    using assms that by (intro stores_transition) (auto simp: retries_ok_def maxSSHWait_def work_left_def simp flip: assms(4))
  have reset: "traces (\<lambda>r _. SSHRetries (vmfr_Status r) = SSHRetries (vmfr_Status u))
      (reset_counter E AttachmentRetries (\<lambda>s. s\<lparr>AttachmentRetries := 0\<rparr>) u)"
    by (rule reset_counter_trace) (simp_all add: echoes_status)
  show ?thesis
    unfolding attachment_check_def
    by (auto intro!: fail retry traces_bind [OF reset] traces_weaken [OF move]
        split: option.split)
qed

lemma advances_waiting:
  assumes "Phase (vmfr_Status v) = RestorePhaseWaitingForAttachment" and "retries_ok (vmfr_Status v)"
  shows "traces (advances v) (handleWaitingForAttachmentPhase E R v)"
proof (cases "maxAttachmentWait \<le> sint (AttachmentRetries (vmfr_Status v))")
  case True
  from assms have pos: "0 < work_left (vmfr_Status v)" by (simp add: work_left_def)
  from True show ?thesis
    unfolding handleWaitingForAttachmentPhase_def
    by (auto intro!: traces_weaken [OF stores_failRestore [OF pos]])
next
  case False
  from assms have pos: "0 < work_left (vmfr_Status v)" by (simp add: work_left_def)
  note fail = traces_weaken [OF stores_failRestore [OF pos]]
  have "traces (stores v) (attachment_check E R u n vs)"
    if "echoes (with_status v (\<lambda>s. s\<lparr>LastAttachmentCheckTime := Some now\<rparr>)) u" for u now n vs
    using assms False
    by (intro advances_attachment_check) (auto simp: echoes_status [OF that] retries_ok_def work_left_def)
  note check = traces_weaken [OF this]
  from False show ?thesis
    unfolding handleWaitingForAttachmentPhase_def call_defs
    by (auto intro!: trace_rules quiet_steps traces_PatchStatus fail check
        split: option.split sum.split go.split)
qed

lemma advances_ssh_attempt:
  assumes "Phase (vmfr_Status u) = RestorePhaseSSHConnecting"
    and "sint (SSHRetries (vmfr_Status u)) < maxSSHWait"
    and "work_left (vmfr_Status u) = work_left (vmfr_Status v)"
  shows "traces (stores v) (ssh_attempt E u ip k)"
proof -
  have "sint (SSHRetries (vmfr_Status u) + 1) = sint (SSHRetries (vmfr_Status u)) + 1"
    using assms(2) by (intro sint_succ_i32) (simp add: maxSSHWait_def int32_max_def)
  then have retry: "traces (stores v) (incrementRetryAndRequeue E u ''ssh'' d)" for d
    using assms by (intro stores_increment) (simp add: bump_retry_def work_left_def flip: assms(3))
  have move: "traces (stores v) (transitionPhase E r RestorePhaseRestoring msg)" for r msg
    using assms by (intro stores_transition) (auto simp: work_left_def simp flip: assms(3))
  have reset: "traces (\<lambda>_ _. True) (reset_counter E SSHRetries (\<lambda>s. s\<lparr>SSHRetries := 0\<rparr>) u)"
    by (rule reset_counter_trace) simp_all
  have close: "traces (stores v) (do { res \<leftarrow> transitionPhase E r RestorePhaseRestoring msg;
      ClientClose E c; State_Monad.return res })" for r msg c
    unfolding call_defs by (rule traces_bind [OF move]) (auto intro!: trace_rules simp: stores_def)
  show ?thesis
    unfolding ssh_attempt_def
    by (auto intro!: trace_rules quiet_steps traces_weaken [OF retry] traces_bind [OF reset]
        traces_weaken [OF close] split: sum.split)
qed

lemma advances_connecting:
  assumes "Phase (vmfr_Status v) = RestorePhaseSSHConnecting"
  shows "traces (advances v) (handleSSHConnectingPhase E R v)"
proof -
  from assms have pos: "0 < work_left (vmfr_Status v)" by (simp add: work_left_def)
  note fail = traces_weaken [OF stores_failRestore [OF pos]]
  show ?thesis
  proof (cases "maxSSHWait \<le> sint (SSHRetries (vmfr_Status v))")
    case True
    then show ?thesis
      unfolding handleSSHConnectingPhase_def by (auto intro!: fail)
  next
    case False
    have "traces (stores v) (ssh_attempt E u ip k)"
      if "echoes (with_status v (\<lambda>s. s\<lparr>LastSSHCheckTime := Some now\<rparr>)) u" for u now ip k
      using assms False
      by (intro advances_ssh_attempt) (auto simp: echoes_status [OF that] work_left_def)
    note attempt = traces_weaken [OF this]
    from False show ?thesis
      unfolding handleSSHConnectingPhase_def call_defs
      by (auto intro!: trace_rules quiet_steps traces_PatchStatus fail attempt
          split: option.split sum.split go.split)
  qed
qed

lemma advances_restoring:
  assumes "Phase (vmfr_Status v) = RestorePhaseRestoring"
  shows "traces (stores v) (handleRestoringPhase E R v)"
proof -
  from assms have pos: "0 < work_left (vmfr_Status v)" by (simp add: work_left_def)
  note fail = traces_weaken [OF stores_failRestore [OF pos]]
    and finish = traces_weaken [OF stores_restore_finish [OF assms]]
  have run: "traces (stores v) (restore_run E R v vmi c)" for vmi c
    unfolding restore_run_def call_defs
    by (auto intro!: trace_rules quiet_steps fail finish split: option.split go.split)
  have close: "traces (stores v) (do { res \<leftarrow> restore_run E R v vmi c;
      ClientClose E c; State_Monad.return res })" for vmi c
    unfolding call_defs by (rule traces_bind [OF run]) (auto intro!: trace_rules simp: stores_def)
  show ?thesis
    unfolding handleRestoringPhase_def GetVMI_def
    by (auto intro!: trace_rules quiet_steps fail traces_weaken [OF close] split: sum.split)
qed

lemma advances_cleanup_phase:
  assumes "Phase (vmfr_Status v) = RestorePhaseCleanup"
  shows "traces (advances v) (handleCleanupPhase E R v)"
proof -
  from assms have pos: "0 < work_left (vmfr_Status v)" by (simp add: work_left_def)
  note fail = traces_weaken [OF stores_failRestore [OF pos]]
  have "traces (stores v) (transitionPhase E v RestorePhaseSucceeded msg)" for msg
    using assms by (intro stores_transition) (simp add: work_left_def)
  note move = traces_weaken [OF this]
  show ?thesis
    unfolding handleCleanupPhase_def cleanup_done_def call_defs
    by (auto intro!: trace_rules quiet_steps fail move split: option.split sum.split go.split)
qed

text \<open>The dispatched handler, and the whole reconciliation of an unfinished restore.\<close>

lemma advances_handler:
  assumes "getPhaseHandler (Phase (vmfr_Status v)) = Some h" and "retries_ok (vmfr_Status v)"
    and "live (Phase (vmfr_Status v))"
  shows "traces (advances v) (h E R v)"
  using assms
  by (auto simp: getPhaseHandler_def live_def split: RestorePhase.splits
      intro!: advances_hotplugging advances_waiting advances_connecting advances_cleanup_phase
        traces_weaken [OF advances_init] traces_weaken [OF advances_restoring])

lemma advances_found:
  assumes "retries_ok (vmfr_Status v)" and "live (Phase (vmfr_Status v))"
    and "vmfr_DeletionTimestamp v = None" and "contains_finalizer E (vmfr_Finalizers v) finalizerName"
  shows "traces (advances v) (reconcile_found E R k v)"
proof (cases "getPhaseHandler (Phase (vmfr_Status v))
    :: ('w env \<Rightarrow> reconciler \<Rightarrow> vmfr \<Rightarrow> ('w, outcome) cmd) option")
  case None
  with assms show ?thesis
    unfolding reconcile_found_def live_def
    by (auto intro!: traces_weaken [OF stores_failRestore] work_left_positive simp: live_def)
next
  case (Some h)
  with assms advances_handler [OF Some assms(1,2), of R] show ?thesis
    unfolding reconcile_found_def live_def by auto
qed

lemma reconcile_advances:
  assumes "fst (get_vmfr E k w) = Inr v" and "retries_ok (vmfr_Status v)" and "live (Phase (vmfr_Status v))"
    and "vmfr_DeletionTimestamp v = None" and "contains_finalizer E (vmfr_Finalizers v) finalizerName"
  shows "advances v (answer (Reconcile E R k) w) (requests (Reconcile E R k) w)"
  using traces_Reconcile [OF assms(1) advances_found [OF assms(2-5), of R k]]
  by (auto simp: advances_def stores_def)

end

end
