(* ===== verification/Deletion.thy ===== *)
theory Deletion
  imports Progress
begin

text \<open>
  Deletion of a restore: the cleanup runs to its end before the finalizer is given up, and the
  finalizer is given up by at most \<open>maxRetries\<close> updates.
\<close>

text \<open>The functions of \<open>controllerutil\<close> on finalizers, by their documentation: a finalizer is in the
  list or not, adding and removing one leaves the others.\<close>

locale finalizer_api =
  fixes E :: "'w env"
  assumes contains_iff: "contains_finalizer E fs f \<longleftrightarrow> f \<in> set fs"
    and add_set: "set (add_finalizer E fs f) = insert f (set fs)"
    and remove_set: "set (remove_finalizer E fs f) = set fs - {f}"

text \<open>What the cleanup sends to the guest: if the instance can be read, has an address, and accepts connections with the
  operator's key, the helper is told to give up the mount path of the status.\<close>

definition guest_open :: "'w env \<Rightarrow> reconciler \<Rightarrow> vmfr \<Rightarrow> VirtualMachineInstance \<Rightarrow> bool" where
  "guest_open E R v vmi \<longleftrightarrow> (\<forall>w. fst (get_vmi E (target_key v) w) = Inr vmi) \<and>
     (\<exists>i \<in> set (vmi_Interfaces vmi). if_IP i \<noteq> '''') \<and>
     (\<forall>w. \<exists>s pem signer. fst (read_secret E (getOperatorNamespace R, OperatorResourceName) w) = Inr s \<and>
        sec_Data s SSHAuthPrivateKey = Some pem \<and> pem \<noteq> '''' \<and> parse_private_key E pem = Inr signer) \<and>
     (\<forall>addr cfg w. \<exists>c. fst (dial E addr cfg w) = Inr c) \<and> (\<forall>c w. fst (new_session E c w) = None)"

definition guest_cleaned :: "'w env \<Rightarrow> reconciler \<Rightarrow> vmfr \<Rightarrow> request list \<Rightarrow> bool" where
  "guest_cleaned E R v qs \<longleftrightarrow> (\<forall>vmi. guest_open E R v vmi \<and> MountPath (vmfr_Status v) \<noteq> '''' \<longrightarrow>
     (\<exists>command. BuildCleanupCommand (DetectGuestOS vmi) (MountPath (vmfr_Status v)) = Ran command \<and>
        ReqRun command (30 * second) \<in> set qs))"

text \<open>What it asks of the API server: it reads the machine and sends it without the volume; if that is not refused, it
  deletes the data volume of a snapshot.\<close>

definition volume_removed :: "'w env \<Rightarrow> vmfr \<Rightarrow> request list \<Rightarrow> bool" where
  "volume_removed E v qs \<longleftrightarrow> ReqGetVM (target_key v) \<in> set qs \<and>
     ((\<exists>w err. fst (get_vm E (target_key v) w) = Inl err) \<or>
      (\<exists>w m t. fst (get_vm E (target_key v) w) = Inr m \<and> vm_Template m = Some t \<and>
         ReqPatchVM m (m\<lparr>vm_Template := Some (unplug (volume_of v) t)\<rparr>) \<in> set qs \<and>
         (src_Snapshot (Source (vmfr_Spec v)) = None \<or> ReqDeleteDV (vmfr_Namespace v, volume_of v) \<in> set qs \<or>
          (\<exists>b n w err. fst (patch_vm E b n w) = Inl err))))"

lemma GetVMIPAddress_interface:
  assumes "\<exists>i \<in> set (vmi_Interfaces vmi). if_IP i \<noteq> ''''"
  shows "\<exists>ip. ip \<noteq> '''' \<and> GetVMIPAddress E (Some vmi) = State_Monad.return (Inr ip)"
  using assms
  by (auto simp: GetVMIPAddress_def find_None_iff dest!: find_SomeD split: option.split)

lemma RunCommand_runs:
  assumes "\<forall>c w. fst (new_session E c w) = None"
  shows "traces (\<lambda>_ qs. ReqRun command limit \<in> set qs) (RunCommand E c command limit)"
  unfolding RunCommand_def call_defs
  by (rule traces_bind_answer) (auto simp: assms intro!: trace_rules split: session_end.split)

lemma ssh_cleanup_cleans:
  assumes "guest_open E R v vmi" and "MountPath (vmfr_Status v) \<noteq> ''''"
  shows "traces (\<lambda>_ qs. \<exists>command. BuildCleanupCommand (DetectGuestOS vmi) (MountPath (vmfr_Status v)) = Ran command \<and>
     ReqRun command (30 * second) \<in> set qs) (ssh_cleanup E R v vmi)"
proof -
  obtain ip where ip: "ip \<noteq> ''''" "GetVMIPAddress E (Some vmi) = State_Monad.return (Inr ip)"
    using GetVMIPAddress_interface assms(1) unfolding guest_open_def by blast
  obtain command where command: "BuildCleanupCommand (DetectGuestOS vmi) (MountPath (vmfr_Status v)) = Ran command"
    using assms(2) by (simp add: BuildCleanupCommand_def Let_def)
  have key: "traces (\<lambda>r _. \<exists>pem signer. r = Inr pem \<and> pem \<noteq> '''' \<and> parse_private_key E pem = Inr signer) (getSSHPrivateKey E R)"
    unfolding getSSHPrivateKey_def ReadSecret_def
  proof (rule traces_bind_answer, rule trace_rules)
    fix w
    from assms(1) obtain s pem signer where "fst (read_secret E (getOperatorNamespace R, OperatorResourceName) w) = Inr s"
      "sec_Data s SSHAuthPrivateKey = Some pem" "pem \<noteq> ''''" "parse_private_key E pem = Inr signer"
      unfolding guest_open_def by blast
    then show "\<exists>pem signer. (case fst (read_secret E (getOperatorNamespace R, OperatorResourceName) w) of
        Inl err \<Rightarrow> Inl err
      | Inr secret \<Rightarrow> (case sec_Data secret SSHAuthPrivateKey of
            None \<Rightarrow> Inl (Errorf (''private key '' @ quoted SSHAuthPrivateKey @ '' not found in secret '' @
                getOperatorNamespace R @ ''/'' @ OperatorResourceName))
          | Some privateKey \<Rightarrow> Inr privateKey)) = Inr pem \<and> pem \<noteq> '''' \<and> parse_private_key E pem = Inr signer"
      by simp
  qed
  have connect: "traces (\<lambda>r _. \<exists>c. r = Inr c) (ConnectSSH E ip pem)"
    if "pem \<noteq> ''''" "\<exists>signer. parse_private_key E pem = Inr signer" for pem
  proof -
    from assms(1) have "\<exists>c. fst (dial E addr cfg w) = Inr c" for addr cfg w unfolding guest_open_def by blast
    then have "\<exists>c. (case fst (dial E addr cfg w) of Inl err \<Rightarrow> Inl (Wrapf msg err) | Inr c \<Rightarrow> Inr c) = Inr c" for addr cfg w msg
      by (metis sum.case(2))
    with that ip(1) show ?thesis
      unfolding ConnectSSH_def Dial_def by (auto intro!: traces_bind_answer traces_return)
  qed
  have sessions: "\<forall>c w. fst (new_session E c w) = None" using assms(1) by (simp add: guest_open_def)
  show ?thesis
    unfolding ssh_cleanup_def Let_def
    using assms(2) ip(2) command
    by (auto intro!: traces_bind [OF key] traces_bind [OF connect] traces_bind [OF RunCommand_runs [OF sessions]] trace_rules)
qed

lemma unplug_cleanup_removes:
  assumes "cluster_api E" and "vmfr_Name v \<noteq> ''''"
  shows "traces (\<lambda>_ qs. volume_removed E v qs) (unplug_cleanup E v)"
proof -
  have unplug: "traces (\<lambda>_ qs. volume_removed E v (ReqGetVM (target_key v) # qs)) (UnplugVolume E v m)"
    if m: "fst (get_vm E (target_key v) w) = Inr m" for m w
  proof -
    from m obtain t where t: "vm_Template m = Some t"
      using cluster_api.vm_template [OF assms(1), of "target_key v" w m] by (metis option.exhaust prod.collapse)
    have removed: "volume_removed E v (ReqGetVM (target_key v) # ReqPatchVM m (m\<lparr>vm_Template := Some (unplug (volume_of v) t)\<rparr>) # qs)"
      if "src_Snapshot (Source (vmfr_Spec v)) = None \<or> ReqDeleteDV (vmfr_Namespace v, volume_of v) \<in> set qs \<or>
          (\<exists>b n w err. fst (patch_vm E b n w) = Inl err)" for qs
      unfolding volume_removed_def using that m t by (simp, blast)
    have name: "GetVolumeName (vmfr_Name v) = Ran (volume_of v)" using assms(2) by (simp add: volume_of_def)
    show ?thesis
      unfolding UnplugVolume_def name go.case t option.case PatchVM_def DeleteDV_def
      by (rule traces_bind_answer) (auto intro!: trace_rules removed split: sum.split)
  qed
  show ?thesis
    unfolding unplug_cleanup_def GetVM_def
    by (rule traces_bind_answer)
      (auto intro!: trace_rules traces_bind [OF unplug] simp: volume_removed_def split: sum.split)
qed

lemma volume_removed_append: "volume_removed E v qs \<Longrightarrow> volume_removed E v (qs @ rs)"
  unfolding volume_removed_def set_append by blast

text \<open>The cleanup goes to the guest, if it can, and then always to the machine, whatever happened on the way.\<close>

lemma cleanup_unplugs:
  assumes "cluster_api E" and "vmfr_Name v \<noteq> ''''"
  shows "traces (\<lambda>_ qs. \<exists>gs ms. qs = gs @ ms \<and> guest_cleaned E R v gs \<and> volume_removed E v ms) (cleanup E R v)"
proof -
  note unplug = unplug_cleanup_removes [OF assms]
  have close: "traces (\<lambda>_ _. True) (close_conn E c)" for c
    by (rule traces_weaken [OF traces_emits [OF silent_close]]) simp
  have ssh: "traces (\<lambda>x qs. returns x \<and> guest_cleaned E R v (ReqGetVMI (target_key v) # qs)) (ssh_cleanup E R v vmi)"
    if "fst (get_vmi E (target_key v) w) = Inr vmi" for vmi w
  proof (cases "guest_open E R v vmi \<and> MountPath (vmfr_Status v) \<noteq> ''''")
    case True
    then have same: "guest_open E R v vmi' \<Longrightarrow> vmi' = vmi" for vmi'
      using that by (metis guest_open_def sum.inject(2))
    from True ssh_cleanup_cleans [of E R v vmi] have "traces (\<lambda>_ qs. guest_cleaned E R v (ReqGetVMI (target_key v) # qs))
        (ssh_cleanup E R v vmi)"
      by (auto simp: guest_cleaned_def dest!: same elim!: traces_weaken)
    from traces_conj [OF traces_emits [OF returning_ssh_cleanup] this] show ?thesis by (rule traces_weaken) simp
  next
    case False
    have "guest_cleaned E R v qs" for qs
      unfolding guest_cleaned_def using that False by (metis guest_open_def sum.inject(2))
    with traces_emits [OF returning_ssh_cleanup, of E R v vmi] show ?thesis by (auto elim!: traces_weaken)
  qed
  have machine: "traces (\<lambda>_ rs. \<exists>gs ms. qs @ rs = gs @ ms \<and> guest_cleaned E R v gs \<and> volume_removed E v ms) (do {
      u \<leftarrow> unplug_cleanup E v; close_conn E conn; State_Monad.return u })"
    if "guest_cleaned E R v qs" for qs conn
  proof (rule traces_bind [OF unplug], rule traces_bind [OF close], rule traces_return)
    show "\<exists>gs ms. qs @ us @ cs @ [] = gs @ ms \<and> guest_cleaned E R v gs \<and> volume_removed E v ms"
      if "volume_removed E v us" for us cs
      using \<open>guest_cleaned E R v qs\<close> volume_removed_append [OF that, of cs] by auto
  qed
  have none: "traces (\<lambda>_ rs. \<exists>gs ms. ReqGetVMI (target_key v) # rs = gs @ ms \<and> guest_cleaned E R v gs \<and> volume_removed E v ms)
      (unplug_cleanup E v)" if "fst (get_vmi E (target_key v) w) = Inl err" for w err
  proof -
    have "guest_cleaned E R v [ReqGetVMI (target_key v)]"
      unfolding guest_cleaned_def using that by (metis guest_open_def sum.distinct(1))
    then show ?thesis by (intro traces_weaken [OF unplug]) (metis append_Cons append_Nil)
  qed
  show ?thesis
    unfolding cleanup_def GetVMI_def
  proof (rule traces_bind_answer)
    fix w
    show "traces (\<lambda>y rs. \<exists>gs ms. ReqGetVMI (target_key v) # rs = gs @ ms \<and> guest_cleaned E R v gs \<and> volume_removed E v ms)
        (case fst (get_vmi E (target_key v) w) of
           Inl _ \<Rightarrow> unplug_cleanup E v
         | Inr vmi \<Rightarrow> do {
             s \<leftarrow> ssh_cleanup E R v vmi;
             case s of
               Panicked p \<Rightarrow> State_Monad.return (Panicked p)
             | Ran conn \<Rightarrow> do {
                 u \<leftarrow> unplug_cleanup E v;
                 close_conn E conn;
                 State_Monad.return u
               }
           })"
    proof (cases "fst (get_vmi E (target_key v) w)")
      case (Inl err)
      with none [OF Inl] show ?thesis by simp
    next
      case (Inr vmi)
      show ?thesis
        unfolding Inr sum.case
        by (rule traces_bind [OF ssh [OF Inr]]) (auto elim!: returns_cases dest: machine)
    qed
  qed
qed

definition releases :: "key \<Rightarrow> request \<Rightarrow> bool" where
  "releases k q \<longleftrightarrow> q = ReqGetVMFR k \<or>
     (\<exists>u. q = ReqUpdateVMFR u \<and> finalizerName \<notin> set (vmfr_Finalizers u))"

definition released :: "key \<Rightarrow> nat \<Rightarrow> outcome \<Rightarrow> request list \<Rightarrow> bool" where
  "released k n out qs \<longleftrightarrow> list_all (releases k) qs \<and> length (filter writes_vmfr qs) \<le> n \<and>
     (\<forall>r. out = Ran (r, None) \<longrightarrow> qs \<noteq> [] \<and> writes_vmfr (last qs))"

context finalizer_api
begin

lemma released_loop: "traces (released k (Suc n)) (remove_finalizer_loop E k (Suc n) u)"
proof (induction n arbitrary: u)
  case 0
  show ?case
    by (auto simp: Let_def call_defs released_def releases_def remove_set fail_with_def
        intro!: trace_rules split: sum.split)
next
  case (Suc n)
  note next_try = traces_weaken [OF Suc.IH]
  have skip: "released k (Suc (Suc n)) out (q # qs)" if "released k (Suc n) out qs" and "releases k q" for out q qs
    using that by (auto simp: released_def)
  have skip2: "released k (Suc (Suc n)) out (q # q' # qs)"
    if "released k (Suc n) out qs" and "releases k q" and "releases k q'" and "\<not> writes_vmfr q" for out q q' qs
    using that by (auto simp: released_def)
  have upd: "releases k (ReqUpdateVMFR (v\<lparr>vmfr_Finalizers := remove_finalizer E fs finalizerName\<rparr>))" for v fs
    by (simp add: releases_def remove_set)
  have get: "releases k (ReqGetVMFR k)" by (simp add: releases_def)
  have last_upd: "released k (Suc (Suc n)) done_ok [q]" "released k (Suc (Suc n)) done_ok [ReqGetVMFR k, q]"
    if "releases k q" "writes_vmfr q" for q
    using that get by (simp_all add: released_def)
  show ?case
    unfolding remove_finalizer_loop.simps(2) [of E k "Suc n"] Let_def call_defs
    by (auto intro!: trace_rules next_try split: sum.split
        simp: skip skip2 upd get last_upd simp del: remove_finalizer_loop.simps)
qed

end

lemma deletion_trace:
  assumes "cluster_api E" and "finalizer_api E" and "vmfr_DeletionTimestamp v \<noteq> None"
    and "finalizerName \<in> set (vmfr_Finalizers v)" and "vmfr_Name v \<noteq> ''''"
  shows "traces (\<lambda>out qs. \<exists>gs ms us. qs = gs @ ms @ us \<and> list_all (\<lambda>q. \<not> writes_vmfr q) (gs @ ms) \<and>
      guest_cleaned E R v gs \<and> volume_removed E v ms \<and> released k maxRetries out us) (reconcile_found E R k v)"
proof -
  have "traces (\<lambda>x qs. returns x \<and> (\<exists>gs ms. qs = gs @ ms \<and> list_all (\<lambda>q. \<not> writes_vmfr q) (gs @ ms) \<and>
      guest_cleaned E R v gs \<and> volume_removed E v ms)) (cleanup E R v)"
    using traces_conj [OF traces_emits [OF cluster_api.returning_cleanup [OF assms(1,5)]]
        traces_conj [OF traces_emits [OF quiet_cleanup] cleanup_unplugs [OF assms(1,5)]]]
    by (rule traces_weaken) (metis list_all_append)
  note clean = traces_bind [OF this]
  have "traces (released k maxRetries) (remove_finalizer_loop E k maxRetries v)"
    using finalizer_api.released_loop [OF assms(2), of k 2] by (simp add: maxRetries_def eval_nat_numeral)
  note loop = traces_weaken [OF this]
  from assms show ?thesis
    unfolding reconcile_found_def finalizer_api.contains_iff [OF assms(2)]
    by (auto intro!: clean loop elim!: returns_cases) blast
qed

end
