(* ===== verification/HelperOutput.thy ===== *)
theory HelperOutput
  imports Phases
begin

text \<open>
  The operator and the guest helper talk over text: the helper reports how many files it restored in
  a line of its output, and the operator shortens output before it stores it. The facts here say
  that the report is read back exactly, whatever else the helper prints, and what is kept of an
  output that is too long.
\<close>

lemma Split_append: "Split (a @ c # b) c = Split a c @ Split b c"
proof (induction a)
  case (Cons x xs)
  then show ?case by (cases "Split xs c") auto
qed simp

lemma TrimSpace_carriage_return:
  assumes "s \<noteq> []" and "dark (hd s)" and "dark (last s)" and "cr = [] \<or> cr = [CHR 0x0D]"
  shows "TrimSpace (s @ cr) = s"
proof -
  have "strip (map rev space_runes) (CHR 0x0D # t) = strip (map rev space_runes) t" for t
    by (subst strip.simps) (simp add: match_rune_def space_runes_def HasPrefix_def)
  moreover from assms have "strip space_runes (s @ cr) = s @ cr" by (cases s) (auto simp: strip_dark)
  moreover from assms have "strip (map rev space_runes) (rev s) = rev s"
    by (cases s rule: rev_cases) (auto simp: strip_rev_dark)
  ultimately show ?thesis using assms(4) by (auto simp: TrimSpace_def)
qed

definition report_line :: "int \<Rightarrow> string" where
  "report_line n = helper_prefix @ show_int n @ '' files restored''"

lemma show_int_nonempty [simp]: "show_int n \<noteq> []"
  by (simp add: show_int_def)

lemma sscanf_report:
  assumes "int32_min \<le> n" and "n \<le> int32_max"
  shows "sscanf_files_restored (show_int n @ '' files restored'') = Some n"
proof -
  have "scan_int32 (show_int n @ '' files restored'') = Some (n, '' files restored'')"
    using assms by (intro scan_int32_show_int) (simp_all add: is_digit_def)
  moreover have "scan_space '' files restored'' = Some ''files restored''"
    and "scan_space '' restored'' = Some ''restored''" by code_simp+
  ultimately show ?thesis by (simp add: sscanf_files_restored_def scan_literal_def HasPrefix_def)
qed

lemma TrimSpace_report:
  "cr = [] \<or> cr = [CHR 0x0D] \<Longrightarrow> TrimSpace (report_line n @ cr) = report_line n"
  by (rule TrimSpace_carriage_return)
    (simp_all add: report_line_def helper_prefix_def dark_def space_runes_def)

lemma parse_report:
  assumes "int32_min \<le> n" and "n \<le> int32_max" and "cr = [] \<or> cr = [CHR 0x0D]"
  shows "parse_lines ((report_line n @ cr) # ls) = word_of_int n"
  using sscanf_report [OF assms(1,2)]
  by (simp add: TrimSpace_report [OF assms(3)])
    (simp add: report_line_def matchFileCount_def)

text \<open>A line that reads as a report of its own. The messages the helper scripts log, which begin with a word, do not.\<close>

definition reports_count :: "string \<Rightarrow> bool" where
  "reports_count l \<longleftrightarrow> HasPrefix (TrimSpace l) helper_prefix \<and>
     sscanf_files_restored (TrimPrefix (TrimSpace l) helper_prefix) \<noteq> None"

lemma parse_skip:
  assumes "\<forall>l \<in> set ls. \<not> reports_count l"
  shows "parse_lines (ls @ ms) = parse_lines ms"
  using assms by (induction ls) (auto simp: Let_def reports_count_def matchFileCount_def split: option.split)

lemma messages_report_nothing:
  assumes "m \<noteq> []" and "dark (hd m)" and "dark (last m)" and "\<not> is_digit (hd m)" and "hd m \<notin> {CHR ''+'', CHR ''-''}"
    and "cr = [] \<or> cr = [CHR 0x0D]"
  shows "\<not> reports_count (helper_prefix @ m @ cr)"
proof -
  have "TrimSpace ((helper_prefix @ m) @ cr) = helper_prefix @ m"
    by (rule TrimSpace_carriage_return) (use assms in \<open>simp_all add: helper_prefix_def dark_def space_runes_def\<close>)
  moreover have "scan_int32 m = None"
    using assms(1,2,4,5) by (cases m) (auto simp: scan_int32_def strip_line_dark scan_sign_def split: if_splits)
  ultimately show ?thesis by (simp add: reports_count_def sscanf_files_restored_def)
qed

lemma newline_not_in_report: "newline \<notin> set (report_line n)"
proof -
  have "newline \<notin> set (show_nat m)" for m
    using show_nat_digits [of m] by (auto simp: list_all_iff newline_def is_digit_def)
  then show ?thesis
    by (simp add: report_line_def helper_prefix_def show_int_def newline_def)
qed

lemma ParseRestoredFileCount_report:
  assumes "\<forall>l \<in> set (Split before newline). \<not> reports_count l"
    and "int32_min \<le> n" and "n \<le> int32_max" and "cr = [] \<or> cr = [CHR 0x0D]"
  shows "sint (ParseRestoredFileCount
    (before @ [newline] @ report_line n @ cr @ [newline] @ rest)) = n"
proof -
  have "newline \<notin> set (report_line n @ cr)"
    using newline_not_in_report [of n] assms(4) by (auto simp: newline_def)
  then have "Split (report_line n @ cr @ newline # rest) newline = (report_line n @ cr) # Split rest newline"
    using Split_append_sep [of newline "report_line n @ cr" rest] by simp
  then show ?thesis
    using parse_report [OF assms(2-4)] sint_of_int_i32 [OF assms(2,3)]
    by (simp add: ParseRestoredFileCount_def Split_append parse_skip [OF assms(1)] del: parse_lines.simps)
qed

text \<open>C30. The first report of the guest helper is read back, whatever else the output has: after any other lines, the
  helper's own messages included, none of which is itself a report, with Unix or Windows line ends, and whatever follows.\<close>

theorem helper_report_is_read_back:
  assumes "\<forall>l \<in> set (Split before newline). \<not> reports_count l"
    and "int32_min \<le> n" and "n \<le> int32_max" and "cr = [] \<or> cr = [CHR 0x0D]"
  shows "sint (ParseRestoredFileCount
    (before @ [newline] @ report_line n @ cr @ [newline] @ rest)) = n"
  using assms by (rule ParseRestoredFileCount_report)

text \<open>The output of a Linux guest: messages of the helper, the names rsync prints, the report, a last message.\<close>

definition linux_preamble :: string where
  "linux_preamble = Join [''[filerestore] Found device: /dev/sdb'',
     ''[filerestore] Mounting /dev/sdb (fstype=xfs) at /backup-bkp with options: ro,norecovery,nouuid'',
     ''sending incremental file list'', ''etc/'', ''etc/3 files restored'', ''etc/hosts'', ''etc/fstab'', '''',
     ''sent 300 bytes  received 73 bytes  746.00 bytes/sec'', ''total size is 120  speedup is 0.32''] [newline]"

definition linux_ending :: string where
  "linux_ending = ''[filerestore] Automatic restore of /etc completed successfully'' @ [newline]"

definition linux_output :: string where
  "linux_output = linux_preamble @ [newline] @ report_line 3 @ [newline] @ linux_ending"

lemma linux_preamble_lines: "\<forall>l \<in> set (Split linux_preamble newline). \<not> reports_count l"
proof -
  have "list_all (\<lambda>l. \<not> reports_count l) (Split linux_preamble newline)" by code_simp
  then show ?thesis by (simp only: list_all_iff)
qed

theorem helper_report_is_read_back_witness:
  "sint (ParseRestoredFileCount (linux_preamble @ [newline] @ report_line 3 @ [CHR 0x0D] @ [newline] @
     report_line 100 @ [newline] @ linux_ending)) = 3"
  by (rule helper_report_is_read_back [OF linux_preamble_lines]) code_simp+

text \<open>An output without a report has no count: the parser answers -1.\<close>

theorem no_report_no_count:
  assumes "\<forall>l \<in> set (Split out newline). \<not> reports_count l"
  shows "sint (ParseRestoredFileCount out) = - 1"
  using parse_skip [OF assms, of "[]"] by (simp add: ParseRestoredFileCount_def)

theorem no_report_no_count_witness:
  "sint (ParseRestoredFileCount (''12 files restored'' @ [newline] @ ''sent 40 bytes'')) = - 1"
  by (rule no_report_no_count) code_simp

text \<open>Shortening an output keeps exactly its last lines, as a suffix of the text.\<close>

theorem truncation_keeps_last_lines:
  assumes "0 < n"
  shows "Split (TruncateOutput out n) newline = drop (length (Split out newline) - n) (Split out newline) \<and>
    HasSuffix out (TruncateOutput out n)"
  using TruncateOutput_Split [OF assms] TruncateOutput_suffix by simp

theorem truncation_keeps_last_lines_witness:
  "TruncateOutput (''a'' @ [newline] @ ''b'' @ [newline] @ ''c'') 2 = ''b'' @ [newline] @ ''c'' \<and>
   HasSuffix (''a'' @ [newline] @ ''b'' @ [newline] @ ''c'') (''b'' @ [newline] @ ''c'')"
proof -
  have "TruncateOutput (''a'' @ [newline] @ ''b'' @ [newline] @ ''c'') 2 = ''b'' @ [newline] @ ''c''"
    by code_simp
  with truncation_keeps_last_lines [of 2 "''a'' @ [newline] @ ''b'' @ [newline] @ ''c''"]
  show ?thesis by simp
qed

end
