(* ===== verification/Budget.thy ===== *)
theory Budget
  imports Phases
begin

text \<open>
  The retry budgets of the two polling phases. \<open>retry_budget\<close> is what a polling phase needs of its
  counter: a poll that failed counts by one. Both counters of the status are instances, and what
  follows for the number of polls is shown once.
\<close>

locale retry_budget =
  fixes count :: "VirtualMachineFileRestoreStatus \<Rightarrow> i32" and retryType :: string and limit :: int
  assumes counts: "sint (count s) < limit \<Longrightarrow> sint (count (bump_retry retryType s)) = sint (count s) + 1"
begin

lemma counts_up:
  "sint (count s) + int n \<le> limit \<Longrightarrow> sint (count ((bump_retry retryType ^^ n) s)) = sint (count s) + int n"
proof (induction n)
  case (Suc n)
  then have "sint (count ((bump_retry retryType ^^ n) s)) = sint (count s) + int n" by simp
  with Suc.prems counts [of "(bump_retry retryType ^^ n) s"] show ?case by simp
qed simp

text \<open>The budget is used up after exactly the polls that were left, and not before.\<close>

lemma used_up_iff:
  assumes "sint (count s) \<le> limit" and "int n \<le> limit - sint (count s)"
  shows "limit \<le> sint (count ((bump_retry retryType ^^ n) s)) \<longleftrightarrow> int n = limit - sint (count s)"
  using counts_up [of s n] assms by auto

end

interpretation attachment: retry_budget AttachmentRetries "''attachment''" maxAttachmentWait
  by unfold_locales (simp add: bump_retry_def maxAttachmentWait_def sint_succ_i32 int32_max_def)

interpretation ssh: retry_budget SSHRetries "''ssh''" maxSSHWait
  by unfold_locales (simp add: bump_retry_def maxSSHWait_def sint_succ_i32 int32_max_def)

subsection \<open>Delays\<close>

lemma backoff_5s:
  "backoff (5 * second) r = (if sint r < 5 then 5 * second else if sint r < 10 then 10 * second else 20 * second)"
  by (simp add: backoff_def second_def Let_def wrap64_id int64_min_def int64_max_def)

text \<open>The time the operator asks to wait over a number of failed polls in a row, the first of which
  sets the counter to 1.\<close>

definition total_wait :: "duration \<Rightarrow> nat \<Rightarrow> duration" where
  "total_wait baseDelay n = sum_list (map (\<lambda>i. backoff baseDelay (word_of_nat i)) [1..<Suc n])"

text \<open>C32. For a base delay that leaves room for the doubling, the delay never exceeds 30 seconds, never falls
  below the base delay or 30 seconds, and never shrinks as failures accumulate.\<close>

theorem backoff_bounds:
  assumes "0 \<le> baseDelay" and "4 * baseDelay \<le> int64_max" and "sint r \<le> sint r'"
  shows "min baseDelay (30 * second) \<le> backoff baseDelay r \<and> backoff baseDelay r \<le> backoff baseDelay r' \<and>
    backoff baseDelay r' \<le> 30 * second"
proof -
  have "wrap64 (baseDelay * 2) = baseDelay * 2" and "wrap64 (baseDelay * 4) = baseDelay * 4"
    using assms by (simp_all add: wrap64_id int64_min_def int64_max_def)
  with assms show ?thesis by (auto simp: backoff_def Let_def second_def)
qed

theorem backoff_bounds_witness:
  "backoff (5 * second) 3 = 5 * second \<and> backoff (5 * second) 3 \<le> backoff (5 * second) 12 \<and>
   backoff (5 * second) 12 \<le> 30 * second"
proof -
  have "backoff (5 * second) 3 = 5 * second" by code_simp
  with backoff_bounds [of "5 * second" 3 12] show ?thesis
    by (simp add: second_def int64_max_def)
qed

text \<open>With the base delay of 5 seconds both polling phases use, the budgets of 60 and 24 polls mean
  1090 and 370 seconds of waiting, not the 5 and 2 minutes of the comments and messages.\<close>

theorem polling_budget_in_seconds:
  "total_wait (5 * second) (nat maxAttachmentWait) = 1090 * second \<and>
   total_wait (5 * second) (nat maxSSHWait) = 370 * second \<and> 5 * minute < 1090 * second \<and> 2 * minute < 370 * second"
  by code_simp

end
