(* ===== verification/Conditions.thy ===== *)
theory Conditions
  imports Reconciler
begin

text \<open>
  Lists of conditions. \<open>condition_update\<close> is the contract of a routine that sets a condition: the
  condition of that type then says what was set, conditions of other types are untouched, and no
  type appears twice. The operator's own \<open>setCondition\<close> meets it; so does, by its documentation,
  \<open>SetStatusCondition\<close> of the API machinery, which the operator controller uses.
\<close>

definition condition_of :: "string \<Rightarrow> Condition list \<Rightarrow> Condition option" where
  "condition_of ty cs = find (\<lambda>c. c_Type c = ty) cs"

text \<open>What a condition says, apart from when it changed.\<close>

definition says :: "Condition \<Rightarrow> ConditionStatus \<times> string \<times> string \<times> int" where
  "says c = (c_Status c, c_Reason c, c_Message c, c_ObservedGeneration c)"

locale condition_update =
  fixes upd :: "Condition list \<Rightarrow> Condition \<Rightarrow> Condition list"
  assumes upd_same: "map_option says (condition_of (c_Type new) (upd cs new)) = Some (says new)"
    and upd_other: "ty \<noteq> c_Type new \<Longrightarrow> condition_of ty (upd cs new) = condition_of ty cs"
    and upd_distinct: "distinct (map c_Type cs) \<Longrightarrow> distinct (map c_Type (upd cs new))"
begin

text \<open>After any sequence of updates, every type says what was set last, or what it said before.\<close>

lemma updates_last:
  "map_option says (condition_of ty (foldl upd cs news)) =
     (if filter (\<lambda>c. c_Type c = ty) news = [] then map_option says (condition_of ty cs)
      else Some (says (last (filter (\<lambda>c. c_Type c = ty) news))))"
proof (induction news rule: rev_induct)
  case (snoc new news)
  show ?case
  proof (cases "c_Type new = ty")
    case True
    with upd_same [of new "foldl upd cs news"] show ?thesis by simp
  next
    case False
    with snoc upd_other [of ty new "foldl upd cs news"] show ?thesis by simp
  qed
qed simp

lemma updates_distinct: "distinct (map c_Type cs) \<Longrightarrow> distinct (map c_Type (foldl upd cs news))"
  by (induction news arbitrary: cs) (simp_all add: upd_distinct)

end

lemma set_condition_types: "set (map c_Type (set_condition cs new)) = insert (c_Type new) (set (map c_Type cs))"
  by (induction cs) auto

interpretation conditions: condition_update set_condition
proof
  show "map_option says (condition_of (c_Type new) (set_condition cs new)) = Some (says new)" for new cs
    by (induction cs) (auto simp: condition_of_def)
  show "condition_of ty (set_condition cs new) = condition_of ty cs" if "ty \<noteq> c_Type new" for ty new cs
    using that by (induction cs) (auto simp: condition_of_def)
  show "distinct (map c_Type (set_condition cs new))" if "distinct (map c_Type cs)" for cs new
    using that
  proof (induction cs)
    case (Cons c cs)
    then show ?case using set_condition_types [of cs new] by (auto simp flip: set_map)
  qed simp
qed

end
