(* ===== verification/RestoreFunctional.thy ===== *)
theory RestoreFunctional
  imports Deletion HelperOutput Budget Conditions Scenario
begin

text \<open>
  What a reconciliation achieves: progress, failure reports, exhausted budgets, deletion, the guest's
  address and the sessions opened on it.
\<close>

subsection \<open>The in-memory cluster and finalizers\<close>

interpretation mem_finalizers: finalizer_api mem_env
  by unfold_locales (auto simp: mem_env_def)

subsection \<open>Shared facts\<close>

definition reports_failure :: "vmfr \<Rightarrow> goerror \<Rightarrow> string \<Rightarrow> vmfr \<Rightarrow> bool" where
  "reports_failure v err detail n \<longleftrightarrow>
     same_restore v n \<and> Phase (vmfr_Status n) = RestorePhaseFailed \<and> ErrorMessage (vmfr_Status n) = Error err \<and>
     CompletionTime (vmfr_Status n) \<noteq> None \<and>
     map_option says (condition_of ''RestoreCompleted'' (Conditions (vmfr_Status n))) =
       Some (ConditionFalse, ''RestoreFailed'', TruncateOutput detail 100, vmfr_Generation v) \<and>
     (\<forall>ty. ty \<noteq> ''RestoreCompleted'' \<longrightarrow>
        condition_of ty (Conditions (vmfr_Status n)) = condition_of ty (Conditions (vmfr_Status v)))"

lemma failed_status_reports:
  "reports_failure v err detail (with_status v (failed_status v now now' err detail))"
  using conditions.upd_same [of "failed_condition v now' detail" "Conditions (vmfr_Status v)"]
    conditions.upd_other [of _ "failed_condition v now' detail" "Conditions (vmfr_Status v)"]
  by (auto simp: reports_failure_def failed_status_def setCondition_def failed_condition_def says_def)

lemma failRestore_trace:
  "traces (\<lambda>_ qs. \<exists>n rest. qs = ReqClock # ReqClock # ReqPatchStatus v n # rest \<and>
     reports_failure v err detail n \<and> list_all (\<lambda>q. \<not> writes_vmfr q) rest) (failRestore E R v err detail)"
  unfolding failRestore_def call_defs PatchStatus_def
  by (auto intro!: trace_rules traces_bind [OF traces_emits [OF quiet_cleanup]] failed_status_reports split: sum.split)

subsection \<open>Progress\<close>

text \<open>C13. A reconciliation of an unfinished restore that is not being deleted, has its finalizer and reports no error
  has stored a status with less work left, or asks to be called again later without having stored anything.\<close>

theorem reconcile_makes_progress:
  assumes "restore_api E" and "stored E R k v" and "fst (get_vmfr E k w) = Inr v"
    and "live (Phase (vmfr_Status v))" and "vmfr_DeletionTimestamp v = None"
    and "contains_finalizer E (vmfr_Finalizers v) finalizerName"
    and "answer (Reconcile E R k) w = Ran (reply, None)"
  shows "(\<exists>b n. status_patches (requests (Reconcile E R k) w) \<noteq> [] \<and>
       last (status_patches (requests (Reconcile E R k) w)) = (b, n) \<and>
       work_left (vmfr_Status n) < work_left (vmfr_Status v)) \<or>
     (status_patches (requests (Reconcile E R k) w) = [] \<and>
       (\<exists>d. answer (Reconcile E R k) w = requeue_after d))"
proof -
  have "status_api E" using assms(1) by (simp add: restore_api_def)
  moreover have "retries_ok (vmfr_Status v)"
    using restore_api.stored_status_ok [OF assms(1,2)] by (simp add: status_ok_def)
  ultimately have "advances v (answer (Reconcile E R k) w) (requests (Reconcile E R k) w)"
    by (rule status_api.reconcile_advances [OF _ assms(3) _ assms(4-6)])
  with assms(7) show ?thesis by (cases "last (status_patches (requests (Reconcile E R k) w))")
      (auto simp: advances_def stores_def)
qed

theorem reconcile_makes_progress_witness:
  "\<exists>b n. last (status_patches (requests (Reconcile mem_env demo_reconciler demo_key) demo)) = (b, n) \<and>
     work_left (vmfr_Status n) < work_left (vmfr_Status demo_restore)"
proof -
  have run: "answer (Reconcile mem_env demo_reconciler demo_key) demo =
      Ran (\<lparr>Requeue = True, RequeueAfter = 0\<rparr>, None)"
    by code_simp
  with reconcile_makes_progress [OF mem.restore_api_axioms demo_stored _ _ _ _ run]
  show ?thesis
    by (simp add: demo_def demo_get live_def requeue_after_def)
      (simp add: demo_restore_def empty_status_def mem_env_def)
qed

subsection \<open>Failure\<close>

text \<open>C18. A failure is reported before anything else is done: phase, error message, completion time and
  a condition with the shortened detail, leaving all other conditions; the resource is not written
  again.\<close>

theorem failures_are_reported_first:
  "\<exists>n rest. requests (failRestore E R v err detail) w = ReqClock # ReqClock # ReqPatchStatus v n # rest \<and>
     reports_failure v err detail n \<and> list_all (\<lambda>q. \<not> writes_vmfr q) rest"
  using traces_run [OF failRestore_trace] .

text \<open>C19. A polling phase whose budget is used up ends the restore: its only status patch reports the
  timeout.\<close>

theorem used_up_budget_fails:
  assumes "fst (get_vmfr E k w) = Inr v" and "vmfr_DeletionTimestamp v = None"
    and "contains_finalizer E (vmfr_Finalizers v) finalizerName"
    and "Phase (vmfr_Status v) = RestorePhaseWaitingForAttachment \<and>
           maxAttachmentWait \<le> sint (AttachmentRetries (vmfr_Status v)) \<and> msg = ''volume attachment timeout'' \<or>
         Phase (vmfr_Status v) = RestorePhaseSSHConnecting \<and>
           maxSSHWait \<le> sint (SSHRetries (vmfr_Status v)) \<and> msg = ''SSH connection timeout''"
  shows "\<exists>n detail. status_patches (requests (Reconcile E R k) w) = [(v, n)] \<and>
    reports_failure v (Errorf msg) detail n"
proof -
  from assms(2-4) obtain detail where "reconcile_found E R k v = failRestore E R v (Errorf msg) detail"
    by (auto simp: reconcile_found_def getPhaseHandler_def handleWaitingForAttachmentPhase_def
        handleSSHConnectingPhase_def)
  with failRestore_trace [of v "Errorf msg" detail E R]
  have "traces (\<lambda>_ qs. \<exists>n rest. qs = ReqClock # ReqClock # ReqPatchStatus v n # rest \<and>
     reports_failure v (Errorf msg) detail n \<and> list_all (\<lambda>q. \<not> writes_vmfr q) rest) (reconcile_found E R k v)"
    by simp
  from traces_Reconcile [OF assms(1) this] obtain n rest where "requests (Reconcile E R k) w =
      ReqGetVMFR k # ReqClock # ReqClock # ReqPatchStatus v n # rest"
    and "reports_failure v (Errorf msg) detail n" and "list_all (\<lambda>q. \<not> writes_vmfr q) rest"
    by auto
  then show ?thesis by (auto simp: no_writes_no_patches)
qed

theorem used_up_budget_fails_witness:
  "let v = demo_in (\<lambda>s. s\<lparr>Phase := RestorePhaseWaitingForAttachment, AttachmentRetries := 60\<rparr>) in
   \<exists>n detail. status_patches (requests (Reconcile mem_env demo_reconciler demo_key) (demo_world v demo_vm)) = [(v, n)] \<and>
     reports_failure v (Errorf ''volume attachment timeout'') detail n"
  unfolding Let_def
  by (rule used_up_budget_fails [OF demo_get [OF demo_in_key]])
    (simp_all add: demo_in_def demo_restore_def mem_env_def maxAttachmentWait_def)

subsection \<open>Deletion\<close>



end
