(* ===== verification/GuestAccess.thy ===== *)
theory GuestAccess
  imports RestoreFunctional
begin

text \<open>
  What the operator does inside a guest: which connections it opens and with which secret, which
  commands it runs, the sessions around them, and the paths it uses.
\<close>

text \<open>C21. Whatever a reconciliation does, it reads no secret but the operator's own key, dials only
  port 22 with the fixed algorithm lists, and runs only the guest helper, with the restore's own
  volume and a time limit.\<close>

theorem guest_access_is_restricted:
  assumes "restore_api E" and "fst (get_vmfr E k w) = Inr v" and "q \<in> set (requests (Reconcile E R k) w)"
  shows "case q of
      ReqReadSecret key \<Rightarrow> key = (getOperatorNamespace R, OperatorResourceName)
    | ReqDial addr cfg \<Rightarrow> (\<exists>ip signer. ip \<noteq> '''' \<and> addr = JoinHostPort ip ''22'' \<and> cfg = ssh_config signer)
    | ReqRun command limit \<Rightarrow> helper_command v command limit
    | _ \<Rightarrow> True"
  using restore_api.requests_Reconcile [OF assms(1,3)] assms(2)
  by (auto simp: fips_dial_def split: request.split)

theorem guest_access_is_restricted_witness:
  "let v = demo_in (\<lambda>s. s\<lparr>Phase := RestorePhaseRestoring, MountPath := ''/backup-bkp''\<rparr>);
       command = ''/usr/local/bin/filerestore.sh restore --serial r1-restore --mount-path /backup-bkp --source-path /etc'' in
   ReqRun command (10 * minute) \<in> set (requests (Reconcile mem_env demo_reconciler demo_key) (demo_world v demo_vm)) \<and>
   helper_command v command (10 * minute)"
proof -
  let ?v = "demo_in (\<lambda>s. s\<lparr>Phase := RestorePhaseRestoring, MountPath := ''/backup-bkp''\<rparr>)"
  let ?c = "''/usr/local/bin/filerestore.sh restore --serial r1-restore --mount-path /backup-bkp --source-path /etc''"
  have "ReqRun ?c (10 * minute) \<in> set (requests (Reconcile mem_env demo_reconciler demo_key) (demo_world ?v demo_vm))"
    by code_simp
  with guest_access_is_restricted [OF mem.restore_api_axioms demo_get [OF demo_in_key] this] show ?thesis
    unfolding Let_def by simp
qed

text \<open>C22. A session that was opened is closed, on every path: a command that could not get a session
  fails at once; otherwise the command runs once and closing the session is the last step.\<close>

theorem sessions_are_closed:
  "(requests (RunCommand E c command limit) w = [ReqNewSession] \<and>
      (\<exists>err. snd (snd (answer (RunCommand E c command limit) w)) = Some err)) \<or>
   (\<exists>qs. requests (RunCommand E c command limit) w = ReqNewSession # ReqRun command limit # qs @ [ReqCloseSession] \<and>
      ReqNewSession \<notin> set qs \<and> ReqCloseSession \<notin> set qs)"
proof -
  have "traces (\<lambda>x rs. (rs = [ReqNewSession] \<and> (\<exists>err. snd (snd x) = Some err)) \<or>
      (\<exists>qs. rs = ReqNewSession # ReqRun command limit # qs @ [ReqCloseSession] \<and>
        ReqNewSession \<notin> set qs \<and> ReqCloseSession \<notin> set qs)) (RunCommand E c command limit)"
    unfolding RunCommand_def call_defs
    by (auto intro!: trace_rules split: option.split session_end.split
        intro: exI [of _ "[ReqOutput]"] exI [of _ "[ReqSignal, ReqOutput]"])
  from traces_run [OF this] show ?thesis .
qed

text \<open>C31. The address of a guest is never empty: it is an address of its default interface, else of
  another interface, else, when no interface has one, of a pod that the instance owns.\<close>

theorem guest_address_choice:
  assumes "answer (GetVMIPAddress E (Some vmi)) w = Inr ip"
  shows "ip \<noteq> '''' \<and>
    ((\<exists>i \<in> set (vmi_Interfaces vmi). if_IP i = ip \<and>
        (if_Name i = defaultInterfaceName \<or>
         (\<forall>j \<in> set (vmi_Interfaces vmi). if_Name j = defaultInterfaceName \<longrightarrow> if_IP j = ''''))) \<or>
     ((\<forall>i \<in> set (vmi_Interfaces vmi). if_IP i = '''') \<and>
      (\<exists>pods pod. fst (list_pods E (vmi_Namespace vmi) (vmi_Name vmi) w) = Inr pods \<and> pod \<in> set pods \<and>
         vmi_UID vmi \<in> set (pod_OwnerUIDs pod) \<and> pod_IP pod = ip)))"
proof (cases "find (\<lambda>i. if_Name i = defaultInterfaceName \<and> if_IP i \<noteq> '''') (vmi_Interfaces vmi)")
  case (Some i)
  with assms have "if_IP i = ip" by (simp add: GetVMIPAddress_def answer_def)
  with find_SomeD [OF Some] show ?thesis by blast
next
  case None
  note no_default = this
  then have empty: "\<forall>j \<in> set (vmi_Interfaces vmi). if_Name j = defaultInterfaceName \<longrightarrow> if_IP j = ''''"
    by (auto simp: find_None_iff)
  show ?thesis
  proof (cases "find (\<lambda>i. if_IP i \<noteq> '''') (vmi_Interfaces vmi)")
    case (Some i)
    with assms no_default have "if_IP i = ip" by (simp add: GetVMIPAddress_def answer_def)
    with find_SomeD [OF Some] empty show ?thesis by blast
  next
    case None
    then have none: "\<forall>i \<in> set (vmi_Interfaces vmi). if_IP i = ''''" by (auto simp: find_None_iff)
    from assms no_default None obtain pods pod where
      "fst (list_pods E (vmi_Namespace vmi) (vmi_Name vmi) w) = Inr pods"
      and "find (owned_by (vmi_UID vmi)) pods = Some pod" and "pod_IP pod = ip" and "ip \<noteq> ''''"
      by (auto simp: GetVMIPAddress_def getPodForVMI_def answer_def call_defs
          split: sum.splits option.splits if_splits)
    with none find_SomeD [of "owned_by (vmi_UID vmi)" pods pod] show ?thesis
      by (simp add: owned_by_def) blast
  qed
qed

theorem guest_address_choice_witness:
  "answer (GetVMIPAddress mem_env (Some demo_vmi)) demo = Inr ''10.0.0.5'' \<and> ''10.0.0.5'' \<noteq> ''''"
proof -
  have "answer (GetVMIPAddress mem_env (Some demo_vmi)) demo = Inr ''10.0.0.5''" by code_simp
  with guest_address_choice [OF this] show ?thesis by blast
qed

text \<open>C40. A source path of nothing but slashes is trimmed away, so that the helper gets the command of a
  manual restore, which copies nothing; yet the restore is treated as an automatic one and goes on
  to Cleanup with a file count.\<close>

theorem root_source_path_mounts_only:
  assumes "SourcePath (vmfr_Spec v) \<noteq> ''''" and "set (SourcePath (vmfr_Spec v)) \<subseteq> set slashes"
  shows "BuildSSHCommand os volume path (SourcePath (vmfr_Spec v)) = BuildSSHCommand os volume path '''' \<and>
    (\<exists>n count rest. requests (restore_finish E v stdout) w = ReqPatchStatus v n # rest \<and>
       Phase (vmfr_Status n) = RestorePhaseCleanup \<and> RestoredFilesCount (vmfr_Status n) = Some count)"
proof -
  have "traces (\<lambda>_ qs. \<exists>n count rest. qs = ReqPatchStatus v n # rest \<and>
       Phase (vmfr_Status n) = RestorePhaseCleanup \<and> RestoredFilesCount (vmfr_Status n) = Some count)
     (restore_finish E v stdout)"
    using assms(1) unfolding restore_finish_def Let_def call_defs PatchStatus_def
    by (auto intro!: trace_rules split: sum.split)
  from traces_run [OF this, of w] show ?thesis
    using TrimRight_all [OF assms(2)] by (simp add: BuildSSHCommand_def TrimRight_keep)
qed

theorem root_source_path_mounts_only_witness:
  "BuildSSHCommand osTypeLinux ''r1-restore'' ''/backup-bkp'' ''/'' = BuildSSHCommand osTypeLinux ''r1-restore'' ''/backup-bkp'' ''''"
  using root_source_path_mounts_only [of "demo_restore\<lparr>vmfr_Spec := demo_spec\<lparr>SourcePath := ''/''\<rparr>\<rparr>"
      osTypeLinux "''r1-restore''" "''/backup-bkp''" mem_env "''''" demo]
  by (simp add: slashes_def)

end
