(* ===== verification/Keypair.thy ===== *)
theory Keypair
  imports Reconciler
begin

text \<open>
  internal/controller/keypair.go: the secret with the operator's private SSH key, and the config map
  with the public key and the archives of the guest helpers.

  The client, the key generator, the codecs of \<open>golang.org/x/crypto/ssh\<close> and \<open>encoding/pem\<close>, and
  the writer of \<open>archive/tar\<close> are parameters. The embedded scripts are read by name
  (guest-helpers/linux/embed.go and guest-helpers/windows/embed.go).
\<close>

definition cmKeyPublicKey :: string where "cmKeyPublicKey = ''ssh-publickey''"
definition cmKeyLinuxHelpers :: string where "cmKeyLinuxHelpers = ''linux-helpers.tar''"
definition cmKeyWindowsHelpers :: string where "cmKeyWindowsHelpers = ''windows-helpers.tar''"

definition linux_SetupScriptName :: string where "linux_SetupScriptName = ''setup.sh''"
definition linux_FileRestoreScriptName :: string where "linux_FileRestoreScriptName = ''filerestore.sh''"
definition windows_SetupScriptName :: string where "windows_SetupScriptName = ''setup.bat''"
definition windows_FileRestoreScriptName :: string where "windows_FileRestoreScriptName = ''filerestore.bat''"

definition SecretTypeSSHAuth :: string where "SecretTypeSSHAuth = ''kubernetes.io/ssh-auth''"

text \<open>\<open>BinaryData\<close> may be a nil map.\<close>

record ConfigMap =
  cm_Name :: string
  cm_Namespace :: string
  cm_Data :: "string \<rightharpoonup> string"
  cm_BinaryData :: "(string \<rightharpoonup> string) option"

record ('w, 'b) keyenv =
  k_get_secret :: "key \<Rightarrow> 'w \<Rightarrow> (goerror + Secret) \<times> 'w"
  k_get_cm :: "key \<Rightarrow> 'w \<Rightarrow> (goerror + ConfigMap) \<times> 'w"
  k_create_secret :: "Secret \<Rightarrow> 'w \<Rightarrow> (goerror + unit) \<times> 'w"
  k_create_cm :: "ConfigMap \<Rightarrow> 'w \<Rightarrow> (goerror + unit) \<times> 'w"
  k_update_cm :: "ConfigMap \<Rightarrow> 'w \<Rightarrow> (goerror + unit) \<times> 'w"
  k_delete_cm :: "key \<Rightarrow> 'w \<Rightarrow> (goerror + unit) \<times> 'w"
  k_generate :: "'w \<Rightarrow> (goerror + (string \<times> string)) \<times> 'w" \<comment> \<open>public and private key\<close>
  k_marshal_private :: "string \<Rightarrow> goerror + string"
  k_new_public :: "string \<Rightarrow> goerror + string"
  k_pem_encode :: "string \<Rightarrow> string"
  k_parse_private :: "string \<Rightarrow> goerror + string"
  k_public_of :: "string \<Rightarrow> string"
  k_authorized :: "string \<Rightarrow> string"
  k_linux_scripts :: "string \<Rightarrow> goerror + string"
  k_windows_scripts :: "string \<Rightarrow> goerror + string"
  k_tar_new :: 'b
  k_tar_header :: "'b \<Rightarrow> string \<Rightarrow> int \<Rightarrow> int \<Rightarrow> goerror + 'b"
  k_tar_write :: "'b \<Rightarrow> string \<Rightarrow> goerror + 'b"
  k_tar_close :: "'b \<Rightarrow> goerror + string"

datatype key_request =
    KGetSecret key
  | KGetConfigMap key
  | KCreateSecret Secret
  | KCreateConfigMap ConfigMap
  | KUpdateConfigMap ConfigMap
  | KDeleteConfigMap key
  | KGenerateKey
  | KSleep duration

type_synonym ('w, 'a) kcmd = "(('w, key_request) sys, 'a) state"

subsection \<open>Archives\<close>

definition mode_executable :: int where "mode_executable = 7 * 64 + 5 * 8 + 5" \<comment> \<open>octal 0755\<close>
definition mode_plain :: int where "mode_plain = 6 * 64 + 4 * 8 + 4" \<comment> \<open>octal 0644\<close>

text \<open>\<open>buildTar\<close>: the loop over the names with the writer's state, then the close.\<close>

fun tar_files :: "('w, 'b) keyenv \<Rightarrow> (string \<Rightarrow> goerror + string) \<Rightarrow> string list \<Rightarrow> 'b \<Rightarrow> goerror + 'b" where
  "tar_files K scripts [] tw = Inr tw"
| "tar_files K scripts (name # names) tw =
     (case scripts name of
        Inl err \<Rightarrow> Inl (Wrapf (''read '' @ name) err)
      | Inr content \<Rightarrow>
          (case k_tar_header K tw name (if HasSuffix name ''.sh'' then mode_executable else mode_plain) (int (length content)) of
             Inl err \<Rightarrow> Inl (Wrapf (''write tar header for '' @ name) err)
           | Inr tw1 \<Rightarrow>
               (case k_tar_write K tw1 content of
                  Inl err \<Rightarrow> Inl (Wrapf (''write tar content for '' @ name) err)
                | Inr tw2 \<Rightarrow> tar_files K scripts names tw2)))"

definition buildTar ::
  "('w, 'b) keyenv \<Rightarrow> (string \<Rightarrow> goerror + string) \<Rightarrow> string list \<Rightarrow> goerror + string" where
  "buildTar K scripts names =
     (case tar_files K scripts names (k_tar_new K) of
        Inl err \<Rightarrow> Inl err
      | Inr tw \<Rightarrow> (case k_tar_close K tw of Inl err \<Rightarrow> Inl (Wrapf ''close tar'' err) | Inr bytes \<Rightarrow> Inr bytes))"

text \<open>The two archives, built in the same way by \<open>createConfigMap\<close> and \<open>ensureHelperTars\<close>.\<close>

definition helper_tars :: "('w, 'b) keyenv \<Rightarrow> goerror + string \<times> string" where
  "helper_tars K =
     (case buildTar K (k_linux_scripts K) [linux_SetupScriptName, linux_FileRestoreScriptName] of
        Inl err \<Rightarrow> Inl (Wrapf ''failed to build linux helpers tar'' err)
      | Inr linuxTar \<Rightarrow>
          (case buildTar K (k_windows_scripts K) [windows_SetupScriptName, windows_FileRestoreScriptName] of
             Inl err \<Rightarrow> Inl (Wrapf ''failed to build windows helpers tar'' err)
           | Inr windowsTar \<Rightarrow> Inr (linuxTar, windowsTar)))"

subsection \<open>The config map\<close>

definition new_config_map :: "string \<Rightarrow> string \<Rightarrow> string \<Rightarrow> string \<Rightarrow> ConfigMap" where
  "new_config_map namespace pubKeyStr linuxTar windowsTar =
     \<lparr>cm_Name = OperatorResourceName, cm_Namespace = namespace,
      cm_Data = [cmKeyPublicKey \<mapsto> pubKeyStr],
      cm_BinaryData = Some [cmKeyLinuxHelpers \<mapsto> linuxTar, cmKeyWindowsHelpers \<mapsto> windowsTar]\<rparr>"

definition createConfigMap ::
  "('w, 'b) keyenv \<Rightarrow> string \<Rightarrow> string \<Rightarrow> ('w, goerror option) kcmd" where
  "createConfigMap K namespace pubKeyStr =
     (case helper_tars K of
        Inl err \<Rightarrow> State_Monad.return (Some err)
      | Inr (linuxTar, windowsTar) \<Rightarrow> do {
          let cm = new_config_map namespace pubKeyStr linuxTar windowsTar;
          r \<leftarrow> call (KCreateConfigMap cm) (k_create_cm K cm);
          State_Monad.return (case r of
              Inl err \<Rightarrow> Some (Wrapf ''failed to create ConfigMap'' err)
            | Inr _ \<Rightarrow> None)
        })"

text \<open>A map read at a missing key answers the empty slice, and a nil map reads as an empty one.\<close>

definition binary_at :: "ConfigMap \<Rightarrow> string \<Rightarrow> string" where
  "binary_at cm k = (case Option.bind (cm_BinaryData cm) (\<lambda>m. m k) of None \<Rightarrow> '''' | Some b \<Rightarrow> b)"

definition with_tars :: "string \<Rightarrow> string \<Rightarrow> ConfigMap \<Rightarrow> ConfigMap" where
  "with_tars linuxTar windowsTar cm =
     cm\<lparr>cm_BinaryData := Some ((case cm_BinaryData cm of None \<Rightarrow> Map.empty | Some m \<Rightarrow> m)
          (cmKeyLinuxHelpers \<mapsto> linuxTar, cmKeyWindowsHelpers \<mapsto> windowsTar))\<rparr>"

definition ensureHelperTars :: "('w, 'b) keyenv \<Rightarrow> ConfigMap \<Rightarrow> ('w, goerror option) kcmd" where
  "ensureHelperTars K cm =
     (case helper_tars K of
        Inl err \<Rightarrow> State_Monad.return (Some err)
      | Inr (linuxTar, windowsTar) \<Rightarrow>
          if binary_at cm cmKeyLinuxHelpers = linuxTar \<and> binary_at cm cmKeyWindowsHelpers = windowsTar
          then State_Monad.return None
          else do {
            let cm1 = with_tars linuxTar windowsTar cm;
            r \<leftarrow> call (KUpdateConfigMap cm1) (k_update_cm K cm1);
            case r of
              Inr _ \<Rightarrow> State_Monad.return None
            | Inl err \<Rightarrow>
                if IsConflict err then do {
                  let k = (cm_Namespace cm1, cm_Name cm1);
                  g \<leftarrow> call (KGetConfigMap k) (k_get_cm K k);
                  case g of
                    Inl getErr \<Rightarrow> State_Monad.return (Some (Wrapf ''failed to re-fetch ConfigMap after conflict'' getErr))
                  | Inr cm2 \<Rightarrow> do {
                      let cm3 = with_tars linuxTar windowsTar cm2;
                      u \<leftarrow> call (KUpdateConfigMap cm3) (k_update_cm K cm3);
                      State_Monad.return (case u of
                          Inl retryErr \<Rightarrow> Some (Wrapf ''failed to update ConfigMap with helper tars (after conflict retry)'' retryErr)
                        | Inr _ \<Rightarrow> None)
                    }
                } else State_Monad.return (Some (Wrapf ''failed to update ConfigMap with helper tars'' err))
          })"

subsection \<open>The keypair\<close>

definition createConfigMapFromSecret ::
  "('w, 'b) keyenv \<Rightarrow> string \<Rightarrow> Secret \<Rightarrow> ('w, goerror option) kcmd" where
  "createConfigMapFromSecret K namespace secret =
     (case sec_Data secret SSHAuthPrivateKey of
        Some (c # privKeyPEM) \<Rightarrow>
          (case k_parse_private K (c # privKeyPEM) of
             Inl err \<Rightarrow> State_Monad.return (Some (Wrapf ''failed to parse existing private key'' err))
           | Inr signer \<Rightarrow> createConfigMap K namespace (k_authorized K (k_public_of K signer)))
      | _ \<Rightarrow> State_Monad.return (Some (Errorf (''existing Secret is missing '' @ SSHAuthPrivateKey @
               ''; cannot recover ConfigMap without the private key''))))"

definition new_secret :: "('w, 'b) keyenv \<Rightarrow> string \<Rightarrow> string \<Rightarrow> Secret" where
  "new_secret K namespace privKeyBytes =
     \<lparr>sec_Name = OperatorResourceName, sec_Namespace = namespace, sec_Type = SecretTypeSSHAuth,
      sec_Data = [SSHAuthPrivateKey \<mapsto> k_pem_encode K privKeyBytes]\<rparr>"

definition createKeypairAndConfigMap :: "('w, 'b) keyenv \<Rightarrow> string \<Rightarrow> ('w, goerror option) kcmd" where
  "createKeypairAndConfigMap K namespace = do {
     g \<leftarrow> call KGenerateKey (k_generate K);
     case g of
       Inl err \<Rightarrow> State_Monad.return (Some (Wrapf ''failed to generate keypair'' err))
     | Inr (publicKey, privateKey) \<Rightarrow>
         (case k_marshal_private K privateKey of
            Inl err \<Rightarrow> State_Monad.return (Some (Wrapf ''failed to marshal private key'' err))
          | Inr privKeyBytes \<Rightarrow>
              (case k_new_public K publicKey of
                 Inl err \<Rightarrow> State_Monad.return (Some (Wrapf ''failed to create SSH public key'' err))
               | Inr sshPublicKey \<Rightarrow> do {
                   let secret = new_secret K namespace privKeyBytes;
                   r \<leftarrow> call (KCreateSecret secret) (k_create_secret K secret);
                   case r of
                     Inl err \<Rightarrow> State_Monad.return (Some (Wrapf ''failed to create Secret'' err))
                   | Inr _ \<Rightarrow> createConfigMap K namespace (k_authorized K sshPublicKey)
                 }))
   }"

definition EnsureOperatorResources :: "('w, 'b) keyenv \<Rightarrow> string \<Rightarrow> ('w, goerror option) kcmd" where
  "EnsureOperatorResources K namespace = do {
     let k = (namespace, OperatorResourceName);
     secretR \<leftarrow> call (KGetSecret k) (k_get_secret K k);
     cmR \<leftarrow> call (KGetConfigMap k) (k_get_cm K k);
     case (secretR, cmR) of
       (Inr secret, Inr configMap) \<Rightarrow> ensureHelperTars K configMap
     | (Inr secret, Inl cmErr) \<Rightarrow>
         if \<not> IsNotFound cmErr
         then State_Monad.return (Some (Wrapf ''failed to check for existing ConfigMap'' cmErr))
         else createConfigMapFromSecret K namespace secret
     | (Inl secretErr, Inr configMap) \<Rightarrow>
         if \<not> IsNotFound secretErr
         then State_Monad.return (Some (Wrapf ''failed to check for existing Secret'' secretErr))
         else do {
           let kc = (cm_Namespace configMap, cm_Name configMap);
           d \<leftarrow> call (KDeleteConfigMap kc) (k_delete_cm K kc);
           case (case d of Inl err \<Rightarrow> if IsNotFound err then None else Some err | Inr _ \<Rightarrow> None) of
             Some err \<Rightarrow> State_Monad.return (Some (Wrapf ''failed to cleanup orphaned ConfigMap'' err))
           | None \<Rightarrow> createKeypairAndConfigMap K namespace
         }
     | (Inl secretErr, Inl cmErr) \<Rightarrow>
         if \<not> IsNotFound secretErr
         then State_Monad.return (Some (Wrapf ''failed to check for existing Secret'' secretErr))
         else if \<not> IsNotFound cmErr
         then State_Monad.return (Some (Wrapf ''failed to check for existing ConfigMap'' cmErr))
         else createKeypairAndConfigMap K namespace
   }"

end
