(* ===== verification/KeypairStore.thy ===== *)
theory KeypairStore
  imports Keypair
begin

text \<open>
  What \<open>EnsureOperatorResources\<close> achieves, over any store of secrets and config maps.

  The locale \<open>key_store\<close> is the contract of the API server and of the key codecs. Every call may fail,
  and a call that reports an error may or may not have taken effect (a timeout). Reads answer what is
  stored, a create succeeds only where nothing was, and a generated key parses back to its public
  half.
\<close>

definition secret_key :: "Secret \<Rightarrow> key" where
  "secret_key s = (sec_Namespace s, sec_Name s)"

definition cm_key :: "ConfigMap \<Rightarrow> key" where
  "cm_key cm = (cm_Namespace cm, cm_Name cm)"

locale key_store =
  fixes K :: "('w, 'b) keyenv"
    and secret_at :: "'w \<Rightarrow> key \<Rightarrow> Secret option" and cm_at :: "'w \<Rightarrow> key \<Rightarrow> ConfigMap option"
  assumes get_secret: "k_get_secret K k w = (r, w') \<Longrightarrow> secret_at w' = secret_at w \<and> cm_at w' = cm_at w \<and>
        (\<forall>s. r = Inr s \<longrightarrow> secret_at w k = Some s) \<and>
        (\<forall>e. r = Inl e \<longrightarrow> IsNotFound e \<longrightarrow> secret_at w k = None)"
    and get_cm: "k_get_cm K k w = (g, w') \<Longrightarrow> secret_at w' = secret_at w \<and> cm_at w' = cm_at w \<and>
        (\<forall>cm. g = Inr cm \<longrightarrow> cm_at w k = Some cm \<and> cm_key cm = k) \<and>
        (\<forall>e. g = Inl e \<longrightarrow> IsNotFound e \<longrightarrow> cm_at w k = None)"
    and create_secret: "k_create_secret K s w = (a, w') \<Longrightarrow> cm_at w' = cm_at w \<and>
        (secret_at w (secret_key s) = None \<and> secret_at w' = (secret_at w)(secret_key s \<mapsto> s) \<or>
         (\<exists>e. a = Inl e) \<and> secret_at w' = secret_at w)"
    and create_cm: "k_create_cm K cm w = (a, w') \<Longrightarrow> secret_at w' = secret_at w \<and>
        (cm_at w (cm_key cm) = None \<and> cm_at w' = (cm_at w)(cm_key cm \<mapsto> cm) \<or>
         (\<exists>e. a = Inl e) \<and> cm_at w' = cm_at w)"
    and update_cm: "k_update_cm K cm w = (a, w') \<Longrightarrow> secret_at w' = secret_at w \<and>
        (cm_at w' = (cm_at w)(cm_key cm \<mapsto> cm) \<or> (\<exists>e. a = Inl e) \<and> cm_at w' = cm_at w)"
    and delete_cm: "k_delete_cm K k w = (a, w') \<Longrightarrow> secret_at w' = secret_at w \<and>
        (cm_at w' = (cm_at w)(k := None) \<or> (\<exists>e. a = Inl e \<and> \<not> IsNotFound e) \<and> cm_at w' = cm_at w)"
    and generate: "k_generate K w = (p, w') \<Longrightarrow> secret_at w' = secret_at w \<and> cm_at w' = cm_at w"
    and codec: "k_generate K w = (Inr (publicKey, privateKey), w') \<Longrightarrow>
        k_marshal_private K privateKey = Inr bytes \<Longrightarrow> k_new_public K publicKey = Inr public \<Longrightarrow>
        k_pem_encode K bytes \<noteq> '''' \<and>
        (\<exists>signer. k_parse_private K (k_pem_encode K bytes) = Inr signer \<and> k_public_of K signer = public)"

text \<open>The public key of a config map belongs to the private key of a secret.\<close>

definition matches :: "('w, 'b) keyenv \<Rightarrow> Secret \<Rightarrow> ConfigMap \<Rightarrow> bool" where
  "matches K s cm \<longleftrightarrow> (\<exists>pem signer. sec_Data s SSHAuthPrivateKey = Some pem \<and> pem \<noteq> '''' \<and>
     k_parse_private K pem = Inr signer \<and>
     cm_Data cm cmKeyPublicKey = Some (k_authorized K (k_public_of K signer)))"

definition tars_current :: "('w, 'b) keyenv \<Rightarrow> ConfigMap \<Rightarrow> bool" where
  "tars_current K cm \<longleftrightarrow>
     helper_tars K = Inr (binary_at cm cmKeyLinuxHelpers, binary_at cm cmKeyWindowsHelpers)"

text \<open>The stored resources fit together: a config map beside a secret carries its public key.\<close>

definition fitting :: "('w, 'b) keyenv \<Rightarrow> Secret option \<Rightarrow> ConfigMap option \<Rightarrow> bool" where
  "fitting K s cm \<longleftrightarrow> (\<forall>x y. s = Some x \<longrightarrow> cm = Some y \<longrightarrow> matches K x y)"

definition keypair_ready :: "('w, 'b) keyenv \<Rightarrow> Secret option \<Rightarrow> ConfigMap option \<Rightarrow> bool" where
  "keypair_ready K s cm \<longleftrightarrow> (\<exists>x y. s = Some x \<and> cm = Some y \<and> matches K x y \<and> tars_current K y)"

text \<open>A step that ends with the error \<open>r\<close> (or without): the resources fit together, and are ready if
  there was no error.\<close>

definition settled :: "('w, 'b) keyenv \<Rightarrow> Secret option \<Rightarrow> ConfigMap option \<Rightarrow> goerror option \<Rightarrow> bool" where
  "settled K s cm r \<longleftrightarrow> fitting K s cm \<and> (r = None \<longrightarrow> keypair_ready K s cm)"

abbreviation resource_key :: "string \<Rightarrow> key" where
  "resource_key ns \<equiv> (ns, OperatorResourceName)"

lemma settled_missing [simp]: "settled K s None (Some e)" "settled K None cm (Some e)"
  by (simp_all add: settled_def fitting_def)

lemma settled_fitting: "settled K s cm r \<Longrightarrow> fitting K s cm"
  by (simp add: settled_def)

lemmas settled_defs = settled_def fitting_def keypair_ready_def tars_current_def

lemma with_tars_simps [simp]:
  "cm_Data (with_tars l d cm) = cm_Data cm" "cm_key (with_tars l d cm) = cm_key cm"
  "binary_at (with_tars l d cm) cmKeyLinuxHelpers = l" "binary_at (with_tars l d cm) cmKeyWindowsHelpers = d"
  by (simp_all add: with_tars_def cm_key_def binary_at_def cmKeyLinuxHelpers_def cmKeyWindowsHelpers_def)

lemma matches_with_tars [simp]: "matches K s (with_tars l d cm) = matches K s cm"
  by (simp add: matches_def)

lemma new_config_map_simps [simp]:
  "cm_key (new_config_map ns p l d) = (ns, OperatorResourceName)"
  "cm_Data (new_config_map ns p l d) cmKeyPublicKey = Some p"
  "binary_at (new_config_map ns p l d) cmKeyLinuxHelpers = l"
  "binary_at (new_config_map ns p l d) cmKeyWindowsHelpers = d"
  by (simp_all add: new_config_map_def cm_key_def binary_at_def cmKeyLinuxHelpers_def cmKeyWindowsHelpers_def)

context key_store
begin

lemma createConfigMap_settles:
  assumes "secret_at w (resource_key ns) = Some s" and "cm_at w (resource_key ns) = None"
    and "\<And>l d. matches K s (new_config_map ns p l d)"
  shows "holds (createConfigMap K ns p) w (\<lambda>r w'. secret_at w' = secret_at w \<and>
    settled K (secret_at w' (resource_key ns)) (cm_at w' (resource_key ns)) r)"
  unfolding createConfigMap_def Let_def
  using assms
  by (auto intro!: holds_rules split: sum.split prod.split simp: settled_defs dest!: create_cm)

lemma ensureHelperTars_settles:
  assumes "secret_at w (resource_key ns) = Some s" and "cm_at w (resource_key ns) = Some cm"
    and "cm_key cm = resource_key ns"
  shows "holds (ensureHelperTars K cm) w (\<lambda>r w'. secret_at w' = secret_at w \<and>
    (matches K s cm \<longrightarrow> settled K (secret_at w' (resource_key ns)) (cm_at w' (resource_key ns)) r))"
proof (cases "helper_tars K")
  case (Inr tars)
  have key: "(cm_Namespace (with_tars l d cm), cm_Name (with_tars l d cm)) = resource_key ns" for l d
    using assms(3) by (simp add: with_tars_def cm_key_def)
  from assms Inr show ?thesis
    unfolding ensureHelperTars_def key Let_def
    by (cases tars) (auto intro!: holds_rules split: sum.split dest!: update_cm get_cm simp: settled_defs)
qed (use assms in \<open>auto simp: ensureHelperTars_def settled_defs intro!: holds_rules\<close>)

lemma createConfigMapFromSecret_settles:
  assumes "secret_at w (resource_key ns) = Some s" and "cm_at w (resource_key ns) = None"
  shows "holds (createConfigMapFromSecret K ns s) w (\<lambda>r w'. secret_at w' = secret_at w \<and>
    settled K (secret_at w' (resource_key ns)) (cm_at w' (resource_key ns)) r)"
proof -
  have "matches K s (new_config_map ns (k_authorized K (k_public_of K signer)) l d)"
    if "sec_Data s SSHAuthPrivateKey = Some (c # cs)" "k_parse_private K (c # cs) = Inr signer" for c cs signer l d
    using that by (auto simp: matches_def)
  with assms show ?thesis
    unfolding createConfigMapFromSecret_def
    by (auto intro!: holds_rules createConfigMap_settles split: option.split list.split sum.split)
qed

lemma createKeypair_settles:
  assumes "secret_at w (resource_key ns) = None" and "cm_at w (resource_key ns) = None"
  shows "holds (createKeypairAndConfigMap K ns) w (\<lambda>r w'.
    settled K (secret_at w' (resource_key ns)) (cm_at w' (resource_key ns)) r)"
proof -
  have stored: "holds (createConfigMap K ns (k_authorized K public)) w2
      (\<lambda>r w'. settled K (secret_at w' (resource_key ns)) (cm_at w' (resource_key ns)) r)"
    if "k_generate K w = (Inr (publicKey, privateKey), w1)" and "k_marshal_private K privateKey = Inr bytes"
      and "k_new_public K publicKey = Inr public"
      and "k_create_secret K (new_secret K ns bytes) w1 = (Inr u, w2)"
    for publicKey privateKey bytes public w1 w2 u
  proof -
    have "matches K (new_secret K ns bytes) (new_config_map ns (k_authorized K public) l d)" for l d
      using codec [OF that(1-3)] by (auto simp: matches_def new_secret_def)
    moreover have "secret_at w2 (resource_key ns) = Some (new_secret K ns bytes)"
      and "cm_at w2 (resource_key ns) = None"
      using create_secret [OF that(4)] generate [OF that(1)] assms(2) by (auto simp: secret_key_def new_secret_def)
    ultimately show ?thesis
      by (intro holds_weaken [OF createConfigMap_settles]) auto
  qed
  have fresh: "settled K (secret_at w1 (resource_key ns)) (cm_at w1 (resource_key ns)) (Some e)"
    if "k_generate K w = (p, w1)" for p w1 e
    using generate [OF that] assms by simp
  have failed: "settled K (secret_at w2 (resource_key ns)) (cm_at w2 (resource_key ns)) (Some e)"
    if "k_generate K w = (p, w1)" and "k_create_secret K s w1 = (a, w2)" for p w1 s a w2 e
    using generate [OF that(1)] create_secret [OF that(2)] assms by simp
  show ?thesis
    unfolding createKeypairAndConfigMap_def Let_def
    by (auto intro!: holds_rules split: sum.split prod.split) (blast intro: stored fresh failed)+
qed

text \<open>The whole of \<open>EnsureOperatorResources\<close>.\<close>

lemma EnsureOperatorResources_settles:
  "holds (EnsureOperatorResources K ns) w (\<lambda>r w'.
     (\<forall>s. secret_at w (resource_key ns) = Some s \<longrightarrow> secret_at w' (resource_key ns) = Some s) \<and>
     (fitting K (secret_at w (resource_key ns)) (cm_at w (resource_key ns)) \<longrightarrow>
        settled K (secret_at w' (resource_key ns)) (cm_at w' (resource_key ns)) r))"
    (is "holds _ w ?Q")
  unfolding EnsureOperatorResources_def Let_def
proof (rule holds_bind_call, rule holds_bind_call)
  fix secretR cmR w1 w2
  assume "k_get_secret K (resource_key ns) w = (secretR, w1)" and "k_get_cm K (resource_key ns) w1 = (cmR, w2)"
  note got = get_secret [OF this(1)] get_cm [OF this(2)]
  have none: "holds (createKeypairAndConfigMap K ns) w3 ?Q"
    if "secret_at w (resource_key ns) = None" "secret_at w3 (resource_key ns) = None" "cm_at w3 (resource_key ns) = None" for w3
    using that by (intro holds_weaken [OF createKeypair_settles]) auto
  have both: "holds (ensureHelperTars K cm) w2 ?Q" if "secretR = Inr s" "cmR = Inr cm" for s cm
    using that got by (intro holds_weaken [OF ensureHelperTars_settles [of w2 ns s cm]]) (auto simp: fitting_def)
  have recover: "holds (createConfigMapFromSecret K ns s) w2 ?Q"
    if "secretR = Inr s" "cmR = Inl e" "IsNotFound e" for s e
    using that got by (intro holds_weaken [OF createConfigMapFromSecret_settles [of w2 ns s]]) auto
  have orphan: "holds (do { d \<leftarrow> call (KDeleteConfigMap (cm_Namespace cm, cm_Name cm))
            (k_delete_cm K (cm_Namespace cm, cm_Name cm));
          case (case d of Inl err \<Rightarrow> if IsNotFound err then None else Some err | Inr _ \<Rightarrow> None) of
            Some err \<Rightarrow> State_Monad.return (Some (Wrapf ''failed to cleanup orphaned ConfigMap'' err))
          | None \<Rightarrow> createKeypairAndConfigMap K ns }) w2 ?Q"
    if "secretR = Inl e" "IsNotFound e" "cmR = Inr cm" for e cm
    using that got
    by (auto intro!: holds_rules holds_weaken [OF createKeypair_settles] dest!: delete_cm
        split: sum.splits option.split if_splits simp: cm_key_def)
  show "holds (case (secretR, cmR) of
       (Inr secret, Inr configMap) \<Rightarrow> ensureHelperTars K configMap
     | (Inr secret, Inl cmErr) \<Rightarrow>
         if \<not> IsNotFound cmErr
         then State_Monad.return (Some (Wrapf ''failed to check for existing ConfigMap'' cmErr))
         else createConfigMapFromSecret K ns secret
     | (Inl secretErr, Inr configMap) \<Rightarrow>
         if \<not> IsNotFound secretErr
         then State_Monad.return (Some (Wrapf ''failed to check for existing Secret'' secretErr))
         else do {
           d \<leftarrow> call (KDeleteConfigMap (cm_Namespace configMap, cm_Name configMap))
             (k_delete_cm K (cm_Namespace configMap, cm_Name configMap));
           case (case d of Inl err \<Rightarrow> if IsNotFound err then None else Some err | Inr _ \<Rightarrow> None) of
             Some err \<Rightarrow> State_Monad.return (Some (Wrapf ''failed to cleanup orphaned ConfigMap'' err))
           | None \<Rightarrow> createKeypairAndConfigMap K ns
         }
     | (Inl secretErr, Inl cmErr) \<Rightarrow>
         if \<not> IsNotFound secretErr
         then State_Monad.return (Some (Wrapf ''failed to check for existing Secret'' secretErr))
         else if \<not> IsNotFound cmErr
         then State_Monad.return (Some (Wrapf ''failed to check for existing ConfigMap'' cmErr))
         else createKeypairAndConfigMap K ns) w2 ?Q"
    using got both recover orphan none
    by (cases secretR; cases cmR) (auto intro!: holds_return simp: settled_def)
qed

end

end
