(* ===== verification/MemKeys.thy ===== *)
theory MemKeys
  imports Keypair KeypairStore
begin

text \<open>
  A store of secrets and config maps kept in memory, with a toy codec for keys: the contract
  \<open>key_store\<close> can be met, and start-up can be run on it. Creating a config map fails as often as
  \<open>kw_faults\<close> says, to let the retries be seen.
\<close>

record key_world =
  kw_secret :: "key \<Rightarrow> Secret option"
  kw_cm :: "key \<Rightarrow> ConfigMap option"
  kw_keys :: nat \<comment> \<open>keys generated so far\<close>
  kw_faults :: nat \<comment> \<open>creations of a config map that will fail\<close>

definition mem_read :: "('a option) \<Rightarrow> string \<Rightarrow> 'w \<Rightarrow> (goerror + 'a) \<times> 'w" where
  "mem_read r what w = (case r of Some x \<Rightarrow> Inr x | None \<Rightarrow> Inl (ApiError ReasonNotFound (what @ '' not found'')), w)"

definition mem_get_cm :: "key \<Rightarrow> key_world \<Rightarrow> (goerror + ConfigMap) \<times> key_world" where
  "mem_get_cm k w = (case kw_cm w k of
       Some cm \<Rightarrow> if cm_key cm = k then (Inr cm, w) else (Inl (Errorf ''corrupt store''), w)
     | None \<Rightarrow> (Inl (ApiError ReasonNotFound ''configmap not found''), w))"

definition mem_create_secret :: "Secret \<Rightarrow> key_world \<Rightarrow> (goerror + unit) \<times> key_world" where
  "mem_create_secret s w = (case kw_secret w (secret_key s) of
       Some _ \<Rightarrow> (Inl (ApiError ReasonAlreadyExists ''secret already exists''), w)
     | None \<Rightarrow> (Inr (), w\<lparr>kw_secret := (kw_secret w)(secret_key s \<mapsto> s)\<rparr>))"

definition mem_create_cm :: "ConfigMap \<Rightarrow> key_world \<Rightarrow> (goerror + unit) \<times> key_world" where
  "mem_create_cm cm w =
     (if 0 < kw_faults w then (Inl (Errorf ''connection lost''), w\<lparr>kw_faults := kw_faults w - 1\<rparr>)
      else case kw_cm w (cm_key cm) of
       Some _ \<Rightarrow> (Inl (ApiError ReasonAlreadyExists ''configmap already exists''), w)
     | None \<Rightarrow> (Inr (), w\<lparr>kw_cm := (kw_cm w)(cm_key cm \<mapsto> cm)\<rparr>))"

definition mem_update_cm :: "ConfigMap \<Rightarrow> key_world \<Rightarrow> (goerror + unit) \<times> key_world" where
  "mem_update_cm cm w = (Inr (), w\<lparr>kw_cm := (kw_cm w)(cm_key cm \<mapsto> cm)\<rparr>)"

definition mem_delete_cm :: "key \<Rightarrow> key_world \<Rightarrow> (goerror + unit) \<times> key_world" where
  "mem_delete_cm k w = (Inr (), w\<lparr>kw_cm := (kw_cm w)(k := None)\<rparr>)"

definition mem_generate :: "key_world \<Rightarrow> (goerror + (string \<times> string)) \<times> key_world" where
  "mem_generate w = (Inr (''pub'' @ show_nat (kw_keys w), ''priv'' @ show_nat (kw_keys w)),
     w\<lparr>kw_keys := Suc (kw_keys w)\<rparr>)"

definition mem_keyenv :: "(key_world, string) keyenv" where
  "mem_keyenv = \<lparr>
     k_get_secret = (\<lambda>k w. mem_read (kw_secret w k) ''secret'' w),
     k_get_cm = mem_get_cm,
     k_create_secret = mem_create_secret,
     k_create_cm = mem_create_cm,
     k_update_cm = mem_update_cm,
     k_delete_cm = mem_delete_cm,
     k_generate = mem_generate,
     k_marshal_private = Inr,
     k_new_public = Inr,
     k_pem_encode = (\<lambda>b. ''PEM:'' @ b),
     k_parse_private = (\<lambda>p. if HasPrefix p ''PEM:priv'' then Inr (TrimPrefix p ''PEM:'') else Inl (Errorf ''no key found'')),
     k_public_of = (\<lambda>signer. ''pub'' @ TrimPrefix signer ''priv''),
     k_authorized = (\<lambda>p. ''ssh-ed25519 '' @ p),
     k_linux_scripts = (\<lambda>n. Inr (''#!/bin/sh '' @ n)),
     k_windows_scripts = (\<lambda>n. Inr (''@echo off '' @ n)),
     k_tar_new = '''',
     k_tar_header = (\<lambda>b name mode size. Inr (b @ name @ show_int mode @ show_int size)),
     k_tar_write = (\<lambda>b content. Inr (b @ content)),
     k_tar_close = Inr\<rparr>"

interpretation mem_keys: key_store mem_keyenv kw_secret kw_cm
proof
  fix publicKey privateKey bytes public and w w' :: key_world
  assume gen: "k_generate mem_keyenv w = (Inr (publicKey, privateKey), w')"
    and "k_marshal_private mem_keyenv privateKey = Inr bytes" and "k_new_public mem_keyenv publicKey = Inr public"
  then have "bytes = ''priv'' @ show_nat (kw_keys w)" and "public = ''pub'' @ show_nat (kw_keys w)"
    by (auto simp: mem_keyenv_def mem_generate_def)
  then show "k_pem_encode mem_keyenv bytes \<noteq> '''' \<and> (\<exists>signer.
      k_parse_private mem_keyenv (k_pem_encode mem_keyenv bytes) = Inr signer \<and> k_public_of mem_keyenv signer = public)"
    by (simp add: mem_keyenv_def HasPrefix_def TrimPrefix_def)
qed (auto simp: mem_keyenv_def mem_read_def mem_get_cm_def mem_create_secret_def mem_create_cm_def mem_update_cm_def
    mem_delete_cm_def mem_generate_def IsNotFound_def split: option.splits if_splits)

definition empty_keys :: "nat \<Rightarrow> key_world" where
  "empty_keys faults = \<lparr>kw_secret = Map.empty, kw_cm = Map.empty, kw_keys = 0, kw_faults = faults\<rparr>"

end
