(* ===== verification/TLSWatcher.thy ===== *)
theory TLSWatcher
  imports Conditions
begin

text \<open>
  api/v1alpha1/types_tlssecurityprofile.go, api/v1alpha1/filerestoreoperator_types.go and
  pkg/resources/utils/tls_watcher.go: the operator's own resource, the TLS security profile in it,
  and the TLS settings of the metrics server that follow from the profile.

  Profile types and protocol versions are strings in Go, so that values outside the constants exist.
  Of \<open>crypto/tls\<close> the code uses the numbers of the versions and of the cipher suites, and the list
  \<open>tls.CipherSuites()\<close>. The cache is a parameter.
\<close>

type_synonym u16 = "16 word"

subsection \<open>Profiles\<close>

type_synonym TLSProfileType = string
type_synonym TLSProtocolVersion = string

definition TLSProfileOldType :: TLSProfileType where "TLSProfileOldType = ''Old''"
definition TLSProfileIntermediateType :: TLSProfileType where "TLSProfileIntermediateType = ''Intermediate''"
definition TLSProfileModernType :: TLSProfileType where "TLSProfileModernType = ''Modern''"
definition TLSProfileCustomType :: TLSProfileType where "TLSProfileCustomType = ''Custom''"

definition VersionTLS10 :: TLSProtocolVersion where "VersionTLS10 = ''VersionTLS10''"
definition VersionTLS11 :: TLSProtocolVersion where "VersionTLS11 = ''VersionTLS11''"
definition VersionTLS12 :: TLSProtocolVersion where "VersionTLS12 = ''VersionTLS12''"
definition VersionTLS13 :: TLSProtocolVersion where "VersionTLS13 = ''VersionTLS13''"

record TLSProfileSpec =
  Ciphers :: "string list"
  MinTLSVersion :: TLSProtocolVersion

text \<open>The members \<open>old\<close>, \<open>intermediate\<close> and \<open>modern\<close> are pointers to empty structures.\<close>

record TLSSecurityProfile =
  prof_Type :: TLSProfileType
  prof_Old :: "unit option"
  prof_Intermediate :: "unit option"
  prof_Modern :: "unit option"
  prof_Custom :: "TLSProfileSpec option"

definition modern_ciphers :: "string list" where
  "modern_ciphers = [''TLS_AES_128_GCM_SHA256'', ''TLS_AES_256_GCM_SHA384'', ''TLS_CHACHA20_POLY1305_SHA256'']"

definition intermediate_ciphers :: "string list" where
  "intermediate_ciphers = modern_ciphers @ [''ECDHE-ECDSA-AES128-GCM-SHA256'', ''ECDHE-RSA-AES128-GCM-SHA256'',
     ''ECDHE-ECDSA-AES256-GCM-SHA384'', ''ECDHE-RSA-AES256-GCM-SHA384'',
     ''ECDHE-ECDSA-CHACHA20-POLY1305'', ''ECDHE-RSA-CHACHA20-POLY1305'',
     ''DHE-RSA-AES128-GCM-SHA256'', ''DHE-RSA-AES256-GCM-SHA384'']"

definition old_ciphers :: "string list" where
  "old_ciphers = intermediate_ciphers @ [''DHE-RSA-CHACHA20-POLY1305'', ''ECDHE-ECDSA-AES128-SHA256'',
     ''ECDHE-RSA-AES128-SHA256'', ''ECDHE-ECDSA-AES128-SHA'', ''ECDHE-RSA-AES128-SHA'',
     ''ECDHE-ECDSA-AES256-SHA384'', ''ECDHE-RSA-AES256-SHA384'', ''ECDHE-ECDSA-AES256-SHA'',
     ''ECDHE-RSA-AES256-SHA'', ''DHE-RSA-AES128-SHA256'', ''DHE-RSA-AES256-SHA256'', ''AES128-GCM-SHA256'',
     ''AES256-GCM-SHA384'', ''AES128-SHA256'', ''AES256-SHA256'', ''AES128-SHA'', ''AES256-SHA'',
     ''DES-CBC3-SHA'']"

definition TLSProfiles :: "TLSProfileType \<Rightarrow> TLSProfileSpec option" where
  "TLSProfiles = map_of
     [(TLSProfileOldType, \<lparr>Ciphers = old_ciphers, MinTLSVersion = VersionTLS10\<rparr>),
      (TLSProfileIntermediateType, \<lparr>Ciphers = intermediate_ciphers, MinTLSVersion = VersionTLS12\<rparr>),
      (TLSProfileModernType, \<lparr>Ciphers = modern_ciphers, MinTLSVersion = VersionTLS13\<rparr>)]"

subsection \<open>The operator's resource\<close>

record FileRestoreOperatorSpec =
  ImagePullPolicy :: string
  SecurityProfile :: "TLSSecurityProfile option"

record FileRestoreOperatorStatus =
  op_Conditions :: "Condition list"
  op_OperatorVersion :: string
  op_TargetVersion :: string
  op_ObservedVersion :: string
  op_ObservedGeneration :: int

record FileRestoreOperator =
  fro_Name :: string
  fro_Namespace :: string
  fro_Generation :: int
  fro_Spec :: FileRestoreOperatorSpec
  fro_Status :: FileRestoreOperatorStatus

subsection \<open>Names and numbers\<close>

definition tls_VersionTLS12 :: u16 where "tls_VersionTLS12 = 0x0303"

definition tlsVersionMap :: "string \<Rightarrow> u16 option" where
  "tlsVersionMap = map_of [(VersionTLS10, 0x0301), (VersionTLS11, 0x0302), (VersionTLS12, tls_VersionTLS12),
     (VersionTLS13, 0x0304)]"

text \<open>\<open>tls.CipherSuites()\<close>: the suites of the standard library without known security issues.\<close>

definition cipherSuites :: "(string \<times> u16) list" where
  "cipherSuites =
     [(''TLS_AES_128_GCM_SHA256'', 0x1301), (''TLS_AES_256_GCM_SHA384'', 0x1302),
      (''TLS_CHACHA20_POLY1305_SHA256'', 0x1303),
      (''TLS_ECDHE_ECDSA_WITH_AES_128_CBC_SHA'', 0xC009), (''TLS_ECDHE_ECDSA_WITH_AES_256_CBC_SHA'', 0xC00A),
      (''TLS_ECDHE_RSA_WITH_AES_128_CBC_SHA'', 0xC013), (''TLS_ECDHE_RSA_WITH_AES_256_CBC_SHA'', 0xC014),
      (''TLS_ECDHE_ECDSA_WITH_AES_128_GCM_SHA256'', 0xC02B), (''TLS_ECDHE_ECDSA_WITH_AES_256_GCM_SHA384'', 0xC02C),
      (''TLS_ECDHE_RSA_WITH_AES_128_GCM_SHA256'', 0xC02F), (''TLS_ECDHE_RSA_WITH_AES_256_GCM_SHA384'', 0xC030),
      (''TLS_ECDHE_RSA_WITH_CHACHA20_POLY1305_SHA256'', 0xCCA8),
      (''TLS_ECDHE_ECDSA_WITH_CHACHA20_POLY1305_SHA256'', 0xCCA9)]"

definition extraCipherSuites :: "(string \<times> u16) list" where
  "extraCipherSuites =
     [(''ECDHE-ECDSA-AES128-GCM-SHA256'', 0xC02B), (''ECDHE-RSA-AES128-GCM-SHA256'', 0xC02F),
      (''ECDHE-ECDSA-AES256-GCM-SHA384'', 0xC02C), (''ECDHE-RSA-AES256-GCM-SHA384'', 0xC030),
      (''ECDHE-ECDSA-CHACHA20-POLY1305'', 0xCCA9), (''ECDHE-RSA-CHACHA20-POLY1305'', 0xCCA8),
      (''ECDHE-ECDSA-AES128-SHA256'', 0xC023), (''ECDHE-RSA-AES128-SHA256'', 0xC027),
      (''ECDHE-ECDSA-AES128-SHA'', 0xC009), (''ECDHE-RSA-AES128-SHA'', 0xC013),
      (''ECDHE-ECDSA-AES256-SHA'', 0xC00A), (''ECDHE-RSA-AES256-SHA'', 0xC014),
      (''AES128-GCM-SHA256'', 0x009C), (''AES256-GCM-SHA384'', 0x009D), (''AES128-SHA256'', 0x003C),
      (''AES128-SHA'', 0x002F), (''AES256-SHA'', 0x0035), (''DES-CBC3-SHA'', 0x000A)]"

text \<open>The standard suites are entered after the extra ones, so they win.\<close>

definition cipherNameToID :: "string \<Rightarrow> u16 option" where
  "cipherNameToID = map_of extraCipherSuites ++ map_of cipherSuites"

subsection \<open>From a profile to settings\<close>

record cryptoConfig =
  cc_CipherSuites :: "u16 list"
  cc_MinVersion :: u16

definition selectCipherSuitesAndMinTLSVersion ::
  "TLSSecurityProfile option \<Rightarrow> string list \<times> TLSProtocolVersion" where
  "selectCipherSuitesAndMinTLSVersion profilePtr =
     (let profile = (case profilePtr of
            None \<Rightarrow> \<lparr>prof_Type = TLSProfileIntermediateType, prof_Old = None, prof_Intermediate = Some (),
                      prof_Modern = None, prof_Custom = None\<rparr>
          | Some p \<Rightarrow> p)
      in case prof_Custom profile of
           Some custom \<Rightarrow> (Ciphers custom, MinTLSVersion custom)
         | None \<Rightarrow>
             (let tlsProfile = (case TLSProfiles (prof_Type profile) of
                    Some p \<Rightarrow> p
                  | None \<Rightarrow> the (TLSProfiles TLSProfileIntermediateType))
              in (Ciphers tlsProfile, MinTLSVersion tlsProfile)))"

text \<open>The loop over the names collects the numbers of the known ones, in order.\<close>

fun cipherSuitesIDs :: "string list \<Rightarrow> u16 list" where
  "cipherSuitesIDs [] = []"
| "cipherSuitesIDs (name # names) =
     (case cipherNameToID name of
        Some i \<Rightarrow> i # cipherSuitesIDs names
      | None \<Rightarrow> cipherSuitesIDs names)"

definition tlsVersionToUint16 :: "TLSProtocolVersion \<Rightarrow> u16" where
  "tlsVersionToUint16 version = (case tlsVersionMap version of Some v \<Rightarrow> v | None \<Rightarrow> tls_VersionTLS12)"

definition cryptoConfigFromSpec :: "TLSSecurityProfile option \<Rightarrow> cryptoConfig" where
  "cryptoConfigFromSpec profile =
     (let (cipherNames, minTypedTLSVersion) = selectCipherSuitesAndMinTLSVersion profile;
          minTLSVersion = (case tlsVersionMap minTypedTLSVersion of Some v \<Rightarrow> v | None \<Rightarrow> tls_VersionTLS12)
      in \<lparr>cc_CipherSuites = cipherSuitesIDs cipherNames, cc_MinVersion = minTLSVersion\<rparr>)"

subsection \<open>The watcher\<close>

record 'w tls_cache =
  list_operators :: "'w \<Rightarrow> (goerror + FileRestoreOperator list) \<times> 'w"
  wait_for_sync :: "'w \<Rightarrow> bool \<times> 'w"

record 'w ManagedTLSWatcher =
  tw_cache :: "'w tls_cache option"
  tw_defaultConfig :: cryptoConfig
  tw_ready :: bool

datatype tls_request = TListOperators | TWaitForSync

type_synonym ('w, 'a) tcmd = "(('w, tls_request) sys, 'a) state"

definition NewManagedTLSWatcher :: "'w ManagedTLSWatcher" where
  "NewManagedTLSWatcher = \<lparr>tw_cache = None, tw_defaultConfig = cryptoConfigFromSpec None, tw_ready = False\<rparr>"

definition SetCache :: "'w tls_cache option \<Rightarrow> 'w ManagedTLSWatcher \<Rightarrow> 'w ManagedTLSWatcher" where
  "SetCache c m = m\<lparr>tw_cache := c\<rparr>"

text \<open>\<open>Start\<close>, up to the point where it waits for the end of its context: the error it returns, or the
  watcher in the state it then keeps.\<close>

definition Start :: "'w ManagedTLSWatcher \<Rightarrow> ('w, goerror + 'w ManagedTLSWatcher) tcmd" where
  "Start m =
     (case tw_cache m of
        None \<Rightarrow> State_Monad.return (Inl (Errorf ''no cache provided for tls watcher''))
      | Some c \<Rightarrow> do {
          synced \<leftarrow> call TWaitForSync (wait_for_sync c);
          State_Monad.return (if \<not> synced then Inl (Errorf ''failed to wait for caches to sync'')
                              else Inr (m\<lparr>tw_ready := True\<rparr>))
        })"

definition NeedLeaderElection :: "'w ManagedTLSWatcher \<Rightarrow> bool" where
  "NeedLeaderElection m = False"

definition GetTLSConfig :: "'w ManagedTLSWatcher \<Rightarrow> ('w, cryptoConfig) tcmd" where
  "GetTLSConfig m =
     (case tw_cache m of
        None \<Rightarrow> State_Monad.return (tw_defaultConfig m)
      | Some c \<Rightarrow>
          if \<not> tw_ready m then State_Monad.return (tw_defaultConfig m)
          else do {
            r \<leftarrow> call TListOperators (list_operators c);
            State_Monad.return (case r of
                Inl _ \<Rightarrow> tw_defaultConfig m
              | Inr [] \<Rightarrow> tw_defaultConfig m
              | Inr (item # items) \<Rightarrow> cryptoConfigFromSpec (SecurityProfile (fro_Spec item)))
          })"

subsection \<open>Facts\<close>

inductive watcher :: "'w ManagedTLSWatcher \<Rightarrow> bool" where
  watcher_new: "watcher NewManagedTLSWatcher"
| watcher_cache: "watcher m \<Longrightarrow> watcher (SetCache c m)"
| watcher_start: "watcher m \<Longrightarrow> fst (run_state (Start m) s) = Inr m' \<Longrightarrow> watcher m'"

lemma Start_result: "fst (run_state (Start m) s) = Inr m' \<Longrightarrow> m' = m\<lparr>tw_ready := True\<rparr>"
  by (auto simp: Start_def split: option.splits if_splits)

lemma watcher_default: "watcher m \<Longrightarrow> tw_defaultConfig m = cryptoConfigFromSpec None"
proof (induction rule: watcher.induct)
  case (watcher_start m s m')
  from Start_result [OF watcher_start.hyps(2)] watcher_start.IH show ?case by simp
qed (simp_all add: NewManagedTLSWatcher_def SetCache_def)

lemma TLSProfiles_cases:
  "TLSProfiles ty = (if ty = ''Old'' then Some \<lparr>Ciphers = old_ciphers, MinTLSVersion = VersionTLS10\<rparr>
     else if ty = ''Intermediate'' then Some \<lparr>Ciphers = intermediate_ciphers, MinTLSVersion = VersionTLS12\<rparr>
     else if ty = ''Modern'' then Some \<lparr>Ciphers = modern_ciphers, MinTLSVersion = VersionTLS13\<rparr> else None)"
  by (simp add: TLSProfiles_def TLSProfileOldType_def TLSProfileIntermediateType_def TLSProfileModernType_def)

lemma version_numbers:
  "tlsVersionMap VersionTLS10 = Some 0x0301" "tlsVersionMap VersionTLS12 = Some 0x0303"
  "tlsVersionMap VersionTLS13 = Some 0x0304"
  by code_simp+

lemma select_named:
  "prof_Custom p = None \<Longrightarrow> selectCipherSuitesAndMinTLSVersion (Some p) =
     (if prof_Type p = ''Old'' then (old_ciphers, VersionTLS10)
      else if prof_Type p = ''Modern'' then (modern_ciphers, VersionTLS13)
      else (intermediate_ciphers, VersionTLS12))"
  by (simp add: selectCipherSuitesAndMinTLSVersion_def TLSProfiles_cases TLSProfileIntermediateType_def Let_def)

lemma select_default: "selectCipherSuitesAndMinTLSVersion None = (intermediate_ciphers, VersionTLS12)"
  by (simp add: selectCipherSuitesAndMinTLSVersion_def TLSProfiles_cases TLSProfileIntermediateType_def Let_def)

text \<open>The settings of the intermediate profile: TLS 1.2 and nine suites, all of them with forward secrecy and authenticated
  encryption.\<close>

definition intermediate_settings :: cryptoConfig where
  "intermediate_settings = \<lparr>cc_CipherSuites =
     [0x1301, 0x1302, 0x1303, 0xC02B, 0xC02F, 0xC02C, 0xC030, 0xCCA9, 0xCCA8], cc_MinVersion = 0x0303\<rparr>"

lemma settings_intermediate:
  assumes "selectCipherSuitesAndMinTLSVersion profile = (intermediate_ciphers, VersionTLS12)"
  shows "cryptoConfigFromSpec profile = intermediate_settings"
proof -
  have "cipherSuitesIDs intermediate_ciphers = cc_CipherSuites intermediate_settings" by code_simp
  then show ?thesis using assms by (simp add: cryptoConfigFromSpec_def version_numbers intermediate_settings_def)
qed

subsection \<open>Names of suites\<close>

text \<open>The suites of \<open>crypto/tls\<close> with known security issues: \<open>tls.InsecureCipherSuites()\<close>.\<close>

definition insecureCipherSuites :: "(string \<times> u16) list" where
  "insecureCipherSuites =
     [(''TLS_RSA_WITH_RC4_128_SHA'', 0x0005), (''TLS_RSA_WITH_3DES_EDE_CBC_SHA'', 0x000A),
      (''TLS_RSA_WITH_AES_128_CBC_SHA'', 0x002F), (''TLS_RSA_WITH_AES_256_CBC_SHA'', 0x0035),
      (''TLS_RSA_WITH_AES_128_CBC_SHA256'', 0x003C), (''TLS_RSA_WITH_AES_128_GCM_SHA256'', 0x009C),
      (''TLS_RSA_WITH_AES_256_GCM_SHA384'', 0x009D), (''TLS_ECDHE_ECDSA_WITH_RC4_128_SHA'', 0xC007),
      (''TLS_ECDHE_RSA_WITH_RC4_128_SHA'', 0xC011), (''TLS_ECDHE_RSA_WITH_3DES_EDE_CBC_SHA'', 0xC012),
      (''TLS_ECDHE_ECDSA_WITH_AES_128_CBC_SHA256'', 0xC023), (''TLS_ECDHE_RSA_WITH_AES_128_CBC_SHA256'', 0xC027)]"

text \<open>The standard name of a suite, from the name OpenSSL gives it: the key exchange in front, RSA when there is none,
  and the cipher with its digest.\<close>

definition key_exchanges :: "(string \<times> string) list" where
  "key_exchanges = [(''ECDHE-ECDSA-'', ''ECDHE_ECDSA''), (''ECDHE-RSA-'', ''ECDHE_RSA''), (''DHE-RSA-'', ''DHE_RSA''), ('''', ''RSA'')]"

definition bulk_ciphers :: "(string \<times> string) list" where
  "bulk_ciphers = [(''AES128-GCM-SHA256'', ''AES_128_GCM_SHA256''), (''AES256-GCM-SHA384'', ''AES_256_GCM_SHA384''),
     (''CHACHA20-POLY1305'', ''CHACHA20_POLY1305_SHA256''), (''AES128-SHA256'', ''AES_128_CBC_SHA256''),
     (''AES256-SHA256'', ''AES_256_CBC_SHA256''), (''AES256-SHA384'', ''AES_256_CBC_SHA384''),
     (''AES128-SHA'', ''AES_128_CBC_SHA''), (''AES256-SHA'', ''AES_256_CBC_SHA''), (''DES-CBC3-SHA'', ''3DES_EDE_CBC_SHA'')]"

definition standard_name :: "string \<Rightarrow> string" where
  "standard_name n =
     (case find (\<lambda>(p, _). HasPrefix n p) key_exchanges of
        Some (p, kx) \<Rightarrow> (case map_of bulk_ciphers (drop (length p) n) of
            Some c \<Rightarrow> ''TLS_'' @ kx @ ''_WITH_'' @ c
          | None \<Rightarrow> n)
      | None \<Rightarrow> n)"

definition implemented_suite :: "string \<Rightarrow> u16 option" where
  "implemented_suite n = map_of (cipherSuites @ insecureCipherSuites) (standard_name n)"

text \<open>The names that mean something to the code: those of the built-in profiles, and those of the secure suites.\<close>

definition listed_names :: "string list" where
  "listed_names = old_ciphers @ map fst cipherSuites"

lemma listed_suites: "list_all (\<lambda>n. cipherNameToID n = implemented_suite n) listed_names"
  by code_simp

lemma known_names_listed: "list_all (\<lambda>n. n \<in> set listed_names) (map fst (extraCipherSuites @ cipherSuites))"
  by code_simp

lemma cipherNameToID_standard: "cipherNameToID n = (if n \<in> set listed_names then implemented_suite n else None)"
proof (cases "n \<in> set listed_names")
  case True
  with listed_suites show ?thesis by (simp add: list_all_iff)
next
  case False
  with known_names_listed have "n \<notin> set (map fst extraCipherSuites)" "n \<notin> set (map fst cipherSuites)"
    unfolding list_all_iff by auto
  then have "map_of extraCipherSuites n = None" "map_of cipherSuites n = None" by (simp_all add: map_of_eq_None_iff)
  with False show ?thesis by (simp add: cipherNameToID_def map_add_def)
qed

text \<open>C34. A handshake gets the settings of the profile of the first operator resource that is listed, when the watcher
  is ready, has a cache and lists one, and those of the intermediate profile otherwise, whatever has been done with
  the watcher before. A watcher that has been given a cache is ready once it has started.\<close>

theorem handshake_settings:
  assumes "watcher m"
  shows "answer (GetTLSConfig m) w =
      (case (if tw_ready m then tw_cache m else None) of
         Some c \<Rightarrow> (case fst (list_operators c w) of
             Inr (item # items) \<Rightarrow> cryptoConfigFromSpec (SecurityProfile (fro_Spec item))
           | _ \<Rightarrow> intermediate_settings)
       | None \<Rightarrow> intermediate_settings) \<and>
    (\<forall>c m'. tw_cache m = Some c \<and> answer (Start m) w = Inr m' \<longrightarrow> watcher m' \<and> tw_ready m' \<and> tw_cache m' = Some c)"
proof
  have default: "tw_defaultConfig m = intermediate_settings"
    using watcher_default [OF assms] settings_intermediate [OF select_default] by simp
  then show "answer (GetTLSConfig m) w =
      (case (if tw_ready m then tw_cache m else None) of
         Some c \<Rightarrow> (case fst (list_operators c w) of
             Inr (item # items) \<Rightarrow> cryptoConfigFromSpec (SecurityProfile (fro_Spec item))
           | _ \<Rightarrow> intermediate_settings)
       | None \<Rightarrow> intermediate_settings)"
    by (auto simp: GetTLSConfig_def answer_def split: option.split sum.split list.split)
  show "\<forall>c m'. tw_cache m = Some c \<and> answer (Start m) w = Inr m' \<longrightarrow> watcher m' \<and> tw_ready m' \<and> tw_cache m' = Some c"
  proof (intro allI impI, elim conjE)
    fix c m'
    assume "tw_cache m = Some c" and run: "answer (Start m) w = Inr m'"
    moreover from watcher_start [OF assms] Start_result run have "watcher m'" "m' = m\<lparr>tw_ready := True\<rparr>"
      unfolding answer_def by blast+
    ultimately show "watcher m' \<and> tw_ready m' \<and> tw_cache m' = Some c" by simp
  qed
qed

text \<open>A cluster whose operator resource asks for the modern profile.\<close>

definition modern_operator :: FileRestoreOperator where
  "modern_operator = \<lparr>fro_Name = ''op'', fro_Namespace = ''file-restore'', fro_Generation = 1,
     fro_Spec = \<lparr>ImagePullPolicy = '''', SecurityProfile = Some \<lparr>prof_Type = TLSProfileModernType, prof_Old = None,
       prof_Intermediate = None, prof_Modern = Some (), prof_Custom = None\<rparr>\<rparr>,
     fro_Status = \<lparr>op_Conditions = [], op_OperatorVersion = '''', op_TargetVersion = '''', op_ObservedVersion = '''',
       op_ObservedGeneration = 0\<rparr>\<rparr>"

definition modern_cache :: "unit tls_cache" where
  "modern_cache = \<lparr>list_operators = (\<lambda>w. (Inr [modern_operator], w)), wait_for_sync = (\<lambda>w. (True, w))\<rparr>"

theorem handshake_settings_witness:
  "let m = SetCache (Some modern_cache) NewManagedTLSWatcher in
   answer (GetTLSConfig m) () = intermediate_settings \<and>
   (\<exists>m'. answer (Start m) () = Inr m' \<and> cc_MinVersion (answer (GetTLSConfig m') ()) = 0x0304)"
proof -
  let ?m = "SetCache (Some modern_cache) NewManagedTLSWatcher"
  have m: "watcher ?m" by (intro watcher.intros)
  have start: "answer (Start ?m) () = Inr (?m\<lparr>tw_ready := True\<rparr>)"
    by (simp add: Start_def answer_def SetCache_def modern_cache_def)
  have listed: "fst (list_operators modern_cache ()) = Inr [modern_operator]" by (simp add: modern_cache_def)
  have cache: "tw_cache ?m = Some modern_cache" "\<not> tw_ready ?m" by (simp_all add: SetCache_def NewManagedTLSWatcher_def)
  have modern: "cc_MinVersion (cryptoConfigFromSpec (SecurityProfile (fro_Spec modern_operator))) = 0x0304" by code_simp
  from handshake_settings [OF m, of "()"] cache start
  have m': "watcher (?m\<lparr>tw_ready := True\<rparr>)" and before: "answer (GetTLSConfig ?m) () = intermediate_settings" by simp_all
  from handshake_settings [OF m', of "()"] cache(1) modern
  have "cc_MinVersion (answer (GetTLSConfig (?m\<lparr>tw_ready := True\<rparr>)) ()) = 0x0304" by (simp add: listed)
  with before start show ?thesis by (auto simp: Let_def)
qed

text \<open>The settings without a profile, or with one of an unknown type, are those of the intermediate profile.\<close>

theorem default_settings:
  assumes "profile = None \<or> (\<exists>p. profile = Some p \<and> prof_Custom p = None \<and>
    prof_Type p \<notin> {TLSProfileOldType, TLSProfileModernType})"
  shows "cryptoConfigFromSpec profile = \<lparr>cc_CipherSuites =
    [0x1301, 0x1302, 0x1303, 0xC02B, 0xC02F, 0xC02C, 0xC030, 0xCCA9, 0xCCA8], cc_MinVersion = 0x0303\<rparr>"
proof -
  have "selectCipherSuitesAndMinTLSVersion profile = (intermediate_ciphers, VersionTLS12)"
    using assms by (auto simp: select_named select_default TLSProfileOldType_def TLSProfileModernType_def)
  from settings_intermediate [OF this] show ?thesis by (simp add: intermediate_settings_def)
qed

theorem default_settings_witness:
  "cc_MinVersion (cryptoConfigFromSpec (Some \<lparr>prof_Type = ''Typo'', prof_Old = None, prof_Intermediate = None,
     prof_Modern = None, prof_Custom = None\<rparr>)) = 0x0303"
  using default_settings [of "Some \<lparr>prof_Type = ''Typo'', prof_Old = None, prof_Intermediate = None,
     prof_Modern = None, prof_Custom = None\<rparr>"]
  by (simp add: TLSProfileOldType_def TLSProfileModernType_def)

text \<open>C35. Only the old profile or a custom one can allow a version below TLS 1.2.\<close>

theorem old_tls_must_be_asked_for:
  assumes "cc_MinVersion (cryptoConfigFromSpec profile) < tls_VersionTLS12"
  shows "\<exists>p. profile = Some p \<and> (prof_Type p = TLSProfileOldType \<or> prof_Custom p \<noteq> None)"
proof (cases profile)
  case None
  with assms show ?thesis
    by (simp add: cryptoConfigFromSpec_def select_default version_numbers tls_VersionTLS12_def)
next
  case (Some p)
  with assms show ?thesis
    by (cases "prof_Custom p")
      (auto simp: cryptoConfigFromSpec_def select_named version_numbers tls_VersionTLS12_def
        TLSProfileOldType_def split: if_splits)
qed

theorem old_tls_must_be_asked_for_witness:
  "cc_MinVersion (cryptoConfigFromSpec (Some \<lparr>prof_Type = TLSProfileOldType, prof_Old = Some (),
     prof_Intermediate = None, prof_Modern = None, prof_Custom = None\<rparr>)) = 0x0301"
proof -
  let ?p = "\<lparr>prof_Type = TLSProfileOldType, prof_Old = Some (),
     prof_Intermediate = None, prof_Modern = None, prof_Custom = None\<rparr>"
  have "cc_MinVersion (cryptoConfigFromSpec (Some ?p)) = 0x0301" by code_simp
  with old_tls_must_be_asked_for [of "Some ?p"] show ?thesis by (simp add: tls_VersionTLS12_def)
qed

text \<open>C36. The table of cipher names is the naming rule of OpenSSL: a name that occurs in a built-in profile, or that Go gives
  to a secure suite, stands for the suite with the standard name, if \<open>crypto/tls\<close> implements it. The suites of a
  profile are the numbers of these, in its order; names of suites that are not implemented, and all others, are dropped.\<close>

theorem suites_follow_the_profile:
  "cipherSuitesIDs names = List.map_filter (\<lambda>n. if n \<in> set listed_names then implemented_suite n else None) names"
  by (induction names) (simp_all add: map_filter_simps cipherNameToID_standard split: option.split)

end
