(* ===== verification/OperatorController.thy ===== *)
theory OperatorController
  imports TLSWatcher
begin

text \<open>
  internal/controller/filerestoreoperator_controller.go: the controller of the operator's own
  resource. It reports the running version and four conditions, and writes the status only when
  something in it has to change.

  \<open>apimeta.SetStatusCondition\<close> and \<open>apimeta.FindStatusCondition\<close> are not part of the repository: the
  first is a parameter under the contract \<open>condition_update\<close>, the second looks a condition up by its
  type.
\<close>

definition ConditionAvailable :: string where "ConditionAvailable = ''Available''"
definition ConditionProgressing :: string where "ConditionProgressing = ''Progressing''"
definition ConditionDegraded :: string where "ConditionDegraded = ''Degraded''"
definition ConditionUpgradeable :: string where "ConditionUpgradeable = ''Upgradeable''"

definition reasonDeployed :: string where "reasonDeployed = ''Deployed''"

record FileRestoreOperatorReconciler =
  OperatorVersion :: string

record 'w openv =
  o_get :: "key \<Rightarrow> 'w \<Rightarrow> (goerror + FileRestoreOperator) \<times> 'w"
  o_update_status :: "FileRestoreOperator \<Rightarrow> 'w \<Rightarrow> (goerror + unit) \<times> 'w"
  o_set_condition :: "Condition list \<Rightarrow> Condition \<Rightarrow> Condition list"

datatype operator_request = OGet key | OUpdateStatus FileRestoreOperator

type_synonym ('w, 'a) ocmd = "(('w, operator_request) sys, 'a) state"

definition operatorVersion :: "FileRestoreOperatorReconciler \<Rightarrow> string" where
  "operatorVersion r = (if OperatorVersion r \<noteq> '''' then OperatorVersion r else ''devel'')"

definition isConditionSet :: "Condition list \<Rightarrow> string \<Rightarrow> ConditionStatus \<Rightarrow> string \<Rightarrow> int \<Rightarrow> bool" where
  "isConditionSet conditions condType status message generation =
     (case condition_of condType conditions of
        None \<Rightarrow> False
      | Some c \<Rightarrow> c_Status c = status \<and> c_Reason c = reasonDeployed \<and> c_Message c = message \<and>
          c_ObservedGeneration c = generation)"

definition fileRestoreOperatorStatusNeedsUpdate :: "FileRestoreOperatorStatus \<Rightarrow> int \<Rightarrow> string \<Rightarrow> bool" where
  "fileRestoreOperatorStatusNeedsUpdate status generation version \<longleftrightarrow>
     op_ObservedGeneration status \<noteq> generation \<or>
     op_OperatorVersion status \<noteq> version \<or>
     op_TargetVersion status \<noteq> version \<or>
     op_ObservedVersion status \<noteq> version \<or>
     \<not> isConditionSet (op_Conditions status) ConditionAvailable ConditionTrue ''FileRestoreOperator is available'' generation \<or>
     \<not> isConditionSet (op_Conditions status) ConditionProgressing ConditionFalse ''FileRestoreOperator is not progressing'' generation \<or>
     \<not> isConditionSet (op_Conditions status) ConditionDegraded ConditionFalse ''FileRestoreOperator is not degraded'' generation \<or>
     \<not> isConditionSet (op_Conditions status) ConditionUpgradeable ConditionTrue ''FileRestoreOperator is upgradeable'' generation"

text \<open>A condition as the controller builds it: the transition time is left at its zero value.\<close>

definition deployed_condition :: "int \<Rightarrow> string \<Rightarrow> ConditionStatus \<Rightarrow> string \<Rightarrow> Condition" where
  "deployed_condition generation ty status message =
     \<lparr>c_Type = ty, c_Status = status, c_ObservedGeneration = generation, c_LastTransitionTime = 0,
      c_Reason = reasonDeployed, c_Message = message\<rparr>"

definition deployed_conditions :: "int \<Rightarrow> Condition list" where
  "deployed_conditions generation =
     [deployed_condition generation ConditionAvailable ConditionTrue ''FileRestoreOperator is available'',
      deployed_condition generation ConditionProgressing ConditionFalse ''FileRestoreOperator is not progressing'',
      deployed_condition generation ConditionDegraded ConditionFalse ''FileRestoreOperator is not degraded'',
      deployed_condition generation ConditionUpgradeable ConditionTrue ''FileRestoreOperator is upgradeable'']"

definition deployed_status ::
  "(Condition list \<Rightarrow> Condition \<Rightarrow> Condition list) \<Rightarrow> int \<Rightarrow> string \<Rightarrow> FileRestoreOperatorStatus \<Rightarrow> FileRestoreOperatorStatus" where
  "deployed_status setCond generation version s =
     s\<lparr>op_ObservedGeneration := generation, op_OperatorVersion := version, op_TargetVersion := version,
       op_ObservedVersion := version,
       op_Conditions := foldl setCond (op_Conditions s) (deployed_conditions generation)\<rparr>"

text \<open>\<open>%s\<close> of a namespaced name is \<open>namespace/name\<close>.\<close>

definition namespaced_name :: "key \<Rightarrow> string" where
  "namespaced_name k = fst k @ ''/'' @ snd k"

definition OperatorReconcile ::
  "'w openv \<Rightarrow> FileRestoreOperatorReconciler \<Rightarrow> key \<Rightarrow> ('w, reply) ocmd" where
  "OperatorReconcile P r k = do {
     g \<leftarrow> call (OGet k) (o_get P k);
     case g of
       Inl err \<Rightarrow> State_Monad.return
         (if IsNotFound err then (no_requeue, None)
          else (no_requeue, Some (Wrapf (''failed to get FileRestoreOperator '' @ namespaced_name k) err)))
     | Inr fro \<Rightarrow> do {
         let version = operatorVersion r;
         if \<not> fileRestoreOperatorStatusNeedsUpdate (fro_Status fro) (fro_Generation fro) version
         then State_Monad.return (no_requeue, None)
         else do {
           let fro' = fro\<lparr>fro_Status := deployed_status (o_set_condition P) (fro_Generation fro) version (fro_Status fro)\<rparr>;
           u \<leftarrow> call (OUpdateStatus fro') (o_update_status P fro');
           State_Monad.return (case u of
               Inl err \<Rightarrow> (no_requeue, Some (Wrapf (''failed to update FileRestoreOperator '' @ namespaced_name k @ '' status'') err))
             | Inr _ \<Rightarrow> (no_requeue, None))
         }
       }
   }"

subsection \<open>Facts\<close>

lemmas condition_types = ConditionAvailable_def ConditionProgressing_def ConditionDegraded_def
  ConditionUpgradeable_def

lemma isConditionSet_says:
  "isConditionSet cs ty status message generation \<longleftrightarrow>
     map_option says (condition_of ty cs) = Some (status, reasonDeployed, message, generation)"
  by (auto simp: isConditionSet_def says_def split: option.split)

context condition_update
begin

lemma deployed_says:
  "map_option says (condition_of ty (foldl upd cs (deployed_conditions g))) =
     (if ty = ConditionAvailable then Some (ConditionTrue, reasonDeployed, ''FileRestoreOperator is available'', g)
      else if ty = ConditionProgressing then Some (ConditionFalse, reasonDeployed, ''FileRestoreOperator is not progressing'', g)
      else if ty = ConditionDegraded then Some (ConditionFalse, reasonDeployed, ''FileRestoreOperator is not degraded'', g)
      else if ty = ConditionUpgradeable then Some (ConditionTrue, reasonDeployed, ''FileRestoreOperator is upgradeable'', g)
      else map_option says (condition_of ty cs))"
  unfolding updates_last
  by (simp add: deployed_conditions_def deployed_condition_def condition_types says_def)

lemma deployed_status_settled:
  "\<not> fileRestoreOperatorStatusNeedsUpdate (deployed_status upd generation version s) generation version"
  by (simp add: fileRestoreOperatorStatusNeedsUpdate_def isConditionSet_says deployed_status_def deployed_says
      condition_types)

end

text \<open>C33. A status update of the operator resource changes only its status, in which conditions of
  other types say what they said. It settles the resource: a reconciliation that reads what was
  written issues no further update.\<close>

theorem operator_status_settles:
  assumes "condition_update (o_set_condition P)" and "OUpdateStatus fro \<in> set (requests (OperatorReconcile P r k) w)"
  shows "(\<exists>old. fst (o_get P k w) = Inr old \<and> fro = old\<lparr>fro_Status := fro_Status fro\<rparr> \<and>
      (\<forall>ty. ty \<notin> {ConditionAvailable, ConditionProgressing, ConditionDegraded, ConditionUpgradeable} \<longrightarrow>
         map_option says (condition_of ty (op_Conditions (fro_Status fro))) =
         map_option says (condition_of ty (op_Conditions (fro_Status old))))) \<and>
    (\<forall>w'. fst (o_get P k w') = Inr fro \<longrightarrow>
      requests (OperatorReconcile P r k) w' = [OGet k] \<and> answer (OperatorReconcile P r k) w' = (no_requeue, None))"
proof -
  from assms(2) obtain old where old: "fst (o_get P k w) = Inr old"
    and fro: "fro = old\<lparr>fro_Status := deployed_status (o_set_condition P) (fro_Generation old)
      (operatorVersion r) (fro_Status old)\<rparr>"
    by (auto simp: requests_def OperatorReconcile_def Let_def split: sum.splits if_splits)
  note settled = condition_update.deployed_status_settled [OF assms(1)]
    and says = condition_update.deployed_says [OF assms(1)]
  have "map_option says (condition_of ty (op_Conditions (fro_Status fro))) =
      map_option says (condition_of ty (op_Conditions (fro_Status old)))"
    if "ty \<notin> {ConditionAvailable, ConditionProgressing, ConditionDegraded, ConditionUpgradeable}" for ty
    using that by (simp add: fro deployed_status_def says)
  moreover have "requests (OperatorReconcile P r k) w' = [OGet k] \<and>
      answer (OperatorReconcile P r k) w' = (no_requeue, None)" if "fst (o_get P k w') = Inr fro" for w'
    using that by (simp add: requests_def answer_def OperatorReconcile_def Let_def) (simp add: fro settled)
  moreover have "fro = old\<lparr>fro_Status := fro_Status fro\<rparr>" by (simp add: fro)
  ultimately show ?thesis using old by blast
qed

theorem operator_status_settles_witness:
  "let fro = \<lparr>fro_Name = ''op'', fro_Namespace = ''ns'', fro_Generation = 1,
         fro_Spec = \<lparr>ImagePullPolicy = '''', SecurityProfile = None\<rparr>,
         fro_Status = \<lparr>op_Conditions = [], op_OperatorVersion = '''', op_TargetVersion = '''',
           op_ObservedVersion = '''', op_ObservedGeneration = 0\<rparr>\<rparr>;
       P = \<lparr>o_get = \<lambda>k w. (Inr w, w), o_update_status = \<lambda>x w. (Inr (), x), o_set_condition = set_condition\<rparr>;
       r = \<lparr>OperatorVersion = ''v1''\<rparr>
   in \<exists>x. requests (OperatorReconcile P r (''ns'', ''op'')) fro = [OGet (''ns'', ''op''), OUpdateStatus x] \<and>
        requests (OperatorReconcile P r (''ns'', ''op'')) x = [OGet (''ns'', ''op'')]"
proof -
  define fro where "fro = \<lparr>fro_Name = ''op'', fro_Namespace = ''ns'', fro_Generation = 1,
         fro_Spec = \<lparr>ImagePullPolicy = '''', SecurityProfile = None\<rparr>,
         fro_Status = \<lparr>op_Conditions = [], op_OperatorVersion = '''', op_TargetVersion = '''',
           op_ObservedVersion = '''', op_ObservedGeneration = 0\<rparr>\<rparr>"
  define P where "P = \<lparr>o_get = \<lambda>k w. (Inr w, w), o_update_status = \<lambda>x w. (Inr (), x), o_set_condition = set_condition\<rparr>"
  define r where "r = \<lparr>OperatorVersion = ''v1''\<rparr>"
  let ?x = "fro\<lparr>fro_Status := deployed_status set_condition 1 ''v1'' (fro_Status fro)\<rparr>"
  have run: "requests (OperatorReconcile P r (''ns'', ''op'')) fro = [OGet (''ns'', ''op''), OUpdateStatus ?x]"
    by (simp add: P_def r_def fro_def requests_def OperatorReconcile_def Let_def operatorVersion_def
        fileRestoreOperatorStatusNeedsUpdate_def)
  have "condition_update (o_set_condition P)" by (simp add: P_def conditions.condition_update_axioms)
  from operator_status_settles [OF this, of ?x r "(''ns'', ''op'')" fro] run
  have "requests (OperatorReconcile P r (''ns'', ''op'')) ?x = [OGet (''ns'', ''op'')]"
    by (simp add: P_def)
  with run show ?thesis
    unfolding Let_def fro_def [symmetric] P_def [symmetric] r_def [symmetric] by blast
qed

end
