(* ===== verification/Bootstrap.thy ===== *)
theory Bootstrap
  imports MemKeys OperatorController
begin

text \<open>
  cmd/main.go: the start of the process. It checks its certificates, creates the manager, makes sure of
  the SSH keypair, registers the two controllers, and starts the manager. Every error ends the process
  with exit code 1.

  The manager, the certificate watchers and the client are parameters, each call of which answers an
  error or none. Flags are given as parsed (by \<open>Flags\<close>). A path built by \<open>filepath.Join\<close> is kept as the pair of its
  elements.
\<close>

subsection \<open>Flags and TLS options\<close>

record flags =
  metricsAddr :: string
  metricsCertPath :: string
  metricsCertName :: string
  metricsCertKey :: string
  webhookCertPath :: string
  webhookCertName :: string
  webhookCertKey :: string
  enableLeaderElection :: bool
  probeAddr :: string
  secureMetrics :: bool
  enableHTTP2 :: bool

definition default_flags :: flags where
  "default_flags = \<lparr>metricsAddr = ''0'', metricsCertPath = '''', metricsCertName = ''tls.crt'',
     metricsCertKey = ''tls.key'', webhookCertPath = '''', webhookCertName = ''tls.crt'',
     webhookCertKey = ''tls.key'', enableLeaderElection = False, probeAddr = '':8081'',
     secureMetrics = True, enableHTTP2 = False\<rparr>"

text \<open>Of \<open>tls.Config\<close>, the fields the options set. \<open>GetConfigForClient\<close> is a flag: it is set to the
  callback that \<open>handshake_config\<close> models, or nil.\<close>

record tls_Config =
  NextProtos :: "string list"
  CipherSuites :: "u16 list"
  MinVersion :: u16
  GetCertificate :: "string option"
  GetConfigForClient :: bool

definition disableHTTP2 :: "tls_Config \<Rightarrow> tls_Config" where
  "disableHTTP2 c = c\<lparr>NextProtos := [''http/1.1'']\<rparr>"

definition cryptoPolicyOpt :: "tls_Config \<Rightarrow> tls_Config" where
  "cryptoPolicyOpt c = c\<lparr>GetConfigForClient := True\<rparr>"

definition certificateOpt :: "string \<Rightarrow> tls_Config \<Rightarrow> tls_Config" where
  "certificateOpt w c = c\<lparr>GetCertificate := Some w\<rparr>"

definition tlsOpts :: "flags \<Rightarrow> (tls_Config \<Rightarrow> tls_Config) list" where
  "tlsOpts fl = (if \<not> enableHTTP2 fl then [disableHTTP2] else [])"

definition webhookTLSOpts :: "flags \<Rightarrow> (tls_Config \<Rightarrow> tls_Config) list" where
  "webhookTLSOpts fl = tlsOpts fl @ (if webhookCertPath fl \<noteq> '''' then [certificateOpt ''webhook''] else [])"

definition metricsTLSOpts :: "flags \<Rightarrow> (tls_Config \<Rightarrow> tls_Config) list" where
  "metricsTLSOpts fl = tlsOpts fl @ [cryptoPolicyOpt] @
     (if metricsCertPath fl \<noteq> '''' then [certificateOpt ''metrics''] else [])"

definition apply_options :: "(tls_Config \<Rightarrow> tls_Config) list \<Rightarrow> tls_Config \<Rightarrow> tls_Config" where
  "apply_options opts c = foldl (\<lambda>c opt. opt c) c opts"

text \<open>The callback of \<open>cryptoPolicyOpt\<close>: the settings of one handshake, from the watcher.\<close>

definition handshake_config :: "'w ManagedTLSWatcher \<Rightarrow> tls_Config \<Rightarrow> ('w, tls_Config) tcmd" where
  "handshake_config m c = do {
     cc \<leftarrow> GetTLSConfig m;
     State_Monad.return (c\<lparr>CipherSuites := cc_CipherSuites cc, MinVersion := cc_MinVersion cc,
       GetConfigForClient := False\<rparr>)
   }"

subsection \<open>Server and manager options\<close>

text \<open>Of \<open>metricsserver.Options\<close>; \<open>FilterProvider\<close> tells whether the filter with authentication and
  authorization is set.\<close>

record metricsserver_Options =
  BindAddress :: string
  SecureServing :: bool
  TLSOpts :: "(tls_Config \<Rightarrow> tls_Config) list"
  FilterProvider :: bool

definition metricsServerOptions :: "flags \<Rightarrow> metricsserver_Options" where
  "metricsServerOptions fl = \<lparr>BindAddress = metricsAddr fl, SecureServing = secureMetrics fl,
     TLSOpts = metricsTLSOpts fl, FilterProvider = secureMetrics fl\<rparr>"

record ctrl_Options =
  Metrics :: metricsserver_Options
  WebhookServer :: "(tls_Config \<Rightarrow> tls_Config) list"
  HealthProbeBindAddress :: string
  LeaderElection :: bool
  LeaderElectionID :: string

definition manager_options :: "flags \<Rightarrow> ctrl_Options" where
  "manager_options fl = \<lparr>Metrics = metricsServerOptions fl, WebhookServer = webhookTLSOpts fl,
     HealthProbeBindAddress = probeAddr fl, LeaderElection = enableLeaderElection fl,
     LeaderElectionID = ''2ba6835d.kubevirt.io''\<rparr>"

subsection \<open>The keypair at start-up\<close>

definition operator_namespace :: "string \<Rightarrow> string" where
  "operator_namespace env = (if env = '''' then ''file-restore'' else env)"

text \<open>The retry loop, by the index of the attempt and the attempts left.\<close>

fun ensure_loop :: "('w, 'b) keyenv \<Rightarrow> string \<Rightarrow> nat \<Rightarrow> nat \<Rightarrow> goerror option \<Rightarrow> ('w, goerror option) kcmd" where
  "ensure_loop K ns i 0 ensureErr = State_Monad.return ensureErr"
| "ensure_loop K ns i (Suc left) ensureErr = do {
     r \<leftarrow> EnsureOperatorResources K ns;
     case r of
       Some err \<Rightarrow> do {
         call (KSleep (int (i + 1) * second)) (\<lambda>w. ((), w));
         ensure_loop K ns (Suc i) left (Some err)
       }
     | None \<Rightarrow> State_Monad.return None
   }"

definition ensure_keypair :: "('w, 'b) keyenv \<Rightarrow> string \<Rightarrow> ('w, goerror option) kcmd" where
  "ensure_keypair K ns = ensure_loop K ns 0 5 None"

subsection \<open>Registration of the controllers\<close>

text \<open>The fields of \<open>VirtualMachineFileRestoreReconciler\<close> that its registration sets, besides those of
  \<open>reconciler\<close>: the reader of the SSH secret (nil, the manager's cached client, or its uncached reader)
  and the event recorder, by its name.\<close>

datatype client_reader = CachedClient | UncachedReader

record restore_controller = VirtualMachineFileRestoreReconciler +
  APIReader :: "client_reader option"
  Recorder :: "string option"

record controller_builder =
  cb_For :: string
  cb_Named :: "string option"

subsection \<open>The process\<close>

text \<open>The cache a TLS watcher has been given, if any: here always the manager's.\<close>

datatype cache_reader = ManagerCache

datatype main_request =
    MNewCertWatcher "string \<times> string" "string \<times> string"
  | MGetConfig
  | MNewManager ctrl_Options
  | MAddTLSWatcher "cache_reader option"
  | MNewClient
  | MKeypair key_request
  | MSetupRestore controller_builder restore_controller
  | MSetupOperator controller_builder FileRestoreOperatorReconciler
  | MAddCertWatcher string
  | MAddHealthz
  | MAddReadyz
  | MStart

text \<open>The two \<open>SetupWithManager\<close>: what they hand to \<open>Complete\<close>, whose error they return.\<close>

definition SetupRestoreWithManager :: "restore_controller \<Rightarrow> main_request" where
  "SetupRestoreWithManager r =
     (let r' = r\<lparr>Recorder := Some ''virtualmachinefilerestore-controller''\<rparr>;
          r'' = (if APIReader r' = None then r'\<lparr>APIReader := Some UncachedReader\<rparr> else r')
      in MSetupRestore \<lparr>cb_For = ''VirtualMachineFileRestore'', cb_Named = Some ''virtualmachinefilerestore''\<rparr> r'')"

definition SetupOperatorWithManager :: "FileRestoreOperatorReconciler \<Rightarrow> main_request" where
  "SetupOperatorWithManager r = MSetupOperator \<lparr>cb_For = ''FileRestoreOperator'', cb_Named = None\<rparr> r"

text \<open>How each of these calls ends: the error, or none.\<close>

type_synonym 'w mainenv = "main_request \<Rightarrow> 'w \<Rightarrow> goerror option \<times> 'w"

type_synonym ('w, 'a) mcmd = "(('w, main_request) sys, 'a) state"

datatype exit = Exit int | Returned

text \<open>A call whose error ends the process.\<close>

definition step :: "'w mainenv \<Rightarrow> main_request \<Rightarrow> ('w, exit) mcmd \<Rightarrow> ('w, exit) mcmd" where
  "step M q rest = do {
     r \<leftarrow> call q (M q);
     case r of Some _ \<Rightarrow> State_Monad.return (Exit 1) | None \<Rightarrow> rest
   }"

definition step_if :: "bool \<Rightarrow> 'w mainenv \<Rightarrow> main_request \<Rightarrow> ('w, exit) mcmd \<Rightarrow> ('w, exit) mcmd" where
  "step_if b M q rest = (if b then step M q rest else rest)"

text \<open>Lines 293 to 322: the certificate watchers, the probes, and the manager itself.\<close>

definition main_serve :: "'w mainenv \<Rightarrow> flags \<Rightarrow> ('w, exit) mcmd" where
  "main_serve M fl =
     step_if (metricsCertPath fl \<noteq> '''') M (MAddCertWatcher ''metrics'')
     (step_if (webhookCertPath fl \<noteq> '''') M (MAddCertWatcher ''webhook'')
     (step M MAddHealthz
     (step M MAddReadyz
     (step M MStart (State_Monad.return Returned)))))"

text \<open>Lines 269 to 290: the two controllers.\<close>

definition main_controllers :: "'w mainenv \<Rightarrow> flags \<Rightarrow> string \<Rightarrow> string \<Rightarrow> ('w, exit) mcmd" where
  "main_controllers M fl namespace version =
     step M (SetupRestoreWithManager \<lparr>OperatorNamespace = namespace, APIReader = Some UncachedReader, Recorder = None\<rparr>)
     (step M (SetupOperatorWithManager \<lparr>OperatorVersion = version\<rparr>)
     (main_serve M fl))"

text \<open>\<open>GetConfigOrDie\<close> ends the process with exit code 1 on an error, as the calls of the code do. The TLS watcher is
  given the manager's cache before it is added.\<close>

definition main :: "'w mainenv \<Rightarrow> ('w, 'b) keyenv \<Rightarrow> flags \<Rightarrow> string \<Rightarrow> string \<Rightarrow> ('w, exit) mcmd" where
  "main M K fl OPERATOR_NAMESPACE OPERATOR_VERSION =
     step_if (webhookCertPath fl \<noteq> '''') M
       (MNewCertWatcher (webhookCertPath fl, webhookCertName fl) (webhookCertPath fl, webhookCertKey fl))
     (step_if (metricsCertPath fl \<noteq> '''') M
       (MNewCertWatcher (metricsCertPath fl, metricsCertName fl) (metricsCertPath fl, metricsCertKey fl))
     (step M MGetConfig
     (step M (MNewManager (manager_options fl))
     (step M (MAddTLSWatcher (Some ManagerCache))
     (step M MNewClient (do {
        ensureErr \<leftarrow> via MKeypair (ensure_keypair K (operator_namespace OPERATOR_NAMESPACE));
        case ensureErr of
          Some _ \<Rightarrow> State_Monad.return (Exit 1)
        | None \<Rightarrow> main_controllers M fl (operator_namespace OPERATOR_NAMESPACE) OPERATOR_VERSION
      }))))))"

subsection \<open>Facts\<close>

text \<open>The retry loop keeps what one attempt keeps, and has it settled when it reports success.\<close>

context key_store
begin

lemma ensure_loop_settles:
  assumes "\<forall>s. secret_at w0 (resource_key ns) = Some s \<longrightarrow> secret_at w (resource_key ns) = Some s"
    and "fitting K (secret_at w (resource_key ns)) (cm_at w (resource_key ns))"
    and "e = None \<longrightarrow> 0 < left"
  shows "holds (ensure_loop K ns i left e) w (\<lambda>r w'.
     (\<forall>s. secret_at w0 (resource_key ns) = Some s \<longrightarrow> secret_at w' (resource_key ns) = Some s) \<and>
     settled K (secret_at w' (resource_key ns)) (cm_at w' (resource_key ns)) r)"
  using assms
proof (induction left arbitrary: w i e)
  case 0
  then show ?case by (auto intro!: holds_return simp: settled_def)
next
  case (Suc left)
  have "holds (case r of Some err \<Rightarrow> do {
           call (KSleep (int (i + 1) * second)) (\<lambda>w. ((), w));
           ensure_loop K ns (Suc i) left (Some err) }
         | None \<Rightarrow> State_Monad.return None) w' (\<lambda>r w'.
       (\<forall>s. secret_at w0 (resource_key ns) = Some s \<longrightarrow> secret_at w' (resource_key ns) = Some s) \<and>
       settled K (secret_at w' (resource_key ns)) (cm_at w' (resource_key ns)) r)"
    if "(\<forall>s. secret_at w (resource_key ns) = Some s \<longrightarrow> secret_at w' (resource_key ns) = Some s) \<and>
      (fitting K (secret_at w (resource_key ns)) (cm_at w (resource_key ns)) \<longrightarrow>
        settled K (secret_at w' (resource_key ns)) (cm_at w' (resource_key ns)) r)" for r w'
    using that Suc.prems
    by (auto intro!: holds_rules Suc.IH split: option.split dest: settled_fitting)
  then show ?case
    unfolding ensure_loop.simps by (rule holds_bind [OF EnsureOperatorResources_settles])
qed

lemma ensure_keypair_settles:
  assumes "fitting K (secret_at w (resource_key ns)) (cm_at w (resource_key ns))"
  shows "(\<forall>s. secret_at w (resource_key ns) = Some s \<longrightarrow>
       secret_at (after (ensure_keypair K ns) w) (resource_key ns) = Some s) \<and>
    settled K (secret_at (after (ensure_keypair K ns) w) (resource_key ns))
      (cm_at (after (ensure_keypair K ns) w) (resource_key ns)) (answer (ensure_keypair K ns) w)"
  unfolding ensure_keypair_def
  by (rule holds_run [OF ensure_loop_settles]) (use assms in auto)

end

fun sleeps :: "key_request list \<Rightarrow> duration list" where
  "sleeps [] = []"
| "sleeps (KSleep d # qs) = d # sleeps qs"
| "sleeps (q # qs) = sleeps qs"

lemma sleeps_append [simp]: "sleeps (qs @ rs) = sleeps qs @ sleeps rs"
  by (induction qs rule: sleeps.induct) auto

lemma no_sleeps: "list_all (\<lambda>q. sleeps [q] = []) qs \<Longrightarrow> sleeps qs = []"
proof (induction qs)
  case (Cons q qs)
  then show ?case by (cases q) auto
qed simp

abbreviation awake :: "('w, 'a) kcmd \<Rightarrow> bool" where
  "awake \<equiv> emits (\<lambda>q. sleeps [q] = []) (\<lambda>_. True)"

lemma awake_createConfigMap: "awake (createConfigMap K ns p)"
  by (auto simp: createConfigMap_def Let_def intro!: emit_rules split: sum.split prod.split)

lemma awake_tars: "awake (ensureHelperTars K c)"
  by (auto simp: ensureHelperTars_def Let_def intro!: emit_rules split: sum.split prod.split)

lemma awake_createConfigMapFromSecret: "awake (createConfigMapFromSecret K ns s)"
  by (auto simp: createConfigMapFromSecret_def intro!: emit_rules awake_createConfigMap
      split: option.split list.split sum.split)

lemma awake_createKeypair: "awake (createKeypairAndConfigMap K ns)"
  by (auto simp: createKeypairAndConfigMap_def Let_def intro!: emit_rules awake_createConfigMap
      split: sum.split prod.split)

lemma awake_Ensure: "awake (EnsureOperatorResources K ns)"
  by (auto simp: EnsureOperatorResources_def Let_def split: sum.splits option.split
      intro!: emit_rules awake_tars awake_createConfigMapFromSecret awake_createKeypair)

text \<open>From the attempt of index \<open>i\<close> on, with \<open>left\<close> attempts left: one more second after each failed
  attempt, and an error only after all of them.\<close>

definition paced :: "nat \<Rightarrow> nat \<Rightarrow> goerror option \<Rightarrow> key_request list \<Rightarrow> bool" where
  "paced i left r qs \<longleftrightarrow> (\<exists>n \<le> left. sleeps qs = map (\<lambda>j. int (j + 1) * second) [i..<i + n] \<and>
     (r \<noteq> None \<longrightarrow> n = left))"

lemma paced_success: "sleeps qs = [] \<Longrightarrow> paced i left None qs"
  by (auto simp: paced_def)

lemma paced_failure:
  assumes "sleeps qs = []" and "paced (Suc i) left r rs"
  shows "paced i (Suc left) r (qs @ KSleep ((1 + int i) * second) # rs)"
proof -
  from assms(2) obtain n where "n \<le> left" "sleeps rs = map (\<lambda>j. int (j + 1) * second) [Suc i..<Suc i + n]"
    "r \<noteq> None \<longrightarrow> n = left"
    unfolding paced_def by blast
  with assms(1) show ?thesis
    unfolding paced_def by (intro exI [of _ "Suc n"]) (simp add: upt_conv_Cons del: upt_Suc)
qed

lemma ensure_loop_paced: "traces (paced i left) (ensure_loop K ns i left e)"
proof (induction left arbitrary: i e)
  case 0
  show ?case by (auto intro!: trace_rules simp: paced_def)
next
  case (Suc left)
  show ?case
    unfolding ensure_loop.simps
    by (rule traces_bind [OF traces_emits [OF awake_Ensure]])
      (auto intro!: trace_rules traces_weaken [OF Suc.IH] paced_success paced_failure no_sleeps
        split: option.split)
qed

subsection \<open>The order of start-up\<close>

text \<open>How the process ends, and what it has done before the manager starts: \<open>before\<close>, once, with the
  start as the last of all.\<close>

definition starts_after :: "main_request set \<Rightarrow> exit \<Rightarrow> main_request list \<Rightarrow> bool" where
  "starts_after before r qs \<longleftrightarrow> r \<in> {Exit 1, Returned} \<and> (r = Returned \<longrightarrow> MStart \<in> set qs) \<and>
     (MStart \<in> set qs \<longrightarrow> (\<exists>ps. qs = ps @ [MStart] \<and> MStart \<notin> set ps \<and> before \<subseteq> set ps))"

lemma starts_after_exit: "MStart \<notin> set qs \<Longrightarrow> starts_after before (Exit 1) qs"
  by (simp add: starts_after_def)

lemma starts_after_mono: "starts_after before r qs \<Longrightarrow> before' \<subseteq> before \<Longrightarrow> starts_after before' r qs"
  by (auto simp: starts_after_def)

lemma starts_after_append:
  assumes "MStart \<notin> set qs" and "starts_after (before - set qs) r rs"
  shows "starts_after before r (qs @ rs)"
proof -
  have "\<exists>ps. qs @ rs = ps @ [MStart] \<and> MStart \<notin> set ps \<and> before \<subseteq> set ps" if "MStart \<in> set rs"
  proof -
    from assms(2) that obtain ps where "rs = ps @ [MStart]" "MStart \<notin> set ps" "before - set qs \<subseteq> set ps"
      unfolding starts_after_def by blast
    with assms(1) show ?thesis by (intro exI [of _ "qs @ ps"]) auto
  qed
  with assms show ?thesis by (auto simp: starts_after_def)
qed

lemmas starts_after_Cons = starts_after_append [where qs = "[q]" for q, simplified]

lemma traces_step:
  assumes "q \<noteq> MStart" and "traces (starts_after (before - {q})) rest"
  shows "traces (starts_after before) (step M q rest)"
  unfolding step_def using assms
  by (auto intro!: trace_rules starts_after_exit traces_weaken [OF assms(2)] starts_after_Cons split: option.split)

lemma traces_step_if:
  assumes "q \<noteq> MStart" and "traces (starts_after before) rest"
  shows "traces (starts_after before) (step_if b M q rest)"
proof -
  have "traces (starts_after (before - {q})) rest"
    using assms(2) by (rule traces_weaken) (erule starts_after_mono, blast)
  with assms show ?thesis by (simp add: step_if_def traces_step)
qed

lemma traces_start: "traces (starts_after {}) (step M MStart (State_Monad.return Returned))"
  unfolding step_def by (auto intro!: trace_rules split: option.split simp: starts_after_def)

lemma ensure_reads: "traces (\<lambda>_ qs. KGetSecret (resource_key ns) \<in> set qs) (EnsureOperatorResources K ns)"
  unfolding EnsureOperatorResources_def Let_def
  by (auto intro!: trace_rules traces_weaken [OF traces_emits [OF awake_createConfigMapFromSecret]]
      traces_weaken [OF traces_emits [OF awake_createKeypair]] traces_weaken [OF traces_emits [OF awake_tars]]
      split: sum.split option.split)

lemma ensure_loop_reads:
  "0 < left \<Longrightarrow> traces (\<lambda>_ qs. KGetSecret (resource_key ns) \<in> set qs) (ensure_loop K ns i left e)"
proof (cases left)
  case (Suc n)
  show ?thesis
    unfolding Suc ensure_loop.simps
    by (rule traces_bind [OF ensure_reads])
      (auto intro!: trace_rules traces_weaken [OF ensure_loop_paced] split: option.split)
qed simp

text \<open>The controllers as they have to be registered.\<close>

definition setup_restore :: "string \<Rightarrow> main_request" where
  "setup_restore ns = MSetupRestore \<lparr>cb_For = ''VirtualMachineFileRestore'', cb_Named = Some ''virtualmachinefilerestore''\<rparr>
     \<lparr>OperatorNamespace = ns, APIReader = Some UncachedReader, Recorder = Some ''virtualmachinefilerestore-controller''\<rparr>"

definition setup_operator :: "string \<Rightarrow> main_request" where
  "setup_operator version = MSetupOperator \<lparr>cb_For = ''FileRestoreOperator'', cb_Named = None\<rparr> \<lparr>OperatorVersion = version\<rparr>"

lemma setup_requests:
  "SetupRestoreWithManager \<lparr>OperatorNamespace = ns, APIReader = Some UncachedReader, Recorder = None\<rparr> = setup_restore ns"
  "SetupOperatorWithManager \<lparr>OperatorVersion = version\<rparr> = setup_operator version"
  by (simp_all add: SetupRestoreWithManager_def setup_restore_def SetupOperatorWithManager_def setup_operator_def)

text \<open>What the manager's start waits for, in the namespace \<open>ns\<close>.\<close>

definition start_needs :: "flags \<Rightarrow> string \<Rightarrow> string \<Rightarrow> main_request set" where
  "start_needs fl ns version = {MGetConfig, MNewManager (manager_options fl), MAddTLSWatcher (Some ManagerCache), MNewClient, MKeypair (KGetSecret (resource_key ns)),
     setup_restore ns, setup_operator version, MAddHealthz, MAddReadyz}"

lemma traces_serve: "traces (starts_after {MAddHealthz, MAddReadyz}) (main_serve M fl)"
proof -
  have "traces (starts_after {MAddReadyz}) (step M MAddReadyz (step M MStart (State_Monad.return Returned)))"
    by (rule traces_step) (simp_all add: traces_start)
  then have "traces (starts_after {MAddHealthz, MAddReadyz})
      (step M MAddHealthz (step M MAddReadyz (step M MStart (State_Monad.return Returned))))"
    by (intro traces_step [where q = MAddHealthz]) simp_all
  then show ?thesis unfolding main_serve_def by (intro traces_step_if) simp_all
qed

lemma traces_controllers:
  "traces (starts_after {setup_restore ns, setup_operator version, MAddHealthz, MAddReadyz}) (main_controllers M fl ns version)"
  unfolding main_controllers_def setup_requests using traces_serve
  by (auto intro!: traces_step simp: setup_restore_def setup_operator_def)

lemma traces_main: "traces (starts_after (start_needs fl (operator_namespace ns) version)) (main M K fl ns version)"
proof -
  let ?ns = "operator_namespace ns"
  let ?left = "{MKeypair (KGetSecret (resource_key ?ns)), setup_restore ?ns,
     setup_operator version, MAddHealthz, MAddReadyz}"
  have keys: "traces (\<lambda>_ qs. \<exists>ks. qs = map MKeypair ks \<and> KGetSecret (resource_key ?ns) \<in> set ks)
      (via MKeypair (ensure_keypair K ?ns))"
    unfolding ensure_keypair_def by (rule traces_via [OF ensure_loop_reads]) simp
  have rest: "traces (\<lambda>y rs. starts_after ?left y (qs @ rs)) (main_controllers M fl ?ns version)"
    if "\<exists>ks. qs = map MKeypair ks \<and> KGetSecret (resource_key ?ns) \<in> set ks" for qs
  proof (rule traces_weaken [OF traces_controllers], rule starts_after_append)
    from that show "MStart \<notin> set qs" by auto
    fix y rs
    assume "starts_after {setup_restore ?ns, setup_operator version, MAddHealthz, MAddReadyz} y rs"
    then show "starts_after (?left - set qs) y rs" by (rule starts_after_mono) (use that in auto)
  qed
  have "traces (starts_after ?left) (do {
      ensureErr \<leftarrow> via MKeypair (ensure_keypair K ?ns);
      case ensureErr of Some _ \<Rightarrow> State_Monad.return (Exit 1) | None \<Rightarrow> main_controllers M fl ?ns version })"
    by (rule traces_bind [OF keys]) (auto intro!: trace_rules rest starts_after_exit split: option.split)
  then show ?thesis
    unfolding main_def start_needs_def
    by (auto intro!: traces_step_if traces_step simp: insert_Diff_if setup_restore_def setup_operator_def)
qed

text \<open>The same as two plans, the calls before and after the keypair, each carried out up to its first failure.\<close>

definition before_keypair :: "flags \<Rightarrow> main_request list" where
  "before_keypair fl =
     (if webhookCertPath fl \<noteq> ''''
      then [MNewCertWatcher (webhookCertPath fl, webhookCertName fl) (webhookCertPath fl, webhookCertKey fl)] else []) @
     (if metricsCertPath fl \<noteq> ''''
      then [MNewCertWatcher (metricsCertPath fl, metricsCertName fl) (metricsCertPath fl, metricsCertKey fl)] else []) @
     [MGetConfig, MNewManager (manager_options fl), MAddTLSWatcher (Some ManagerCache), MNewClient]"

definition after_keypair :: "flags \<Rightarrow> string \<Rightarrow> string \<Rightarrow> main_request list" where
  "after_keypair fl ns version =
     [setup_restore ns, setup_operator version] @
     (if metricsCertPath fl \<noteq> '''' then [MAddCertWatcher ''metrics''] else []) @
     (if webhookCertPath fl \<noteq> '''' then [MAddCertWatcher ''webhook''] else []) @
     [MAddHealthz, MAddReadyz, MStart]"

text \<open>Calls one after the other from the world \<open>w\<close> on: all succeed and leave \<open>w'\<close>, or the last is the first to fail.\<close>

fun all_succeed :: "'w mainenv \<Rightarrow> main_request list \<Rightarrow> 'w \<Rightarrow> 'w \<Rightarrow> bool" where
  "all_succeed M [] w w' \<longleftrightarrow> w' = w"
| "all_succeed M (q # qs) w w' \<longleftrightarrow> fst (M q w) = None \<and> all_succeed M qs (snd (M q w)) w'"

definition fails_at_last :: "'w mainenv \<Rightarrow> main_request list \<Rightarrow> 'w \<Rightarrow> bool" where
  "fails_at_last M qs w \<longleftrightarrow> (\<exists>ps q w'. qs = ps @ [q] \<and> all_succeed M ps w w' \<and> fst (M q w') \<noteq> None)"

lemma fails_at_last_Cons: "fst (M q w) = None \<Longrightarrow> fails_at_last M qs (snd (M q w)) \<Longrightarrow> fails_at_last M (q # qs) w"
  unfolding fails_at_last_def by (metis all_succeed.simps(2) append_Cons)

lemma fails_at_last_first: "fst (M q w) \<noteq> None \<Longrightarrow> fails_at_last M [q] w"
  unfolding fails_at_last_def by (intro exI [of _ "[]"]) simp

lemma run_steps:
  "(\<exists>w'. all_succeed M qs (world s) w' \<and>
      run_state (foldr (step M) qs rest) s = run_state rest \<lparr>world = w', trace = trace s @ qs\<rparr>) \<or>
   (\<exists>ps zs s'. qs = ps @ zs \<and> fails_at_last M ps (world s) \<and>
      run_state (foldr (step M) qs rest) s = (Exit 1, s') \<and> trace s' = trace s @ ps)"
proof (induction qs arbitrary: s)
  case Nil
  show ?case by (cases s) simp
next
  case (Cons q qs)
  show ?case
  proof (cases "fst (M q (world s))")
    case None
    let ?s = "\<lparr>world = snd (M q (world s)), trace = trace s @ [q]\<rparr>"
    from None have "run_state (foldr (step M) (q # qs) rest) s = run_state (foldr (step M) qs rest) ?s"
      by (simp add: step_def)
    with Cons.IH [of ?s] None show ?thesis
      by (elim disjE) (fastforce, force dest: fails_at_last_Cons)
  next
    case (Some e)
    then have "run_state (foldr (step M) (q # qs) rest) s =
        (Exit 1, \<lparr>world = snd (M q (world s)), trace = trace s @ [q]\<rparr>)"
      by (simp add: step_def)
    with fails_at_last_first [of M q "world s"] Some show ?thesis by fastforce
  qed
qed

lemma controllers_steps:
  "main_controllers M fl ns version = foldr (step M) (after_keypair fl ns version) (State_Monad.return Returned)"
  by (simp add: main_controllers_def main_serve_def after_keypair_def step_if_def setup_requests)

lemma main_steps:
  "main M K fl env version = foldr (step M) (before_keypair fl) (do {
     ensureErr \<leftarrow> via MKeypair (ensure_keypair K (operator_namespace env));
     case ensureErr of
       Some _ \<Rightarrow> State_Monad.return (Exit 1)
     | None \<Rightarrow> main_controllers M fl (operator_namespace env) version })"
  by (simp add: main_def before_keypair_def step_if_def)

text \<open>How a start-up can go, by its result and its requests.\<close>

definition start_outcome :: "'w mainenv \<Rightarrow> ('w, 'b) keyenv \<Rightarrow> flags \<Rightarrow> string \<Rightarrow> string \<Rightarrow> 'w \<Rightarrow> exit \<Rightarrow> main_request list \<Rightarrow> bool" where
  "start_outcome M K fl ns version w r qs \<longleftrightarrow>
     (\<exists>ps zs. before_keypair fl = ps @ zs \<and> fails_at_last M ps w \<and> qs = ps \<and> r = Exit 1) \<or>
     (\<exists>w1. all_succeed M (before_keypair fl) w w1 \<and>
        (let ks = before_keypair fl @ map MKeypair (requests (ensure_keypair K ns) w1); w2 = after (ensure_keypair K ns) w1
         in if answer (ensure_keypair K ns) w1 \<noteq> None then qs = ks \<and> r = Exit 1
            else (\<exists>ps zs. after_keypair fl ns version = ps @ zs \<and> fails_at_last M ps w2 \<and> qs = ks @ ps \<and> r = Exit 1) \<or>
              (\<exists>w3. all_succeed M (after_keypair fl ns version) w2 w3 \<and> qs = ks @ after_keypair fl ns version \<and> r = Returned)))"

lemma main_outcome:
  "start_outcome M K fl (operator_namespace env) version w (answer (main M K fl env version) w) (requests (main M K fl env version) w)"
proof -
  let ?ns = "operator_namespace env" and ?K = "ensure_keypair K (operator_namespace env)"
  let ?rest = "do {
     ensureErr \<leftarrow> via MKeypair ?K;
     case ensureErr of Some _ \<Rightarrow> State_Monad.return (Exit 1) | None \<Rightarrow> main_controllers M fl ?ns version }"
  note main = answer_def [of "main M K fl env version"] requests_def [of "main M K fl env version"]
  consider w1 where "all_succeed M (before_keypair fl) w w1"
      "run_state (main M K fl env version) (start w) = run_state ?rest \<lparr>world = w1, trace = before_keypair fl\<rparr>"
    | ps zs s' where "before_keypair fl = ps @ zs" "fails_at_last M ps w"
      "run_state (main M K fl env version) (start w) = (Exit 1, s')" "trace s' = ps"
    using run_steps [of M "before_keypair fl" "start w" ?rest] unfolding main_steps by auto
  then show ?thesis
  proof cases
    case 1
    let ?s = "\<lparr>world = after ?K w1, trace = before_keypair fl @ map MKeypair (requests ?K w1)\<rparr>"
    show ?thesis
    proof (cases "answer ?K w1")
      case None
      with 1(2) have "run_state (main M K fl env version) (start w) = run_state (main_controllers M fl ?ns version) ?s" by simp
      with run_steps [of M "after_keypair fl ?ns version" ?s "State_Monad.return Returned"] 1(1) None show ?thesis
        unfolding start_outcome_def controllers_steps main by (intro disjI2 exI [of _ w1]) (auto simp: Let_def)
    next
      case (Some e)
      with 1 show ?thesis
        unfolding start_outcome_def main by (intro disjI2 exI [of _ w1]) (simp add: Let_def)
    qed
  next
    case 2
    then show ?thesis unfolding start_outcome_def main by auto
  qed
qed

lemma main_requests:
  assumes "q \<in> set (requests (main M K fl env version) w)"
  shows "q \<in> set (before_keypair fl) \<or> q \<in> set (after_keypair fl (operator_namespace env) version) \<or>
    (\<exists>kq w1. q = MKeypair kq \<and> kq \<in> set (requests (ensure_keypair K (operator_namespace env)) w1))"
  using main_outcome [of M K fl env version w] assms
  unfolding start_outcome_def
  by (auto simp: Let_def split: if_splits)

lemma plan_carried_out:
  assumes "\<And>q w. fst (M q w) = None" and "q \<in> set (before_keypair fl)"
  shows "q \<in> set (requests (main M K fl env version) w)"
  using main_outcome [of M K fl env version w] assms
  unfolding start_outcome_def fails_at_last_def
  by (auto simp: Let_def split: if_splits)

subsection \<open>Properties\<close>

text \<open>C24. Starting the operator keeps an existing private key, leaves the public key matching it, and
  reports success only with both stored and the helper archives current; no outcome of the calls in
  between, errors included, breaks this. It waits 1, 2, 3, 4 and 5 seconds between attempts, at
  most five of which are made.\<close>

theorem startup_settles_keypair:
  assumes "key_store K secret_at cm_at"
    and "fitting K (secret_at w (resource_key ns)) (cm_at w (resource_key ns))"
  shows "(\<forall>s. secret_at w (resource_key ns) = Some s \<longrightarrow>
       secret_at (after (ensure_keypair K ns) w) (resource_key ns) = Some s) \<and>
    settled K (secret_at (after (ensure_keypair K ns) w) (resource_key ns))
      (cm_at (after (ensure_keypair K ns) w) (resource_key ns)) (answer (ensure_keypair K ns) w) \<and>
    paced 0 5 (answer (ensure_keypair K ns) w) (requests (ensure_keypair K ns) w)"
  using key_store.ensure_keypair_settles [OF assms] traces_run [OF ensure_loop_paced [of 0 5 K ns None], of w]
  unfolding ensure_keypair_def by blast

theorem startup_settles_keypair_witness:
  "let w = empty_keys 2; m = ensure_keypair mem_keyenv ''file-restore'' in
   answer m w = None \<and> sleeps (requests m w) = [1 * second, 2 * second] \<and>
   keypair_ready mem_keyenv (kw_secret (after m w) (resource_key ''file-restore''))
     (kw_cm (after m w) (resource_key ''file-restore''))"
proof -
  let ?m = "ensure_keypair mem_keyenv ''file-restore''"
  have run: "answer ?m (empty_keys 2) = None" "sleeps (requests ?m (empty_keys 2)) = [1 * second, 2 * second]"
    by code_simp+
  have "fitting mem_keyenv (kw_secret (empty_keys 2) (resource_key ''file-restore''))
      (kw_cm (empty_keys 2) (resource_key ''file-restore''))"
    by (simp add: fitting_def empty_keys_def)
  from startup_settles_keypair [OF mem_keys.key_store_axioms this] run show ?thesis
    by (simp add: settled_def)
qed

text \<open>C25. The manager, and with it every controller, starts only after the key store has been asked for the
  keypair in the namespace in which the restore controller later reads the private key, and after
  both controllers, the TLS watcher with its cache and the two probes are registered, the restore controller with a
  reader that bypasses the cache and a recorder of events; starting it is the last thing
  the process does. The first call that fails, the keypair included, is the last one made, and the process ends with
  exit code 1; it returns normally exactly when all of them succeed, the run of the manager included.\<close>

theorem manager_starts_last:
  "starts_after (start_needs fl (getOperatorNamespace \<lparr>OperatorNamespace = operator_namespace env\<rparr>) version)
     (answer (main M K fl env version) w) (requests (main M K fl env version) w) \<and>
   start_outcome M K fl (operator_namespace env) version w
     (answer (main M K fl env version) w) (requests (main M K fl env version) w)"
proof -
  have "getOperatorNamespace \<lparr>OperatorNamespace = operator_namespace env\<rparr> = operator_namespace env"
    by (simp add: getOperatorNamespace_def operator_namespace_def)
  with traces_run [OF traces_main, of fl env version M K w] main_outcome show ?thesis by simp
qed

text \<open>The servers offer HTTP/2 only when the flag asks for it, whatever the server offered before. One
  handshake of the metrics server takes cipher suites and minimum version from the TLS watcher,
  keeps the protocols and the certificate, and does not call back again.\<close>

theorem http2_is_opt_in:
  "(\<not> enableHTTP2 fl \<longrightarrow> NextProtos (apply_options (metricsTLSOpts fl) c) = [''http/1.1''] \<and>
      NextProtos (apply_options (webhookTLSOpts fl) c) = [''http/1.1'']) \<and>
    (enableHTTP2 fl \<longrightarrow> NextProtos (apply_options (metricsTLSOpts fl) c) = NextProtos c \<and>
      NextProtos (apply_options (webhookTLSOpts fl) c) = NextProtos c) \<and>
    GetConfigForClient (apply_options (metricsTLSOpts fl) c) \<and>
    (let hc = answer (handshake_config m (apply_options (metricsTLSOpts fl) c)) w; cc = answer (GetTLSConfig m) w in
      MinVersion hc = cc_MinVersion cc \<and> CipherSuites hc = cc_CipherSuites cc \<and>
      \<not> GetConfigForClient hc \<and>
      NextProtos hc = NextProtos (apply_options (metricsTLSOpts fl) c) \<and>
      GetCertificate hc = GetCertificate (apply_options (metricsTLSOpts fl) c))"
  by (simp add: apply_options_def metricsTLSOpts_def webhookTLSOpts_def tlsOpts_def disableHTTP2_def
      cryptoPolicyOpt_def certificateOpt_def handshake_config_def answer_def Let_def split: prod.split)

theorem http2_is_opt_in_witness:
  "NextProtos (apply_options (metricsTLSOpts default_flags)
     \<lparr>NextProtos = [''h2''], CipherSuites = [], MinVersion = 0, GetCertificate = None, GetConfigForClient = False\<rparr>)
   = [''http/1.1'']"
  using conjunct1 [OF http2_is_opt_in, of default_flags "\<lparr>NextProtos = [''h2''], CipherSuites = [], MinVersion = 0,
      GetCertificate = None, GetConfigForClient = False\<rparr>"]
  by (simp add: default_flags_def)

end
