(* ===== verification/Csv.thy ===== *)
theory Csv
  imports GoStrings GoErrors
begin

text \<open>
  pkg/resources/operator/csv.go: the manifest with which the operator is installed by the lifecycle
  manager. The records follow the types of the manifest, with the fields the code sets; maps of
  labels and annotations are association lists. A pointer to a literal is the literal, and quantities
  of resources are kept as written.
\<close>

subsection \<open>Input\<close>

record ClusterServiceVersionData =
  CsvVersion :: string
  ReplacesCsvVersion :: string
  data_Namespace :: string
  data_ImagePullPolicy :: string
  IconBase64 :: string
  Verbosity :: string
  data_OperatorVersion :: string
  OperatorImage :: string

subsection \<open>Rules\<close>

record PolicyRule =
  APIGroups :: "string list"
  Resources :: "string list"
  Verbs :: "string list"

record StrategyDeploymentPermissions =
  perm_ServiceAccountName :: string
  perm_Rules :: "PolicyRule list"

definition rule :: "string \<Rightarrow> string \<Rightarrow> string list \<Rightarrow> PolicyRule" where
  "rule apiGroup resource verbs = \<lparr>APIGroups = [apiGroup], Resources = [resource], Verbs = verbs\<rparr>"

definition service_account :: string where
  "service_account = ''vm-file-restore-operator-controller-manager''"

definition namespace_rules :: "PolicyRule list" where
  "namespace_rules =
    [rule '''' ''configmaps'' [''get'', ''list'', ''watch'', ''create'', ''update'', ''patch'', ''delete''],
     rule '''' ''secrets'' [''create'', ''get'', ''list'', ''watch''],
     rule ''coordination.k8s.io'' ''leases'' [''get'', ''list'', ''watch'', ''create'', ''update'', ''patch'', ''delete''],
     rule '''' ''events'' [''create'', ''patch'']]"

definition cluster_rules :: "PolicyRule list" where
  "cluster_rules =
    [rule ''filerestore.kubevirt.io'' ''filerestoreoperators''
       [''get'', ''list'', ''watch'', ''create'', ''update'', ''patch'', ''delete''],
     rule ''filerestore.kubevirt.io'' ''filerestoreoperators/status'' [''get'', ''update'', ''patch''],
     rule ''filerestore.kubevirt.io'' ''filerestoreoperators/finalizers'' [''update''],
     rule ''filerestore.kubevirt.io'' ''virtualmachinefilerestores''
       [''get'', ''list'', ''watch'', ''create'', ''update'', ''patch'', ''delete''],
     rule ''filerestore.kubevirt.io'' ''virtualmachinefilerestores/status'' [''get'', ''update'', ''patch''],
     rule ''filerestore.kubevirt.io'' ''virtualmachinefilerestores/finalizers'' [''update''],
     rule ''kubevirt.io'' ''virtualmachines'' [''get'', ''list'', ''watch'', ''patch'', ''update''],
     rule ''kubevirt.io'' ''virtualmachineinstances'' [''get'', ''list'', ''watch''],
     rule ''cdi.kubevirt.io'' ''datavolumes'' [''create'', ''delete'', ''get'', ''list''],
     rule ''snapshot.storage.k8s.io'' ''volumesnapshots'' [''get'', ''list'', ''watch''],
     rule '''' ''persistentvolumeclaims'' [''get'', ''list'', ''watch'', ''create'', ''delete''],
     rule '''' ''pods'' [''get'', ''list'', ''watch'', ''create'', ''delete''],
     rule '''' ''pods/exec'' [''create'']]"

subsection \<open>The deployment\<close>

datatype env_value = Value string | FieldRef string

record EnvVar =
  env_Name :: string
  env_Value :: env_value

record Probe =
  probe_Path :: string
  probe_Port :: int
  InitialDelaySeconds :: int
  PeriodSeconds :: int

record Container =
  ctr_Name :: string
  ctr_Image :: string
  ctr_ImagePullPolicy :: string
  ctr_Command :: "string list"
  ctr_Args :: "string list"
  ctr_Env :: "EnvVar list"
  ctr_Requests :: "(string \<times> string) list"
  AllowPrivilegeEscalation :: bool
  DropCapabilities :: "string list"
  TerminationMessagePolicy :: string
  LivenessProbe :: Probe
  ReadinessProbe :: Probe

record PodSpec =
  ServiceAccountName :: string
  RunAsNonRoot :: bool
  SeccompProfile :: string
  Containers :: "Container list"

record DeploymentSpec =
  Replicas :: int
  MatchLabels :: "(string \<times> string) list"
  template_Labels :: "(string \<times> string) list"
  template_Spec :: PodSpec

record StrategyDeploymentSpec =
  dep_Name :: string
  dep_Spec :: DeploymentSpec

definition manager_env :: "ClusterServiceVersionData \<Rightarrow> EnvVar list" where
  "manager_env data =
    [\<lparr>env_Name = ''OPERATOR_NAMESPACE'', env_Value = FieldRef ''metadata.namespace''\<rparr>,
     \<lparr>env_Name = ''OPERATOR_VERSION'', env_Value = Value (data_OperatorVersion data)\<rparr>,
     \<lparr>env_Name = ''VERBOSITY'', env_Value = Value (Verbosity data)\<rparr>]"

definition manager_container :: "ClusterServiceVersionData \<Rightarrow> Container" where
  "manager_container data =
    \<lparr>ctr_Name = ''manager'', ctr_Image = OperatorImage data, ctr_ImagePullPolicy = data_ImagePullPolicy data,
     ctr_Command = [''/manager''],
     ctr_Args = [''--leader-elect'', ''--health-probe-bind-address=:8081''],
     ctr_Env = manager_env data,
     ctr_Requests = [(''cpu'', ''10m''), (''memory'', ''96Mi'')],
     AllowPrivilegeEscalation = False, DropCapabilities = [''ALL''],
     TerminationMessagePolicy = ''FallbackToLogsOnError'',
     LivenessProbe = \<lparr>probe_Path = ''/healthz'', probe_Port = 8081, InitialDelaySeconds = 15, PeriodSeconds = 20\<rparr>,
     ReadinessProbe = \<lparr>probe_Path = ''/readyz'', probe_Port = 8081, InitialDelaySeconds = 5, PeriodSeconds = 10\<rparr>\<rparr>"

definition manager_deployment :: "ClusterServiceVersionData \<Rightarrow> StrategyDeploymentSpec" where
  "manager_deployment data =
    \<lparr>dep_Name = ''vm-file-restore-operator-controller-manager'',
     dep_Spec = \<lparr>Replicas = 1,
       MatchLabels = [(''name'', ''vm-file-restore-operator-controller-manager'')],
       template_Labels = [(''name'', ''vm-file-restore-operator-controller-manager'')],
       template_Spec = \<lparr>ServiceAccountName = service_account, RunAsNonRoot = True,
         SeccompProfile = ''RuntimeDefault'', Containers = [manager_container data]\<rparr>\<rparr>\<rparr>"

subsection \<open>The manifest\<close>

record CRDDescription =
  crd_Name :: string
  crd_Version :: string
  crd_Kind :: string
  crd_DisplayName :: string
  crd_Description :: string

record csv_Spec =
  DisplayName :: string
  Description :: string
  Maturity :: string
  Maintainers :: "(string \<times> string) list"
  Provider :: string
  Links :: "(string \<times> string) list"
  Keywords :: "string list"
  Icon :: "(string \<times> string) list" \<comment> \<open>data and media type\<close>
  InstallModes :: "(string \<times> bool) list"
  StrategyName :: string
  DeploymentSpecs :: "StrategyDeploymentSpec list"
  Permissions :: "StrategyDeploymentPermissions list"
  ClusterPermissions :: "StrategyDeploymentPermissions list"
  Owned :: "CRDDescription list"
  Replaces :: string

record ClusterServiceVersion =
  csv_Kind :: string
  csv_APIVersion :: string
  csv_Name :: string
  csv_Namespace :: string
  csv_Annotations :: "(string \<times> string) list"
  csv_spec :: csv_Spec

definition alm_examples :: string where
  \<open>alm_examples = Join
    [''['',
     ''          {'',
     ''            "apiVersion": "filerestore.kubevirt.io/v1alpha1",'',
     ''            "kind": "FileRestoreOperator",'',
     ''            "metadata": {'',
     ''              "name": "vm-file-restore-operator",'',
     ''              "namespace": "file-restore"'',
     ''            },'',
     ''            "spec": {'',
     ''              "imagePullPolicy": "IfNotPresent"'',
     ''            }'',
     ''          }'',
     ''        ]''] [newline]\<close>

definition owned_crds :: "CRDDescription list" where
  "owned_crds =
    [\<lparr>crd_Name = ''filerestoreoperators.filerestore.kubevirt.io'', crd_Version = ''v1alpha1'',
      crd_Kind = ''FileRestoreOperator'', crd_DisplayName = ''File Restore Operator'',
      crd_Description = ''Represents the deployment of the VM File Restore Operator''\<rparr>,
     \<lparr>crd_Name = ''virtualmachinefilerestores.filerestore.kubevirt.io'', crd_Version = ''v1alpha1'',
      crd_Kind = ''VirtualMachineFileRestore'', crd_DisplayName = ''Virtual Machine File Restore'',
      crd_Description = ''Represents a file-level restore operation from a VM snapshot''\<rparr>]"

definition new_csv_Spec :: "ClusterServiceVersionData \<Rightarrow> csv_Spec" where
  "new_csv_Spec data = \<lparr>DisplayName = ''VM File Restore Operator'',
     Description = ''The VM File Restore Operator enables file-level restore from VM snapshots without full VM restoration'',
     Maturity = ''alpha'',
     Maintainers = [(''KubeVirt project'', ''kubevirt-dev@googlegroups.com'')],
     Provider = ''KubeVirt'',
     Links = [(''Source Code'', ''https://github.com/kubevirt/vm-file-restore-operator'')],
     Keywords = [''KubeVirt'', ''Virtualization'', ''Restore'', ''Backup''],
     Icon = [(IconBase64 data, ''image/png'')],
     InstallModes = [(''OwnNamespace'', True), (''SingleNamespace'', True), (''MultiNamespace'', False),
       (''AllNamespaces'', False)],
     StrategyName = ''deployment'',
     DeploymentSpecs = [manager_deployment data],
     Permissions = [\<lparr>perm_ServiceAccountName = service_account, perm_Rules = namespace_rules\<rparr>],
     ClusterPermissions = [\<lparr>perm_ServiceAccountName = service_account, perm_Rules = cluster_rules\<rparr>],
     Owned = owned_crds,
     Replaces = ''''\<rparr>"

definition new_csv :: "ClusterServiceVersionData \<Rightarrow> ClusterServiceVersion" where
  "new_csv data = \<lparr>csv_Kind = ''ClusterServiceVersion'', csv_APIVersion = ''operators.coreos.com/v1alpha1'',
     csv_Name = ''vm-file-restore-operator.'' @ CsvVersion data, csv_Namespace = data_Namespace data,
     csv_Annotations = [(''capabilities'', ''Basic Install''), (''categories'', ''Storage''),
       (''description'', ''VM File Restore Operator provides file-level restore capabilities for KubeVirt VMs''),
       (''alm-examples'', alm_examples)],
     csv_spec = new_csv_Spec data\<rparr>"

definition NewClusterServiceVersion :: "ClusterServiceVersionData \<Rightarrow> goerror + ClusterServiceVersion" where
  "NewClusterServiceVersion data =
    (if CsvVersion data = '''' then Inl (Errorf ''csv version must not be empty'')
     else if data_Namespace data = '''' then Inl (Errorf ''namespace must not be empty'')
     else if OperatorImage data = '''' then Inl (Errorf ''operator image must not be empty'')
     else (let csv = new_csv data in
       Inr (if ReplacesCsvVersion data \<noteq> ''''
            then csv\<lparr>csv_spec := (csv_spec csv)\<lparr>Replaces := ''vm-file-restore-operator.'' @ ReplacesCsvVersion data\<rparr>\<rparr>
            else csv)))"

end
