(* ===== verification/Flags.thy ===== *)
theory Flags
  imports Bootstrap Csv
begin

text \<open>
  The command line of cmd/main.go: the flags it declares, \<open>flag.Parse\<close> of the standard library over them,
  and the process from its arguments on. The logging flags come from another package: \<open>Z\<close> tells
  which names it declares, whether they are Boolean, and which values it takes; they change none of the
  program's own flags.
\<close>

subsection \<open>The flags\<close>

type_synonym logging_flags = "string \<rightharpoonup> bool \<times> (string \<Rightarrow> bool)"

definition string_flags :: "(string \<times> (string \<Rightarrow> flags \<Rightarrow> flags)) list" where
  "string_flags =
    [(''metrics-bind-address'', \<lambda>v fl. fl\<lparr>metricsAddr := v\<rparr>),
     (''health-probe-bind-address'', \<lambda>v fl. fl\<lparr>probeAddr := v\<rparr>),
     (''webhook-cert-path'', \<lambda>v fl. fl\<lparr>webhookCertPath := v\<rparr>),
     (''webhook-cert-name'', \<lambda>v fl. fl\<lparr>webhookCertName := v\<rparr>),
     (''webhook-cert-key'', \<lambda>v fl. fl\<lparr>webhookCertKey := v\<rparr>),
     (''metrics-cert-path'', \<lambda>v fl. fl\<lparr>metricsCertPath := v\<rparr>),
     (''metrics-cert-name'', \<lambda>v fl. fl\<lparr>metricsCertName := v\<rparr>),
     (''metrics-cert-key'', \<lambda>v fl. fl\<lparr>metricsCertKey := v\<rparr>)]"

definition bool_flags :: "(string \<times> (bool \<Rightarrow> flags \<Rightarrow> flags)) list" where
  "bool_flags =
    [(''leader-elect'', \<lambda>b fl. fl\<lparr>enableLeaderElection := b\<rparr>),
     (''metrics-secure'', \<lambda>b fl. fl\<lparr>secureMetrics := b\<rparr>),
     (''enable-http2'', \<lambda>b fl. fl\<lparr>enableHTTP2 := b\<rparr>)]"

definition ParseBool :: "string \<Rightarrow> bool option" where
  "ParseBool s =
    (if s \<in> {''1'', ''t'', ''T'', ''TRUE'', ''true'', ''True''} then Some True
     else if s \<in> {''0'', ''f'', ''F'', ''FALSE'', ''false'', ''False''} then Some False else None)"

subsection \<open>Parsing\<close>

datatype flag_error = BadSyntax string | NotDefined string | NeedsArgument string | BadValue string string | ErrHelp

text \<open>One argument: not a flag, the end of the flags, or a name with the value after its first equals
  sign, which is not looked for at the first character.\<close>

datatype argument = NotAFlag | EndOfFlags | Malformed | Flag string "string option"

fun cut_value :: "string \<Rightarrow> string \<times> string option" where
  "cut_value [] = ([], None)"
| "cut_value (c # cs) = (if c = CHR ''='' then ([], Some cs) else (case cut_value cs of (n, v) \<Rightarrow> (c # n, v)))"

definition read_name :: "string \<Rightarrow> argument" where
  "read_name s = (case s of
     [] \<Rightarrow> Malformed
   | c # cs \<Rightarrow> if c = CHR ''-'' \<or> c = CHR ''='' then Malformed
       else (case cut_value cs of (n, v) \<Rightarrow> Flag (c # n) v))"

definition read_argument :: "string \<Rightarrow> argument" where
  "read_argument s = (case s of
     c # d # cs \<Rightarrow> if c \<noteq> CHR ''-'' then NotAFlag
       else if d = CHR ''-'' then (if cs = [] then EndOfFlags else read_name cs)
       else read_name (d # cs)
   | _ \<Rightarrow> NotAFlag)"

definition is_bool_flag :: "logging_flags \<Rightarrow> string \<Rightarrow> bool option" where
  "is_bool_flag Z n =
    (if map_of bool_flags n \<noteq> None then Some True
     else if map_of string_flags n \<noteq> None then Some False
     else map_option fst (Z n))"

definition set_flag :: "logging_flags \<Rightarrow> string \<Rightarrow> string \<Rightarrow> flags \<Rightarrow> flag_error + flags" where
  "set_flag Z n v fl =
    (case map_of bool_flags n of
       Some put \<Rightarrow> (case ParseBool v of Some b \<Rightarrow> Inr (put b fl) | None \<Rightarrow> Inl (BadValue n v))
     | None \<Rightarrow> (case map_of string_flags n of
         Some put \<Rightarrow> Inr (put v fl)
       | None \<Rightarrow> (case Z n of
           Some (_, accepts) \<Rightarrow> if accepts v then Inr fl else Inl (BadValue n v)
         | None \<Rightarrow> Inl (NotDefined n))))"

fun parse_flags :: "logging_flags \<Rightarrow> string list \<Rightarrow> flags \<Rightarrow> flag_error + flags \<times> string list" where
  "parse_flags Z [] fl = Inr (fl, [])"
| "parse_flags Z (s # args) fl =
    (case read_argument s of
       NotAFlag \<Rightarrow> Inr (fl, s # args)
     | EndOfFlags \<Rightarrow> Inr (fl, args)
     | Malformed \<Rightarrow> Inl (BadSyntax s)
     | Flag n v \<Rightarrow>
         (case is_bool_flag Z n of
            None \<Rightarrow> Inl (if n = ''help'' \<or> n = ''h'' then ErrHelp else NotDefined n)
          | Some True \<Rightarrow>
              (case set_flag Z n (case v of None \<Rightarrow> ''true'' | Some x \<Rightarrow> x) fl of
                 Inl err \<Rightarrow> Inl err
               | Inr fl' \<Rightarrow> parse_flags Z args fl')
          | Some False \<Rightarrow>
              (case v of
                 Some x \<Rightarrow> (case set_flag Z n x fl of Inl err \<Rightarrow> Inl err | Inr fl' \<Rightarrow> parse_flags Z args fl')
               | None \<Rightarrow>
                   (case args of
                      [] \<Rightarrow> Inl (NeedsArgument n)
                    | x # rest \<Rightarrow> (case set_flag Z n x fl of Inl err \<Rightarrow> Inl err | Inr fl' \<Rightarrow> parse_flags Z rest fl')))))"

text \<open>The process from its arguments on: \<open>flag.Parse\<close> ends it with exit code 2, or 0 when help was asked for.\<close>

definition start_process ::
  "'w mainenv \<Rightarrow> ('w, 'b) keyenv \<Rightarrow> logging_flags \<Rightarrow> string list \<Rightarrow> string \<Rightarrow> string \<Rightarrow> ('w, exit) mcmd" where
  "start_process M K Z args OPERATOR_NAMESPACE OPERATOR_VERSION =
    (case parse_flags Z args default_flags of
       Inl err \<Rightarrow> State_Monad.return (Exit (if err = ErrHelp then 0 else 2))
     | Inr (fl, _) \<Rightarrow> main M K fl OPERATOR_NAMESPACE OPERATOR_VERSION)"

subsection \<open>Facts\<close>

text \<open>A command line that sets every flag.\<close>

definition flag_argument :: "string \<Rightarrow> string \<Rightarrow> string" where
  "flag_argument n v = ''--'' @ n @ ''='' @ v"

definition flag_arguments :: "flags \<Rightarrow> string list" where
  "flag_arguments fl =
    [flag_argument ''metrics-bind-address'' (metricsAddr fl),
     flag_argument ''health-probe-bind-address'' (probeAddr fl),
     flag_argument ''leader-elect'' (show_bool (enableLeaderElection fl)),
     flag_argument ''metrics-secure'' (show_bool (secureMetrics fl)),
     flag_argument ''webhook-cert-path'' (webhookCertPath fl),
     flag_argument ''webhook-cert-name'' (webhookCertName fl),
     flag_argument ''webhook-cert-key'' (webhookCertKey fl),
     flag_argument ''metrics-cert-path'' (metricsCertPath fl),
     flag_argument ''metrics-cert-name'' (metricsCertName fl),
     flag_argument ''metrics-cert-key'' (metricsCertKey fl),
     flag_argument ''enable-http2'' (show_bool (enableHTTP2 fl))]"

lemma cut_value_equals: "CHR ''='' \<notin> set n \<Longrightarrow> cut_value (n @ CHR ''='' # v) = (n, Some v)"
  by (induction n) auto

text \<open>Names that can be given on the command line: all those of the program.\<close>

definition flag_name :: "string \<Rightarrow> bool" where
  "flag_name n \<longleftrightarrow> n \<noteq> [] \<and> hd n \<noteq> CHR ''-'' \<and> CHR ''='' \<notin> set n"

lemma read_flag: "flag_name n \<Longrightarrow> read_argument (flag_argument n v) = Flag n (Some v)"
  by (auto simp: flag_name_def flag_argument_def read_argument_def read_name_def cut_value_equals neq_Nil_conv)

lemma own_flag_name: "n \<in> set (map fst bool_flags @ map fst string_flags) \<Longrightarrow> flag_name n"
proof -
  have "list_all flag_name (map fst bool_flags @ map fst string_flags)" by code_simp
  then show "n \<in> set (map fst bool_flags @ map fst string_flags) \<Longrightarrow> flag_name n" by (simp only: list_all_iff)
qed

lemma ParseBool_show_bool [simp]: "ParseBool (show_bool b) = Some b"
  by (cases b) (simp_all add: ParseBool_def show_bool_def)

lemma parse_bool_flag:
  assumes "n \<in> set (map fst bool_flags)"
  shows "parse_flags Z (flag_argument n (show_bool b) # args) fl = parse_flags Z args (the (map_of bool_flags n) b fl)"
proof -
  from assms have "map_of bool_flags n \<noteq> None" by (simp add: map_of_eq_None_iff)
  moreover have "flag_name n" using assms by (intro own_flag_name) simp
  ultimately show ?thesis by (auto simp: read_flag is_bool_flag_def set_flag_def)
qed

lemma parse_string_flag:
  assumes "n \<in> set (map fst string_flags)" and "n \<notin> set (map fst bool_flags)"
  shows "parse_flags Z (flag_argument n v # args) fl = parse_flags Z args (the (map_of string_flags n) v fl)"
proof -
  from assms have "map_of string_flags n \<noteq> None" "map_of bool_flags n = None" by (simp_all add: map_of_eq_None_iff)
  moreover have "flag_name n" using assms by (intro own_flag_name) simp
  ultimately show ?thesis by (auto simp: read_flag is_bool_flag_def set_flag_def)
qed

lemma parse_flag_arguments: "parse_flags Z (flag_arguments fl) fl' = Inr (fl, [])"
  unfolding flag_arguments_def
  by (simp add: parse_string_flag parse_bool_flag string_flags_def bool_flags_def del: parse_flags.simps(2))

lemma manifest_flags:
  "parse_flags Z (ctr_Args (manager_container data)) default_flags = Inr (default_flags\<lparr>enableLeaderElection := True\<rparr>, [])"
  by (simp add: manager_container_def read_argument_def read_name_def is_bool_flag_def set_flag_def
      bool_flags_def string_flags_def ParseBool_def default_flags_def)

lemma start_process_manifest:
  "start_process M K Z (ctr_Args (manager_container data)) ns version =
     main M K (default_flags\<lparr>enableLeaderElection := True\<rparr>) ns version"
  by (simp add: start_process_def manifest_flags)

subsection \<open>Properties\<close>

text \<open>C37. The command line determines the flags: arguments that spell out every flag give exactly these
  flags, whatever they are. The arguments in the operator's manifest turn on leader election, keep
  the address its probes are directed at, and leave everything else at its default.\<close>

theorem arguments_determine_flags:
  "start_process M K Z (flag_arguments fl) ns version = main M K fl ns version \<and>
   start_process M K Z (ctr_Args (manager_container data)) ns version =
     main M K (default_flags\<lparr>enableLeaderElection := True\<rparr>) ns version"
  by (simp add: start_process_manifest) (simp add: start_process_def parse_flag_arguments)

end
