(* ===== verification/Permissions.thy ===== *)
theory Permissions
  imports Flags Scenario MemKeys OperatorController
begin

text \<open>
  The operator is installed with the rules of its manifest, and every call to the API server is checked
  against them. This theory says which access each request of the controllers needs, and compares
  what the code asks for with what the manifest grants.

  An access is a verb on a kind of resource, in a namespace. A read through the cached client of the
  manager starts an informer, which lists and watches the resource; a read through the uncached
  reader only gets it. A rule under \<open>Permissions\<close> holds in the namespace of the manifest, one under
  \<open>ClusterPermissions\<close> everywhere, each for the service account of the pod.
\<close>

record access =
  verb :: string
  api_group :: string
  resource :: string
  in_namespace :: string

definition allows :: "PolicyRule list \<Rightarrow> string \<Rightarrow> string \<Rightarrow> string \<Rightarrow> bool" where
  "allows rules v g r \<longleftrightarrow>
     list_ex (\<lambda>rl. List.member (APIGroups rl) g \<and> List.member (Resources rl) r \<and> List.member (Verbs rl) v) rules"

definition pod_account :: "ClusterServiceVersion \<Rightarrow> string list" where
  "pod_account csv = map (\<lambda>d. ServiceAccountName (template_Spec (dep_Spec d))) (DeploymentSpecs (csv_spec csv))"

definition granted_by :: "StrategyDeploymentPermissions list \<Rightarrow> string \<Rightarrow> access \<Rightarrow> bool" where
  "granted_by ps account a \<longleftrightarrow>
     list_ex (\<lambda>p. perm_ServiceAccountName p = account \<and> allows (perm_Rules p) (verb a) (api_group a) (resource a)) ps"

definition grants :: "ClusterServiceVersion \<Rightarrow> access \<Rightarrow> bool" where
  "grants csv a \<longleftrightarrow> list_all (\<lambda>account. granted_by (ClusterPermissions (csv_spec csv)) account a \<or>
       in_namespace a = csv_Namespace csv \<and> granted_by (Permissions (csv_spec csv)) account a) (pod_account csv)"

subsection \<open>What the requests need\<close>

definition needs :: "string list \<Rightarrow> string \<Rightarrow> string \<Rightarrow> string \<Rightarrow> access list" where
  "needs verbs g r ns = map (\<lambda>v. \<lparr>verb = v, api_group = g, resource = r, in_namespace = ns\<rparr>) verbs"

abbreviation cached :: "string list" where
  "cached \<equiv> [''get'', ''list'', ''watch'']"

text \<open>The event is created in the namespace \<open>ns\<close> of the resource it is about, or patched when it repeats. Volume snapshot contents have
  no namespace.\<close>

fun restore_access :: "string \<Rightarrow> request \<Rightarrow> access list" where
  "restore_access ns (ReqGetVMFR k) = needs cached ''filerestore.kubevirt.io'' ''virtualmachinefilerestores'' (fst k)"
| "restore_access ns (ReqUpdateVMFR v) =
     needs [''update''] ''filerestore.kubevirt.io'' ''virtualmachinefilerestores'' (vmfr_Namespace v)"
| "restore_access ns (ReqPatchStatus b n) =
     needs [''patch''] ''filerestore.kubevirt.io'' ''virtualmachinefilerestores/status'' (vmfr_Namespace n)"
| "restore_access ns (ReqGetVM k) = needs cached ''kubevirt.io'' ''virtualmachines'' (fst k)"
| "restore_access ns (ReqPatchVM b n) = needs [''patch''] ''kubevirt.io'' ''virtualmachines'' (vm_Namespace n)"
| "restore_access ns (ReqGetVMI k) = needs cached ''kubevirt.io'' ''virtualmachineinstances'' (fst k)"
| "restore_access ns (ReqGetPVC k) = needs cached '''' ''persistentvolumeclaims'' (fst k)"
| "restore_access ns (ReqGetSnapshot k) = needs cached ''snapshot.storage.k8s.io'' ''volumesnapshots'' (fst k)"
| "restore_access ns (ReqListPods n d) = needs cached '''' ''pods'' n"
| "restore_access ns (ReqCreateDV dv) = needs [''create''] ''cdi.kubevirt.io'' ''datavolumes'' (dv_Namespace dv)"
| "restore_access ns (ReqDeleteDV k) = needs [''delete''] ''cdi.kubevirt.io'' ''datavolumes'' (fst k)"
| "restore_access ns (ReqReadSnapshot k) = needs [''get''] ''snapshot.storage.k8s.io'' ''volumesnapshots'' (fst k)"
| "restore_access ns (ReqReadContent n) = needs [''get''] ''snapshot.storage.k8s.io'' ''volumesnapshotcontents'' ''''"
| "restore_access ns (ReqReadDV k) = needs [''get''] ''cdi.kubevirt.io'' ''datavolumes'' (fst k)"
| "restore_access ns (ReqReadSecret k) = needs [''get''] '''' ''secrets'' (fst k)"
| "restore_access ns (ReqEvent t r m) = needs [''create'', ''patch''] '''' ''events'' ns"
| "restore_access ns _ = []"

text \<open>The keypair is made sure of with a client of its own, without a cache.\<close>

fun key_access :: "key_request \<Rightarrow> access list" where
  "key_access (KGetSecret k) = needs [''get''] '''' ''secrets'' (fst k)"
| "key_access (KGetConfigMap k) = needs [''get''] '''' ''configmaps'' (fst k)"
| "key_access (KCreateSecret s) = needs [''create''] '''' ''secrets'' (sec_Namespace s)"
| "key_access (KCreateConfigMap c) = needs [''create''] '''' ''configmaps'' (cm_Namespace c)"
| "key_access (KUpdateConfigMap c) = needs [''update''] '''' ''configmaps'' (cm_Namespace c)"
| "key_access (KDeleteConfigMap k) = needs [''delete''] '''' ''configmaps'' (fst k)"
| "key_access _ = []"

fun operator_access :: "operator_request \<Rightarrow> access list" where
  "operator_access (OGet k) = needs cached ''filerestore.kubevirt.io'' ''filerestoreoperators'' (fst k)"
| "operator_access (OUpdateStatus f) =
     needs [''update''] ''filerestore.kubevirt.io'' ''filerestoreoperators/status'' (fro_Namespace f)"

text \<open>What the process does at its start, in the namespace \<open>ns\<close> of its pod. The manager, once it runs, keeps a lease there if it
  takes part in leader election, and reports the election by events; if it serves metrics with the filter, it has their readers
  authenticated and authorized by the API server. Each controller starts an informer for the resource it is registered
  for, the TLS watcher one for the operator resources, both in all namespaces.\<close>

definition plural :: "string \<Rightarrow> string" where
  "plural kind = ToLower kind @ ''s''"

abbreviation informed :: "string \<Rightarrow> access list" where
  "informed kind \<equiv> needs [''list'', ''watch''] ''filerestore.kubevirt.io'' (plural kind) ''''"

fun main_access :: "string \<Rightarrow> main_request \<Rightarrow> access list" where
  "main_access ns (MNewManager opts) =
     (if LeaderElection opts
      then needs [''get'', ''create'', ''update''] ''coordination.k8s.io'' ''leases'' ns @ needs [''create'', ''patch''] '''' ''events'' ns
      else []) @
     (if BindAddress (Metrics opts) \<noteq> ''0'' \<and> FilterProvider (Metrics opts)
      then needs [''create''] ''authentication.k8s.io'' ''tokenreviews'' '''' @
        needs [''create''] ''authorization.k8s.io'' ''subjectaccessreviews'' ''''
      else [])"
| "main_access ns (MAddTLSWatcher c) = (if c = None then [] else informed ''FileRestoreOperator'')"
| "main_access ns (MKeypair q) = key_access q"
| "main_access ns (MSetupRestore b r) = informed (cb_For b)"
| "main_access ns (MSetupOperator b r) = informed (cb_For b)"
| "main_access ns _ = []"

subsection \<open>What the manifest grants\<close>

text \<open>The arguments the manifest starts the process with.\<close>

definition csv_args :: "ClusterServiceVersion \<Rightarrow> string list" where
  "csv_args csv = concat (map (\<lambda>d. concat (map ctr_Args (Containers (template_Spec (dep_Spec d))))) (DeploymentSpecs (csv_spec csv)))"

lemma accepted_csv:
  assumes "NewClusterServiceVersion data = Inr csv"
  shows "csv_Namespace csv = data_Namespace data" and "pod_account csv = [service_account]"
    and "Permissions (csv_spec csv) = [\<lparr>perm_ServiceAccountName = service_account, perm_Rules = namespace_rules\<rparr>]"
    and "ClusterPermissions (csv_spec csv) = [\<lparr>perm_ServiceAccountName = service_account, perm_Rules = cluster_rules\<rparr>]"
    and "csv_args csv = ctr_Args (manager_container data)" and "data_Namespace data \<noteq> ''''"
  using assms by (auto simp: NewClusterServiceVersion_def Let_def new_csv_def new_csv_Spec_def pod_account_def
      manager_deployment_def csv_args_def split: if_splits)

lemma grants_accepted:
  assumes "NewClusterServiceVersion data = Inr csv"
  shows "grants csv a \<longleftrightarrow> allows cluster_rules (verb a) (api_group a) (resource a) \<or>
    in_namespace a = data_Namespace data \<and> allows namespace_rules (verb a) (api_group a) (resource a)"
  by (simp add: grants_def granted_by_def accepted_csv [OF assms])

lemma cluster_grants [simp]:
  "allows cluster_rules ''get'' ''filerestore.kubevirt.io'' ''virtualmachinefilerestores''"
  "allows cluster_rules ''list'' ''filerestore.kubevirt.io'' ''virtualmachinefilerestores''"
  "allows cluster_rules ''watch'' ''filerestore.kubevirt.io'' ''virtualmachinefilerestores''"
  "allows cluster_rules ''update'' ''filerestore.kubevirt.io'' ''virtualmachinefilerestores''"
  "allows cluster_rules ''patch'' ''filerestore.kubevirt.io'' ''virtualmachinefilerestores/status''"
  "allows cluster_rules ''get'' ''filerestore.kubevirt.io'' ''filerestoreoperators''"
  "allows cluster_rules ''list'' ''filerestore.kubevirt.io'' ''filerestoreoperators''"
  "allows cluster_rules ''watch'' ''filerestore.kubevirt.io'' ''filerestoreoperators''"
  "allows cluster_rules ''update'' ''filerestore.kubevirt.io'' ''filerestoreoperators/status''"
  "allows cluster_rules ''get'' ''kubevirt.io'' ''virtualmachines''"
  "allows cluster_rules ''list'' ''kubevirt.io'' ''virtualmachines''"
  "allows cluster_rules ''watch'' ''kubevirt.io'' ''virtualmachines''"
  "allows cluster_rules ''patch'' ''kubevirt.io'' ''virtualmachines''"
  "allows cluster_rules ''get'' ''kubevirt.io'' ''virtualmachineinstances''"
  "allows cluster_rules ''list'' ''kubevirt.io'' ''virtualmachineinstances''"
  "allows cluster_rules ''watch'' ''kubevirt.io'' ''virtualmachineinstances''"
  "allows cluster_rules ''get'' ''cdi.kubevirt.io'' ''datavolumes''"
  "allows cluster_rules ''create'' ''cdi.kubevirt.io'' ''datavolumes''"
  "allows cluster_rules ''delete'' ''cdi.kubevirt.io'' ''datavolumes''"
  "allows cluster_rules ''get'' ''snapshot.storage.k8s.io'' ''volumesnapshots''"
  "allows cluster_rules ''list'' ''snapshot.storage.k8s.io'' ''volumesnapshots''"
  "allows cluster_rules ''watch'' ''snapshot.storage.k8s.io'' ''volumesnapshots''"
  "allows cluster_rules ''get'' '''' ''persistentvolumeclaims''"
  "allows cluster_rules ''list'' '''' ''persistentvolumeclaims''"
  "allows cluster_rules ''watch'' '''' ''persistentvolumeclaims''"
  "allows cluster_rules ''get'' '''' ''pods''"
  "allows cluster_rules ''list'' '''' ''pods''"
  "allows cluster_rules ''watch'' '''' ''pods''"
  by code_simp+

lemma namespace_grants [simp]:
  "allows namespace_rules ''get'' '''' ''secrets''"
  "allows namespace_rules ''create'' '''' ''secrets''"
  "allows namespace_rules ''get'' '''' ''configmaps''"
  "allows namespace_rules ''create'' '''' ''configmaps''"
  "allows namespace_rules ''update'' '''' ''configmaps''"
  "allows namespace_rules ''delete'' '''' ''configmaps''"
  "allows namespace_rules ''create'' '''' ''events''"
  "allows namespace_rules ''patch'' '''' ''events''"
  "allows namespace_rules ''get'' ''coordination.k8s.io'' ''leases''"
  "allows namespace_rules ''create'' ''coordination.k8s.io'' ''leases''"
  "allows namespace_rules ''update'' ''coordination.k8s.io'' ''leases''"
  by code_simp+

lemma not_granted [simp]:
  "\<not> allows cluster_rules ''get'' ''snapshot.storage.k8s.io'' ''volumesnapshotcontents''"
  "\<not> allows namespace_rules ''get'' ''snapshot.storage.k8s.io'' ''volumesnapshotcontents''"
  "\<not> allows cluster_rules ''create'' '''' ''events''"
  by code_simp+

text \<open>The access of every request but two kinds is granted in any namespace, or in the operator's own.\<close>

lemma restore_access_granted:
  assumes "NewClusterServiceVersion data = Inr csv" and "a \<in> set (restore_access ns q)"
    and "\<And>k. q = ReqReadSecret k \<Longrightarrow> fst k = data_Namespace data"
    and "\<And>n. q \<noteq> ReqReadContent n" and "\<And>t r m. q = ReqEvent t r m \<Longrightarrow> ns = data_Namespace data"
  shows "grants csv a"
  using assms(2-) unfolding grants_accepted [OF assms(1)] by (cases q) (auto simp: needs_def)

lemma key_access_granted:
  assumes "NewClusterServiceVersion data = Inr csv" and "a \<in> set (key_access q)"
    and "in_namespace a = data_Namespace data"
  shows "grants csv a"
  using assms(2-) unfolding grants_accepted [OF assms(1)] by (cases q) (auto simp: needs_def)

lemma operator_access_granted:
  assumes "NewClusterServiceVersion data = Inr csv" and "a \<in> set (operator_access q)"
  shows "grants csv a"
  using assms(2-) unfolding grants_accepted [OF assms(1)] by (cases q) (auto simp: needs_def)

text \<open>The calls of the start but those for the keypair, with the flags of the manifest.\<close>

lemma plural_kinds [simp]:
  "plural ''VirtualMachineFileRestore'' = ''virtualmachinefilerestores''"
  "plural ''FileRestoreOperator'' = ''filerestoreoperators''"
  by code_simp+

lemma plan_access_granted:
  assumes "NewClusterServiceVersion data = Inr csv" and "fl = default_flags\<lparr>enableLeaderElection := True\<rparr>"
    and "q \<in> set (before_keypair fl @ after_keypair fl ns version)" and "a \<in> set (main_access (data_Namespace data) q)"
  shows "grants csv a"
  using assms(2-) unfolding grants_accepted [OF assms(1)]
  by (auto simp: before_keypair_def after_keypair_def setup_restore_def setup_operator_def default_flags_def needs_def
      manager_options_def metricsServerOptions_def)

text \<open>The keypair requests stay in the operator's namespace.\<close>

abbreviation within :: "string \<Rightarrow> key_request \<Rightarrow> bool" where
  "within ns q \<equiv> list_all (\<lambda>a. in_namespace a = ns) (key_access q)"

lemma cm_key_namespace: "cm_key c = resource_key ns \<Longrightarrow> cm_Namespace c = ns"
  by (simp add: cm_key_def)

lemma with_tars_key [simp]:
  "cm_Namespace (with_tars l d c) = cm_Namespace c" "cm_Name (with_tars l d c) = cm_Name c"
  by (simp_all add: with_tars_def)

context key_store
begin

text \<open>After a read of the operator's config map, the rest of a routine may rely on its key.\<close>

lemma emits_get_cm:
  assumes "\<phi> (KGetConfigMap k)" and "\<And>e. emits \<phi> \<psi> (f (Inl e))"
    and "\<And>cm. cm_key cm = k \<Longrightarrow> emits \<phi> \<psi> (f (Inr cm))"
  shows "emits \<phi> \<psi> (State_Monad.bind (call (KGetConfigMap k) (k_get_cm K k)) f)"
proof (rule emits_bind_call_law [where \<chi> = "\<lambda>r. \<forall>cm. r = Inr cm \<longrightarrow> cm_key cm = k"])
  show "\<forall>cm. fst (k_get_cm K k w) = Inr cm \<longrightarrow> cm_key cm = k" for w
    using get_cm by (cases "k_get_cm K k w") auto
  show "emits \<phi> \<psi> (f r)" if "\<forall>cm. r = Inr cm \<longrightarrow> cm_key cm = k" for r
    using that assms by (cases r) auto
qed (rule assms(1))

lemma within_createConfigMap: "emits (within ns) (\<lambda>_. True) (createConfigMap K ns p)"
  by (auto simp: createConfigMap_def Let_def new_config_map_def needs_def intro!: emit_rules
      split: sum.split prod.split)

lemma within_ensureHelperTars:
  assumes "cm_key c = resource_key ns"
  shows "emits (within ns) (\<lambda>_. True) (ensureHelperTars K c)"
proof -
  have key: "(cm_Namespace c, cm_Name c) = resource_key ns"
    using assms by (simp add: cm_key_def)
  have again: "emits (within ns) (\<lambda>_. True) (State_Monad.bind
      (call (KGetConfigMap (resource_key ns)) (k_get_cm K (resource_key ns))) f)"
    if "\<And>e. emits (within ns) (\<lambda>_. True) (f (Inl e))"
      and "\<And>cm. cm_Namespace cm = ns \<Longrightarrow> emits (within ns) (\<lambda>_. True) (f (Inr cm))" for f :: "_ \<Rightarrow> ('w, goerror option) kcmd"
    by (rule emits_get_cm) (use that in \<open>auto simp: needs_def dest: cm_key_namespace\<close>)
  show ?thesis
    unfolding ensureHelperTars_def Let_def with_tars_key key
    by (cases "helper_tars K")
      (auto simp: needs_def cm_key_namespace [OF assms] intro!: emits_return emits_bind_call [where q = "KUpdateConfigMap _"] again
        split: sum.split)
qed

lemma within_EnsureOperatorResources: "emits (within ns) (\<lambda>_. True) (EnsureOperatorResources K ns)"
proof -
  have from_secret: "emits (within ns) (\<lambda>_. True) (createConfigMapFromSecret K ns s)" for s
    by (auto simp: createConfigMapFromSecret_def intro!: emit_rules within_createConfigMap
        split: option.split list.split sum.split)
  have fresh: "emits (within ns) (\<lambda>_. True) (createKeypairAndConfigMap K ns)"
    by (auto simp: createKeypairAndConfigMap_def Let_def new_secret_def needs_def
        intro!: emit_rules within_createConfigMap split: sum.split prod.split)
  show ?thesis
    unfolding EnsureOperatorResources_def Let_def
    by (rule emits_bind_call, simp add: needs_def, rule emits_get_cm)
      (auto simp: needs_def intro!: emit_rules within_ensureHelperTars from_secret fresh
        dest: cm_key_namespace split: sum.split option.split)
qed

lemma within_ensure_loop: "emits (within ns) (\<lambda>_. True) (ensure_loop K ns i left e)"
proof (induction left arbitrary: i e)
  case (Suc left)
  show ?case
    unfolding ensure_loop.simps
    by (rule emits_bind [OF within_EnsureOperatorResources])
      (auto intro!: emit_rules Suc.IH split: option.split)
qed (auto intro!: emit_rules)

end

text \<open>A refused read of the content leaves the mode of a created data volume open.\<close>

fun default_mode :: "request \<Rightarrow> bool" where
  "default_mode (ReqCreateDV dv) = (dv_VolumeMode dv = None)"
| "default_mode q = True"

lemma default_mode_HotplugVolume:
  assumes "\<And>n w. \<exists>e. fst (read_content E n w) = Inl e"
  shows "emits default_mode (\<lambda>_. True) (HotplugVolume E v vm)"
proof -
  have content: "emits default_mode (\<lambda>r. \<exists>e. r = Inl e) (ReadContent E n)" for n
    unfolding ReadContent_def by (rule emits_call) (simp_all add: assms)
  have "emits default_mode (\<lambda>r. \<forall>m. r = Inr m \<longrightarrow> m = None) (getSnapshotSourceVolumeMode E s ns)" for s ns
    unfolding getSnapshotSourceVolumeMode_def ReadSnapshot_def
    by (auto intro!: emits_return emits_bind_call emits_bind [OF content] split: sum.split option.split list.split)
  note mode = emits_bind [OF this]
  have "emits default_mode (\<lambda>_. True) (snapshot_volume_source E v n s)" for n s
    unfolding snapshot_volume_source_def ReadDV_def CreateDV_def Let_def
    by (auto intro!: emits_return mode emits_bind_call simp: new_data_volume_def split: sum.split option.split)
  then have "emits default_mode (\<lambda>_. True) (volume_source E v n)" for n
    unfolding volume_source_def Let_def by (auto intro!: emits_return split: option.split)
  note source = emits_bind [OF this]
  show ?thesis
    unfolding HotplugVolume_def PatchVM_def Let_def
    by (auto intro!: emits_return source emits_bind_call split: go.split option.split sum.split)
qed

subsection \<open>Properties\<close>

text \<open>C28. The manifest of every accepted input lets the restore controller do what it does, in whatever
  namespace the restore lives: each access a reconciliation needs is granted, but for the read of
  volume snapshot contents, and for events outside the operator's own namespace.\<close>

theorem manifest_permits_restores:
  assumes "restore_api E" and "NewClusterServiceVersion data = Inr csv"
    and "q \<in> set (requests (Reconcile E \<lparr>OperatorNamespace = data_Namespace data\<rparr> k) w)"
    and "a \<in> set (restore_access (fst k) q)"
  shows "grants csv a \<or> (\<exists>n. q = ReqReadContent n) \<or>
    (\<exists>t r m. q = ReqEvent t r m \<and> fst k \<noteq> csv_Namespace csv)"
proof (rule disjCI)
  have "data_Namespace data \<noteq> ''''"
    using assms(2) by (auto simp: NewClusterServiceVersion_def split: if_splits)
  then have secret: "fst key = data_Namespace data" if "q = ReqReadSecret key" for key
    using restore_api.requests_Reconcile [OF assms(1,3)] that by (auto simp: getOperatorNamespace_def)
  assume "\<not> ((\<exists>n. q = ReqReadContent n) \<or> (\<exists>t r m. q = ReqEvent t r m \<and> fst k \<noteq> csv_Namespace csv))"
  then show "grants csv a"
    using secret by (intro restore_access_granted [OF assms(2,4)]) (auto simp: accepted_csv [OF assms(2)])
qed

definition demo_data :: ClusterServiceVersionData where
  "demo_data = \<lparr>CsvVersion = ''1.0'', ReplacesCsvVersion = '''', data_Namespace = ''file-restore'',
     data_ImagePullPolicy = ''IfNotPresent'', IconBase64 = '''', Verbosity = ''1'', data_OperatorVersion = ''v1'',
     OperatorImage = ''quay.io/operator:v1''\<rparr>"

lemma demo_data_accepted: "NewClusterServiceVersion demo_data = Inr (new_csv demo_data)"
  by (simp add: NewClusterServiceVersion_def demo_data_def)

theorem manifest_permits_restores_witness:
  "let q = ReqGetVM (''ns'', ''vm1'') in
   q \<in> set (requests (Reconcile mem_env demo_reconciler demo_key) demo) \<and>
   grants (new_csv demo_data) \<lparr>verb = ''watch'', api_group = ''kubevirt.io'', resource = ''virtualmachines'', in_namespace = ''ns''\<rparr>"
proof -
  have R: "demo_reconciler = \<lparr>OperatorNamespace = data_Namespace demo_data\<rparr>"
    by (simp add: demo_reconciler_def demo_data_def)
  have q: "ReqGetVM (''ns'', ''vm1'') \<in> set (requests (Reconcile mem_env demo_reconciler demo_key) demo)"
    by code_simp
  from manifest_permits_restores [OF mem.restore_api_axioms demo_data_accepted q [unfolded R],
      of "\<lparr>verb = ''watch'', api_group = ''kubevirt.io'', resource = ''virtualmachines'', in_namespace = ''ns''\<rparr>"] q
  show ?thesis by (simp add: needs_def Let_def)
qed

text \<open>C29. It also lets the process do what it does when it is started with the arguments of the same manifest, in the
  namespace of the manifest and whatever goes wrong: elect a leader, make sure of the keypair in up to five
  attempts, and start the informers of the two controllers and of the TLS watcher. And it lets the operator's own
  controller read its resource and keep its status.\<close>

theorem manifest_permits_operator:
  assumes "key_store K secret_at cm_at" and "NewClusterServiceVersion data = Inr csv"
  shows "(\<forall>q \<in> set (requests (start_process M K Z (csv_args csv) (csv_Namespace csv) version) w).
      \<forall>a \<in> set (main_access (csv_Namespace csv) q). grants csv a) \<and>
    (\<forall>q \<in> set (requests (OperatorReconcile P r k) v). \<forall>a \<in> set (operator_access q). grants csv a)"
proof -
  let ?ns = "data_Namespace data" and ?fl = "default_flags\<lparr>enableLeaderElection := True\<rparr>"
  note csv = accepted_csv [OF assms(2)]
  have ns: "operator_namespace ?ns = ?ns" using csv(6) by (simp add: operator_namespace_def)
  note within = emits_requests [OF key_store.within_ensure_loop [OF assms(1)], of _ ?ns 0 5 None, folded ensure_keypair_def]
  have keys: "grants csv a" if "kq \<in> set (requests (ensure_keypair K ?ns) w1)" "a \<in> set (key_access kq)" for kq a w1
    using that within [OF that(1)] key_access_granted [OF assms(2)] by (auto simp: list_all_iff)
  have "grants csv a" if q: "q \<in> set (requests (main M K ?fl ?ns version) w)" and a: "a \<in> set (main_access ?ns q)" for q a
    using main_requests [OF q, unfolded ns] a keys plan_access_granted [OF assms(2) refl _ a, of ?ns version] by auto
  then show ?thesis using operator_access_granted [OF assms(2)] unfolding csv(1,5) start_process_manifest by blast
qed

text \<open>A start in which nothing fails.\<close>

theorem manifest_permits_operator_witness:
  "let q = MNewManager (manager_options (default_flags\<lparr>enableLeaderElection := True\<rparr>)) in
   q \<in> set (requests (start_process (\<lambda>q w. (None, w)) mem_keyenv Map.empty (csv_args (new_csv demo_data))
       (csv_Namespace (new_csv demo_data)) ''v1'') (empty_keys 0)) \<and>
   grants (new_csv demo_data) \<lparr>verb = ''update'', api_group = ''coordination.k8s.io'', resource = ''leases'',
     in_namespace = ''file-restore''\<rparr>"
proof -
  let ?q = "MNewManager (manager_options (default_flags\<lparr>enableLeaderElection := True\<rparr>))"
  let ?p = "start_process (\<lambda>q w. (None, w)) mem_keyenv Map.empty (csv_args (new_csv demo_data)) (csv_Namespace (new_csv demo_data)) ''v1''"
  have q: "?q \<in> set (requests ?p (empty_keys 0))"
    unfolding accepted_csv(5) [OF demo_data_accepted] start_process_manifest
    by (rule plan_carried_out) (simp_all add: before_keypair_def)
  have ns: "csv_Namespace (new_csv demo_data) = ''file-restore''"
    unfolding accepted_csv(1) [OF demo_data_accepted] by (simp add: demo_data_def)
  note granted = conjunct1 [OF manifest_permits_operator [OF mem_keys.key_store_axioms demo_data_accepted], of "\<lambda>q w. (None, w)" Map.empty "''v1''" "empty_keys 0"]
  from bspec [OF granted q] q show ?thesis
    by (simp add: needs_def manager_options_def Let_def ns)
qed

text \<open>C38. The read of a volume snapshot content is granted nowhere. When it is refused, a snapshot is restored
  into a volume of the default mode, whatever mode its source had.\<close>

theorem refused_content_loses_volume_mode:
  assumes "NewClusterServiceVersion data = Inr csv"
    and "\<And>n w. \<not> list_all (grants csv) (restore_access ns (ReqReadContent n)) \<Longrightarrow> \<exists>e. fst (read_content E n w) = Inl e"
    and "ReqCreateDV dv \<in> set (requests (HotplugVolume E v vm) w)"
  shows "dv_VolumeMode dv = None"
proof -
  have "\<exists>e. fst (read_content E n w) = Inl e" for n w
    by (rule assms(2)) (simp add: needs_def grants_accepted [OF assms(1)])
  from emits_requests [OF default_mode_HotplugVolume [OF this]] assms(3) show ?thesis
    by fastforce
qed

theorem refused_content_loses_volume_mode_witness:
  "let E = mem_env\<lparr>read_content := \<lambda>n w. (Inl (Errorf ''forbidden''), w)\<rparr>;
       v = demo_restore\<lparr>vmfr_Spec := demo_spec\<lparr>Source := \<lparr>src_PVC = None,
         src_Snapshot = Some \<lparr>vss_Name = ''s1'', vss_Namespace = ''''\<rparr>, src_Remote = None\<rparr>\<rparr>\<rparr> in
   \<exists>dv. ReqCreateDV dv \<in> set (requests (HotplugVolume E v demo_vm) demo) \<and> dv_VolumeMode dv = None"
proof -
  let ?E = "mem_env\<lparr>read_content := \<lambda>n w. (Inl (Errorf ''forbidden''), w)\<rparr>"
  let ?v = "demo_restore\<lparr>vmfr_Spec := demo_spec\<lparr>Source := \<lparr>src_PVC = None,
         src_Snapshot = Some \<lparr>vss_Name = ''s1'', vss_Namespace = ''''\<rparr>, src_Remote = None\<rparr>\<rparr>\<rparr>"
  let ?dv = "new_data_volume ?v ''r1-restore'' (''ns'', ''s1'') None"
  have dv: "ReqCreateDV ?dv \<in> set (requests (HotplugVolume ?E ?v demo_vm) demo)"
    by code_simp
  have "\<exists>e. fst (read_content ?E n w) = Inl e" for n w by simp
  from refused_content_loses_volume_mode [OF demo_data_accepted this dv] dv show ?thesis
    by (auto simp: Let_def)
qed

end
