(* ===== verification/CsvGenerator.thy ===== *)
theory CsvGenerator
  imports Csv Prelude
begin

text \<open>
  tools/csv-generator/csv-generator.go: the command that prints the manifest. The YAML encoder, the
  embedded resource definitions and the two output streams are parameters; errors of \<open>fmt.Print\<close> are
  not looked at by the code, those of \<open>os.Stdout.Write\<close> are.
\<close>

record generator_flags =
  g_csvVersion :: string
  g_replacesCsvVersion :: string
  g_namespace :: string
  g_pullPolicy :: string
  g_logoBase64 :: string
  g_verbosity :: string
  g_operatorVersion :: string
  g_operatorImage :: string
  g_dumpCRDs :: bool

definition default_generator_flags :: generator_flags where
  "default_generator_flags = \<lparr>g_csvVersion = '''', g_replacesCsvVersion = '''', g_namespace = '''',
     g_pullPolicy = '''', g_logoBase64 = '''', g_verbosity = ''1'', g_operatorVersion = '''',
     g_operatorImage = '''', g_dumpCRDs = False\<rparr>"

record 'w genenv =
  g_marshal :: "ClusterServiceVersion \<Rightarrow> goerror + string"
  g_vmFileRestoresCRD :: string
  g_fileRestoreOperatorsCRD :: string
  g_stdout :: "string \<Rightarrow> 'w \<Rightarrow> goerror option \<times> 'w"
  g_stderr :: "string \<Rightarrow> 'w \<Rightarrow> unit \<times> 'w"
  g_usage :: "'w \<Rightarrow> unit \<times> 'w"

datatype gen_request = GStdout string | GStderr string | GUsage

type_synonym ('w, 'a) gcmd = "(('w, gen_request) sys, 'a) state"

text \<open>The exit code of the process; returning from \<open>main\<close> is code 0.\<close>

definition fail_usage :: "'w genenv \<Rightarrow> string \<Rightarrow> ('w, int) gcmd" where
  "fail_usage G msg = do {
     call (GStderr (msg @ [newline])) (g_stderr G (msg @ [newline]));
     call GUsage (g_usage G);
     State_Monad.return 1
   }"

definition fail_error :: "'w genenv \<Rightarrow> string \<Rightarrow> goerror \<Rightarrow> ('w, int) gcmd" where
  "fail_error G msg err = do {
     let text = msg @ '': '' @ Error err @ [newline];
     call (GStderr text) (g_stderr G text);
     State_Monad.return 1
   }"

definition generator_data :: "generator_flags \<Rightarrow> ClusterServiceVersionData" where
  "generator_data fl = \<lparr>CsvVersion = g_csvVersion fl, ReplacesCsvVersion = g_replacesCsvVersion fl,
     data_Namespace = g_namespace fl, data_ImagePullPolicy = g_pullPolicy fl, IconBase64 = g_logoBase64 fl,
     Verbosity = g_verbosity fl, data_OperatorVersion = g_operatorVersion fl, OperatorImage = g_operatorImage fl\<rparr>"

fun write_all :: "'w genenv \<Rightarrow> string list \<Rightarrow> ('w, int) gcmd" where
  "write_all G [] = State_Monad.return 0"
| "write_all G (crd # crds) = do {
     r \<leftarrow> call (GStdout crd) (g_stdout G crd);
     case r of Some err \<Rightarrow> fail_error G ''Error writing CRD'' err | None \<Rightarrow> write_all G crds
   }"

definition separator :: string where "separator = ''---'' @ [newline]"

definition print_manifest :: "'w genenv \<Rightarrow> generator_flags \<Rightarrow> string \<Rightarrow> ('w, int) gcmd" where
  "print_manifest G fl yamlBytes = do {
     call (GStdout separator) (g_stdout G separator);
     call (GStdout yamlBytes) (g_stdout G yamlBytes);
     write_all G (if g_dumpCRDs fl then [g_vmFileRestoresCRD G, g_fileRestoreOperatorsCRD G] else [])
   }"

definition generator_main :: "'w genenv \<Rightarrow> generator_flags \<Rightarrow> ('w, int) gcmd" where
  "generator_main G fl =
    (if g_csvVersion fl = '''' then fail_usage G ''Error: --csv-version is required''
     else if g_namespace fl = '''' then fail_usage G ''Error: --namespace is required''
     else if g_operatorImage fl = '''' then fail_usage G ''Error: --operator-image is required''
     else if g_operatorVersion fl = '''' then fail_usage G ''Error: --operator-version is required''
     else (case NewClusterServiceVersion (generator_data fl) of
         Inl err \<Rightarrow> fail_error G ''Error creating CSV'' err
       | Inr csv \<Rightarrow>
           (case g_marshal G csv of
              Inl err \<Rightarrow> fail_error G ''Error marshaling CSV to YAML'' err
            | Inr yamlBytes \<Rightarrow> print_manifest G fl yamlBytes)))"

fun printed :: "gen_request list \<Rightarrow> string" where
  "printed [] = ''''"
| "printed (GStdout s # qs) = s @ printed qs"
| "printed (q # qs) = printed qs"

text \<open>The generator's output: nothing and code 1 unless the required flags are given and the manifest
  can be encoded; then the manifest of these flags after a document separator.\<close>

definition expected_manifest :: "'w genenv \<Rightarrow> generator_flags \<Rightarrow> string option" where
  "expected_manifest G fl =
    (if g_csvVersion fl \<noteq> '''' \<and> g_namespace fl \<noteq> '''' \<and> g_operatorImage fl \<noteq> '''' \<and> g_operatorVersion fl \<noteq> ''''
     then (case g_marshal G (projr (NewClusterServiceVersion (generator_data fl))) of
         Inl _ \<Rightarrow> None
       | Inr yaml \<Rightarrow> Some yaml)
     else None)"

definition expected_crds :: "'w genenv \<Rightarrow> generator_flags \<Rightarrow> string" where
  "expected_crds G fl = (if g_dumpCRDs fl then g_vmFileRestoresCRD G @ g_fileRestoreOperatorsCRD G else '''')"

lemma printed_append [simp]: "printed (qs @ rs) = printed qs @ printed rs"
  by (induction qs rule: printed.induct) auto

definition fails_silently :: "int \<Rightarrow> gen_request list \<Rightarrow> bool" where
  "fails_silently code qs \<longleftrightarrow> code = 1 \<and> printed qs = '''' \<and> (\<exists>msg. GStderr msg \<in> set qs)"

lemma traces_fail_usage: "traces fails_silently (fail_usage G msg)"
  unfolding fail_usage_def by (auto intro!: trace_rules simp: fails_silently_def)

lemma traces_fail_error: "traces fails_silently (fail_error G msg err)"
  unfolding fail_error_def Let_def by (auto intro!: trace_rules simp: fails_silently_def)

text \<open>Writing goes through to the end, or stops at an error with code 1 and a prefix written.\<close>

definition writes :: "string \<Rightarrow> bool \<Rightarrow> int \<Rightarrow> gen_request list \<Rightarrow> bool" where
  "writes text may_fail code qs \<longleftrightarrow> code = 0 \<and> printed qs = text \<or>
     may_fail \<and> code = 1 \<and> HasPrefix text (printed qs) \<and> (\<exists>msg. GStderr msg \<in> set qs)"

lemma writes_Cons: "writes text b code qs \<Longrightarrow> writes (s @ text) b code (GStdout s # qs)"
  by (auto simp: writes_def HasPrefix_iff)

lemma traces_write_all: "traces (writes (concat crds) (crds \<noteq> [])) (write_all G crds)"
proof (induction crds)
  case Nil
  show ?case by (auto intro!: trace_rules simp: writes_def)
next
  case (Cons crd crds)
  have "writes (crd @ concat crds) True code (GStdout crd # qs)" if "writes (concat crds) b code qs" for b code qs
    using writes_Cons [OF that, of crd] by (auto simp: writes_def)
  moreover have "writes (crd @ concat crds) True code (GStdout crd # qs)" if "fails_silently code qs" for code qs
    using that by (auto simp: writes_def fails_silently_def HasPrefix_iff)
  ultimately show ?case
    by (auto intro!: trace_rules traces_weaken [OF Cons.IH] traces_weaken [OF traces_fail_error] split: option.split)
qed

lemma traces_print_manifest:
  "traces (writes (separator @ yaml @ expected_crds G fl) (g_dumpCRDs fl)) (print_manifest G fl yaml)"
proof -
  let ?crds = "if g_dumpCRDs fl then [g_vmFileRestoresCRD G, g_fileRestoreOperatorsCRD G] else []"
  have "writes (separator @ yaml @ expected_crds G fl) (g_dumpCRDs fl) code
      (GStdout separator # GStdout yaml # qs)"
    if "writes (concat ?crds) (?crds \<noteq> []) code qs" for code qs
    using writes_Cons [OF writes_Cons [OF that, of yaml], of separator]
    by (simp add: expected_crds_def split: if_splits)
  note written = traces_weaken [OF traces_write_all [of ?crds G] this]
  show ?thesis
    unfolding print_manifest_def by (rule traces_bind_call, rule traces_bind_call, rule written)
qed

lemma generator_data_accepted:
  assumes "g_csvVersion fl \<noteq> ''''" and "g_namespace fl \<noteq> ''''" and "g_operatorImage fl \<noteq> ''''"
  shows "NewClusterServiceVersion (generator_data fl) \<noteq> Inl err"
  using assms by (simp add: NewClusterServiceVersion_def generator_data_def Let_def)

text \<open>C39. The generator prints a manifest exactly when its four required flags are given and the encoder
  succeeds; the checks of \<open>NewClusterServiceVersion\<close> never refuse what got so far. It is then the manifest
  of these flags, after a document separator, with the two resource definitions behind it on
  demand. Otherwise nothing reaches the standard output, an error is printed and the exit code is 1.\<close>

theorem generator_prints_manifest:
  "case expected_manifest G fl of
      None \<Rightarrow> fails_silently (answer (generator_main G fl) w) (requests (generator_main G fl) w)
    | Some yaml \<Rightarrow> writes (separator @ yaml @ expected_crds G fl) (g_dumpCRDs fl)
        (answer (generator_main G fl) w) (requests (generator_main G fl) w)"
proof -
  have "traces (case expected_manifest G fl of None \<Rightarrow> fails_silently
      | Some yaml \<Rightarrow> writes (separator @ yaml @ expected_crds G fl) (g_dumpCRDs fl)) (generator_main G fl)"
    by (auto simp: expected_manifest_def generator_main_def traces_fail_usage traces_fail_error traces_print_manifest
        generator_data_accepted split: sum.split)
  from traces_run [OF this, of w] show ?thesis by (auto split: option.split)
qed

end
