(* ===== verification/Healthy.thy ===== *)
theory Healthy
  imports Deletion
begin

text \<open>
  What happens when nothing goes wrong. The locale \<open>healthy_cluster\<close> is a cluster in which the calls
  of a restore succeed: \<open>holding v m w\<close> says that in the world \<open>w\<close> the restore is stored as \<open>v\<close> and its
  target machine as \<open>m\<close>. A status patch stores the patched object with its times possibly rounded, a
  patch of the machine stores the machine, the running instance reports the volumes of the machine as
  attached, and the guest helper prints \<open>printout\<close>.

  In such a cluster a restore goes through its phases one reconciliation at a time, to the end.
\<close>

text \<open>The running instance of a machine: it has an address, and reports exactly the volumes of the
  machine, hotplugged ones as ready.\<close>

definition volumes_of_vm :: "VirtualMachine \<Rightarrow> Volume list" where
  "volumes_of_vm m = (case vm_Template m of None \<Rightarrow> [] | Some t \<Rightarrow> tmpl_Volumes t)"

definition attached :: "VolumeStatus \<Rightarrow> bool" where
  "attached vs \<longleftrightarrow> vs_Phase vs = VolumePhaseReady \<and> vs_Target vs \<noteq> '''' \<and> vs_HotplugVolume vs \<noteq> None"

definition runs :: "VirtualMachine \<Rightarrow> VirtualMachineInstance \<Rightarrow> bool" where
  "runs m vmi \<longleftrightarrow> (\<exists>i \<in> set (vmi_Interfaces vmi). if_IP i \<noteq> '''') \<and>
     vs_Name ` set (vmi_VolumeStatus vmi) = vol_Name ` set (volumes_of_vm m) \<and>
     (\<forall>vs \<in> set (vmi_VolumeStatus vmi). (\<forall>vol \<in> set (volumes_of_vm m). vol_Name vol = vs_Name vs \<longrightarrow>
        (\<exists>c. vol_Source vol = PersistentVolumeClaim c True)) \<longrightarrow> attached vs)"

locale healthy_cluster = finalizer_api E for E :: "'w env" +
  fixes R :: reconciler and k :: key
    and holding :: "vmfr \<Rightarrow> VirtualMachine \<Rightarrow> 'w \<Rightarrow> bool" and printout :: string
  assumes get_restore: "holding v m w \<Longrightarrow> get_vmfr E k w = (g, w') \<Longrightarrow> g = Inr v \<and> holding v m w'"
    and patch_restore: "holding v m w \<Longrightarrow> same_restore v new \<Longrightarrow> patch_vmfr_status E old new w = (g, w') \<Longrightarrow>
      \<exists>u. g = Inr u \<and> holding u m w' \<and> echoes new u \<and> vmfr_Finalizers u = vmfr_Finalizers new \<and>
        vmfr_DeletionTimestamp u = vmfr_DeletionTimestamp new"
    and get_machine: "holding v m w \<Longrightarrow> get_vm E (target_key v) w = (gm, w') \<Longrightarrow> gm = Inr m \<and> holding v m w'"
    and patch_machine: "holding v m w \<Longrightarrow> vm_Name m' = vm_Name m \<Longrightarrow> vm_Namespace m' = vm_Namespace m \<Longrightarrow>
      vm_Template m' \<noteq> None \<Longrightarrow> patch_vm E m m' w = (pm, w') \<Longrightarrow> (\<exists>y. pm = Inr y) \<and> holding v m' w'"
    and get_instance: "holding v m w \<Longrightarrow> get_vmi E (target_key v) w = (gi, w') \<Longrightarrow>
      \<exists>vmi. gi = Inr vmi \<and> runs m vmi \<and> holding v m w'"
    and get_claim: "holding v m w \<Longrightarrow> src_PVC (Source (vmfr_Spec v)) = Some pvc \<Longrightarrow>
      get_pvc E (vmfr_Namespace v, pvcs_Name pvc) w = (gc, w') \<Longrightarrow> (\<exists>y. gc = Inr y) \<and> holding v m w'"
    and get_key: "holding v m w \<Longrightarrow> read_secret E (getOperatorNamespace R, OperatorResourceName) w = (gs, w') \<Longrightarrow>
      \<exists>s pem signer. gs = Inr s \<and> sec_Data s SSHAuthPrivateKey = Some pem \<and> pem \<noteq> '''' \<and>
        parse_private_key E pem = Inr signer \<and> holding v m w'"
    and dials: "holding v m w \<Longrightarrow> dial E addr cfg w = (gd, w') \<Longrightarrow> (\<exists>c. gd = Inr c) \<and> holding v m w'"
    and session: "holding v m w \<Longrightarrow> new_session E c w = (gn, w') \<Longrightarrow> gn = None \<and> holding v m w'"
    and runs_command: "holding v m w \<Longrightarrow> session_run E c command limit w = (gr, w') \<Longrightarrow>
      gr = CommandDone None \<and> holding v m w'"
    and prints: "holding v m w \<Longrightarrow> session_output E c w = (go, w') \<Longrightarrow> fst go = printout \<and> holding v m w'"
    and closes: "holding v m w \<Longrightarrow> session_close E c w = (gu, w') \<Longrightarrow> holding v m w'"
    and hangs_up: "holding v m w \<Longrightarrow> client_close E c w = (gu, w') \<Longrightarrow> holding v m w'"
    and events: "holding v m w \<Longrightarrow> record_event E ty reason msg w = (gu, w') \<Longrightarrow> holding v m w'"
    and ticks: "holding v m w \<Longrightarrow> clock E w = (gt, w') \<Longrightarrow> holding v m w'"

subsection \<open>Stages\<close>

text \<open>The phases of a restore in order; after the fifth step an automatic restore goes on.\<close>

definition stage_phase :: "vmfr \<Rightarrow> nat \<Rightarrow> RestorePhase" where
  "stage_phase v n = [RestorePhaseUnset, RestorePhaseHotplugging, RestorePhaseWaitingForAttachment,
     RestorePhaseSSHConnecting, RestorePhaseRestoring,
     if SourcePath (vmfr_Spec v) = '''' then RestorePhaseVolumeReady else RestorePhaseCleanup,
     RestorePhaseSucceeded] ! n"

definition restored_count :: "string \<Rightarrow> i32" where
  "restored_count out = (if sint (ParseRestoredFileCount out) < 0 then 0 else ParseRestoredFileCount out)"

text \<open>A restore that is still being worked on, and what its status holds from stage \<open>n\<close> on.\<close>

definition in_work :: "vmfr \<Rightarrow> vmfr \<Rightarrow> bool" where
  "in_work v u \<longleftrightarrow> same_restore v u \<and> vmfr_DeletionTimestamp u = None \<and> finalizerName \<in> set (vmfr_Finalizers u)"

definition stage_fields :: "string \<Rightarrow> vmfr \<Rightarrow> nat \<Rightarrow> VirtualMachineFileRestoreStatus \<Rightarrow> bool" where
  "stage_fields out v n s \<longleftrightarrow> AttachmentRetries s = 0 \<and> SSHRetries s = 0 \<and>
     (n \<le> 2 \<longrightarrow> LastAttachmentCheckTime s = None) \<and> (n \<le> 3 \<longrightarrow> LastSSHCheckTime s = None) \<and>
     (0 < n \<longrightarrow> MountPath s \<noteq> '''') \<and>
     (4 < n \<and> SourcePath (vmfr_Spec v) \<noteq> '''' \<longrightarrow> RestoredFilesCount s = Some (restored_count out))"

definition stage :: "string \<Rightarrow> vmfr \<Rightarrow> nat \<Rightarrow> vmfr \<Rightarrow> bool" where
  "stage out v n u \<longleftrightarrow> in_work v u \<and> Phase (vmfr_Status u) = stage_phase v n \<and> stage_fields out v n (vmfr_Status u)"

text \<open>The stored object after a status patch that applies \<open>f\<close>.\<close>

definition became :: "vmfr \<Rightarrow> (VirtualMachineFileRestoreStatus \<Rightarrow> VirtualMachineFileRestoreStatus) \<Rightarrow> vmfr \<Rightarrow> bool" where
  "became u f x \<longleftrightarrow> same_restore u x \<and> vmfr_Finalizers x = vmfr_Finalizers u \<and>
     vmfr_DeletionTimestamp x = vmfr_DeletionTimestamp u \<and> status_agrees (f (vmfr_Status u)) (vmfr_Status x)"

lemma in_work_became: "in_work v u \<Longrightarrow> became u f x \<Longrightarrow> in_work v x"
  by (simp add: in_work_def became_def same_restore_def)

lemma stage_fields_became: "became u f x \<Longrightarrow> stage_fields out v n (vmfr_Status x) = stage_fields out v n (f (vmfr_Status u))"
  by (simp add: stage_fields_def became_def status_agrees_def)

lemma Phase_became: "became u f x \<Longrightarrow> Phase (vmfr_Status x) = Phase (f (vmfr_Status u))"
  by (simp add: became_def status_agrees_def)

lemma became_same: "became u f x \<Longrightarrow> same_restore u x"
  by (simp add: became_def)

lemmas became_simps = stage_fields_became Phase_became

text \<open>The restores the locale can carry to the end: of a claim in their own namespace.\<close>

definition claim_restore :: "vmfr \<Rightarrow> string \<Rightarrow> bool" where
  "claim_restore v claim \<longleftrightarrow> vmfr_Name v \<noteq> '''' \<and> src_Snapshot (Source (vmfr_Spec v)) = None \<and>
     src_Remote (Source (vmfr_Spec v)) = None \<and>
     (\<exists>pvc. src_PVC (Source (vmfr_Spec v)) = Some pvc \<and> pvcs_Name pvc = claim \<and>
        (pvcs_Namespace pvc = '''' \<or> pvcs_Namespace pvc = vmfr_Namespace v))"

text \<open>The machine before the restore, without any restore volume, and with the claim plugged in.\<close>

definition plugged :: "vmfr \<Rightarrow> string \<Rightarrow> VirtualMachine \<Rightarrow> VirtualMachine" where
  "plugged v claim m = (case vm_Template m of None \<Rightarrow> m
     | Some t \<Rightarrow> m\<lparr>vm_Template := Some (plug (volume_of v) (PersistentVolumeClaim claim True) t)\<rparr>)"

definition unused :: "vmfr \<Rightarrow> VirtualMachine \<Rightarrow> bool" where
  "unused v m \<longleftrightarrow> (\<exists>t. vm_Template m = Some t \<and> fresh (volume_of v) t \<and> no_other_restore (volume_of v) t)"

definition machine_at :: "vmfr \<Rightarrow> string \<Rightarrow> VirtualMachine \<Rightarrow> nat \<Rightarrow> VirtualMachine" where
  "machine_at v claim m n = (if 2 \<le> n \<and> n \<le> 5 then plugged v claim m else m)"

lemma claim_restore_same: "same_restore v u \<Longrightarrow> claim_restore v claim \<Longrightarrow> claim_restore u claim"
  by (simp add: claim_restore_def same_restore_def)

lemma plugged_same: "same_restore v u \<Longrightarrow> plugged u claim m = plugged v claim m"
  by (simp add: plugged_def same_restore_keys(2) [of v u] split: option.split)

lemma unused_same: "same_restore v u \<Longrightarrow> unused u m = unused v m"
  by (simp add: unused_def same_restore_keys(2) [of v u])

fun reconciles :: "'w env \<Rightarrow> reconciler \<Rightarrow> key \<Rightarrow> nat \<Rightarrow> 'w \<Rightarrow> 'w" where
  "reconciles E R k 0 w = w"
| "reconciles E R k (Suc n) w = after (Reconcile E R k) (reconciles E R k n w)"

context healthy_cluster
begin

subsection \<open>Rules for the calls\<close>

lemma healthy_GetVMFR:
  "holding v m w \<Longrightarrow> (\<And>w'. holding v m w' \<Longrightarrow> holds (f (Inr v)) w' Q) \<Longrightarrow> holds (State_Monad.bind (GetVMFR E k) f) w Q"
  unfolding GetVMFR_def by (rule holds_bind_call) (auto dest: get_restore)

lemma healthy_PatchStatus:
  assumes "holding u m w" and "\<And>x w'. holding x m w' \<Longrightarrow> became u f x \<Longrightarrow> holds (c (Inr x)) w' Q"
  shows "holds (State_Monad.bind (PatchStatus E old (with_status u f)) c) w Q"
  unfolding PatchStatus_def
proof (rule holds_bind_call)
  fix g w'
  assume "patch_vmfr_status E old (with_status u f) w = (g, w')"
  from patch_restore [OF assms(1) _ this] obtain x where "g = Inr x" "holding x m w'" "echoes (with_status u f) x"
    "vmfr_Finalizers x = vmfr_Finalizers u" "vmfr_DeletionTimestamp x = vmfr_DeletionTimestamp u"
    by auto
  then show "holds (c g) w' Q"
    using assms(2) by (auto simp: became_def echoes_def same_restore_def)
qed

lemma healthy_GetVM:
  "holding v m w \<Longrightarrow> (\<And>w'. holding v m w' \<Longrightarrow> holds (f (Inr m)) w' Q) \<Longrightarrow>
    holds (State_Monad.bind (GetVM E (target_key v)) f) w Q"
  unfolding GetVM_def by (rule holds_bind_call) (auto dest: get_machine)

lemma healthy_PatchVM:
  assumes "holding v m w" and "vm_Name new = vm_Name m" and "vm_Namespace new = vm_Namespace m"
    and "vm_Template new \<noteq> None" and "\<And>y w'. holding v new w' \<Longrightarrow> holds (f (Inr y)) w' Q"
  shows "holds (State_Monad.bind (PatchVM E m new) f) w Q"
  unfolding PatchVM_def using assms by (intro holds_bind_call) (blast dest: patch_machine)

lemma healthy_GetVMI:
  "holding v m w \<Longrightarrow>
    (\<And>vmi w'. runs m vmi \<Longrightarrow> holding v m w' \<Longrightarrow> holds (f (Inr vmi)) w' Q) \<Longrightarrow>
    holds (State_Monad.bind (GetVMI E (target_key v)) f) w Q"
  unfolding GetVMI_def by (rule holds_bind_call) (auto dest: get_instance)

lemma healthy_GetPVC:
  "holding v m w \<Longrightarrow> src_PVC (Source (vmfr_Spec v)) = Some pvc \<Longrightarrow>
    (\<And>y w'. holding v m w' \<Longrightarrow> holds (f (Inr y)) w' Q) \<Longrightarrow> 
    holds (State_Monad.bind (GetPVC E (vmfr_Namespace v, pvcs_Name pvc)) f) w Q"
  unfolding GetPVC_def by (rule holds_bind_call) (auto dest: get_claim)

lemma healthy_event:
  "holding v m w \<Longrightarrow> (\<And>w'. holding v m w' \<Longrightarrow> holds (f ()) w' Q) \<Longrightarrow>
    holds (State_Monad.bind (RecordEvent E ty reason msg) f) w Q"
  unfolding RecordEvent_def by (rule holds_bind_call) (auto dest: events)

lemma healthy_Now:
  "holding v m w \<Longrightarrow> (\<And>t w'. holding v m w' \<Longrightarrow> holds (f t) w' Q) \<Longrightarrow> holds (State_Monad.bind (Now E) f) w Q"
  unfolding Now_def by (rule holds_bind_call) (auto dest: ticks)

lemma healthy_close:
  "holding v m w \<Longrightarrow> (\<And>w'. holding v m w' \<Longrightarrow> holds (f ()) w' Q) \<Longrightarrow> holds (State_Monad.bind (ClientClose E c) f) w Q"
  unfolding ClientClose_def by (rule holds_bind_call) (auto dest: hangs_up)

lemma healthy_ReadSecret:
  "holding v m w \<Longrightarrow> (\<And>s pem signer w'. sec_Data s SSHAuthPrivateKey = Some pem \<Longrightarrow> pem \<noteq> '''' \<Longrightarrow>
      parse_private_key E pem = Inr signer \<Longrightarrow> holding v m w' \<Longrightarrow> holds (f (Inr s)) w' Q) \<Longrightarrow>
    holds (State_Monad.bind (ReadSecret E (getOperatorNamespace R, OperatorResourceName)) f) w Q"
  unfolding ReadSecret_def by (rule holds_bind_call) (blast dest: get_key)

lemma healthy_Dial:
  "holding v m w \<Longrightarrow> (\<And>c w'. holding v m w' \<Longrightarrow> holds (f (Inr c)) w' Q) \<Longrightarrow>
    holds (State_Monad.bind (Dial E addr cfg) f) w Q"
  unfolding Dial_def by (rule holds_bind_call) (blast dest: dials)

lemma healthy_NewSession:
  "holding v m w \<Longrightarrow> (\<And>w'. holding v m w' \<Longrightarrow> holds (f None) w' Q) \<Longrightarrow> holds (State_Monad.bind (NewSession E c) f) w Q"
  unfolding NewSession_def by (rule holds_bind_call) (blast dest: session)

lemma healthy_SessionRun:
  "holding v m w \<Longrightarrow> (\<And>w'. holding v m w' \<Longrightarrow> holds (f (CommandDone None)) w' Q) \<Longrightarrow>
    holds (State_Monad.bind (SessionRun E c command limit) f) w Q"
  unfolding SessionRun_def by (rule holds_bind_call) (blast dest: runs_command)

lemma healthy_SessionOutput:
  "holding v m w \<Longrightarrow> (\<And>err w'. holding v m w' \<Longrightarrow> holds (f (printout, err)) w' Q) \<Longrightarrow>
    holds (State_Monad.bind (SessionOutput E c) f) w Q"
  unfolding SessionOutput_def by (rule holds_bind_call) (metis prints prod.collapse)

lemma healthy_SessionClose:
  "holding v m w \<Longrightarrow> (\<And>w'. holding v m w' \<Longrightarrow> holds (f ()) w' Q) \<Longrightarrow> holds (State_Monad.bind (SessionClose E c) f) w Q"
  unfolding SessionClose_def by (rule holds_bind_call) (auto dest: closes)

subsection \<open>Rules for the routines\<close>

lemma healthy_address:
  assumes "holding v m w" and "runs m vmi"
    and "\<And>ip w'. ip \<noteq> '''' \<Longrightarrow> holding v m w' \<Longrightarrow> holds (f (Inr ip)) w' Q"
  shows "holds (State_Monad.bind (GetVMIPAddress E (Some vmi)) f) w Q"
proof -
  have "find (\<lambda>i. if_IP i \<noteq> '''') (vmi_Interfaces vmi) \<noteq> None"
    using assms(2) by (auto simp: runs_def find_None_iff)
  then obtain i where "find (\<lambda>i. if_IP i \<noteq> '''') (vmi_Interfaces vmi) = Some i" by blast
  then obtain ip where "GetVMIPAddress E (Some vmi) = State_Monad.return (Inr ip)" and "ip \<noteq> ''''"
    by (cases "find (\<lambda>i. if_Name i = defaultInterfaceName \<and> if_IP i \<noteq> '''') (vmi_Interfaces vmi)")
      (auto simp: GetVMIPAddress_def dest!: find_SomeD)
  with assms(1,3) show ?thesis by simp
qed

lemma healthy_getSSHPrivateKey:
  assumes "holding v m w"
    and "\<And>pem w'. pem \<noteq> '''' \<Longrightarrow> (\<exists>signer. parse_private_key E pem = Inr signer) \<Longrightarrow> holding v m w' \<Longrightarrow>
      holds (f (Inr pem)) w' Q"
  shows "holds (State_Monad.bind (getSSHPrivateKey E R) f) w Q"
proof (rule holds_bind)
  show "holds (getSSHPrivateKey E R) w (\<lambda>r w'. \<exists>pem. r = Inr pem \<and> pem \<noteq> '''' \<and>
      (\<exists>signer. parse_private_key E pem = Inr signer) \<and> holding v m w')"
    unfolding getSSHPrivateKey_def by (rule healthy_ReadSecret [OF assms(1)]) (auto intro!: holds_return)
qed (use assms(2) in blast)

lemma healthy_ConnectSSH:
  assumes "holding v m w" and "ip \<noteq> ''''" and "pem \<noteq> ''''" and "\<exists>signer. parse_private_key E pem = Inr signer"
    and "\<And>c w'. holding v m w' \<Longrightarrow> holds (f (Inr c)) w' Q"
  shows "holds (State_Monad.bind (ConnectSSH E ip pem) f) w Q"
proof (rule holds_bind)
  show "holds (ConnectSSH E ip pem) w (\<lambda>r w'. \<exists>c. r = Inr c \<and> holding v m w')"
    unfolding ConnectSSH_def using assms(2-4)
    by (auto intro!: healthy_Dial [OF assms(1)] holds_return)
qed (use assms(5) in blast)

lemma healthy_RunCommand:
  assumes "holding v m w" and "\<And>err w'. holding v m w' \<Longrightarrow> holds (f (printout, err, None)) w' Q"
  shows "holds (State_Monad.bind (RunCommand E c command limit) f) w Q"
proof (rule holds_bind)
  show "holds (RunCommand E c command limit) w (\<lambda>r w'. \<exists>err. r = (printout, err, None) \<and> holding v m w')"
    unfolding RunCommand_def
    by (rule healthy_NewSession [OF assms(1)], simp)
      (rule healthy_SessionRun, assumption, simp, rule healthy_SessionOutput, assumption,
        rule healthy_SessionClose, assumption, simp add: holds_return)
qed (use assms(2) in blast)

lemma healthy_HotplugVolume:
  assumes "holding v m w" and "claim_restore v claim" and "unused v m"
    and "\<And>w'. holding v (plugged v claim m) w' \<Longrightarrow> holds (f (Ran None)) w' Q"
  shows "holds (State_Monad.bind (HotplugVolume E v m) f) w Q"
proof (rule holds_bind)
  obtain t where t: "vm_Template m = Some t" "fresh (volume_of v) t" "no_other_restore (volume_of v) t"
    using assms(3) by (auto simp: unused_def)
  have name: "GetVolumeName (vmfr_Name v) = Ran (volume_of v)"
    using assms(2) by (simp add: claim_restore_def volume_of_def)
  have src: "volume_source E v (volume_of v) = State_Monad.return (Inr (PersistentVolumeClaim claim True))"
    using assms(2) by (auto simp: volume_source_def claim_restore_def Let_def)
  have "holds (HotplugVolume E v m) w (\<lambda>r w'. r = Ran None \<and> holding v (m\<lparr>vm_Template := Some (plug (volume_of v)
      (PersistentVolumeClaim claim True) t)\<rparr>) w')"
    unfolding HotplugVolume_def
    using t fresh_iff [of "volume_of v" t] no_other_restore_iff [of "volume_of v" t] assms(1)
    by (auto simp: name src intro!: holds_rules healthy_PatchVM split: sum.split)
  then show "holds (HotplugVolume E v m) w (\<lambda>r w'. r = Ran None \<and> holding v (plugged v claim m) w')"
    by (simp add: plugged_def t)
qed (use assms(4) in blast)

lemma healthy_UnplugVolume:
  assumes "holding v (plugged v claim m) w" and "claim_restore v claim" and "unused v m"
    and "\<And>w'. holding v m w' \<Longrightarrow> holds (f (Ran None)) w' Q"
  shows "holds (State_Monad.bind (UnplugVolume E v (plugged v claim m)) f) w Q"
proof (rule holds_bind)
  obtain t where t: "vm_Template m = Some t" "fresh (volume_of v) t"
    using assms(3) by (auto simp: unused_def)
  have name: "GetVolumeName (vmfr_Name v) = Ran (volume_of v)" and src: "src_Snapshot (Source (vmfr_Spec v)) = None"
    using assms(2) by (simp_all add: claim_restore_def volume_of_def)
  have "m\<lparr>vm_Template := Some t\<rparr> = m" using t by simp
  moreover have "holds (UnplugVolume E v (plugged v claim m)) w
      (\<lambda>r w'. r = Ran None \<and> holding v (m\<lparr>vm_Template := Some t\<rparr>) w')"
    unfolding UnplugVolume_def using assms(1) t
    by (auto simp: name src plugged_def unplug_plug intro!: holds_rules healthy_PatchVM split: sum.split)
  ultimately show "holds (UnplugVolume E v (plugged v claim m)) w (\<lambda>r w'. r = Ran None \<and> holding v m w')"
    by (simp only:)
qed (use assms(4) in blast)

lemma healthy_time:
  assumes "holding v m w" and "\<And>t w'. holding v m w' \<Longrightarrow> holds (f t) w' Q"
  shows "holds (State_Monad.bind (if b then do { now \<leftarrow> Now E; State_Monad.return (Some now) }
      else State_Monad.return t0) f) w Q"
proof (cases b)
  case True
  have "holds (do { now \<leftarrow> Now E; State_Monad.return (Some now) }) w (\<lambda>_. holding v m)"
    by (rule healthy_Now [OF assms(1)]) (simp add: holds_return)
  from holds_bind [OF this, of f Q] assms(2) True show ?thesis by simp
qed (use assms in simp)

text \<open>A transition changes the phase and its times only.\<close>

lemma healthy_transition:
  assumes "holding u m w"
    and "\<And>x w' a b. holding x m w' \<Longrightarrow> became u (\<lambda>s. s\<lparr>Phase := p, StartTime := a, CompletionTime := b\<rparr>) x \<Longrightarrow>
      Q requeue_now w'"
  shows "holds (transitionPhase E u p msg) w Q"
proof -
  have store: "holds (do {
      r \<leftarrow> PatchStatus E u (with_status u (\<lambda>s. s\<lparr>Phase := p, StartTime := started, CompletionTime := completed\<rparr>));
      case r of
        Inl err \<Rightarrow> State_Monad.return (fail_with err)
      | Inr _ \<Rightarrow> do {
          RecordEvent E (if p = RestorePhaseFailed then event_warning else event_normal) (phase_string p) msg;
          State_Monad.return requeue_now
        } }) w' Q" if "holding u m w'" for started completed w'
    using that by (rule healthy_PatchStatus) (auto intro!: healthy_event holds_return assms(2))
  show ?thesis
    unfolding transitionPhase_def Let_def
    by (rule healthy_time [OF assms(1)], erule healthy_time, erule store)
qed

subsection \<open>The phases\<close>

lemma reconcile_stage:
  assumes "holding u m w" and "stage printout v n u" and "getPhaseHandler (stage_phase v n) = Some handler"
    and "\<And>w'. holding u m w' \<Longrightarrow> holds (handler E R u) w' Q"
  shows "holds (Reconcile E R k) w Q"
proof -
  have "stage_phase v n \<noteq> RestorePhaseSucceeded \<and> stage_phase v n \<noteq> RestorePhaseFailed"
    using assms(3) by (auto simp: getPhaseHandler_def)
  with assms show ?thesis
    unfolding Reconcile_def
    by (intro healthy_GetVMFR) (auto simp: reconcile_found_def stage_def in_work_def contains_iff)
qed

text \<open>The controller is to be called again, for a restore in the next stage.\<close>

definition arrives :: "vmfr \<Rightarrow> nat \<Rightarrow> VirtualMachine \<Rightarrow> outcome \<Rightarrow> 'w \<Rightarrow> bool" where
  "arrives v n m r w' \<longleftrightarrow> r = requeue_now \<and> (\<exists>x. holding x m w' \<and> stage printout v n x)"

lemma arrivesI: "holding x m w' \<Longrightarrow> stage printout v n x \<Longrightarrow> arrives v n m requeue_now w'"
  by (auto simp: arrives_def)

lemma runs_plugged:
  assumes "runs (plugged u claim m) vmi" and "unused u m"
  obtains vs where "find (\<lambda>vs. vs_Name vs = volume_of u) (vmi_VolumeStatus vmi) = Some vs" and "attached vs"
proof -
  let ?vol = "restore_volume (volume_of u) (PersistentVolumeClaim claim True)"
  have vol: "?vol \<in> set (volumes_of_vm (plugged u claim m))"
    and only: "\<forall>vol \<in> set (volumes_of_vm (plugged u claim m)). vol_Name vol = volume_of u \<longrightarrow> vol = ?vol"
    using assms(2) by (auto simp: unused_def fresh_def volumes_of_vm_def plugged_def plug_def)
  have names: "vs_Name ` set (vmi_VolumeStatus vmi) = vol_Name ` set (volumes_of_vm (plugged u claim m))"
    using assms(1) by (simp add: runs_def)
  from imageI [OF vol, of vol_Name] have "volume_of u \<in> vs_Name ` set (vmi_VolumeStatus vmi)"
    by (simp add: names restore_volume_def)
  then have "find (\<lambda>vs. vs_Name vs = volume_of u) (vmi_VolumeStatus vmi) \<noteq> None"
    by (auto simp: find_None_iff)
  then obtain vs where vs: "find (\<lambda>vs. vs_Name vs = volume_of u) (vmi_VolumeStatus vmi) = Some vs" by blast
  have "vol_Source ?vol = PersistentVolumeClaim claim True" by (simp add: restore_volume_def)
  with only have "\<forall>vol \<in> set (volumes_of_vm (plugged u claim m)). vol_Name vol = volume_of u \<longrightarrow>
      (\<exists>c. vol_Source vol = PersistentVolumeClaim c True)" by metis
  with find_SomeD [OF vs] assms(1) have "attached vs" by (simp add: runs_def)
  from that [OF vs this] show thesis .
qed

lemma healthy_move:
  assumes "holding u m w" and "in_work v u" and "stage_fields printout v n (vmfr_Status u)" and "p = stage_phase v n"
  shows "holds (transitionPhase E u p msg) w (arrives v n m)"
proof (rule healthy_transition [OF assms(1)])
  fix x w' a b
  assume x: "holding x m w'" "became u (\<lambda>s. s\<lparr>Phase := p, StartTime := a, CompletionTime := b\<rparr>) x"
  have "stage printout v n x"
    using in_work_became [OF assms(2) x(2)] assms(3,4)
    unfolding stage_def became_simps [OF x(2)] by (simp add: stage_fields_def)
  with x(1) show "arrives v n m requeue_now w'" by (rule arrivesI)
qed

lemma healthy_move_after:
  assumes "holding x m w" and "became u f x" and "in_work v u" and "stage_fields printout v n (f (vmfr_Status u))"
    and "p = stage_phase v n"
  shows "holds (transitionPhase E x p msg) w (arrives v n m)"
  using assms(1) in_work_became [OF assms(3,2)] _ assms(5)
  by (rule healthy_move) (use assms(4) in \<open>simp add: stage_fields_became [OF assms(2)]\<close>)

lemma accept_stage:
  assumes "holding u m w" and "stage printout v 0 u"
  shows "holds (init_accept E u vmi) w (arrives v (Suc 0) m)"
proof -
  have "holds (transitionPhase E x RestorePhaseHotplugging msg) w' (arrives v (Suc 0) m)"
    if x: "holding x m w'" "became u (\<lambda>s. s\<lparr>MountPath := getMountPath vmi (getSourceName u)\<rparr>) x" for x w' msg
    using x by (rule healthy_move_after) (use assms(2) in \<open>auto simp: stage_def stage_fields_def stage_phase_def\<close>)
  then show ?thesis
    unfolding init_accept_def Let_def by (intro healthy_PatchStatus [OF assms(1)]) auto
qed

lemma init_stage:
  assumes "holding u m w" and "stage printout v 0 u" and "claim_restore u claim"
  shows "holds (handleInitPhase E R u) w (arrives v (Suc 0) m)"
proof -
  obtain pvc where pvc: "src_PVC (Source (vmfr_Spec u)) = Some pvc"
    "pvcs_Namespace pvc = '''' \<or> pvcs_Namespace pvc = vmfr_Namespace u"
    and one: "source_count (Source (vmfr_Spec u)) = 1"
    using assms(3) by (auto simp: claim_restore_def source_count_def)
  from pvc(2) have ns: "(if pvcs_Namespace pvc = '''' then vmfr_Namespace u else pvcs_Namespace pvc) = vmfr_Namespace u"
    by auto
  show ?thesis
    unfolding handleInitPhase_def Let_def init_source_def
    using assms(1) pvc(1) one
    by (auto simp del: if_split simp: ns intro!: healthy_GetVM healthy_GetVMI healthy_GetPVC [OF _ pvc(1)]
        accept_stage [OF _ assms(2)])
qed

lemma plugged_stage:
  assumes "holding u m w" and "stage printout v (Suc 0) u"
  shows "holds (do { RecordEvent E event_normal ''VolumeHotplug'' ''Volume hotplugged to VM'';
      transitionPhase E u RestorePhaseWaitingForAttachment msg }) w (arrives v 2 m)"
proof (rule healthy_event [OF assms(1)])
  fix w'
  assume "holding u m w'"
  then show "holds (transitionPhase E u RestorePhaseWaitingForAttachment msg) w' (arrives v 2 m)"
    by (rule healthy_move) (use assms(2) in \<open>auto simp: stage_def stage_fields_def stage_phase_def\<close>)
qed

lemma hotplug_stage:
  assumes "holding u m w" and "stage printout v (Suc 0) u" and "claim_restore u claim" and "unused u m"
  shows "holds (handleHotpluggingPhase E R u) w (arrives v 2 (plugged u claim m))"
proof -
  have "GetVolumeName (vmfr_Name u) = Ran (volume_of u)"
    using assms(3) by (simp add: claim_restore_def volume_of_def)
  then show ?thesis
    unfolding handleHotpluggingPhase_def
    using assms(1) by (auto intro!: healthy_GetVM healthy_HotplugVolume [OF _ assms(3,4)] plugged_stage [OF _ assms(2)])
qed

lemma attachment_stage:
  assumes "holding u (plugged u claim m) w" and "stage printout v 2 u" and "vmfr_Name u \<noteq> ''''" and "unused u m"
  shows "holds (handleWaitingForAttachmentPhase E R u) w (arrives v 3 (plugged u claim m))"
proof -
  have name: "GetVolumeName (vmfr_Name u) = Ran (volume_of u)"
    using assms(3) by (simp add: volume_of_def)
  have limit: "rate_limit E (LastAttachmentCheckTime (vmfr_Status u)) = State_Monad.return None"
    and zero: "AttachmentRetries (vmfr_Status u) = 0"
    using assms(2) by (simp_all add: stage_def stage_fields_def rate_limit_def)
  have check: "holds (attachment_check E R x n (find (\<lambda>vs. vs_Name vs = volume_of u) (vmi_VolumeStatus vmi))) w'
      (arrives v 3 (plugged u claim m))"
    if x: "holding x (plugged u claim m) w'" "became u (\<lambda>s. s\<lparr>LastAttachmentCheckTime := Some now\<rparr>) x"
      and vmi: "runs (plugged u claim m) vmi" for x w' vmi now n
  proof -
    obtain vs where "find (\<lambda>vs. vs_Name vs = volume_of u) (vmi_VolumeStatus vmi) = Some vs" "attached vs"
      by (rule runs_plugged [OF vmi assms(4)])
    moreover have "AttachmentRetries (vmfr_Status x) = 0"
      using x(2) zero by (simp add: became_def status_agrees_def)
    moreover have "holds (transitionPhase E x RestorePhaseSSHConnecting msg) w' (arrives v 3 (plugged u claim m))" for msg
      using x by (rule healthy_move_after) (use assms(2) in \<open>auto simp: stage_def stage_fields_def stage_phase_def\<close>)
    ultimately show ?thesis
      by (auto simp: attachment_check_def attached_def reset_counter_def)
  qed
  show ?thesis
    unfolding handleWaitingForAttachmentPhase_def
    using assms(1)
    by (auto simp: zero limit name maxAttachmentWait_def intro!: healthy_GetVMI healthy_Now healthy_PatchStatus check)
qed

lemma connecting_stage:
  assumes "holding u m w" and "stage printout v 3 u"
  shows "holds (handleSSHConnectingPhase E R u) w (arrives v 4 m)"
proof -
  have limit: "rate_limit E (LastSSHCheckTime (vmfr_Status u)) = State_Monad.return None"
    and zero: "SSHRetries (vmfr_Status u) = 0"
    using assms(2) by (simp_all add: stage_def stage_fields_def rate_limit_def)
  have attempt: "holds (ssh_attempt E x ip pem) w' (arrives v 4 m)"
    if x: "holding x m w'" "became u (\<lambda>s. s\<lparr>LastSSHCheckTime := Some now\<rparr>) x" and "ip \<noteq> ''''" "pem \<noteq> ''''"
      "\<exists>signer. parse_private_key E pem = Inr signer" for x w' now ip pem
  proof -
    have "SSHRetries (vmfr_Status x) = 0"
      using x(2) zero by (simp add: became_def status_agrees_def)
    moreover have "holds (do { res \<leftarrow> transitionPhase E x RestorePhaseRestoring msg; ClientClose E c;
        State_Monad.return res }) w'' (arrives v 4 m)" if "holding x m w''" for w'' msg c
    proof (rule holds_bind)
      show "holds (transitionPhase E x RestorePhaseRestoring msg) w'' (arrives v 4 m)"
        using that x(2)
        by (rule healthy_move_after) (use assms(2) in \<open>auto simp: stage_def stage_fields_def stage_phase_def\<close>)
    qed (auto simp: arrives_def intro!: healthy_close holds_return)
    ultimately show ?thesis
      unfolding ssh_attempt_def using that by (auto simp: reset_counter_def intro!: healthy_ConnectSSH)
  qed
  show ?thesis
    unfolding handleSSHConnectingPhase_def
    using assms(1)
    by (auto simp: zero limit maxSSHWait_def
        intro!: healthy_Now healthy_PatchStatus healthy_GetVMI healthy_address healthy_getSSHPrivateKey attempt)
qed

lemma restoring_stage:
  assumes "holding u m w" and "stage printout v 4 u" and "vmfr_Name u \<noteq> ''''"
  shows "holds (handleRestoringPhase E R u) w (arrives v 5 m)"
proof -
  have path: "MountPath (vmfr_Status u) \<noteq> ''''" and spec: "vmfr_Spec u = vmfr_Spec v"
    using assms(2) by (auto simp: stage_def stage_fields_def in_work_def same_restore_def)
  let ?f = "if SourcePath (vmfr_Spec u) = '''' then (\<lambda>s. s\<lparr>Phase := RestorePhaseVolumeReady\<rparr>)
     else (\<lambda>s. s\<lparr>RestoredFilesCount := Some (restored_count printout), Phase := RestorePhaseCleanup\<rparr>)"
  have arrived: "arrives v 5 m requeue_now w'" if x: "holding x m w'" "became u ?f x" for x w'
  proof -
    have "stage printout v 5 x"
      using in_work_became [OF _ x(2), of v] assms(2) spec
      unfolding stage_def became_simps [OF x(2)] by (simp add: stage_fields_def stage_phase_def)
    with x(1) show ?thesis by (rule arrivesI)
  qed
  have finish: "holds (restore_finish E u printout) w' (arrives v 5 m)" if "holding u m w'" for w'
  proof -
    have "holds (do { r \<leftarrow> PatchStatus E u (with_status u ?f);
        case r of Inl err \<Rightarrow> State_Monad.return (fail_with err)
        | Inr v' \<Rightarrow> do { RecordEvent E event_normal reason msg; State_Monad.return requeue_now } }) w' (arrives v 5 m)"
      for reason msg
      by (rule healthy_PatchStatus [OF that]) (auto intro!: healthy_event holds_return arrived)
    then show ?thesis
      unfolding restore_finish_def Let_def restored_count_def by (cases "SourcePath (vmfr_Spec u) = ''''") simp_all
  qed
  have run: "holds (restore_run E R u vmi c) w' (arrives v 5 m)" if "holding u m w'" for vmi c w'
    using that path assms(3)
    by (auto simp: restore_run_def BuildSSHCommand_def volume_of_def Let_def
        intro!: healthy_RunCommand finish)
  have close: "holds (do { res \<leftarrow> restore_run E R u vmi c; ClientClose E c; State_Monad.return res }) w' (arrives v 5 m)"
    if "holding u m w'" for vmi c w'
    by (rule holds_bind [OF run [OF that]]) (auto simp: arrives_def intro!: healthy_close holds_return)
  show ?thesis
    unfolding handleRestoringPhase_def using assms(1)
    by (auto intro!: healthy_GetVMI healthy_address healthy_getSSHPrivateKey healthy_ConnectSSH close)
qed

text \<open>The end of the clean-up, once the machine is as before.\<close>

lemma unplugged_stage:
  assumes "holding u m w" and "stage printout v 5 u" and "unused u m" and "SourcePath (vmfr_Spec v) \<noteq> ''''"
  shows "holds (do { vmiR \<leftarrow> GetVMI E (target_key u);
      case vmiR of
        Inl err \<Rightarrow> if \<not> IsNotFound err then failRestore E R u err detail else cleanup_done E u
      | Inr vmi \<Rightarrow> if list_ex (\<lambda>vs. vs_Name vs = volume_of u) (vmi_VolumeStatus vmi)
          then State_Monad.return (requeue_after (5 * second)) else cleanup_done E u }) w (arrives v 6 m)"
proof -
  have gone: "\<not> list_ex (\<lambda>vs. vs_Name vs = volume_of u) (vmi_VolumeStatus vmi)" if "runs m vmi" for vmi
  proof -
    have "volume_of u \<notin> vol_Name ` set (volumes_of_vm m)"
      using assms(3) by (auto simp: unused_def fresh_def volumes_of_vm_def)
    moreover have "vs_Name ` set (vmi_VolumeStatus vmi) = vol_Name ` set (volumes_of_vm m)"
      using that by (simp add: runs_def)
    ultimately show ?thesis by (force simp: list_ex_iff)
  qed
  have "holds (transitionPhase E u RestorePhaseSucceeded msg) w' (arrives v 6 m)" if "holding u m w'" for msg w'
    using that by (rule healthy_move) (use assms(2,4) in \<open>auto simp: stage_def stage_fields_def stage_phase_def\<close>)
  then have completed: "holds (cleanup_done E u) w' (arrives v 6 m)" if "holding u m w'" for w'
    unfolding cleanup_done_def by (intro healthy_event [OF that])
  show ?thesis
    by (rule healthy_GetVMI [OF assms(1)]) (use gone completed in simp)
qed

lemma cleanup_stage:
  assumes "holding u (plugged u claim m) w" and "stage printout v 5 u" and "claim_restore u claim" and "unused u m"
    and "SourcePath (vmfr_Spec v) \<noteq> ''''"
  shows "holds (handleCleanupPhase E R u) w (arrives v 6 m)"
proof -
  have name: "GetVolumeName (vmfr_Name u) = Ran (volume_of u)"
    using assms(3) by (simp add: claim_restore_def volume_of_def)
  show ?thesis
    unfolding handleCleanupPhase_def using assms(1)
    by (auto simp: name split del: if_split
        intro!: healthy_GetVM healthy_UnplugVolume [OF _ assms(3,4)] unplugged_stage [OF _ assms(2,4,5)])
qed

text \<open>All of them together: a reconciliation takes a restore from one stage to the next.\<close>

lemma reconcile_next_stage:
  assumes "holding u (machine_at v claim m n) w" and "stage printout v n u" and "claim_restore v claim" and "unused v m"
    and "n \<le> 4 \<or> n = 5 \<and> SourcePath (vmfr_Spec v) \<noteq> ''''"
  shows "holds (Reconcile E R k) w (arrives v (Suc n) (machine_at v claim m (Suc n)))"
proof -
  have same: "same_restore v u" using assms(2) by (simp add: stage_def in_work_def)
  note u = claim_restore_same [OF same assms(3)] unused_same [OF same, THEN iffD2, OF assms(4)]
  have named: "vmfr_Name u \<noteq> ''''" using u(1) by (simp add: claim_restore_def)
  note start = reconcile_stage [OF assms(1,2)]
  note here = assms(2) u plugged_same [OF same, of claim m]
  consider "n = 0" | "n = 1" | "n = 2" | "n = 3" | "n = 4" | "n = 5" "SourcePath (vmfr_Spec v) \<noteq> ''''"
    using assms(5) by linarith
  then show ?thesis
  proof cases
    case 1
    with here show ?thesis
      by (auto intro!: start init_stage simp: stage_phase_def getPhaseHandler_def machine_at_def)
  next
    case 2
    with here hotplug_stage [of u m _ v claim] show ?thesis
      by (auto intro!: start simp: stage_phase_def getPhaseHandler_def machine_at_def numeral_2_eq_2)
  next
    case 3
    with here named attachment_stage [of u claim m _ v] show ?thesis
      by (auto intro!: start simp: stage_phase_def getPhaseHandler_def machine_at_def eval_nat_numeral)
  next
    case 4
    with here connecting_stage [of u _ _ v] show ?thesis
      by (auto intro!: start simp: stage_phase_def getPhaseHandler_def machine_at_def eval_nat_numeral)
  next
    case 5
    with here named restoring_stage [of u _ _ v] show ?thesis
      by (auto intro!: start simp: stage_phase_def getPhaseHandler_def machine_at_def eval_nat_numeral)
  next
    case 6
    with here cleanup_stage [of u claim m _ v] show ?thesis
      by (auto intro!: start simp: stage_phase_def getPhaseHandler_def machine_at_def eval_nat_numeral)
  qed
qed

text \<open>Reconciled again and again, a new restore passes through the stages, and every reconciliation asks
  for the next one.\<close>

lemma reconciles_stages:
  assumes "holding v m w" and "stage printout v 0 v" and "claim_restore v claim" and "unused v m"
    and "n \<le> 5 \<or> n = 6 \<and> SourcePath (vmfr_Spec v) \<noteq> ''''"
  shows "(\<exists>u. holding u (machine_at v claim m n) (reconciles E R k n w) \<and> stage printout v n u) \<and>
    (\<forall>i < n. answer (Reconcile E R k) (reconciles E R k i w) = requeue_now)"
  using assms(5)
proof (induction n)
  case 0
  with assms(1,2) show ?case by (auto simp: machine_at_def)
next
  case (Suc n)
  then obtain u where u: "holding u (machine_at v claim m n) (reconciles E R k n w)" "stage printout v n u"
    and earlier: "\<forall>i < n. answer (Reconcile E R k) (reconciles E R k i w) = requeue_now"
    by fastforce
  from Suc.prems have "n \<le> 4 \<or> n = 5 \<and> SourcePath (vmfr_Spec v) \<noteq> ''''" by auto
  from holds_run [OF reconcile_next_stage [OF u assms(3,4) this]] earlier show ?case
    by (auto simp: arrives_def less_Suc_eq)
qed

end

end
