(* ===== verification/HealthyDeletion.thy ===== *)
theory HealthyDeletion
  imports Healthy
begin

text \<open>
  Deletion where nothing goes wrong. \<open>healthy_deletion\<close> adds to a healthy cluster that an update which
  drops the finalizer is accepted: \<open>given_up m w\<close> says that the operator no longer holds the resource in
  the world \<open>w\<close>, in which the target machine is stored as \<open>m\<close>.
\<close>

locale healthy_deletion = healthy_cluster E R k holding printout
  for E :: "'w env" and R :: reconciler and k :: key
    and holding :: "vmfr \<Rightarrow> VirtualMachine \<Rightarrow> 'w \<Rightarrow> bool" and printout :: string +
  fixes given_up :: "VirtualMachine \<Rightarrow> 'w \<Rightarrow> bool"
  assumes release: "holding v m w \<Longrightarrow> same_restore v u \<Longrightarrow> finalizerName \<notin> set (vmfr_Finalizers u) \<Longrightarrow>
      update_vmfr E u w = (g, w') \<Longrightarrow> (\<exists>y. g = Inr y) \<and> given_up m w'"
    and template: "holding v m w \<Longrightarrow> vm_Template m \<noteq> None"

definition unplugged :: "vmfr \<Rightarrow> VirtualMachine \<Rightarrow> VirtualMachine" where
  "unplugged v m = m\<lparr>vm_Template := map_option (unplug (volume_of v)) (vm_Template m)\<rparr>"

lemma unplug_fresh: "fresh n t \<Longrightarrow> unplug n t = t"
  by (auto simp: fresh_def unplug_def filter_id_conv)

lemma unplugged_unused: "unused v m \<Longrightarrow> unplugged v m = m"
  by (cases m) (auto simp: unused_def unplugged_def unplug_fresh)

lemma unplugged_plugged: "unused v m \<Longrightarrow> unplugged v (plugged v claim m) = m"
  by (cases m) (auto simp: unused_def unplugged_def plugged_def unplug_plug)

context healthy_deletion
begin

lemma healthy_unplug:
  assumes "holding v m w" and "claim_restore v claim"
  shows "holds (UnplugVolume E v m) w (\<lambda>r w'. r = Ran None \<and> holding v (unplugged v m) w')"
proof -
  have name: "GetVolumeName (vmfr_Name v) = Ran (volume_of v)" and src: "src_Snapshot (Source (vmfr_Spec v)) = None"
    using assms(2) by (simp_all add: claim_restore_def volume_of_def)
  obtain t where "vm_Template m = Some t" using template [OF assms(1)] by blast
  then show ?thesis
    unfolding UnplugVolume_def using assms(1)
    by (auto simp: name src unplugged_def intro!: holds_rules healthy_PatchVM split: sum.split)
qed

lemma healthy_unplug_cleanup:
  assumes "holding v m w" and "claim_restore v claim"
  shows "holds (unplug_cleanup E v) w (\<lambda>r w'. r = Ran () \<and> holding v (unplugged v m) w')"
  unfolding unplug_cleanup_def
  by (rule healthy_GetVM [OF assms(1)])
    (auto intro!: holds_bind [OF healthy_unplug] holds_return assms(2))

lemma healthy_ssh_cleanup:
  assumes "holding v m w" and "runs m vmi"
  shows "holds (ssh_cleanup E R v vmi) w (\<lambda>r w'. (\<exists>conn. r = Ran conn) \<and> holding v m w')"
  unfolding ssh_cleanup_def Let_def
  using assms
  by (auto simp: BuildCleanupCommand_def Let_def intro!: healthy_address healthy_getSSHPrivateKey healthy_ConnectSSH
      healthy_RunCommand holds_return)

lemma healthy_cleanup:
  assumes "holding v m w" and "claim_restore v claim"
  shows "holds (cleanup E R v) w (\<lambda>r w'. r = Ran () \<and> holding v (unplugged v m) w')"
proof -
  have close: "holds (do { close_conn E conn; State_Monad.return (Ran ()) }) w'
      (\<lambda>r w'. r = Ran () \<and> holding v (unplugged v m) w')" if "holding v (unplugged v m) w'" for conn w'
    using that by (auto simp: close_conn_def intro!: healthy_close holds_return split: option.split)
  show ?thesis
    unfolding cleanup_def
    by (rule healthy_GetVMI [OF assms(1)])
      (auto intro!: holds_bind [OF healthy_ssh_cleanup] holds_bind [OF healthy_unplug_cleanup] close assms(2))
qed

text \<open>One reconciliation of a restore that is being deleted: the volume is taken out, then the resource
  is given up.\<close>

lemma reconcile_deletion:
  assumes "holding v m w" and "claim_restore v claim" and "vmfr_DeletionTimestamp v \<noteq> None"
    and "finalizerName \<in> set (vmfr_Finalizers v)"
  shows "holds (Reconcile E R k) w (\<lambda>r w'. r = done_ok \<and> given_up (unplugged v m) w')"
proof -
  have released: "holds (remove_finalizer_loop E k maxRetries v) w' (\<lambda>r w''. r = done_ok \<and> given_up (unplugged v m) w'')"
    if "holding v (unplugged v m) w'" for w'
  proof -
    let ?u = "v\<lparr>vmfr_Finalizers := remove_finalizer E (vmfr_Finalizers v) finalizerName\<rparr>"
    have "same_restore v ?u" "finalizerName \<notin> set (vmfr_Finalizers ?u)" by (simp_all add: same_restore_def remove_set)
    note update = release [OF that this]
    have "remove_finalizer_loop E k (Suc 2) v = do {
        r \<leftarrow> UpdateVMFR E ?u;
        case r of Inr _ \<Rightarrow> State_Monad.return done_ok | Inl err \<Rightarrow> remove_finalizer_loop E k 2 ?u }"
      unfolding remove_finalizer_loop.simps by (simp add: maxRetries_def Let_def)
    moreover have "maxRetries = Suc 2" by (simp add: maxRetries_def)
    ultimately show ?thesis
      by (simp only:) (auto simp: UpdateVMFR_def intro!: holds_bind_call holds_return dest!: update)
  qed
  show ?thesis
    unfolding Reconcile_def
    by (rule healthy_GetVMFR [OF assms(1)])
      (use assms(3,4) in \<open>auto simp: reconcile_found_def contains_iff intro!: holds_bind [OF healthy_cleanup] assms(2) released\<close>)
qed

end

end
