(* ===== verification/Liveness.thy ===== *)
theory Liveness
  imports HealthyDeletion RestoreFunctional HelperOutput
begin

text \<open>
  The memory cluster as a healthy one, and the main liveness property: where the calls succeed, a
  restore is carried to its end in a fixed number of reconciliations.
\<close>

definition mem_holding :: "reconciler \<Rightarrow> key \<Rightarrow> string \<Rightarrow> vmfr \<Rightarrow> VirtualMachine \<Rightarrow> store \<Rightarrow> bool" where
  "mem_holding R k out v m w \<longleftrightarrow> st_vmfr w k = Some v \<and> vmfr_key v = k \<and>
     st_vm w (target_key v) = Some m \<and> vm_key m = target_key v \<and> vm_Template m \<noteq> None \<and>
     (\<exists>vmi. st_vmi w (target_key v) = Some vmi \<and> (\<exists>i \<in> set (vmi_Interfaces vmi). if_IP i \<noteq> '''')) \<and>
     (\<forall>pvc. src_PVC (Source (vmfr_Spec v)) = Some pvc \<longrightarrow> st_pvc w (vmfr_Namespace v, pvcs_Name pvc) \<noteq> None) \<and>
     (\<exists>s pem. st_secret w (getOperatorNamespace R, OperatorResourceName) = Some s \<and>
        sec_Data s SSHAuthPrivateKey = Some pem \<and> pem \<noteq> '''') \<and>
     st_attaches w \<and> st_ssh_up w \<and> st_exit w = None \<and> st_output w = out"

lemma mem_runs:
  assumes "vm_Template m \<noteq> None" and "\<exists>i \<in> set (vmi_Interfaces vmi). if_IP i \<noteq> ''''"
  shows "runs m (vmi\<lparr>vmi_VolumeStatus := map (reported_volume True) (volumes_of (Some m))\<rparr>)"
  using assms
  by (auto simp: runs_def volumes_of_def volumes_of_vm_def reported_volume_def attached_def image_image
      split: option.splits)

lemma target_key_same: "same_restore v u \<Longrightarrow> target_key u = target_key v"
  by (rule same_restore_keys)

lemma mem_patch_holding:
  assumes "mem_holding R k out v m w" and "same_restore v new"
    and "patch_vmfr_status mem_env old new w = (g, w')"
  shows "\<exists>u. g = Inr u \<and> mem_holding R k out u m w' \<and> echoes new u \<and> vmfr_Finalizers u = vmfr_Finalizers new \<and>
    vmfr_DeletionTimestamp u = vmfr_DeletionTimestamp new"
proof -
  have key: "vmfr_key new = k" and target: "target_key (with_status new stored_times) = target_key v"
    and "target_key new = target_key v"
    using assms(1,2) by (auto simp: mem_holding_def vmfr_key_def same_restore_def target_key_def)
  with assms show ?thesis
    by (auto simp: mem_env_def mem_patch_status_def mem_holding_def Let_def echoes_def same_restore_def
        status_agrees_stored_times vmfr_key_def)
qed

interpretation mem_healthy: healthy_cluster mem_env R k "mem_holding R k out" out for R k out
proof (unfold_locales, goal_cases)
  case (2 v m w new old g w')
  then show ?case by (rule mem_patch_holding)
next
  case (5 v m w gi w')
  then show ?case
    by (auto simp: mem_env_def mem_get_vmi_def lookup_def mem_holding_def intro!: mem_runs)
qed (auto simp: mem_env_def mem_get_vmfr_def mem_patch_vm_def lookup_def mem_holding_def vm_key_def
    split: option.splits)

definition mem_given_up :: "key \<Rightarrow> VirtualMachine \<Rightarrow> store \<Rightarrow> bool" where
  "mem_given_up k m w \<longleftrightarrow> (\<exists>u. st_vmfr w k = Some u \<and> finalizerName \<notin> set (vmfr_Finalizers u)) \<and>
     st_vm w (vm_key m) = Some m"

interpretation mem_deletion: healthy_deletion mem_env R k "mem_holding R k out" out "mem_given_up k" for R k out
proof (unfold_locales, goal_cases)
  case (1 v m w u g w')
  then have "vmfr_key u = k" by (simp add: mem_holding_def same_restore_def vmfr_key_def)
  with 1 show ?case
    by (auto simp: mem_holding_def mem_given_up_def mem_env_def mem_update_vmfr_def)
qed (simp add: mem_holding_def)

subsection \<open>Properties\<close>

lemma fresh_stage:
  assumes "vmfr_Status v = empty_status" and "vmfr_DeletionTimestamp v = None" and "finalizerName \<in> set (vmfr_Finalizers v)"
  shows "stage out v 0 v"
  using assms by (simp add: stage_def in_work_def stage_fields_def stage_phase_def empty_status_def)

text \<open>The last stage, after a guest helper that reported a number of files.\<close>

lemma succeeded_stage:
  assumes "stage out v 6 u" and "SourcePath (vmfr_Spec v) \<noteq> ''''"
    and "out = before @ [newline] @ report_line files @ cr @ [newline] @ rest"
    and "\<forall>l \<in> set (Split before newline). \<not> reports_count l"
    and "0 \<le> files" and "files \<le> int32_max" and "cr = [] \<or> cr = [CHR 0x0D]"
  shows "same_restore v u \<and> Phase (vmfr_Status u) = RestorePhaseSucceeded \<and>
    (\<exists>count. RestoredFilesCount (vmfr_Status u) = Some count \<and> sint count = files)"
proof -
  have "int32_min \<le> files" using assms(5) by (simp add: int32_min_def)
  from ParseRestoredFileCount_report [OF assms(4) this assms(6,7), of rest] assms(3,5)
  have "sint (restored_count out) = files" by (simp add: restored_count_def)
  with assms(1,2) show ?thesis by (simp add: stage_def in_work_def stage_fields_def stage_phase_def)
qed

text \<open>The scenario's cluster holds its restore, with any path and any output of the guest helper.\<close>

definition demo_of :: "string \<Rightarrow> vmfr" where
  "demo_of path = demo_restore\<lparr>vmfr_Spec := demo_spec\<lparr>SourcePath := path\<rparr>\<rparr>"

definition demo_printing :: "string \<Rightarrow> string \<Rightarrow> store" where
  "demo_printing path out = (demo_world (demo_of path) demo_vm)\<lparr>st_output := out\<rparr>"

lemma demo_of_fields:
  "vmfr_key (demo_of path) = demo_key" "target_key (demo_of path) = (''ns'', ''vm1'')"
  "vmfr_Namespace (demo_of path) = ''ns''" "SourcePath (vmfr_Spec (demo_of path)) = path"
  "src_PVC (Source (vmfr_Spec (demo_of path))) = Some \<lparr>pvcs_Name = ''bkp'', pvcs_Namespace = ''''\<rparr>"
  "vmfr_Status (demo_of path) = empty_status" "vmfr_DeletionTimestamp (demo_of path) = None"
  "finalizerName \<in> set (vmfr_Finalizers (demo_of path))"
  by (simp_all add: demo_of_def vmfr_key_def demo_key_def target_key_def demo_restore_def demo_spec_def)

lemma demo_held: "mem_holding demo_reconciler demo_key out (demo_of path) demo_vm (demo_printing path out)"
  unfolding mem_holding_def demo_of_fields
  by (simp add: demo_printing_def demo_world_def vm_key_def demo_vm_def demo_vmi_def demo_reconciler_def
      getOperatorNamespace_def demo_secret_def demo_of_fields)

lemma demo_restorable: "claim_restore (demo_of path) ''bkp''" "unused (demo_of path) demo_vm"
  by (simp_all add: claim_restore_def unused_def demo_of_def demo_restore_def demo_spec_def demo_vm_def volume_of_def
      fresh_def no_other_restore_def HasSuffix_def)

lemma demo_holds:
  "mem_holding R demo_key out u m w \<Longrightarrow> same_restore (demo_of path) u \<Longrightarrow>
    st_vmfr w demo_key = Some u \<and> st_vm w (''ns'', ''vm1'') = Some m"
  using target_key_same [of "demo_of path" u] by (simp add: mem_holding_def demo_of_fields)

text \<open>C14. In a healthy cluster, six reconciliations carry a new restore of a claim to its end: each asks for
  the next one at once, the restore succeeds with the number of files of the first report in the output of the
  guest helper, among whatever other messages, and the target machine is again as it was before.\<close>

theorem healthy_restore_succeeds:
  assumes "healthy_cluster E R k holding out" and "holding v m w"
    and "vmfr_Status v = empty_status" and "vmfr_DeletionTimestamp v = None"
    and "finalizerName \<in> set (vmfr_Finalizers v)" and "claim_restore v claim" and "unused v m"
    and "SourcePath (vmfr_Spec v) \<noteq> ''''"
    and "out = before @ [newline] @ report_line files @ cr @ [newline] @ rest"
    and "\<forall>l \<in> set (Split before newline). \<not> reports_count l"
    and "0 \<le> files" and "files \<le> int32_max" and "cr = [] \<or> cr = [CHR 0x0D]"
  shows "(\<forall>i < 6. answer (Reconcile E R k) (reconciles E R k i w) = requeue_now) \<and>
    (\<exists>u count. holding u m (reconciles E R k 6 w) \<and> same_restore v u \<and>
       Phase (vmfr_Status u) = RestorePhaseSucceeded \<and> RestoredFilesCount (vmfr_Status u) = Some count \<and>
       sint count = files)"
proof -
  from healthy_cluster.reconciles_stages [OF assms(1,2) fresh_stage [OF assms(3-5)] assms(6,7), of 6] assms(8)
  obtain u where "holding u m (reconciles E R k 6 w)" "stage out v 6 u"
    and "\<forall>i < 6. answer (Reconcile E R k) (reconciles E R k i w) = requeue_now"
    by (auto simp: machine_at_def)
  with succeeded_stage [OF _ assms(8-13)] show ?thesis by blast
qed

theorem healthy_restore_succeeds_witness:
  "let w = reconciles mem_env demo_reconciler demo_key 6 (demo_printing ''/etc'' linux_output) in
   \<exists>u count. st_vmfr w demo_key = Some u \<and> Phase (vmfr_Status u) = RestorePhaseSucceeded \<and>
     RestoredFilesCount (vmfr_Status u) = Some count \<and> sint count = 3 \<and> st_vm w (''ns'', ''vm1'') = Some demo_vm"
proof -
  have files: "0 \<le> (3::int)" "3 \<le> int32_max" by (simp_all add: int32_max_def)
  have path: "SourcePath (vmfr_Spec (demo_of ''/etc'')) \<noteq> ''''" by (simp add: demo_of_fields)
  have out: "linux_output = linux_preamble @ [newline] @ report_line 3 @ [] @ [newline] @ linux_ending"
    by (simp add: linux_output_def)
  from healthy_restore_succeeds [OF mem_healthy.healthy_cluster_axioms demo_held demo_of_fields(6-8) demo_restorable
      path out linux_preamble_lines files disjI1 [OF refl]]
  show ?thesis
    unfolding Let_def using demo_holds by blast
qed

text \<open>C16. A manual restore stops after five reconciliations with the volume ready for the user: the claim is
  plugged into the machine, which is otherwise as before, and stays there.\<close>

theorem healthy_manual_restore_is_ready:
  assumes "healthy_cluster E R k holding out" and "holding v m w"
    and "vmfr_Status v = empty_status" and "vmfr_DeletionTimestamp v = None"
    and "finalizerName \<in> set (vmfr_Finalizers v)" and "claim_restore v claim" and "unused v m"
    and "SourcePath (vmfr_Spec v) = ''''"
  shows "(\<forall>i < 5. answer (Reconcile E R k) (reconciles E R k i w) = requeue_now) \<and>
    (\<exists>u. holding u (plugged v claim m) (reconciles E R k 5 w) \<and> same_restore v u \<and>
       Phase (vmfr_Status u) = RestorePhaseVolumeReady \<and> MountPath (vmfr_Status u) \<noteq> '''')"
  using healthy_cluster.reconciles_stages [OF assms(1,2) fresh_stage [OF assms(3-5)] assms(6,7), of 5] assms(8)
  by (auto simp: machine_at_def stage_def in_work_def stage_fields_def stage_phase_def)

theorem healthy_manual_restore_is_ready_witness:
  "let w = reconciles mem_env demo_reconciler demo_key 5 (demo_printing '''' ''ok'') in
   \<exists>u. st_vmfr w demo_key = Some u \<and> Phase (vmfr_Status u) = RestorePhaseVolumeReady \<and>
     st_vm w (''ns'', ''vm1'') = Some (plugged (demo_of '''') ''bkp'' demo_vm)"
  using healthy_manual_restore_is_ready [OF mem_healthy.healthy_cluster_axioms demo_held demo_of_fields(6-8)
      demo_restorable demo_of_fields(4)]
  unfolding Let_def using demo_holds by blast

text \<open>C17. A restore of a claim can be deleted at any time: in a healthy cluster one reconciliation takes its
  volume out of the machine, if it is there, gives the resource up and asks for nothing more.
  The machine is left as it was before the restore.\<close>

theorem healthy_deletion_leaves_no_trace:
  assumes "healthy_deletion E R k holding out given_up" and "holding v m' w"
    and "vmfr_DeletionTimestamp v \<noteq> None" and "finalizerName \<in> set (vmfr_Finalizers v)"
    and "claim_restore v claim" and "unused v m" and "m' \<in> {m, plugged v claim m}"
  shows "answer (Reconcile E R k) w = done_ok \<and> given_up m (after (Reconcile E R k) w)"
proof -
  have "unplugged v m' = m" using assms(6,7) by (auto simp: unplugged_unused unplugged_plugged)
  with holds_run [OF healthy_deletion.reconcile_deletion [OF assms(1,2,5,3,4)]] show ?thesis by simp
qed

theorem healthy_deletion_leaves_no_trace_witness:
  "let v = (demo_of ''/etc'')\<lparr>vmfr_DeletionTimestamp := Some 7\<rparr>;
       w = after (Reconcile mem_env demo_reconciler demo_key)
         ((demo_world v (plugged v ''bkp'' demo_vm))\<lparr>st_output := ''ok''\<rparr>) in
   st_vm w (''ns'', ''vm1'') = Some demo_vm \<and> plugged v ''bkp'' demo_vm \<noteq> demo_vm \<and>
   (\<exists>u. st_vmfr w demo_key = Some u \<and> finalizerName \<notin> set (vmfr_Finalizers u))"
proof -
  let ?v = "(demo_of ''/etc'')\<lparr>vmfr_DeletionTimestamp := Some 7\<rparr>"
  let ?w = "(demo_world ?v (plugged ?v ''bkp'' demo_vm))\<lparr>st_output := ''ok''\<rparr>"
  have same: "same_restore (demo_of ''/etc'') ?v" by (simp add: same_restore_def)
  have differs: "plugged ?v ''bkp'' demo_vm \<noteq> demo_vm" by (simp add: plugged_def demo_vm_def plug_def)
  have held: "mem_holding demo_reconciler demo_key ''ok'' ?v (plugged ?v ''bkp'' demo_vm) ?w"
    using demo_of_fields [of "''/etc''"] target_key_same [OF same]
    by (simp add: mem_holding_def demo_world_def vmfr_key_def plugged_def vm_key_def demo_vm_def demo_vmi_def
        demo_reconciler_def getOperatorNamespace_def demo_secret_def)
  have deleted: "vmfr_DeletionTimestamp ?v \<noteq> None" and kept: "finalizerName \<in> set (vmfr_Finalizers ?v)"
    using demo_of_fields(8) by simp_all
  note restorable = claim_restore_same [OF same demo_restorable(1)]
    unused_same [OF same, THEN iffD2, OF demo_restorable(2)]
  have "mem_given_up demo_key demo_vm (after (Reconcile mem_env demo_reconciler demo_key) ?w)"
    by (rule conjunct2 [OF healthy_deletion_leaves_no_trace [where holding = "mem_holding demo_reconciler demo_key ''ok''",
        OF mem_deletion.healthy_deletion_axioms held deleted kept restorable]]) simp
  with differs show ?thesis
    by (simp add: mem_given_up_def vm_key_def Let_def) (simp add: demo_vm_def)
qed

end
