(* ===== verification/HealthySnapshot.thy ===== *)
theory HealthySnapshot
  imports Healthy
begin

text \<open>
  Restores of snapshots where nothing goes wrong. A snapshot is first cloned into a data volume, which takes a while: the
  handler asks for the data volume at every reconciliation and comes back later until it is ready. \<open>hold d v m w\<close> is
  \<open>holding\<close> of a healthy cluster with the state \<open>d\<close> of the data volume: \<open>None\<close> when there is none, \<open>Some n\<close> when it will
  be seen \<open>n\<close> times before it is ready; a new one will be seen \<open>delay\<close> times. The volume mode of the snapshot
  is only looked up to be copied, and those reads may fail.
\<close>

definition snapshot_restore :: "vmfr \<Rightarrow> VolumeSnapshotSource \<Rightarrow> bool" where
  "snapshot_restore v snap \<longleftrightarrow> vmfr_Name v \<noteq> '''' \<and> src_PVC (Source (vmfr_Spec v)) = None \<and>
     src_Snapshot (Source (vmfr_Spec v)) = Some snap \<and> src_Remote (Source (vmfr_Spec v)) = None"

definition snapshot_key :: "vmfr \<Rightarrow> VolumeSnapshotSource \<Rightarrow> key" where
  "snapshot_key v snap = (if vss_Namespace snap = '''' then vmfr_Namespace v else vss_Namespace snap, vss_Name snap)"

abbreviation data_volume_key :: "vmfr \<Rightarrow> key" where
  "data_volume_key v \<equiv> (vmfr_Namespace v, volume_of v)"

text \<open>Reconciliations one after the other, with their answers.\<close>

fun follows :: "'w env \<Rightarrow> reconciler \<Rightarrow> key \<Rightarrow> outcome list \<Rightarrow> 'w \<Rightarrow> 'w \<Rightarrow> bool" where
  "follows E R k [] w w' \<longleftrightarrow> w' = w"
| "follows E R k (r # rs) w w' \<longleftrightarrow> answer (Reconcile E R k) w = r \<and> follows E R k rs (after (Reconcile E R k) w) w'"

lemma follows_append: "follows E R k (rs @ ss) w w'' \<longleftrightarrow> (\<exists>w'. follows E R k rs w w' \<and> follows E R k ss w' w'')"
  by (induction rs arbitrary: w) auto

lemma follows_step: "holds (Reconcile E R k) w (\<lambda>r w'. r = a \<and> P w') \<Longrightarrow> \<exists>w'. follows E R k [a] w w' \<and> P w'"
  by (drule holds_run) simp

locale healthy_snapshots =
  fixes E :: "'w env" and R :: reconciler and k :: key
    and hold :: "nat option \<Rightarrow> vmfr \<Rightarrow> VirtualMachine \<Rightarrow> 'w \<Rightarrow> bool" and printout :: string and delay :: nat
  assumes cluster: "healthy_cluster E R k (hold d) printout"
    and gets_source: "hold d v m w \<Longrightarrow> src_Snapshot (Source (vmfr_Spec v)) = Some snap \<Longrightarrow>
      get_snapshot E (snapshot_key v snap) w = (g, w') \<Longrightarrow> (\<exists>y. g = Inr y) \<and> hold d v m w'"
    and reads_snapshot: "hold d v m w \<Longrightarrow> read_snapshot E key w = (rs, w') \<Longrightarrow> hold d v m w'"
    and reads_content: "hold d v m w \<Longrightarrow> read_content E name w = (rc, w') \<Longrightarrow> hold d v m w'"
    and reads_none: "hold None v m w \<Longrightarrow> read_dv E (data_volume_key v) w = (dv, w') \<Longrightarrow>
      (\<exists>err. dv = Inl err \<and> IsNotFound err) \<and> hold None v m w'"
    and reads_waiting: "hold (Some (Suc n)) v m w \<Longrightarrow> read_dv E (data_volume_key v) w = (dv, w') \<Longrightarrow>
      (\<exists>y. dv = Inr y \<and> dv_Phase y \<noteq> cdi_Succeeded) \<and> hold (Some n) v m w'"
    and reads_ready: "hold (Some 0) v m w \<Longrightarrow> read_dv E (data_volume_key v) w = (dv, w') \<Longrightarrow>
      (\<exists>y. dv = Inr y \<and> dv_Phase y = cdi_Succeeded) \<and> hold (Some 0) v m w'"
    and creates: "hold None v m w \<Longrightarrow> create_dv E (new_data_volume v (volume_of v) sk mode) w = (c, w') \<Longrightarrow>
      (\<exists>y. c = Inr y) \<and> hold (Some delay) v m w'"
    and deletes: "hold (Some n) v m w \<Longrightarrow> delete_dv E (data_volume_key v) w = (c, w') \<Longrightarrow>
      (\<exists>y. c = Inr y) \<and> hold None v m w'"

sublocale healthy_snapshots \<subseteq> at: healthy_cluster E R k "hold d" printout for d
  by (rule cluster)

context healthy_snapshots
begin

text \<open>How often the data volume will be seen before it is ready.\<close>

definition still :: "nat option \<Rightarrow> nat" where
  "still d = (case d of None \<Rightarrow> delay | Some n \<Rightarrow> n)"

definition seen :: "nat \<Rightarrow> vmfr \<Rightarrow> VirtualMachine \<Rightarrow> goerror + VolumeSource \<Rightarrow> 'w \<Rightarrow> bool" where
  "seen n v m r w' \<longleftrightarrow> (case n of
     0 \<Rightarrow> r = Inr (PersistentVolumeClaim (volume_of v) True) \<and> hold (Some 0) v m w'
   | Suc n \<Rightarrow> (\<exists>msg. r = Inl (NewTransientError msg)) \<and> hold (Some n) v m w')"

lemma snap_GetSnapshot:
  "hold d v m w \<Longrightarrow> src_Snapshot (Source (vmfr_Spec v)) = Some snap \<Longrightarrow> (\<And>y w'. hold d v m w' \<Longrightarrow> holds (f (Inr y)) w' Q) \<Longrightarrow>
    holds (State_Monad.bind (GetSnapshot E (snapshot_key v snap)) f) w Q"
  unfolding GetSnapshot_def by (rule holds_bind_call) (blast dest: gets_source)

lemma snap_ReadSnapshot:
  "hold d v m w \<Longrightarrow> (\<And>r w'. hold d v m w' \<Longrightarrow> holds (f r) w' Q) \<Longrightarrow> holds (State_Monad.bind (ReadSnapshot E key) f) w Q"
  unfolding ReadSnapshot_def by (rule holds_bind_call) (blast dest: reads_snapshot)

lemma snap_ReadContent:
  "hold d v m w \<Longrightarrow> (\<And>r w'. hold d v m w' \<Longrightarrow> holds (f r) w' Q) \<Longrightarrow> holds (State_Monad.bind (ReadContent E name) f) w Q"
  unfolding ReadContent_def by (rule holds_bind_call) (blast dest: reads_content)

lemma snap_ReadDV:
  assumes "hold d v m w"
    and "\<And>err w'. d = None \<Longrightarrow> IsNotFound err \<Longrightarrow> hold None v m w' \<Longrightarrow> holds (f (Inl err)) w' Q"
    and "\<And>y n w'. d = Some (Suc n) \<Longrightarrow> dv_Phase y \<noteq> cdi_Succeeded \<Longrightarrow> hold (Some n) v m w' \<Longrightarrow> holds (f (Inr y)) w' Q"
    and "\<And>y w'. d = Some 0 \<Longrightarrow> dv_Phase y = cdi_Succeeded \<Longrightarrow> hold (Some 0) v m w' \<Longrightarrow> holds (f (Inr y)) w' Q"
  shows "holds (State_Monad.bind (ReadDV E (data_volume_key v)) f) w Q"
  unfolding ReadDV_def
proof (rule holds_bind_call)
  fix r w'
  assume read: "read_dv E (data_volume_key v) w = (r, w')"
  show "holds (f r) w' Q"
  proof (cases d)
    case None
    with reads_none [OF _ read] assms(1) obtain err where "r = Inl err" "IsNotFound err" "hold None v m w'" by blast
    with assms(2) [OF None] show ?thesis by simp
  next
    case d: (Some n)
    show ?thesis
    proof (cases n)
      case 0
      with reads_ready [OF _ read] assms(1) d obtain y where "r = Inr y" "dv_Phase y = cdi_Succeeded" "hold (Some 0) v m w'" by blast
      with assms(4) d 0 show ?thesis by simp
    next
      case (Suc n')
      with reads_waiting [OF _ read] assms(1) d obtain y where "r = Inr y" "dv_Phase y \<noteq> cdi_Succeeded" "hold (Some n') v m w'" by blast
      with assms(3) d Suc show ?thesis by simp
    qed
  qed
qed

lemma snap_CreateDV:
  "hold None v m w \<Longrightarrow> (\<And>y w'. hold (Some delay) v m w' \<Longrightarrow> holds (f (Inr y)) w' Q) \<Longrightarrow>
    holds (State_Monad.bind (CreateDV E (new_data_volume v (volume_of v) sk mode)) f) w Q"
  unfolding CreateDV_def by (rule holds_bind_call) (blast dest: creates)

lemma snap_DeleteDV:
  "hold (Some n) v m w \<Longrightarrow> (\<And>y w'. hold None v m w' \<Longrightarrow> holds (f (Inr y)) w' Q) \<Longrightarrow>
    holds (State_Monad.bind (DeleteDV E (data_volume_key v)) f) w Q"
  unfolding DeleteDV_def by (rule holds_bind_call) (blast dest: deletes)

subsection \<open>The data volume\<close>

lemma mode_kept:
  assumes "hold d v m w"
  shows "holds (getSnapshotSourceVolumeMode E n ns) w (\<lambda>_ w'. hold d v m w')"
  unfolding getSnapshotSourceVolumeMode_def
  by (rule snap_ReadSnapshot [OF assms])
    (auto intro!: holds_return snap_ReadContent split: sum.split option.split list.split)

lemma volume_source_seen:
  assumes "hold d v m w" and "snapshot_restore v snap"
  shows "holds (volume_source E v (volume_of v)) w (seen (still d) v m)"
proof -
  let ?settle = "\<lambda>dv. if dv_Phase dv \<noteq> cdi_Succeeded
        then Inl (NewTransientError (''DataVolume is provisioning (phase: '' @ dv_Phase dv @ ''), will retry''))
        else Inr (PersistentVolumeClaim (volume_of v) True)"
  have again: "holds (do { r \<leftarrow> ReadDV E (data_volume_key v);
      State_Monad.return (case r of Inl err \<Rightarrow> Inl (Wrapf msg err) | Inr dataVolume \<Rightarrow> ?settle dataVolume) }) w'
      (seen delay v m)" if "hold (Some delay) v m w'" for msg w'
    by (rule snap_ReadDV [OF that]) (auto simp: seen_def still_def intro!: holds_return)
  have created: "holds (do {
      c \<leftarrow> CreateDV E (new_data_volume v (volume_of v) sk mode);
      case (case c of Inl createErr \<Rightarrow> if \<not> IsAlreadyExists createErr then Some createErr else None | Inr _ \<Rightarrow> None) of
        Some createErr \<Rightarrow> State_Monad.return (Inl (Wrapf msg createErr))
      | None \<Rightarrow> do { r \<leftarrow> ReadDV E (data_volume_key v);
          State_Monad.return (case r of Inl err \<Rightarrow> Inl (Wrapf msg' err) | Inr dataVolume \<Rightarrow> ?settle dataVolume) } }) w' (seen delay v m)"
    if "hold None v m w'" for sk mode msg msg' w'
    by (rule snap_CreateDV [OF that]) (simp add: again)
  have source: "volume_source E v (volume_of v) = snapshot_volume_source E v (volume_of v) snap"
    using assms(2) by (simp add: volume_source_def snapshot_restore_def Let_def)
  show ?thesis
    unfolding source snapshot_volume_source_def Let_def
    by (rule snap_ReadDV [OF assms(1)])
      (auto simp: seen_def still_def intro!: holds_return holds_bind [OF mode_kept] created)
qed

subsection \<open>The stages\<close>

lemma snapshot_init:
  assumes "hold None u m w" and "stage printout v 0 u" and "snapshot_restore u snap"
  shows "holds (handleInitPhase E R u) w (at.arrives None v (Suc 0) m)"
proof -
  have one: "source_count (Source (vmfr_Spec u)) = 1" and snap: "src_Snapshot (Source (vmfr_Spec u)) = Some snap"
    "src_PVC (Source (vmfr_Spec u)) = None"
    using assms(3) by (simp_all add: snapshot_restore_def source_count_def)
  have source: "holds (init_source E R u vmi) w' (at.arrives None v (Suc 0) m)" if "hold None u m w'" for vmi w'
    unfolding init_source_def Let_def snap option.case snapshot_key_def [symmetric]
    by (rule snap_GetSnapshot [OF that snap(1)]) (simp add: at.accept_stage [OF _ assms(2)])
  show ?thesis
    unfolding handleInitPhase_def Let_def
    using assms(1) one by (auto intro!: at.healthy_GetVM at.healthy_GetVMI source)
qed

text \<open>The machine has no restore volume: the handler gets as far as the data volume.\<close>

lemma snapshot_HotplugVolume:
  assumes "hold d v m w" and "snapshot_restore v snap" and "unused v m"
  shows "holds (HotplugVolume E v m) w (\<lambda>r w'. case still d of
      0 \<Rightarrow> r = Ran None \<and> hold (Some 0) v (plugged v (volume_of v) m) w'
    | Suc n \<Rightarrow> (\<exists>msg. r = Ran (Some (NewTransientError msg))) \<and> hold (Some n) v m w')"
proof -
  obtain t where t: "vm_Template m = Some t" "fresh (volume_of v) t" "no_other_restore (volume_of v) t"
    using assms(3) by (auto simp: unused_def)
  have name: "GetVolumeName (vmfr_Name v) = Ran (volume_of v)"
    using assms(2) by (simp add: snapshot_restore_def volume_of_def)
  have "holds (case r of
        Inl err \<Rightarrow> State_Monad.return (Ran (Some err))
      | Inr src \<Rightarrow> do {
          r \<leftarrow> PatchVM E m (m\<lparr>vm_Template := Some (plug (volume_of v) src t)\<rparr>);
          State_Monad.return (Ran (case r of Inl err \<Rightarrow> Some (Wrapf msg err) | Inr _ \<Rightarrow> None)) }) w'
      (\<lambda>r w'. case still d of
        0 \<Rightarrow> r = Ran None \<and> hold (Some 0) v (m\<lparr>vm_Template := Some (plug (volume_of v) (PersistentVolumeClaim (volume_of v) True) t)\<rparr>) w'
      | Suc n \<Rightarrow> (\<exists>msg. r = Ran (Some (NewTransientError msg))) \<and> hold (Some n) v m w')"
    if "seen (still d) v m r w'" for r w' msg
    using that by (auto simp: seen_def split: nat.splits intro!: holds_return at.healthy_PatchVM)
  note run = holds_bind [OF volume_source_seen [OF assms(1,2)] this]
  have plugged: "plugged v (volume_of v) m = m\<lparr>vm_Template := Some (plug (volume_of v) (PersistentVolumeClaim (volume_of v) True) t)\<rparr>"
    by (simp add: plugged_def t)
  show ?thesis
    unfolding HotplugVolume_def plugged
    using t fresh_iff [of "volume_of v" t] no_other_restore_iff [of "volume_of v" t]
    by (auto simp: name intro!: run)
qed

lemma snapshot_hotplug:
  assumes "hold d u m w" and "stage printout v (Suc 0) u" and "snapshot_restore u snap" and "unused u m"
  shows "holds (handleHotpluggingPhase E R u) w (\<lambda>r w'. case still d of
      0 \<Rightarrow> at.arrives (Some 0) v 2 (plugged u (volume_of u) m) r w'
    | Suc n \<Rightarrow> r = requeue_after (5 * second) \<and> hold (Some n) u m w')"
proof -
  have name: "GetVolumeName (vmfr_Name u) = Ran (volume_of u)"
    using assms(3) by (simp add: snapshot_restore_def volume_of_def)
  show ?thesis
    unfolding handleHotpluggingPhase_def
    by (rule at.healthy_GetVM [OF assms(1)], simp, rule holds_bind [OF snapshot_HotplugVolume [OF _ assms(3,4)]], assumption)
      (auto simp: name NewTransientError_def split: nat.splits intro!: holds_return at.plugged_stage [OF _ assms(2)])
qed

lemma snapshot_cleanup:
  assumes "hold (Some n) u (plugged u (volume_of u) m) w" and "stage printout v 5 u" and "snapshot_restore u snap" and "unused u m"
    and "SourcePath (vmfr_Spec v) \<noteq> ''''"
  shows "holds (handleCleanupPhase E R u) w (at.arrives None v 6 m)"
proof -
  have name: "GetVolumeName (vmfr_Name u) = Ran (volume_of u)" and src: "src_Snapshot (Source (vmfr_Spec u)) = Some snap"
    using assms(3) by (simp_all add: snapshot_restore_def volume_of_def)
  obtain t where t: "vm_Template m = Some t" "fresh (volume_of u) t" using assms(4) by (auto simp: unused_def)
  have m: "m\<lparr>vm_Template := Some t\<rparr> = m" using t(1) by simp
  have unplug: "holds (UnplugVolume E u (plugged u (volume_of u) m)) w' (\<lambda>r w''. r = Ran None \<and> hold None u m w'')"
    if "hold (Some n) u (plugged u (volume_of u) m) w'" for w'
  proof -
    have "holds (UnplugVolume E u (plugged u (volume_of u) m)) w' (\<lambda>r w''. r = Ran None \<and> hold None u (m\<lparr>vm_Template := Some t\<rparr>) w'')"
      unfolding UnplugVolume_def using that t
      by (auto simp: name src plugged_def unplug_plug intro!: holds_return at.healthy_PatchVM snap_DeleteDV)
    then show ?thesis by (simp only: m)
  qed
  show ?thesis
    unfolding handleCleanupPhase_def
    by (rule at.healthy_GetVM [OF assms(1)], simp, rule holds_bind [OF unplug], assumption)
      (auto simp: name split del: if_split intro!: at.unplugged_stage [OF _ assms(2,4,5)])
qed

text \<open>One reconciliation in each stage; while the data volume is not ready, the restore stays where it is.\<close>

lemma snapshot_reconcile:
  assumes "hold d u m' w" and "stage printout v n u" and "snapshot_restore v snap" and "unused v m"
    and "n \<le> 4 \<or> n = 5 \<and> SourcePath (vmfr_Spec v) \<noteq> ''''"
    and "m' = machine_at v (volume_of v) m n" and "n = 0 \<longrightarrow> d = None" and "2 \<le> n \<longrightarrow> d = Some 0"
  shows "holds (Reconcile E R k) w (\<lambda>r w'.
    if n = 1 \<and> 0 < still d then r = requeue_after (5 * second) \<and> hold (Some (still d - 1)) u m w'
    else at.arrives (if n = 0 \<or> n = 5 then None else Some 0) v (Suc n) (machine_at v (volume_of v) m (Suc n)) r w')"
proof -
  have same: "same_restore v u" using assms(2) by (simp add: stage_def in_work_def)
  have snap: "snapshot_restore u snap" using assms(3) same by (simp add: snapshot_restore_def same_restore_def)
  then have named: "vmfr_Name u \<noteq> ''''" by (simp add: snapshot_restore_def)
  note u = snap unused_same [OF same, THEN iffD2, OF assms(4)] plugged_same [OF same, of _ m] same_restore_keys(2) [OF same]
  note start = at.reconcile_stage [OF assms(1,2)]
  note stages = stage_phase_def getPhaseHandler_def machine_at_def
  consider "n = 0" | "n = 1" | "n = 2" | "n = 3" | "n = 4" | "n = 5" "SourcePath (vmfr_Spec v) \<noteq> ''''"
    using assms(5) by linarith
  then show ?thesis
  proof cases
    case 1
    with assms u snapshot_init [of u m _ v snap] show ?thesis by (auto intro!: start simp: stages)
  next
    case 2
    note here = assms u snapshot_hotplug [of d u m _ v snap]
    show ?thesis
    proof (cases "still d")
      case 0
      with here 2 show ?thesis by (auto intro!: start simp: stages numeral_2_eq_2)
    next
      case (Suc j)
      with here 2 show ?thesis by (auto intro!: start simp: stages)
    qed
  next
    case 3
    with assms u named at.attachment_stage [of "Some 0" u "volume_of u" m _ v] show ?thesis
      by (auto intro!: start simp: stages eval_nat_numeral)
  next
    case 4
    with assms at.connecting_stage [of "Some 0" u _ _ v] show ?thesis
      by (auto intro!: start simp: stages eval_nat_numeral)
  next
    case 5
    with assms named at.restoring_stage [of "Some 0" u _ _ v] show ?thesis
      by (auto intro!: start simp: stages eval_nat_numeral)
  next
    case 6
    with assms u snapshot_cleanup [of 0 u m _ v snap] show ?thesis
      by (auto intro!: start simp: stages eval_nat_numeral)
  qed
qed

subsection \<open>The whole run\<close>

lemma snapshot_waits:
  assumes "hold d u m w" and "stage printout v (Suc 0) u" and "snapshot_restore v snap" and "unused v m" and "still d = n"
  shows "\<exists>w' d'. follows E R k (replicate n (requeue_after (5 * second))) w w' \<and> hold d' u m w' \<and> still d' = 0"
  using assms(1,5)
proof (induction n arbitrary: d w)
  case (Suc n)
  have "holds (Reconcile E R k) w (\<lambda>r w'. r = requeue_after (5 * second) \<and> hold (Some n) u m w')"
    by (rule holds_weaken [OF snapshot_reconcile [OF Suc.prems(1) assms(2-4)]])
      (use Suc.prems(2) in \<open>auto simp: machine_at_def\<close>)
  then obtain w1 where "follows E R k [requeue_after (5 * second)] w w1" and "hold (Some n) u m w1"
    by (blast dest: follows_step)
  moreover from Suc.IH [OF this(2)] obtain w' d' where "follows E R k (replicate n (requeue_after (5 * second))) w1 w'"
    "hold d' u m w'" "still d' = 0" by (auto simp: still_def)
  ultimately show ?case by (auto simp: follows_append)
qed auto

lemma snapshot_moves:
  assumes "hold d u (machine_at v (volume_of v) m n) w" and "stage printout v n u" and "snapshot_restore v snap" and "unused v m"
    and "n \<le> 4 \<or> n = 5 \<and> SourcePath (vmfr_Spec v) \<noteq> ''''" and "n = 0 \<longrightarrow> d = None" and "n = 1 \<longrightarrow> still d = 0"
    and "2 \<le> n \<longrightarrow> d = Some 0"
  shows "\<exists>w' u'. follows E R k [requeue_now] w w' \<and>
    hold (if n = 0 \<or> n = 5 then None else Some 0) u' (machine_at v (volume_of v) m (Suc n)) w' \<and> stage printout v (Suc n) u'"
proof -
  let ?P = "\<lambda>w'. \<exists>u'. hold (if n = 0 \<or> n = 5 then None else Some 0) u' (machine_at v (volume_of v) m (Suc n)) w' \<and>
    stage printout v (Suc n) u'"
  have "holds (Reconcile E R k) w (\<lambda>r w'. r = requeue_now \<and> ?P w')"
    by (rule holds_weaken [OF snapshot_reconcile [OF assms(1-5) refl assms(6,8)]])
      (use assms(7) in \<open>auto simp: at.arrives_def split: if_splits\<close>)
  from follows_step [OF this] show ?thesis by blast
qed

lemma snapshot_run:
  assumes "hold None v m w" and "stage printout v 0 v" and "snapshot_restore v snap" and "unused v m"
    and "SourcePath (vmfr_Spec v) \<noteq> ''''"
  shows "\<exists>w' u. follows E R k (requeue_now # replicate delay (requeue_after (5 * second)) @ replicate 5 requeue_now) w w' \<and>
    hold None u m w' \<and> stage printout v 6 u"
proof -
  note moves = snapshot_moves [OF _ _ assms(3,4)]
  from moves [of None v 0 w] assms(1,2) obtain w1 u1 where 1: "follows E R k [requeue_now] w w1" "hold None u1 m w1"
    "stage printout v (Suc 0) u1" by (auto simp: machine_at_def)
  from snapshot_waits [OF 1(2,3) assms(3,4) refl] obtain w2 d
    where 2: "follows E R k (replicate delay (requeue_after (5 * second))) w1 w2" "hold d u1 m w2" "still d = 0"
    by (auto simp: still_def)
  from moves [of d u1 1 w2] 1(3) 2(2,3) obtain w3 u3 where 3: "follows E R k [requeue_now] w2 w3"
    "hold (Some 0) u3 (machine_at v (volume_of v) m 2) w3" "stage printout v 2 u3" by (auto simp: machine_at_def numeral_2_eq_2)
  from moves [OF 3(2,3)] obtain w4 u4 where 4: "follows E R k [requeue_now] w3 w4"
    "hold (Some 0) u4 (machine_at v (volume_of v) m 3) w4" "stage printout v 3 u4" by (auto simp: eval_nat_numeral)
  from moves [OF 4(2,3)] obtain w5 u5 where 5: "follows E R k [requeue_now] w4 w5"
    "hold (Some 0) u5 (machine_at v (volume_of v) m 4) w5" "stage printout v 4 u5" by (auto simp: eval_nat_numeral)
  from moves [OF 5(2,3)] obtain w6 u6 where 6: "follows E R k [requeue_now] w5 w6"
    "hold (Some 0) u6 (machine_at v (volume_of v) m 5) w6" "stage printout v 5 u6" by (auto simp: eval_nat_numeral)
  from moves [OF 6(2,3)] assms(5) obtain w7 u7 where 7: "follows E R k [requeue_now] w6 w7" "hold None u7 m w7" "stage printout v 6 u7"
    by (auto simp: machine_at_def)
  have "follows E R k ([requeue_now] @ replicate delay (requeue_after (5 * second)) @ [requeue_now] @ [requeue_now] @ [requeue_now] @
      [requeue_now] @ [requeue_now]) w w7"
    by (intro follows_append [THEN iffD2] exI conjI) (fact 1(1) 2(1) 3(1) 4(1) 5(1) 6(1) 7(1))+
  with 7(2,3) show ?thesis by (auto simp: eval_nat_numeral)
qed

end

end
