(* ===== verification/SnapshotLiveness.thy ===== *)
theory SnapshotLiveness
  imports HealthySnapshot Liveness
begin

text \<open>
  The memory cluster as a healthy one for restores of snapshots, and the liveness property for them: however long the
  data volume takes, the restore is carried to its end, and neither the machine nor the cluster keeps anything of it.
\<close>

definition mem_volume :: "nat \<Rightarrow> nat option \<Rightarrow> vmfr \<Rightarrow> store \<Rightarrow> bool" where
  "mem_volume delay d v w \<longleftrightarrow> st_delay w = delay \<and>
     (\<forall>snap. src_Snapshot (Source (vmfr_Spec v)) = Some snap \<longrightarrow> st_snapshot w (snapshot_key v snap) \<noteq> None) \<and>
     (case d of None \<Rightarrow> st_dv w (data_volume_key v) = None
      | Some n \<Rightarrow> st_dv w (data_volume_key v) \<noteq> None \<and> st_provisioning w = n)"

definition mem_hold :: "reconciler \<Rightarrow> key \<Rightarrow> string \<Rightarrow> nat \<Rightarrow> nat option \<Rightarrow> vmfr \<Rightarrow> VirtualMachine \<Rightarrow> store \<Rightarrow> bool" where
  "mem_hold R k out delay d v m w \<longleftrightarrow> mem_holding R k out v m w \<and> mem_volume delay d v w"

lemma mem_volume_same:
  assumes "same_restore v u" and "st_delay w' = st_delay w" and "st_snapshot w' = st_snapshot w" and "st_dv w' = st_dv w"
    and "st_provisioning w' = st_provisioning w"
  shows "mem_volume delay d u w' \<longleftrightarrow> mem_volume delay d v w"
  using assms by (simp add: mem_volume_def same_restore_def snapshot_key_def volume_of_def split: option.split)

lemma same_restore_echo: "same_restore v new \<Longrightarrow> echoes new u \<Longrightarrow> same_restore v u"
  by (simp add: same_restore_def echoes_def)

lemma mem_patch_status_volumes:
  assumes "patch_vmfr_status mem_env old new w = (g, w')"
  shows "st_delay w' = st_delay w" "st_snapshot w' = st_snapshot w" "st_dv w' = st_dv w" "st_provisioning w' = st_provisioning w"
  using assms by (auto simp: mem_env_def mem_patch_status_def Let_def split: option.splits)

lemma mem_snapshot_cluster: "healthy_cluster mem_env R k (mem_hold R k out delay d) out"
proof (unfold_locales, goal_cases)
  case (2 v m w new old g w')
  then have held: "mem_holding R k out v m w" and volume: "mem_volume delay d v w" by (simp_all add: mem_hold_def)
  from mem_patch_holding [OF held 2(2,3)] mem_volume_same [OF same_restore_echo [OF 2(2)] mem_patch_status_volumes [OF 2(3)]] volume
  show ?case by (auto simp: mem_hold_def)
next
  case (5 v m w gi w')
  then show ?case
    by (auto simp: mem_env_def mem_get_vmi_def lookup_def mem_hold_def mem_holding_def intro!: mem_runs)
qed (auto simp: mem_env_def mem_get_vmfr_def mem_patch_vm_def lookup_def mem_hold_def mem_holding_def mem_volume_def vm_key_def
    split: option.splits)

interpretation mem_snapshots: healthy_snapshots mem_env R k "mem_hold R k out delay" out delay for R k out delay
proof (rule healthy_snapshots.intro, goal_cases)
  case (1 d)
  show ?case by (rule mem_snapshot_cluster)
qed (auto simp: mem_env_def mem_read_dv_def mem_create_dv_def mem_delete_dv_def lookup_def mem_hold_def mem_holding_def
    mem_volume_def new_data_volume_def not_found_def IsNotFound_def cdi_Succeeded_def Let_def split: option.splits)

subsection \<open>Properties\<close>

text \<open>The scenario with a snapshot in place of the claim; a new data volume is seen \<open>delay\<close> times before it is ready.\<close>

definition demo_snapshot :: VolumeSnapshotSource where
  "demo_snapshot = \<lparr>vss_Name = ''snap'', vss_Namespace = ''''\<rparr>"

definition demo_snapshot_restore :: vmfr where
  "demo_snapshot_restore = demo_restore\<lparr>vmfr_Spec :=
     demo_spec\<lparr>Source := \<lparr>src_PVC = None, src_Snapshot = Some demo_snapshot, src_Remote = None\<rparr>\<rparr>\<rparr>"

definition demo_snapshot_world :: "string \<Rightarrow> nat \<Rightarrow> store" where
  "demo_snapshot_world out delay = (demo_world demo_snapshot_restore demo_vm)\<lparr>
     st_snapshot := [(''ns'', ''snap'') \<mapsto> \<lparr>snap_Name = ''snap'', snap_Namespace = ''ns'', snap_Status = None\<rparr>],
     st_delay := delay, st_output := out\<rparr>"

lemma demo_snapshot_fields:
  "vmfr_key demo_snapshot_restore = demo_key" "target_key demo_snapshot_restore = (''ns'', ''vm1'')"
  "vmfr_Status demo_snapshot_restore = empty_status" "vmfr_DeletionTimestamp demo_snapshot_restore = None"
  "finalizerName \<in> set (vmfr_Finalizers demo_snapshot_restore)" "SourcePath (vmfr_Spec demo_snapshot_restore) \<noteq> ''''"
  "snapshot_restore demo_snapshot_restore demo_snapshot" "unused demo_snapshot_restore demo_vm"
  "snapshot_key demo_snapshot_restore demo_snapshot = (''ns'', ''snap'')"
  "src_PVC (Source (vmfr_Spec demo_snapshot_restore)) = None"
  "src_Snapshot (Source (vmfr_Spec demo_snapshot_restore)) = Some demo_snapshot"
  by (simp_all add: demo_snapshot_restore_def demo_snapshot_def vmfr_key_def demo_key_def target_key_def demo_restore_def
      demo_spec_def snapshot_restore_def snapshot_key_def unused_def demo_vm_def volume_of_def fresh_def
      no_other_restore_def HasSuffix_def)

lemma demo_snapshot_held:
  "mem_hold demo_reconciler demo_key out delay None demo_snapshot_restore demo_vm (demo_snapshot_world out delay)"
  unfolding mem_hold_def mem_holding_def mem_volume_def demo_snapshot_fields
  by (simp add: demo_snapshot_world_def demo_world_def vm_key_def demo_vm_def demo_vmi_def demo_reconciler_def
      getOperatorNamespace_def demo_secret_def demo_snapshot_fields)

text \<open>C15. In a healthy cluster a new restore of a snapshot is carried to its end however long the data volume it is
  cloned into takes: the reconciliations that see it unready come back after five seconds, the six others at once, the
  restore succeeds with the number of files of the first report in the output of the guest helper, the target machine is again as it was
  before and the data volume is gone.\<close>

theorem healthy_snapshot_restore_succeeds:
  assumes "healthy_snapshots E R k hold out delay" and "hold None v m w"
    and "vmfr_Status v = empty_status" and "vmfr_DeletionTimestamp v = None"
    and "finalizerName \<in> set (vmfr_Finalizers v)" and "snapshot_restore v snap" and "unused v m"
    and "SourcePath (vmfr_Spec v) \<noteq> ''''"
    and "out = before @ [newline] @ report_line files @ cr @ [newline] @ rest"
    and "\<forall>l \<in> set (Split before newline). \<not> reports_count l"
    and "0 \<le> files" and "files \<le> int32_max" and "cr = [] \<or> cr = [CHR 0x0D]"
  shows "\<exists>w' u count. follows E R k
      (requeue_now # replicate delay (requeue_after (5 * second)) @ replicate 5 requeue_now) w w' \<and>
    hold None u m w' \<and> same_restore v u \<and> Phase (vmfr_Status u) = RestorePhaseSucceeded \<and>
    RestoredFilesCount (vmfr_Status u) = Some count \<and> sint count = files"
proof -
  from healthy_snapshots.snapshot_run [OF assms(1,2) fresh_stage [OF assms(3-5)] assms(6-8)]
  obtain w' u where "follows E R k (requeue_now # replicate delay (requeue_after (5 * second)) @ replicate 5 requeue_now) w w'"
    and "hold None u m w'" "stage out v 6 u" by blast
  with succeeded_stage [OF _ assms(8-13)] show ?thesis by blast
qed

theorem healthy_snapshot_restore_succeeds_witness:
  "\<exists>w u count. follows mem_env demo_reconciler demo_key
      [requeue_now, requeue_after (5 * second), requeue_after (5 * second), requeue_now, requeue_now, requeue_now, requeue_now,
       requeue_now] (demo_snapshot_world linux_output 2) w \<and>
    st_vmfr w demo_key = Some u \<and> Phase (vmfr_Status u) = RestorePhaseSucceeded \<and>
    RestoredFilesCount (vmfr_Status u) = Some count \<and> sint count = 3 \<and> st_vm w (''ns'', ''vm1'') = Some demo_vm \<and>
    st_dv w (data_volume_key demo_snapshot_restore) = None"
proof -
  have files: "0 \<le> (3::int)" "3 \<le> int32_max" by (simp_all add: int32_max_def)
  have out: "linux_output = linux_preamble @ [newline] @ report_line 3 @ [] @ [newline] @ linux_ending"
    by (simp add: linux_output_def)
  have left: "st_vmfr w demo_key = Some u \<and> st_vm w (''ns'', ''vm1'') = Some demo_vm \<and>
      st_dv w (data_volume_key demo_snapshot_restore) = None"
    if "mem_hold demo_reconciler demo_key linux_output 2 None u demo_vm w" "same_restore demo_snapshot_restore u" for u w
    using that target_key_same [OF that(2)]
    by (simp add: mem_hold_def mem_holding_def mem_volume_def demo_snapshot_fields same_restore_def volume_of_def)
  from healthy_snapshot_restore_succeeds [OF mem_snapshots.healthy_snapshots_axioms demo_snapshot_held demo_snapshot_fields(3-5,7,8,6)
      out linux_preamble_lines files disjI1 [OF refl]]
  obtain w u count where "follows mem_env demo_reconciler demo_key
      (requeue_now # replicate 2 (requeue_after (5 * second)) @ replicate 5 requeue_now) (demo_snapshot_world linux_output 2) w"
    and "mem_hold demo_reconciler demo_key linux_output 2 None u demo_vm w" "same_restore demo_snapshot_restore u"
    and "Phase (vmfr_Status u) = RestorePhaseSucceeded" "RestoredFilesCount (vmfr_Status u) = Some count" "sint count = 3" by blast
  with left show ?thesis by (auto simp: eval_nat_numeral)
qed

end
