(* ===== verification/Attachment.thy ===== *)
theory Attachment
  imports Lifecycle Scenario
begin

text \<open>
  What plugging and unplugging mean. A machine is seen as two finite maps, from names to the sources of
  its volumes and to its disks; \<open>attach\<close> and \<open>detach\<close> say what the two operations do to them.
  \<open>plugs\<close> is the contract between the two levels. The operations of hotplug.go refine the maps, whatever
  the API server answers.
\<close>

subsection \<open>The specification\<close>

type_synonym view = "(string \<rightharpoonup> VolumeSource) \<times> (string \<rightharpoonup> Disk)"

datatype attachment = Attached view | OtherRestore | PartlyAttached

definition attach :: "string \<Rightarrow> VolumeSource \<Rightarrow> Disk \<Rightarrow> view \<Rightarrow> attachment" where
  "attach n src disk V =
     (if \<exists>m \<in> dom (fst V). HasSuffix m ''-restore'' \<and> m \<noteq> n then OtherRestore
      else if n \<in> dom (fst V) \<and> n \<in> dom (snd V) then Attached V
      else if n \<in> dom (fst V) \<or> n \<in> dom (snd V) then PartlyAttached
      else Attached ((fst V)(n \<mapsto> src), (snd V)(n \<mapsto> disk)))"

definition detach :: "string \<Rightarrow> view \<Rightarrow> view" where
  "detach n V = ((fst V)(n := None), (snd V)(n := None))"

locale plugs =
  fixes seen :: "'t \<Rightarrow> view" and ins :: "string \<Rightarrow> VolumeSource \<Rightarrow> 't \<Rightarrow> 't" and del :: "string \<Rightarrow> 't \<Rightarrow> 't"
    and disk :: "string \<Rightarrow> Disk"
  assumes ins_seen: "n \<notin> dom (fst (seen t)) \<Longrightarrow> n \<notin> dom (snd (seen t)) \<Longrightarrow>
      seen (ins n src t) = ((fst (seen t))(n \<mapsto> src), (snd (seen t))(n \<mapsto> disk n))"
    and del_seen: "seen (del n t) = detach n (seen t)"
begin

lemma attach_again:
  "attach n src (disk n) (seen t) = Attached V \<Longrightarrow> attach n src' (disk n) V = Attached V"
  by (auto simp: attach_def split: if_splits)

lemma del_allows_attach:
  assumes "\<forall>m \<in> dom (fst (seen t)). HasSuffix m ''-restore'' \<longrightarrow> m = n"
  shows "\<exists>V. attach n src (disk n) (seen (del n t)) = Attached V"
  using assms by (auto simp: attach_def del_seen detach_def split: if_splits)

end

subsection \<open>The machine's template as maps\<close>

definition view :: "VMTemplate \<Rightarrow> view" where
  "view t = (\<lambda>n. map_option vol_Source (find (\<lambda>vol. vol_Name vol = n) (tmpl_Volumes t)),
     \<lambda>n. find (\<lambda>d. disk_Name d = n) (tmpl_Disks t))"

lemma find_append: "find P (xs @ ys) = (case find P xs of None \<Rightarrow> find P ys | Some x \<Rightarrow> Some x)"
  by (induction xs) auto

lemma find_filter_others:
  "find (\<lambda>x. f x = m) (filter (\<lambda>x. f x \<noteq> n) xs) = (if m = n then None else find (\<lambda>x. f x = m) xs)"
  by (induction xs) auto

lemma dom_view:
  "dom (fst (view t)) = vol_Name ` set (tmpl_Volumes t)" "dom (snd (view t)) = disk_Name ` set (tmpl_Disks t)"
  by (auto simp: view_def dom_def find_None_iff image_iff simp del: not_None_eq)

interpretation templates: plugs view plug unplug restore_disk
proof
  fix n src t
  assume "n \<notin> dom (fst (view t))" and "n \<notin> dom (snd (view t))"
  then have "find (\<lambda>vol. vol_Name vol = n) (tmpl_Volumes t) = None" "find (\<lambda>d. disk_Name d = n) (tmpl_Disks t) = None"
    by (auto simp: dom_view find_None_iff)
  then show "view (plug n src t) = ((fst (view t))(n \<mapsto> src), (snd (view t))(n \<mapsto> restore_disk n))"
    by (simp add: view_def plug_def restore_volume_def restore_disk_def find_append fun_eq_iff)
      (simp split: option.split)
next
  show "view (unplug n t) = detach n (view t)" for n t
    by (simp add: view_def unplug_def detach_def find_filter_others fun_eq_iff)
qed

text \<open>The machine an operation leaves: as it was last sent, or as it was.\<close>

definition machine_sent :: "VirtualMachine \<Rightarrow> request list \<Rightarrow> VirtualMachine" where
  "machine_sent vm qs = (if vm_patches qs = [] then vm else snd (last (vm_patches qs)))"

text \<open>What a run of \<open>HotplugVolume\<close> with the reply \<open>r\<close> and the requests \<open>qs\<close> makes of the machine: a
  success attaches a claim; where the specification refuses, or has nothing to do, nothing is asked of
  the cluster.\<close>

definition refines_attach :: "string \<Rightarrow> VirtualMachine \<Rightarrow> VMTemplate \<Rightarrow> goerror option go \<Rightarrow> request list \<Rightarrow> bool" where
  "refines_attach n vm t r qs \<longleftrightarrow>
     (case attach n (PersistentVolumeClaim '''' True) (restore_disk n) (view t) of
        Attached V \<Rightarrow>
          (V = view t \<longrightarrow> r = Ran None \<and> qs = []) \<and>
          (r = Ran None \<longrightarrow> (\<exists>claim t'. vm_Template (machine_sent vm qs) = Some t' \<and>
             attach n (PersistentVolumeClaim claim True) (restore_disk n) (view t) = Attached (view t'))) \<and>
          (r \<noteq> Ran None \<longrightarrow> (\<exists>err. r = Ran (Some err)))
      | _ \<Rightarrow> qs = [] \<and> (\<exists>err. r = Ran (Some err)))"

lemma attach_template:
  "attach n src (restore_disk n) (view t) =
    (if \<not> no_other_restore n t then OtherRestore
     else if fresh n t then Attached (view (plug n src t))
     else if n \<in> vol_Name ` set (tmpl_Volumes t) \<and> n \<in> disk_Name ` set (tmpl_Disks t) then Attached (view t)
     else PartlyAttached)"
  using templates.ins_seen [of n t src]
  by (auto simp: attach_def dom_view no_other_restore_def fresh_def)

lemma view_plug_changes: "fresh n t \<Longrightarrow> view (plug n src t) \<noteq> view t"
proof
  assume "fresh n t" and "view (plug n src t) = view t"
  then have "n \<notin> dom (fst (view t))" "n \<notin> dom (snd (view t))" by (auto simp: fresh_def dom_view)
  with templates.ins_seen [of n t src] \<open>view (plug n src t) = view t\<close> show False
    by (metis domI fst_conv fun_upd_same)
qed

lemma vm_patches_append [simp]: "vm_patches (qs @ rs) = vm_patches qs @ vm_patches rs"
  by (induction qs rule: vm_patches.induct) auto

lemma no_vm_patches: "list_all (\<lambda>q. vm_patches [q] = []) qs \<Longrightarrow> vm_patches qs = []"
proof (induction qs)
  case (Cons q qs)
  then show ?case by (cases q) auto
qed simp

lemma list_ex_name:
  "list_ex (\<lambda>x. f x = n) xs \<longleftrightarrow> n \<in> f ` set xs"
  by (auto simp: list_ex_iff)

lemma fresh_names:
  "fresh n t \<longleftrightarrow> n \<notin> vol_Name ` set (tmpl_Volumes t) \<and> n \<notin> disk_Name ` set (tmpl_Disks t)"
  by (auto simp: fresh_def)

lemma HotplugVolume_refused:
  assumes "vmfr_Name v \<noteq> ''''" and "vm_Template vm = Some t"
    and "\<not> (no_other_restore (volume_of v) t \<and> fresh (volume_of v) t)"
  shows "traces (refines_attach (volume_of v) vm t) (HotplugVolume E v vm)"
proof -
  let ?n = "volume_of v"
  have name: "GetVolumeName (vmfr_Name v) = Ran ?n" using assms(1) by (simp add: volume_of_def)
  note run = HotplugVolume_def name assms(2) Let_def
  consider "\<not> no_other_restore ?n t"
    | "no_other_restore ?n t" "?n \<in> vol_Name ` set (tmpl_Volumes t)" "?n \<in> disk_Name ` set (tmpl_Disks t)"
    | "no_other_restore ?n t" "\<not> fresh ?n t"
      "(?n \<in> vol_Name ` set (tmpl_Volumes t)) \<noteq> (?n \<in> disk_Name ` set (tmpl_Disks t))"
    using assms(3) fresh_names [of ?n t] by blast
  then show ?thesis
  proof cases
    case 1
    then show ?thesis
      unfolding run by (auto simp: refines_attach_def attach_template no_other_restore_iff intro!: trace_rules)
  next
    case 2
    then have "\<not> fresh ?n t" by (simp add: fresh_names)
    with 2 show ?thesis
      unfolding run
      by (simp add: refines_attach_def attach_template no_other_restore_iff list_ex_name assms(2) machine_sent_def
          traces_return)
  next
    case 3
    then show ?thesis
      unfolding run
      by (cases "?n \<in> vol_Name ` set (tmpl_Volumes t)")
        (simp_all add: refines_attach_def attach_template no_other_restore_iff list_ex_name traces_return)
  qed
qed

lemma HotplugVolume_plugs:
  assumes "vmfr_Name v \<noteq> ''''" and "vm_Template vm = Some t"
    and "no_other_restore (volume_of v) t" and "fresh (volume_of v) t"
  shows "traces (refines_attach (volume_of v) vm t) (HotplugVolume E v vm)"
proof -
  let ?n = "volume_of v"
  have name: "GetVolumeName (vmfr_Name v) = Ran ?n" using assms(1) by (simp add: volume_of_def)
  have src: "traces (\<lambda>r qs. (\<forall>src. r = Inr src \<longrightarrow> (\<exists>claim. src = PersistentVolumeClaim claim True)) \<and>
      vm_patches qs = []) (volume_source E v ?n)"
    by (rule traces_weaken [OF traces_conj [OF traces_emits [OF emits_volume_source [OF same_restore_refl]]
          traces_emits [OF volume_source_no_patch]]]) (auto intro: no_vm_patches)
  note new = assms(3,4) [unfolded no_other_restore_iff fresh_iff]
  have attach: "attach ?n src (restore_disk ?n) (view t) = Attached (view (plug ?n src t))"
    and changed: "view (plug ?n src t) \<noteq> view t" for src
    using assms(3,4) by (simp_all add: attach_template view_plug_changes)
  have failed: "refines_attach ?n vm t (Ran (Some err)) qs" for err qs
    by (simp add: refines_attach_def attach changed)
  have attached: "refines_attach ?n vm t (Ran None)
      (qs @ [ReqPatchVM vm (vm\<lparr>vm_Template := Some (plug ?n (PersistentVolumeClaim claim True) t)\<rparr>)])"
    if "vm_patches qs = []" for qs claim
    using that by (auto simp: refines_attach_def attach changed machine_sent_def)
  show ?thesis
    unfolding HotplugVolume_def name assms(2)
    using new
    by (auto simp: PatchVM_def intro!: traces_bind [OF src] trace_rules failed attached split: sum.split)
qed

lemmas HotplugVolume_refines = HotplugVolume_plugs HotplugVolume_refused

lemma hotplug_run_refines:
  assumes "vmfr_Name v \<noteq> ''''" and "vm_Template vm = Some t"
  shows "refines_attach (volume_of v) vm t (answer (HotplugVolume E v vm) w) (requests (HotplugVolume E v vm) w)"
  by (rule traces_run) (use assms HotplugVolume_refines in blast)

subsection \<open>Properties\<close>

text \<open>C8. \<open>HotplugVolume\<close> implements \<open>attach\<close>, whatever the API server answers: a success leaves the machine
  with exactly the restore volume and its disk added, by a claim that can be hotplugged; a machine with
  another restore's volume, or with half of its own, is refused untouched; one that has the volume already
  is left alone. So it can be repeated: on the machine a success has sent, it succeeds without asking
  for anything.\<close>

theorem hotplug_refines_attach:
  assumes "vmfr_Name v \<noteq> ''''" and "vm_Template vm = Some t"
    and "m = machine_sent vm (requests (HotplugVolume E v vm) w)"
  shows "refines_attach (volume_of v) vm t (answer (HotplugVolume E v vm) w) (requests (HotplugVolume E v vm) w) \<and>
    (answer (HotplugVolume E v vm) w = Ran None \<longrightarrow>
      answer (HotplugVolume E' v m) w' = Ran None \<and> requests (HotplugVolume E' v m) w' = [])"
proof -
  let ?n = "volume_of v"
  note run = hotplug_run_refines [OF assms(1,2), of E w]
  have "answer (HotplugVolume E' v m) w' = Ran None \<and> requests (HotplugVolume E' v m) w' = []"
    if success: "answer (HotplugVolume E v vm) w = Ran None"
  proof -
    from run success obtain claim t' where t': "vm_Template m = Some t'"
      "attach ?n (PersistentVolumeClaim claim True) (restore_disk ?n) (view t) = Attached (view t')"
      by (auto simp: refines_attach_def assms(3) split: attachment.splits)
    from templates.attach_again [OF t'(2)] hotplug_run_refines [OF assms(1) t'(1), of E' w'] show ?thesis
      by (simp add: refines_attach_def)
  qed
  with run show ?thesis by blast
qed

theorem hotplug_refines_attach_witness:
  "let qs = requests (HotplugVolume mem_env demo_restore demo_vm) demo; m = machine_sent demo_vm qs in
   qs \<noteq> [] \<and> requests (HotplugVolume mem_env demo_restore m) demo = []"
proof -
  have run: "answer (HotplugVolume mem_env demo_restore demo_vm) demo = Ran None"
    "requests (HotplugVolume mem_env demo_restore demo_vm) demo \<noteq> []"
    by code_simp+
  have "vmfr_Name demo_restore \<noteq> ''''" "\<exists>t. vm_Template demo_vm = Some t"
    by (simp_all add: demo_restore_def demo_vm_def)
  with hotplug_refines_attach [OF _ _ refl, of demo_restore demo_vm _ mem_env demo mem_env demo] run
  show ?thesis by (auto simp: Let_def)
qed

text \<open>C9. \<open>UnplugVolume\<close> implements \<open>detach\<close>: the machine it sends has the volume and the disk of the
  restore taken out of the two maps, and nothing else. A machine with no other restore's volume can
  then be plugged again, half-plugged ones included.\<close>

theorem unplug_refines_detach:
  assumes "vmfr_Name v \<noteq> ''''" and "vm_Template vm = Some t"
  shows "\<exists>t'. vm_Template (machine_sent vm (requests (UnplugVolume E v vm) w)) = Some t' \<and>
    view t' = detach (volume_of v) (view t) \<and>
    (no_other_restore (volume_of v) t \<longrightarrow>
      (\<forall>src. \<exists>V. attach (volume_of v) src (restore_disk (volume_of v)) (view t') = Attached V))"
proof -
  let ?n = "volume_of v"
  have "GetVolumeName (vmfr_Name v) = Ran ?n" using assms(1) by (simp add: volume_of_def)
  then have "traces (\<lambda>_ qs. vm_patches qs = [(vm, vm\<lparr>vm_Template := Some (unplug ?n t)\<rparr>)]) (UnplugVolume E v vm)"
    unfolding UnplugVolume_def using assms(2)
    by (auto simp: call_defs intro!: trace_rules split: sum.split)
  from traces_run [OF this, of w]
  have "vm_Template (machine_sent vm (requests (UnplugVolume E v vm) w)) = Some (unplug ?n t)"
    by (simp add: machine_sent_def)
  moreover have "\<exists>V. attach ?n src (restore_disk ?n) (view (unplug ?n t)) = Attached V"
    if "no_other_restore ?n t" for src
    by (rule templates.del_allows_attach) (use that in \<open>auto simp: dom_view no_other_restore_def\<close>)
  ultimately show ?thesis by (simp add: templates.del_seen)
qed

theorem unplug_refines_detach_witness:
  "let t = \<lparr>tmpl_Volumes = [restore_volume ''r1-restore'' (PersistentVolumeClaim ''bkp'' True)], tmpl_Disks = []\<rparr>;
       m = machine_sent (demo_vm\<lparr>vm_Template := Some t\<rparr>)
         (requests (UnplugVolume mem_env demo_restore (demo_vm\<lparr>vm_Template := Some t\<rparr>)) demo) in
   \<exists>t'. vm_Template m = Some t' \<and> view t' = detach ''r1-restore'' (view t)"
proof -
  let ?t = "\<lparr>tmpl_Volumes = [restore_volume ''r1-restore'' (PersistentVolumeClaim ''bkp'' True)], tmpl_Disks = []\<rparr>"
  have name: "vmfr_Name demo_restore \<noteq> ''''" and volume: "volume_of demo_restore = ''r1-restore''"
    and template: "vm_Template (demo_vm\<lparr>vm_Template := Some ?t\<rparr>) = Some ?t"
    by (simp_all add: demo_restore_def volume_of_def)
  from unplug_refines_detach [OF name template, of mem_env demo, unfolded volume] show ?thesis
    unfolding Let_def by blast
qed

end
