(* ===== verification/Success.thy ===== *)
theory Success
  imports RestoreFunctional
begin

text \<open>
  What a success report means: a restore is reported as \<open>Succeeded\<close> only when its volume is out of the
  machine. \<open>volume_stuck\<close> describes the clusters in which it is not; there the report is never made.
\<close>

subsection \<open>Clusters that do not let go of the volume\<close>

text \<open>The running instance as read: it cannot be told to have let go of the volume.\<close>

fun reports_volume :: "string \<Rightarrow> goerror + VirtualMachineInstance \<Rightarrow> bool" where
  "reports_volume n (Inl err) \<longleftrightarrow> \<not> IsNotFound err"
| "reports_volume n (Inr vmi) \<longleftrightarrow> list_ex (\<lambda>vs. vs_Name vs = n) (vmi_VolumeStatus vmi)"

definition refuses_patches :: "'w env \<Rightarrow> bool" where
  "refuses_patches E \<longleftrightarrow> (\<forall>b m w. \<exists>err. fst (patch_vm E b m w) = Inl err)"

text \<open>The target machine exists, but patches of it are refused, or its running instance goes on
  reporting the volume.\<close>

definition volume_stuck :: "'w env \<Rightarrow> vmfr \<Rightarrow> bool" where
  "volume_stuck E v \<longleftrightarrow> (\<forall>w err. fst (get_vm E (target_key v) w) = Inl err \<longrightarrow> \<not> IsNotFound err) \<and>
     (refuses_patches E \<or>
      (\<forall>w. reports_volume (volume_of v) (fst (get_vmi E (target_key v) w))))"

definition no_success :: "request list \<Rightarrow> bool" where
  "no_success qs \<longleftrightarrow> (\<forall>(b, n) \<in> set (status_patches qs). Phase (vmfr_Status n) \<noteq> RestorePhaseSucceeded)"

text \<open>The rules to show that no success is reported, where \<open>P\<close> is what the routine before returns.\<close>

lemma no_success_bind:
  assumes "traces (\<lambda>x qs. P x \<and> list_all (\<lambda>q. \<not> writes_vmfr q) qs) m"
    and "\<And>x. P x \<Longrightarrow> traces (\<lambda>_. no_success) (f x)"
  shows "traces (\<lambda>_. no_success) (State_Monad.bind m f)"
  using assms(1)
proof (rule traces_bind)
  show "traces (\<lambda>_ rs. no_success (qs @ rs)) (f x)" if "P x \<and> list_all (\<lambda>q. \<not> writes_vmfr q) qs" for x qs
  proof -
    from that have "no_success (qs @ rs) = no_success rs" for rs by (simp add: no_success_def no_writes_no_patches)
    with that assms(2) show ?thesis by simp
  qed
qed

lemma no_success_call:
  assumes "\<And>w. P (fst (g w))" and "\<not> writes_vmfr q" and "\<And>x. P x \<Longrightarrow> traces (\<lambda>_. no_success) (f x)"
  shows "traces (\<lambda>_. no_success) (State_Monad.bind (call q g) f)"
proof (rule no_success_bind)
  show "traces (\<lambda>x qs. P x \<and> list_all (\<lambda>q. \<not> writes_vmfr q) qs) (call q g)"
    using assms(1,2) by (simp add: traces_def)
qed (rule assms(3))

lemma no_success_return: "traces (\<lambda>_. no_success) (State_Monad.return x)"
  by (simp add: traces_return no_success_def)

lemma failRestore_no_success: "traces (\<lambda>_. no_success) (failRestore E R v err detail)"
  by (rule traces_weaken [OF failRestore_trace])
    (auto simp: no_success_def reports_failure_def no_writes_no_patches)

text \<open>With patches refused, unplugging does not succeed.\<close>

lemma UnplugVolume_outcome:
  "traces (\<lambda>r qs. (refuses_patches E \<longrightarrow> r \<noteq> Ran None) \<and> list_all (\<lambda>q. \<not> writes_vmfr q) qs) (UnplugVolume E v vm)"
proof (cases "refuses_patches E")
  case True
  then have "traces (\<lambda>r _. \<exists>err. r = Inl err) (PatchVM E b m)" for b m
    by (simp add: refuses_patches_def PatchVM_def traces_def)
  then have "traces (\<lambda>r _. r \<noteq> Ran None) (UnplugVolume E v vm)"
    unfolding UnplugVolume_def
    by (auto intro!: traces_return traces_bind [where P = "\<lambda>r _. \<exists>err. r = Inl err"] split: go.split option.split)
  from traces_conj [OF this traces_emits [OF quiet_UnplugVolume]] show ?thesis
    by (rule traces_weaken) auto
next
  case False
  with traces_emits [OF quiet_UnplugVolume] show ?thesis by simp
qed

lemma cleanup_no_success:
  assumes "volume_stuck E v" and "vmfr_Name v \<noteq> ''''"
  shows "traces (\<lambda>_. no_success) (handleCleanupPhase E R v)"
proof -
  have name: "GetVolumeName (vmfr_Name v) = Ran (volume_of v)" using assms(2) by (simp add: volume_of_def)
  have machine: "\<forall>err. fst (get_vm E (target_key v) w) = Inl err \<longrightarrow> \<not> IsNotFound err"
    and stuck: "refuses_patches E \<or>
      (\<forall>w. reports_volume (volume_of v) (fst (get_vmi E (target_key v) w)))" for w
    using assms(1) by (auto simp: volume_stuck_def)
  note rules = no_success_return failRestore_no_success
  have verify: "traces (\<lambda>_. no_success) (do {
      vmiR \<leftarrow> GetVMI E (target_key v);
      case vmiR of
        Inl err \<Rightarrow> if \<not> IsNotFound err then failRestore E R v err ''failed to get VMI for unplug verification''
          else cleanup_done E v
      | Inr vmi \<Rightarrow> if list_ex (\<lambda>vs. vs_Name vs = volume_of v) (vmi_VolumeStatus vmi)
          then State_Monad.return (requeue_after (5 * second)) else cleanup_done E v })"
    if "\<forall>w. reports_volume (volume_of v) (fst (get_vmi E (target_key v) w))"
    unfolding GetVMI_def
    by (rule no_success_call [where P = "reports_volume (volume_of v)"])
      (use that in \<open>auto intro!: rules split: sum.splits\<close>)
  show ?thesis
    unfolding handleCleanupPhase_def GetVM_def name go.case
    by (rule no_success_call [where P = "\<lambda>r. \<forall>err. r = Inl err \<longrightarrow> \<not> IsNotFound err"])
      (use machine stuck verify in
        \<open>auto intro!: rules no_success_bind [OF UnplugVolume_outcome] split: sum.split go.split option.split\<close>)
qed

subsection \<open>Properties\<close>

text \<open>C10. A restore is reported as succeeded only when its volume is out of the machine: as long as the
  target machine exists and its patches are refused, or its running instance still reports the volume,
  no reconciliation stores \<open>Succeeded\<close>.\<close>

theorem success_waits_for_the_volume:
  assumes "restore_api E" and "fst (get_vmfr E k w) = Inr v" and "vmfr_DeletionTimestamp v = None"
    and "contains_finalizer E (vmfr_Finalizers v) finalizerName" and "vmfr_Name v \<noteq> ''''"
    and "volume_stuck E v" and "Phase (vmfr_Status v) \<noteq> RestorePhaseSucceeded"
    and "(b, n) \<in> set (status_patches (requests (Reconcile E R k) w))"
  shows "Phase (vmfr_Status n) \<noteq> RestorePhaseSucceeded"
proof (cases "Phase (vmfr_Status v) = RestorePhaseCleanup")
  case True
  with assms(3,4) have "reconcile_found E R k v = handleCleanupPhase E R v"
    by (simp add: reconcile_found_def getPhaseHandler_def)
  with cleanup_no_success [OF assms(6,5), of R] have "traces (\<lambda>_. no_success) (reconcile_found E R k v)" by simp
  from traces_Reconcile [OF assms(2) this] assms(8) show ?thesis by (auto simp: no_success_def)
next
  case False
  with restore_api.patch_phase [OF assms(1,2), of b n R] assms(7,8) show ?thesis
    by (auto simp: status_patches_iff)
qed

theorem success_waits_for_the_volume_witness:
  "let E = mem_env\<lparr>get_vm := (\<lambda>k w. (Inr demo_vm, w)), patch_vm := (\<lambda>b m w. (Inl (Errorf ''refused''), w))\<rparr>;
       v = demo_in (\<lambda>s. s\<lparr>Phase := RestorePhaseCleanup, MountPath := ''/backup-bkp''\<rparr>);
       ps = status_patches (requests (Reconcile E demo_reconciler demo_key) (demo_world v demo_vm)) in
   ps \<noteq> [] \<and> Phase (vmfr_Status (snd (last ps))) \<noteq> RestorePhaseSucceeded"
proof -
  let ?E = "mem_env\<lparr>get_vm := (\<lambda>k w. (Inr demo_vm, w)), patch_vm := (\<lambda>b m w. (Inl (Errorf ''refused''), w))\<rparr>"
  let ?v = "demo_in (\<lambda>s. s\<lparr>Phase := RestorePhaseCleanup, MountPath := ''/backup-bkp''\<rparr>)"
  let ?ps = "status_patches (requests (Reconcile ?E demo_reconciler demo_key) (demo_world ?v demo_vm))"
  have api: "restore_api ?E"
    using mem.restore_api_axioms by (simp add: restore_api_def restore_api_axioms_def status_api_def)
  have some: "?ps \<noteq> []" by code_simp
  have stuck: "volume_stuck ?E ?v" by (simp add: volume_stuck_def refuses_patches_def)
  have read: "fst (get_vmfr ?E demo_key (demo_world ?v demo_vm)) = Inr ?v" by (simp add: demo_get)
  note run = success_waits_for_the_volume [OF api read _ _ _ stuck,
      of "fst (last ?ps)" "snd (last ?ps)" demo_reconciler, unfolded prod.collapse]
  have "Phase (vmfr_Status (snd (last ?ps))) \<noteq> RestorePhaseSucceeded"
    by (rule run) (use some in \<open>simp_all add: demo_in_def demo_restore_def mem_env_def\<close>)
  with some show ?thesis by (simp add: Let_def)
qed

end
