(* ===== verification/GoHeap.thy ===== *)
theory GoHeap
  imports Prelude
begin

text \<open>
  Go memory, for the routines whose meaning depends on what is shared. A heap maps addresses to cells
  and hands out addresses from a limit on. A \<open>gotype\<close> tells how the values of a Go type are kept in
  cells, and what its zero value is. Pointers and slices are addresses; a slice is the address of its
  array and a length, and the array may be longer (its capacity).

  A \<open>reader\<close> follows pointers: it gives the value of an object together with the set of addresses the
  value depends on, its footprint. \<open>builds\<close> is a small logic for routines that allocate, and \<open>copier\<close>
  the contract of a deep copy: the same value, on addresses that were not allocated before, with
  nothing else changed.
\<close>

type_synonym addr = nat

subsection \<open>Heaps\<close>

datatype 'c goheap = GoHeap (cells: "addr \<rightharpoonup> 'c") (limit: addr)

definition wf_heap :: "'c goheap \<Rightarrow> bool" where
  "wf_heap h \<longleftrightarrow> (\<forall>a \<in> dom (cells h). a < limit h)"

text \<open>Heaps are ordered by what is allocated: the larger one has all cells of the smaller one.\<close>

instantiation goheap :: (type) order
begin

definition less_eq_goheap :: "'a goheap \<Rightarrow> 'a goheap \<Rightarrow> bool" where
  "h \<le> h' \<longleftrightarrow> cells h \<subseteq>\<^sub>m cells h' \<and> limit h \<le> limit h'"

definition less_goheap :: "'a goheap \<Rightarrow> 'a goheap \<Rightarrow> bool" where
  "h < h' \<longleftrightarrow> h \<le> h' \<and> \<not> h' \<le> (h :: 'a goheap)"

instance
proof
  fix x y z :: "'a goheap"
  show "x < y \<longleftrightarrow> x \<le> y \<and> \<not> y \<le> x" by (rule less_goheap_def)
  show "x \<le> x" by (simp add: less_eq_goheap_def)
  show "x \<le> y \<Longrightarrow> y \<le> z \<Longrightarrow> x \<le> z" by (auto simp: less_eq_goheap_def intro: map_le_trans)
  show "x \<le> y \<Longrightarrow> y \<le> x \<Longrightarrow> x = y"
    by (rule goheap.expand) (auto simp: less_eq_goheap_def intro: map_le_antisym)
qed

end

lemma limit_mono: "h \<le> h' \<Longrightarrow> limit h \<le> limit h'"
  by (simp add: less_eq_goheap_def)

lemma cells_mono: "h \<le> h' \<Longrightarrow> cells h a = Some c \<Longrightarrow> cells h' a = Some c"
  by (auto simp: less_eq_goheap_def map_le_def dom_def)

lemma grown:
  assumes "wf_heap h"
  shows "wf_heap (GoHeap ((cells h)(limit h \<mapsto> c)) (Suc (limit h)))" and "h \<le> GoHeap ((cells h)(limit h \<mapsto> c)) (Suc (limit h))"
proof -
  have below: "a < limit h" if "cells h a = Some d" for a d
    using assms that by (auto simp: wf_heap_def)
  show "wf_heap (GoHeap ((cells h)(limit h \<mapsto> c)) (Suc (limit h)))"
    by (auto simp: wf_heap_def dest!: below)
  show "h \<le> GoHeap ((cells h)(limit h \<mapsto> c)) (Suc (limit h))"
    using below by (auto simp: less_eq_goheap_def map_le_def)
qed

subsection \<open>Types and commands\<close>

record ('s, 'c) gotype =
  wrap :: "'s \<Rightarrow> 'c"
  unwrap :: "'c \<Rightarrow> 's option"
  zero :: 's

locale go_type =
  fixes T :: "('s, 'c) gotype"
  assumes unwrap_wrap: "unwrap T (wrap T s) = Some s"

type_synonym ('c, 'a) gm = "('c goheap, 'a) state"

text \<open>\<open>new(T)\<close> with its first value, \<open>*a = s\<close>, and \<open>*a\<close>. A read of an address without a cell of the type
  does not happen in Go; it yields the zero value.\<close>

definition new :: "('s, 'c) gotype \<Rightarrow> 's \<Rightarrow> ('c, addr) gm" where
  "new T s = State (\<lambda>h. (limit h, GoHeap ((cells h)(limit h \<mapsto> wrap T s)) (Suc (limit h))))"

definition store :: "('s, 'c) gotype \<Rightarrow> addr \<Rightarrow> 's \<Rightarrow> ('c, unit) gm" where
  "store T a s = State (\<lambda>h. ((), GoHeap ((cells h)(a \<mapsto> wrap T s)) (limit h)))"

definition content :: "('s, 'c) gotype \<Rightarrow> addr \<Rightarrow> 'c goheap \<Rightarrow> 's" where
  "content T a h = (case cells h a of None \<Rightarrow> zero T
     | Some c \<Rightarrow> (case unwrap T c of None \<Rightarrow> zero T | Some s \<Rightarrow> s))"

definition deref :: "('s, 'c) gotype \<Rightarrow> addr \<Rightarrow> ('c, 's) gm" where
  "deref T a = State (\<lambda>h. (content T a h, h))"

subsection \<open>Readers\<close>

type_synonym ('c, 'v) reader = "'c goheap \<Rightarrow> ('v \<times> addr set) option"

definition rd :: "'v \<Rightarrow> ('c, 'v) reader" where
  "rd v h = Some (v, {})"

definition rd_bind :: "('c, 'u) reader \<Rightarrow> ('u \<Rightarrow> ('c, 'v) reader) \<Rightarrow> ('c, 'v) reader" where
  "rd_bind r f h = (case r h of None \<Rightarrow> None
     | Some (u, A) \<Rightarrow> (case f u h of None \<Rightarrow> None | Some (v, B) \<Rightarrow> Some (v, A \<union> B)))"

definition at :: "('s, 'c) gotype \<Rightarrow> addr \<Rightarrow> ('c, 's) reader" where
  "at T a h = (case cells h a of None \<Rightarrow> None | Some c \<Rightarrow> map_option (\<lambda>s. (s, {a})) (unwrap T c))"

text \<open>The object a pointer leads to, and a pointer that may be nil.\<close>

definition pointee :: "('s, 'c) gotype \<Rightarrow> ('s \<Rightarrow> ('c, 'v) reader) \<Rightarrow> addr \<Rightarrow> ('c, 'v) reader" where
  "pointee T r a = rd_bind (at T a) r"

fun nullable :: "('p \<Rightarrow> ('c, 'v) reader) \<Rightarrow> 'p option \<Rightarrow> ('c, 'v option) reader" where
  "nullable r None = rd None"
| "nullable r (Some p) = rd_bind (r p) (\<lambda>v. rd (Some v))"

fun read_all :: "('s \<Rightarrow> ('c, 'v) reader) \<Rightarrow> 's list \<Rightarrow> ('c, 'v list) reader" where
  "read_all r [] = rd []"
| "read_all r (s # ss) = rd_bind (r s) (\<lambda>v. rd_bind (read_all r ss) (\<lambda>vs. rd (v # vs)))"

record slice =
  sl_array :: addr
  sl_len :: nat

text \<open>The type of an array of \<open>T\<close> and the elements of a slice; the length is within the capacity.\<close>

definition elements :: "('s list, 'c) gotype \<Rightarrow> ('s \<Rightarrow> ('c, 'v) reader) \<Rightarrow> slice \<Rightarrow> ('c, 'v list) reader" where
  "elements T r sl = pointee T (\<lambda>xs. if sl_len sl \<le> length xs then read_all r (take (sl_len sl) xs) else (\<lambda>_. None)) (sl_array sl)"

text \<open>A reader looks at its footprint only, and the footprint is allocated.\<close>

definition local :: "('c, 'v) reader \<Rightarrow> bool" where
  "local r \<longleftrightarrow> (\<forall>h v A. r h = Some (v, A) \<longrightarrow> A \<subseteq> dom (cells h) \<and>
     (\<forall>h'. (\<forall>a \<in> A. cells h' a = cells h a) \<longrightarrow> r h' = Some (v, A)))"

named_theorems local_rules \<open>readers that look at their footprint only\<close>

lemma local_rd [local_rules]: "local (rd v)"
  by (simp add: local_def rd_def)

lemma local_none [local_rules]: "local (\<lambda>_. None)"
  by (simp add: local_def)

lemma local_bind [local_rules]:
  assumes "local r" and "\<And>u. local (f u)"
  shows "local (rd_bind r f)"
  unfolding local_def
proof (intro allI impI)
  fix h v A
  assume "rd_bind r f h = Some (v, A)"
  then obtain u B C where r: "r h = Some (u, B)" and f: "f u h = Some (v, C)" and A: "A = B \<union> C"
    by (auto simp: rd_bind_def split: option.splits)
  from assms(1) r have "B \<subseteq> dom (cells h) \<and> (\<forall>h'. (\<forall>a \<in> B. cells h' a = cells h a) \<longrightarrow> r h' = Some (u, B))"
    unfolding local_def by blast
  moreover from assms(2) [of u] f
  have "C \<subseteq> dom (cells h) \<and> (\<forall>h'. (\<forall>a \<in> C. cells h' a = cells h a) \<longrightarrow> f u h' = Some (v, C))"
    unfolding local_def by blast
  ultimately show "A \<subseteq> dom (cells h) \<and>
      (\<forall>h'. (\<forall>a \<in> A. cells h' a = cells h a) \<longrightarrow> rd_bind r f h' = Some (v, A))"
    by (auto simp: rd_bind_def A)
qed

lemma local_at [local_rules]: "local (at T a)"
  by (auto simp: local_def at_def split: option.splits)

lemma local_pointee [local_rules]: "(\<And>s. local (r s)) \<Longrightarrow> local (pointee T r a)"
  by (auto simp: pointee_def intro!: local_rules)

lemma local_nullable [local_rules]: "(\<And>p. local (r p)) \<Longrightarrow> local (nullable r p)"
  by (cases p) (auto intro!: local_rules)

lemma local_read_all [local_rules]: "(\<And>s. local (r s)) \<Longrightarrow> local (read_all r ss)"
  by (induction ss) (auto intro!: local_rules)

lemma local_elements [local_rules]: "(\<And>s. local (r s)) \<Longrightarrow> local (elements T r sl)"
  by (auto simp: elements_def intro!: local_rules)

lemma reads_elsewhere: "local r \<Longrightarrow> r h = Some (v, A) \<Longrightarrow> (\<And>a. a \<in> A \<Longrightarrow> cells h' a = cells h a) \<Longrightarrow> r h' = Some (v, A)"
  unfolding local_def by blast

lemma reads_allocated: "local r \<Longrightarrow> r h = Some (v, A) \<Longrightarrow> a \<in> A \<Longrightarrow> a \<in> dom (cells h)"
  unfolding local_def by blast

lemma reads_later:
  assumes "local r" and "r h = Some (v, A)" and "h \<le> h'"
  shows "r h' = Some (v, A)"
  using assms(1,2)
proof (rule reads_elsewhere)
  fix a
  assume "a \<in> A"
  with assms(1,2) obtain c where "cells h a = Some c" by (blast dest: reads_allocated)
  with assms(3) show "cells h' a = cells h a" by (simp add: cells_mono)
qed

subsection \<open>Deep copies\<close>

text \<open>The addresses of a footprint that are not allocated in \<open>h\<close>.\<close>

definition fresh_in :: "'c goheap \<Rightarrow> addr set \<Rightarrow> bool" where
  "fresh_in h A \<longleftrightarrow> (\<forall>a \<in> A. limit h \<le> a)"

lemma fresh_in_simps [simp]:
  "fresh_in h {}" "fresh_in h (A \<union> B) \<longleftrightarrow> fresh_in h A \<and> fresh_in h B" "fresh_in h (insert a A) \<longleftrightarrow> limit h \<le> a \<and> fresh_in h A"
  by (auto simp: fresh_in_def)

lemma fresh_in_earlier: "h \<le> h' \<Longrightarrow> fresh_in h' A \<Longrightarrow> fresh_in h A"
  using limit_mono [of h h'] by (fastforce simp: fresh_in_def)

text \<open>From \<open>h\<close>, the routine \<open>m\<close> allocates what it returns: a value that reads as \<open>v\<close>, on addresses that are
  not allocated in \<open>h0\<close>.\<close>

definition builds :: "'c goheap \<Rightarrow> 'c goheap \<Rightarrow> ('c, 's) gm \<Rightarrow> ('s \<Rightarrow> ('c, 'v) reader) \<Rightarrow> 'v \<Rightarrow> bool" where
  "builds h0 h m r v \<longleftrightarrow> (\<exists>s h' A. run_state m h = (s, h') \<and> wf_heap h' \<and> h \<le> h' \<and> r s h' = Some (v, A) \<and> fresh_in h0 A)"

locale copier =
  fixes read :: "'s \<Rightarrow> ('c, 'v) reader" and into :: "'s \<Rightarrow> ('c, 's) gm"
  assumes reads_local: "local (read s)"
    and copies: "wf_heap h \<Longrightarrow> read s h = Some (v, A) \<Longrightarrow> builds h h (into s) read v"

lemma builds_return:
  "wf_heap h \<Longrightarrow> r s h = Some (v, A) \<Longrightarrow> fresh_in h0 A \<Longrightarrow> builds h0 h (State_Monad.return s) r v"
  by (auto simp: builds_def)

text \<open>The same, with the footprint computed by the reader.\<close>

definition reads_fresh :: "'c goheap \<Rightarrow> ('c, 'v) reader \<Rightarrow> 'c goheap \<Rightarrow> 'v \<Rightarrow> bool" where
  "reads_fresh h0 r h v \<longleftrightarrow> (case r h of None \<Rightarrow> False | Some (v', A) \<Rightarrow> v' = v \<and> fresh_in h0 A)"

lemma reads_fresh_simps [simp]:
  "reads_fresh h0 (rd x) h v \<longleftrightarrow> x = v"
  "reads_fresh h0 (rd_bind r f) h v \<longleftrightarrow>
     (case r h of None \<Rightarrow> False | Some (u, A) \<Rightarrow> fresh_in h0 A \<and> reads_fresh h0 (f u) h v)"
  by (auto simp: reads_fresh_def rd_def rd_bind_def split: option.splits)

lemma rd_bindD:
  "rd_bind r f h = Some (v, A) \<Longrightarrow> \<exists>u B C. r h = Some (u, B) \<and> f u h = Some (v, C) \<and> A = B \<union> C"
  by (auto simp: rd_bind_def split: option.splits)

lemma rd_Some [simp]: "rd x h = Some (v, A) \<longleftrightarrow> v = x \<and> A = {}"
  by (auto simp: rd_def)

lemma builds_result: "wf_heap h \<Longrightarrow> reads_fresh h0 (r s) h v \<Longrightarrow> builds h0 h (State_Monad.return s) r v"
  by (auto simp: reads_fresh_def intro: builds_return split: option.splits)

text \<open>A part that is built keeps its value while the rest is.\<close>

lemma builds_then:
  assumes "builds h0 h m r1 u" and "\<And>s. local (r1 s)"
    and "\<And>s h' A. wf_heap h' \<Longrightarrow> h \<le> h' \<Longrightarrow> (\<And>h''. h' \<le> h'' \<Longrightarrow> r1 s h'' = Some (u, A)) \<Longrightarrow> fresh_in h0 A \<Longrightarrow>
      builds h0 h' (f s) r v"
  shows "builds h0 h (State_Monad.bind m f) r v"
proof -
  from assms(1) obtain s h' A where run: "run_state m h = (s, h')" and h': "wf_heap h'" "h \<le> h'"
    and read: "r1 s h' = Some (u, A)" and fresh: "fresh_in h0 A"
    unfolding builds_def by blast
  have "builds h0 h' (f s) r v"
    using h' reads_later [OF assms(2) read] fresh by (rule assms(3))
  with run h'(2) show ?thesis unfolding builds_def by (fastforce intro: order_trans)
qed

lemma builds_copy:
  assumes "copier read into" and "wf_heap h" and "h0 \<le> h" and "read s h0 = Some (u, B)"
  shows "builds h0 h (into s) read u"
proof -
  from copier.copies [OF assms(1,2) reads_later [OF copier.reads_local [OF assms(1)] assms(4,3)]]
  show ?thesis unfolding builds_def using fresh_in_earlier [OF assms(3)] by blast
qed

lemma builds_bind:
  assumes "copier read into" and "wf_heap h" and "h0 \<le> h" and "read s h0 = Some (u, B)"
    and "\<And>s' h' A. wf_heap h' \<Longrightarrow> h \<le> h' \<Longrightarrow> (\<And>h''. h' \<le> h'' \<Longrightarrow> read s' h'' = Some (u, A)) \<Longrightarrow> fresh_in h0 A \<Longrightarrow>
      builds h0 h' (f s') r v"
  shows "builds h0 h (State_Monad.bind (into s) f) r v"
  using builds_copy [OF assms(1-4)] copier.reads_local [OF assms(1)] assms(5) by (rule builds_then)

subsection \<open>Pointers and slices\<close>

text \<open>\<open>DeepCopy\<close> of a type, from its \<open>DeepCopyInto\<close>; with the plain assignment, it is \<open>new(T)\<close> followed by
  \<open>**out = **in\<close>.\<close>

definition DeepCopy :: "('s, 'c) gotype \<Rightarrow> ('s \<Rightarrow> ('c, 's) gm) \<Rightarrow> addr option \<Rightarrow> ('c, addr option) gm" where
  "DeepCopy T into p = (case p of
     None \<Rightarrow> State_Monad.return None
   | Some a \<Rightarrow> do {
       out \<leftarrow> new T (zero T);
       s \<leftarrow> do { s \<leftarrow> deref T a; into s };
       store T out s;
       State_Monad.return (Some out)
     })"

text \<open>\<open>make([]T, len(*in))\<close> and the loop that copies into it, where \<open>z\<close> is the zero value of the elements.\<close>

definition copy_slice :: "('s list, 'c) gotype \<Rightarrow> 's \<Rightarrow> ('s \<Rightarrow> ('c, 's) gm) \<Rightarrow> slice option \<Rightarrow> ('c, slice option) gm" where
  "copy_slice T z into p = (case p of
     None \<Rightarrow> State_Monad.return None
   | Some sl \<Rightarrow> do {
       out \<leftarrow> new T (replicate (sl_len sl) z);
       xs \<leftarrow> do { xs \<leftarrow> deref T (sl_array sl); State_Monad.traverse_list into (take (sl_len sl) xs) };
       store T out xs;
       State_Monad.return (Some \<lparr>sl_array = out, sl_len = sl_len sl\<rparr>)
     })"

text \<open>\<open>append(p, x)\<close> writes into the array when it has room, else it moves to a new array with \<open>spare\<close> elements to
  spare, where \<open>z\<close> is the zero value of the elements. How much room there is, the language leaves open.\<close>

definition go_append :: "('s list, 'c) gotype \<Rightarrow> 's \<Rightarrow> nat \<Rightarrow> slice option \<Rightarrow> 's \<Rightarrow> ('c, slice option) gm" where
  "go_append T z spare p x = (case p of
     None \<Rightarrow> do {
       a \<leftarrow> new T (x # replicate spare z);
       State_Monad.return (Some \<lparr>sl_array = a, sl_len = 1\<rparr>)
     }
   | Some sl \<Rightarrow> do {
       xs \<leftarrow> deref T (sl_array sl);
       if sl_len sl < length xs then do {
         store T (sl_array sl) (xs[sl_len sl := x]);
         State_Monad.return (Some (sl\<lparr>sl_len := Suc (sl_len sl)\<rparr>))
       } else do {
         a \<leftarrow> new T (take (sl_len sl) xs @ x # replicate spare z);
         State_Monad.return (Some \<lparr>sl_array = a, sl_len = Suc (sl_len sl)\<rparr>)
       }
     })"

text \<open>A copy that is made unless the pointer is nil.\<close>

definition when_set :: "('p \<Rightarrow> ('c, 'p) gm) \<Rightarrow> 'p option \<Rightarrow> ('c, 'p option) gm" where
  "when_set into p = (case p of None \<Rightarrow> State_Monad.return None
     | Some q \<Rightarrow> do { q' \<leftarrow> into q; State_Monad.return (Some q') })"

lemma run_new_store:
  assumes "go_type T" and "\<And>s. local (r s)" and "wf_heap h"
    and "\<And>h1. wf_heap h1 \<Longrightarrow> h \<le> h1 \<Longrightarrow> builds h1 h1 m r v"
  shows "\<exists>out s h' A. run_state (do { out \<leftarrow> new T z; s \<leftarrow> m; store T out s; State_Monad.return (f out s) }) h = (f out s, h') \<and>
    wf_heap h' \<and> h \<le> h' \<and> at T out h' = Some (s, {out}) \<and> r s h' = Some (v, A) \<and> fresh_in h (insert out A)"
proof -
  let ?h1 = "GoHeap ((cells h)(limit h \<mapsto> wrap T z)) (Suc (limit h))"
  have "wf_heap ?h1" and "h \<le> ?h1" using grown [OF assms(3)] by simp_all
  from assms(4) [OF this] obtain s h2 A where run: "run_state m ?h1 = (s, h2)" and h2: "wf_heap h2" "?h1 \<le> h2"
    and read: "r s h2 = Some (v, A)" and fresh: "fresh_in ?h1 A"
    unfolding builds_def by blast
  let ?h3 = "GoHeap ((cells h2)(limit h \<mapsto> wrap T s)) (limit h2)"
  have "r s ?h3 = Some (v, A)"
    using assms(2) read by (rule reads_elsewhere) (use fresh in \<open>auto simp: fresh_in_def\<close>)
  moreover have "wf_heap ?h3" using h2 by (auto simp: wf_heap_def less_eq_goheap_def)
  moreover have "h \<le> ?h3"
    using h2(2) assms(3) by (fastforce simp: less_eq_goheap_def map_le_def wf_heap_def dom_def)
  moreover have "fresh_in h (insert (limit h) A)" using fresh by (auto simp: fresh_in_def)
  moreover have "at T (limit h) ?h3 = Some (s, {limit h})"
    by (simp add: at_def go_type.unwrap_wrap [OF assms(1)])
  ultimately show ?thesis
    using run by (auto simp: new_def store_def)
qed

lemma at_content: "at T a h = Some (s, A) \<Longrightarrow> content T a h = s \<and> A = {a}"
  by (auto simp: at_def content_def split: option.splits)

lemma pointeeD:
  "pointee T r a h = Some (v, A) \<Longrightarrow> \<exists>s B. at T a h = Some (s, {a}) \<and> r s h = Some (v, B) \<and> A = insert a B"
  by (auto simp: pointee_def rd_bind_def at_def split: option.splits)

lemma pointeeI: "at T a h = Some (s, {a}) \<Longrightarrow> r s h = Some (v, B) \<Longrightarrow> pointee T r a h = Some (v, insert a B)"
  by (simp add: pointee_def rd_bind_def)

lemma nullableD: "nullable r (Some p) h = Some (x, A) \<Longrightarrow> \<exists>v. x = Some v \<and> r p h = Some (v, A)"
  by (auto simp: rd_bind_def rd_def split: option.splits)

lemma nullableI: "r p h = Some (v, A) \<Longrightarrow> nullable r (Some p) h = Some (Some v, A)"
  by (simp add: rd_bind_def rd_def)

lemma builds_nil: "wf_heap h \<Longrightarrow> nullable r None h = Some (v, A) \<Longrightarrow> builds h h (State_Monad.return None) (nullable r) v"
  by (rule builds_return) (auto simp: rd_def)

lemma deref_builds:
  assumes "at T a h = Some (s, {a})" and "builds h h (f s) r v"
  shows "builds h h (do { s \<leftarrow> deref T a; f s }) r v"
  using assms at_content [OF assms(1)] by (simp add: builds_def deref_def)

lemma copier_DeepCopy:
  assumes "go_type T" and "copier read into"
  shows "copier (nullable (pointee T read)) (DeepCopy T into)"
proof
  note loc = copier.reads_local [OF assms(2)]
  show "local (nullable (pointee T read) p)" for p
    using loc by (intro local_rules)
  show "builds h h (DeepCopy T into p) (nullable (pointee T read)) x"
    if wf: "wf_heap h" and p: "nullable (pointee T read) p h = Some (x, A)" for h p x A
  proof (cases p)
    case None
    with that show ?thesis by (simp add: DeepCopy_def builds_nil)
  next
    case (Some a)
    with p obtain v where x: "x = Some v" and "pointee T read a h = Some (v, A)" by (blast dest: nullableD)
    then obtain s B where s: "at T a h = Some (s, {a})" and v: "read s h = Some (v, B)" by (blast dest: pointeeD)
    have "builds h1 h1 (do { s \<leftarrow> deref T a; into s }) read v" if "wf_heap h1" and "h \<le> h1" for h1
      using reads_later [OF local_at s that(2)] copier.copies [OF assms(2) that(1) reads_later [OF loc v that(2)]]
      by (rule deref_builds)
    from run_new_store [OF assms(1) loc wf this, where z = "zero T" and f = "\<lambda>out s. Some out"]
    show ?thesis
      unfolding builds_def DeepCopy_def Some option.case x by (blast intro: nullableI pointeeI)
  qed
qed

lemma copier_when_set:
  assumes "copier read into"
  shows "copier (nullable read) (when_set into)"
proof
  note loc = copier.reads_local [OF assms]
  show "local (nullable read p)" for p
    using loc by (intro local_rules)
  show "builds h h (when_set into p) (nullable read) x" if "wf_heap h" and "nullable read p h = Some (x, A)" for h p x A
  proof (cases p)
    case None
    with that show ?thesis by (simp add: when_set_def builds_nil)
  next
    case (Some q)
    with that obtain v where v: "x = Some v" "read q h = Some (v, A)" by (blast dest: nullableD)
    show ?thesis
      unfolding when_set_def Some option.case v(1)
      by (rule builds_bind [OF assms that(1) order_refl v(2)]) (blast intro: builds_return nullableI)
  qed
qed

lemma read_all_length: "read_all r ss h = Some (vs, A) \<Longrightarrow> length vs = length ss"
  by (induction ss arbitrary: vs A) (auto simp: rd_bind_def rd_def split: option.splits)

lemma copier_all:
  assumes "copier read into"
  shows "copier (read_all read) (State_Monad.traverse_list into)"
proof
  note loc = copier.reads_local [OF assms]
  show loc_all: "local (read_all read ss)" for ss
    using loc by (intro local_rules)
  have all: "builds h0 h (State_Monad.traverse_list into ss) (read_all read) vs"
    if "wf_heap h" and "h0 \<le> h" and "read_all read ss h0 = Some (vs, A)" for h0 h ss vs A
    using that
  proof (induction ss arbitrary: h vs A)
    case Nil
    then show ?case by (auto simp: rd_def intro!: builds_return)
  next
    case (Cons s ss)
    then obtain v ws B C where s: "read s h0 = Some (v, B)" and ss: "read_all read ss h0 = Some (ws, C)" and vs: "vs = v # ws"
      by (auto simp: rd_bind_def rd_def split: option.splits)
    show ?case
      unfolding State_Monad.traverse_list.simps vs
    proof (rule builds_bind [OF assms _ _ s])
      fix s' h1 A1
      assume 1: "wf_heap h1" "h \<le> h1" "\<And>h''. h1 \<le> h'' \<Longrightarrow> read s' h'' = Some (v, A1)" "fresh_in h0 A1"
      then have "h0 \<le> h1" using Cons.prems(2) by simp
      show "builds h0 h1 (do { ss' \<leftarrow> State_Monad.traverse_list into ss; State_Monad.return (s' # ss') }) (read_all read) (v # ws)"
        using Cons.IH [OF 1(1) \<open>h0 \<le> h1\<close> ss] loc_all
        by (rule builds_then) (auto intro!: builds_return simp: 1 rd_bind_def rd_def)
    qed (use Cons.prems in auto)
  qed
  show "builds h h (State_Monad.traverse_list into ss) (read_all read) vs"
    if "wf_heap h" and "read_all read ss h = Some (vs, A)" for h ss vs A
    using that(1) order_refl that(2) by (rule all)
qed

lemma copier_slice:
  assumes "go_type T" and "copier read into"
  shows "copier (nullable (elements T read)) (copy_slice T z into)"
proof
  note loc = copier.reads_local [OF assms(2)]
  note all = copier_all [OF assms(2)]
  show "local (nullable (elements T read) p)" for p
    using loc by (intro local_rules)
  show "builds h h (copy_slice T z into p) (nullable (elements T read)) x"
    if wf: "wf_heap h" and p: "nullable (elements T read) p h = Some (x, A)" for h p x A
  proof (cases p)
    case None
    with that show ?thesis by (simp add: copy_slice_def builds_nil)
  next
    case (Some sl)
    let ?n = "sl_len sl"
    from p Some obtain vs where x: "x = Some vs" and "elements T read sl h = Some (vs, A)" by (blast dest: nullableD)
    then obtain xs B where xs: "at T (sl_array sl) h = Some (xs, {sl_array sl})" and n: "?n \<le> length xs"
      and vs: "read_all read (take ?n xs) h = Some (vs, B)"
      by (auto simp: elements_def split: if_splits dest!: pointeeD)
    have "builds h1 h1 (do { xs \<leftarrow> deref T (sl_array sl); State_Monad.traverse_list into (take ?n xs) }) (read_all read) vs"
      if "wf_heap h1" and "h \<le> h1" for h1
      using reads_later [OF local_at xs that(2)]
        copier.copies [OF all that(1) reads_later [OF copier.reads_local [OF all] vs that(2)]]
      by (rule deref_builds)
    from run_new_store [OF assms(1) copier.reads_local [OF all] wf this, where z = "replicate ?n z"
        and f = "\<lambda>out s. Some \<lparr>sl_array = out, sl_len = ?n\<rparr>"]
    obtain out ys h' C where "run_state (copy_slice T z into p) h = (Some \<lparr>sl_array = out, sl_len = ?n\<rparr>, h')"
      and h': "wf_heap h'" "h \<le> h'" and ys: "at T out h' = Some (ys, {out})" "read_all read ys h' = Some (vs, C)"
      and "fresh_in h (insert out C)"
      unfolding copy_slice_def Some option.case by blast
    moreover have "length ys = ?n"
      using read_all_length [OF ys(2)] read_all_length [OF vs] n by simp
    with ys have "elements T read \<lparr>sl_array = out, sl_len = ?n\<rparr> h' = Some (vs, insert out C)"
      by (auto simp: elements_def intro!: pointeeI)
    then have "nullable (elements T read) (Some \<lparr>sl_array = out, sl_len = ?n\<rparr>) h' = Some (x, insert out C)"
      unfolding x by (rule nullableI)
    ultimately show ?thesis unfolding builds_def by blast
  qed
qed

text \<open>Types without pointers are copied by assignment.\<close>

lemma copier_plain: "copier (\<lambda>s. rd (f s)) State_Monad.return"
  by unfold_locales (auto simp: rd_def local_rd intro!: builds_return)

subsection \<open>Independence\<close>

text \<open>From \<open>h\<close>, the routine \<open>m\<close> yields a pointer to an object that reads as \<open>v\<close> and lies on addresses that were not
  allocated; every cell of \<open>h\<close> is as it was, and later writes to these cells do not change the object.\<close>

definition yields_copy :: "('c, 'p option) gm \<Rightarrow> 'c goheap \<Rightarrow> ('p \<Rightarrow> ('c, 'v) reader) \<Rightarrow> 'v \<Rightarrow> bool" where
  "yields_copy m h r v \<longleftrightarrow> (\<exists>p h' B. run_state m h = (Some p, h') \<and> wf_heap h' \<and> h \<le> h' \<and> dom (cells h) \<inter> B = {} \<and>
     r p h' = Some (v, B) \<and>
     (\<forall>h''. (\<forall>a. a \<notin> dom (cells h) \<longrightarrow> cells h'' a = cells h' a) \<longrightarrow> r p h'' = Some (v, B)))"

lemma copy_is_independent:
  assumes "copier (nullable r) m" and "wf_heap h" and "r p h = Some (v, A)" and "\<And>q. local (r q)"
  shows "yields_copy (m (Some p)) h r v"
proof -
  have "nullable r (Some p) h = Some (Some v, A)" using assms(3) by (rule nullableI)
  from copier.copies [OF assms(1,2) this] obtain q h' B where run: "run_state (m (Some p)) h = (q, h')"
    and h': "wf_heap h'" "h \<le> h'" and q: "nullable r q h' = Some (Some v, B)" and fresh: "fresh_in h B"
    unfolding builds_def by blast
  from q obtain p' where p': "q = Some p'" by (cases q) (auto simp: rd_def)
  with q have read: "r p' h' = Some (v, B)" by (blast dest: nullableD)
  from fresh assms(2) have apart: "dom (cells h) \<inter> B = {}"
    unfolding fresh_in_def wf_heap_def by (meson disjoint_iff not_le)
  have "r p' h'' = Some (v, B)" if "\<forall>a. a \<notin> dom (cells h) \<longrightarrow> cells h'' a = cells h' a" for h''
    using assms(4) read by (rule reads_elsewhere) (use that apart in auto)
  with run h' apart read show ?thesis unfolding yields_copy_def p' by blast
qed

lemmas deep_copy_is_independent = copy_is_independent [OF copier_DeepCopy]

end
