(* ===== verification/GoObjects.thy ===== *)
theory GoObjects
  imports GoHeap TLSWatcher
begin

text \<open>
  The API types of the operator as they lie in memory: structures with pointer and slice fields, the cells
  that hold them, and the readers that give their values, which are those of \<open>ApiTypes\<close> and
  \<open>TLSWatcher\<close>. Of the metadata, the fields the controllers use. A condition has no pointers.
\<close>

subsection \<open>Structures\<close>

record gTypeMeta =
  tm_Kind :: string
  tm_APIVersion :: string

record gObjectMeta =
  gm_Name :: string
  gm_Namespace :: string
  gm_Generation :: int
  gm_DeletionTimestamp :: "addr option"
  gm_Finalizers :: "slice option"

record gListMeta =
  lm_ResourceVersion :: string
  lm_Continue :: string
  lm_RemainingItemCount :: "addr option"

record gTypedLocalObjectReference =
  gr_APIGroup :: "addr option"
  gr_Kind :: string
  gr_Name :: string

record gRestoreSource =
  gsrc_PVC :: "addr option"
  gsrc_Snapshot :: "addr option"
  gsrc_Remote :: "addr option"

record gRestoreSpec =
  gsp_Target :: gTypedLocalObjectReference
  gsp_Source :: gRestoreSource
  gsp_SourcePath :: string

record gRestoreStatus =
  gs_Phase :: RestorePhase
  gs_Conditions :: "slice option"
  gs_StartTime :: "addr option"
  gs_CompletionTime :: "addr option"
  gs_RestoredFilesCount :: "addr option"
  gs_ErrorMessage :: string
  gs_MountPath :: string
  gs_AttachmentRetries :: i32
  gs_SSHRetries :: i32
  gs_LastAttachmentCheckTime :: "addr option"
  gs_LastSSHCheckTime :: "addr option"

record gRestore =
  gv_TypeMeta :: gTypeMeta
  gv_ObjectMeta :: gObjectMeta
  gv_Spec :: gRestoreSpec
  gv_Status :: gRestoreStatus

record gRestoreList =
  gvl_TypeMeta :: gTypeMeta
  gvl_ListMeta :: gListMeta
  gvl_Items :: "slice option"

record gTLSProfileSpec =
  gp_Ciphers :: "slice option"
  gp_MinTLSVersion :: TLSProtocolVersion

record gCustomTLSProfile =
  gc_TLSProfileSpec :: gTLSProfileSpec

record gTLSSecurityProfile =
  gt_Type :: TLSProfileType
  gt_Old :: "addr option"
  gt_Intermediate :: "addr option"
  gt_Modern :: "addr option"
  gt_Custom :: "addr option"

record gOperatorSpec =
  gos_ImagePullPolicy :: string
  gos_TLSSecurityProfile :: "addr option"

record gOperatorStatus =
  got_Conditions :: "slice option"
  got_OperatorVersion :: string
  got_TargetVersion :: string
  got_ObservedVersion :: string
  got_ObservedGeneration :: int

record gOperator =
  go_TypeMeta :: gTypeMeta
  go_ObjectMeta :: gObjectMeta
  go_Spec :: gOperatorSpec
  go_Status :: gOperatorStatus

record gOperatorList =
  gol_TypeMeta :: gTypeMeta
  gol_ListMeta :: gListMeta
  gol_Items :: "slice option"

subsection \<open>Cells\<close>

datatype cell =
    TimeCell time
  | Int32Cell i32
  | Int64Cell int
  | StringCell string
  | StringsCell "string list"
  | ConditionsCell "Condition list"
  | PVCSourceCell PVCSource
  | SnapshotSourceCell VolumeSnapshotSource
  | RemoteSourceCell RemoteSource
  | RestoreSourceCell gRestoreSource
  | RestoreSpecCell gRestoreSpec
  | RestoreStatusCell gRestoreStatus
  | RestoreCell gRestore
  | RestoresCell "gRestore list"
  | RestoreListCell gRestoreList
  | OldCell
  | IntermediateCell
  | ModernCell
  | TLSProfileSpecCell gTLSProfileSpec
  | CustomCell gCustomTLSProfile
  | SecurityProfileCell gTLSSecurityProfile
  | OperatorSpecCell gOperatorSpec
  | OperatorStatusCell gOperatorStatus
  | OperatorCell gOperator
  | OperatorsCell "gOperator list"
  | OperatorListCell gOperatorList

text \<open>Zero values.\<close>

definition zero_condition :: Condition where
  "zero_condition = \<lparr>c_Type = '''', c_Status = ConditionUnknown, c_ObservedGeneration = 0, c_LastTransitionTime = 0,
     c_Reason = '''', c_Message = ''''\<rparr>"

definition zero_type_meta :: gTypeMeta where
  "zero_type_meta = \<lparr>tm_Kind = '''', tm_APIVersion = ''''\<rparr>"

definition zero_object_meta :: gObjectMeta where
  "zero_object_meta = \<lparr>gm_Name = '''', gm_Namespace = '''', gm_Generation = 0, gm_DeletionTimestamp = None, gm_Finalizers = None\<rparr>"

definition zero_list_meta :: gListMeta where
  "zero_list_meta = \<lparr>lm_ResourceVersion = '''', lm_Continue = '''', lm_RemainingItemCount = None\<rparr>"

definition zero_source :: gRestoreSource where
  "zero_source = \<lparr>gsrc_PVC = None, gsrc_Snapshot = None, gsrc_Remote = None\<rparr>"

definition zero_spec :: gRestoreSpec where
  "zero_spec = \<lparr>gsp_Target = \<lparr>gr_APIGroup = None, gr_Kind = '''', gr_Name = ''''\<rparr>, gsp_Source = zero_source,
     gsp_SourcePath = ''''\<rparr>"

definition zero_status :: gRestoreStatus where
  "zero_status = \<lparr>gs_Phase = RestorePhaseUnset, gs_Conditions = None, gs_StartTime = None, gs_CompletionTime = None,
     gs_RestoredFilesCount = None, gs_ErrorMessage = '''', gs_MountPath = '''', gs_AttachmentRetries = 0,
     gs_SSHRetries = 0, gs_LastAttachmentCheckTime = None, gs_LastSSHCheckTime = None\<rparr>"

definition zero_restore :: gRestore where
  "zero_restore = \<lparr>gv_TypeMeta = zero_type_meta, gv_ObjectMeta = zero_object_meta, gv_Spec = zero_spec, gv_Status = zero_status\<rparr>"

definition zero_profile_spec :: gTLSProfileSpec where
  "zero_profile_spec = \<lparr>gp_Ciphers = None, gp_MinTLSVersion = ''''\<rparr>"

definition zero_security_profile :: gTLSSecurityProfile where
  "zero_security_profile = \<lparr>gt_Type = '''', gt_Old = None, gt_Intermediate = None, gt_Modern = None, gt_Custom = None\<rparr>"

definition zero_operator_spec :: gOperatorSpec where
  "zero_operator_spec = \<lparr>gos_ImagePullPolicy = '''', gos_TLSSecurityProfile = None\<rparr>"

definition zero_operator_status :: gOperatorStatus where
  "zero_operator_status = \<lparr>got_Conditions = None, got_OperatorVersion = '''', got_TargetVersion = '''',
     got_ObservedVersion = '''', got_ObservedGeneration = 0\<rparr>"

definition zero_operator :: gOperator where
  "zero_operator = \<lparr>go_TypeMeta = zero_type_meta, go_ObjectMeta = zero_object_meta, go_Spec = zero_operator_spec,
     go_Status = zero_operator_status\<rparr>"

subsection \<open>Types\<close>

definition TimeT :: "(time, cell) gotype" where
  "TimeT = \<lparr>wrap = TimeCell, unwrap = (\<lambda>c. case c of TimeCell x \<Rightarrow> Some x | _ \<Rightarrow> None), zero = 0\<rparr>"

definition Int32T :: "(i32, cell) gotype" where
  "Int32T = \<lparr>wrap = Int32Cell, unwrap = (\<lambda>c. case c of Int32Cell x \<Rightarrow> Some x | _ \<Rightarrow> None), zero = 0\<rparr>"

definition Int64T :: "(int, cell) gotype" where
  "Int64T = \<lparr>wrap = Int64Cell, unwrap = (\<lambda>c. case c of Int64Cell x \<Rightarrow> Some x | _ \<Rightarrow> None), zero = 0\<rparr>"

definition StringT :: "(string, cell) gotype" where
  "StringT = \<lparr>wrap = StringCell, unwrap = (\<lambda>c. case c of StringCell x \<Rightarrow> Some x | _ \<Rightarrow> None), zero = ''''\<rparr>"

definition StringsT :: "(string list, cell) gotype" where
  "StringsT = \<lparr>wrap = StringsCell, unwrap = (\<lambda>c. case c of StringsCell x \<Rightarrow> Some x | _ \<Rightarrow> None), zero = []\<rparr>"

definition ConditionsT :: "(Condition list, cell) gotype" where
  "ConditionsT = \<lparr>wrap = ConditionsCell, unwrap = (\<lambda>c. case c of ConditionsCell x \<Rightarrow> Some x | _ \<Rightarrow> None), zero = []\<rparr>"

definition PVCSourceT :: "(PVCSource, cell) gotype" where
  "PVCSourceT = \<lparr>wrap = PVCSourceCell, unwrap = (\<lambda>c. case c of PVCSourceCell x \<Rightarrow> Some x | _ \<Rightarrow> None),
     zero = \<lparr>pvcs_Name = '''', pvcs_Namespace = ''''\<rparr>\<rparr>"

definition SnapshotSourceT :: "(VolumeSnapshotSource, cell) gotype" where
  "SnapshotSourceT = \<lparr>wrap = SnapshotSourceCell, unwrap = (\<lambda>c. case c of SnapshotSourceCell x \<Rightarrow> Some x | _ \<Rightarrow> None),
     zero = \<lparr>vss_Name = '''', vss_Namespace = ''''\<rparr>\<rparr>"

definition RemoteSourceT :: "(RemoteSource, cell) gotype" where
  "RemoteSourceT = \<lparr>wrap = RemoteSourceCell, unwrap = (\<lambda>c. case c of RemoteSourceCell x \<Rightarrow> Some x | _ \<Rightarrow> None),
     zero = \<lparr>rs_Name = '''', rs_Bucket = ''''\<rparr>\<rparr>"

definition RestoreSourceT :: "(gRestoreSource, cell) gotype" where
  "RestoreSourceT = \<lparr>wrap = RestoreSourceCell, unwrap = (\<lambda>c. case c of RestoreSourceCell x \<Rightarrow> Some x | _ \<Rightarrow> None), zero = zero_source\<rparr>"

definition RestoreSpecT :: "(gRestoreSpec, cell) gotype" where
  "RestoreSpecT = \<lparr>wrap = RestoreSpecCell, unwrap = (\<lambda>c. case c of RestoreSpecCell x \<Rightarrow> Some x | _ \<Rightarrow> None), zero = zero_spec\<rparr>"

definition RestoreStatusT :: "(gRestoreStatus, cell) gotype" where
  "RestoreStatusT = \<lparr>wrap = RestoreStatusCell, unwrap = (\<lambda>c. case c of RestoreStatusCell x \<Rightarrow> Some x | _ \<Rightarrow> None), zero = zero_status\<rparr>"

definition RestoreT :: "(gRestore, cell) gotype" where
  "RestoreT = \<lparr>wrap = RestoreCell, unwrap = (\<lambda>c. case c of RestoreCell x \<Rightarrow> Some x | _ \<Rightarrow> None), zero = zero_restore\<rparr>"

definition RestoresT :: "(gRestore list, cell) gotype" where
  "RestoresT = \<lparr>wrap = RestoresCell, unwrap = (\<lambda>c. case c of RestoresCell x \<Rightarrow> Some x | _ \<Rightarrow> None), zero = []\<rparr>"

definition RestoreListT :: "(gRestoreList, cell) gotype" where
  "RestoreListT = \<lparr>wrap = RestoreListCell, unwrap = (\<lambda>c. case c of RestoreListCell x \<Rightarrow> Some x | _ \<Rightarrow> None),
     zero = \<lparr>gvl_TypeMeta = zero_type_meta, gvl_ListMeta = zero_list_meta, gvl_Items = None\<rparr>\<rparr>"

definition OldT :: "(unit, cell) gotype" where
  "OldT = \<lparr>wrap = (\<lambda>_. OldCell), unwrap = (\<lambda>c. case c of OldCell \<Rightarrow> Some () | _ \<Rightarrow> None), zero = ()\<rparr>"

definition IntermediateT :: "(unit, cell) gotype" where
  "IntermediateT = \<lparr>wrap = (\<lambda>_. IntermediateCell), unwrap = (\<lambda>c. case c of IntermediateCell \<Rightarrow> Some () | _ \<Rightarrow> None), zero = ()\<rparr>"

definition ModernT :: "(unit, cell) gotype" where
  "ModernT = \<lparr>wrap = (\<lambda>_. ModernCell), unwrap = (\<lambda>c. case c of ModernCell \<Rightarrow> Some () | _ \<Rightarrow> None), zero = ()\<rparr>"

definition TLSProfileSpecT :: "(gTLSProfileSpec, cell) gotype" where
  "TLSProfileSpecT = \<lparr>wrap = TLSProfileSpecCell, unwrap = (\<lambda>c. case c of TLSProfileSpecCell x \<Rightarrow> Some x | _ \<Rightarrow> None),
     zero = zero_profile_spec\<rparr>"

definition CustomT :: "(gCustomTLSProfile, cell) gotype" where
  "CustomT = \<lparr>wrap = CustomCell, unwrap = (\<lambda>c. case c of CustomCell x \<Rightarrow> Some x | _ \<Rightarrow> None),
     zero = \<lparr>gc_TLSProfileSpec = zero_profile_spec\<rparr>\<rparr>"

definition SecurityProfileT :: "(gTLSSecurityProfile, cell) gotype" where
  "SecurityProfileT = \<lparr>wrap = SecurityProfileCell, unwrap = (\<lambda>c. case c of SecurityProfileCell x \<Rightarrow> Some x | _ \<Rightarrow> None),
     zero = zero_security_profile\<rparr>"

definition OperatorSpecT :: "(gOperatorSpec, cell) gotype" where
  "OperatorSpecT = \<lparr>wrap = OperatorSpecCell, unwrap = (\<lambda>c. case c of OperatorSpecCell x \<Rightarrow> Some x | _ \<Rightarrow> None),
     zero = zero_operator_spec\<rparr>"

definition OperatorStatusT :: "(gOperatorStatus, cell) gotype" where
  "OperatorStatusT = \<lparr>wrap = OperatorStatusCell, unwrap = (\<lambda>c. case c of OperatorStatusCell x \<Rightarrow> Some x | _ \<Rightarrow> None),
     zero = zero_operator_status\<rparr>"

definition OperatorT :: "(gOperator, cell) gotype" where
  "OperatorT = \<lparr>wrap = OperatorCell, unwrap = (\<lambda>c. case c of OperatorCell x \<Rightarrow> Some x | _ \<Rightarrow> None), zero = zero_operator\<rparr>"

definition OperatorsT :: "(gOperator list, cell) gotype" where
  "OperatorsT = \<lparr>wrap = OperatorsCell, unwrap = (\<lambda>c. case c of OperatorsCell x \<Rightarrow> Some x | _ \<Rightarrow> None), zero = []\<rparr>"

definition OperatorListT :: "(gOperatorList, cell) gotype" where
  "OperatorListT = \<lparr>wrap = OperatorListCell, unwrap = (\<lambda>c. case c of OperatorListCell x \<Rightarrow> Some x | _ \<Rightarrow> None),
     zero = \<lparr>gol_TypeMeta = zero_type_meta, gol_ListMeta = zero_list_meta, gol_Items = None\<rparr>\<rparr>"

lemmas type_defs = TimeT_def Int32T_def Int64T_def StringT_def StringsT_def ConditionsT_def PVCSourceT_def
  SnapshotSourceT_def RemoteSourceT_def RestoreSourceT_def RestoreSpecT_def RestoreStatusT_def RestoreT_def
  RestoresT_def RestoreListT_def OldT_def IntermediateT_def ModernT_def TLSProfileSpecT_def CustomT_def
  SecurityProfileT_def OperatorSpecT_def OperatorStatusT_def OperatorT_def OperatorsT_def OperatorListT_def

lemma go_types:
  "go_type TimeT" "go_type Int32T" "go_type Int64T" "go_type StringT" "go_type StringsT" "go_type ConditionsT"
  "go_type PVCSourceT" "go_type SnapshotSourceT" "go_type RemoteSourceT" "go_type RestoreSourceT" "go_type RestoreSpecT"
  "go_type RestoreStatusT" "go_type RestoreT" "go_type RestoresT" "go_type RestoreListT" "go_type OldT"
  "go_type IntermediateT" "go_type ModernT" "go_type TLSProfileSpecT" "go_type CustomT" "go_type SecurityProfileT"
  "go_type OperatorSpecT" "go_type OperatorStatusT" "go_type OperatorT" "go_type OperatorsT" "go_type OperatorListT"
  by (simp_all add: go_type_def type_defs)

interpretation restores: go_type RestoreT
  by (rule go_types)

interpretation conditions_array: go_type ConditionsT
  by (rule go_types)

subsection \<open>Values\<close>

text \<open>A nil slice and an empty one are the same list.\<close>

definition list_of :: "'a list option \<Rightarrow> 'a list" where
  "list_of xs = (case xs of None \<Rightarrow> [] | Some ys \<Rightarrow> ys)"

abbreviation plain :: "('s, cell) gotype \<Rightarrow> addr option \<Rightarrow> (cell, 's option) reader" where
  "plain T \<equiv> nullable (pointee T rd)"

definition read_meta :: "gObjectMeta \<Rightarrow> (cell, string \<times> string \<times> int \<times> time option \<times> string list) reader" where
  "read_meta m = rd_bind (plain TimeT (gm_DeletionTimestamp m)) (\<lambda>t.
     rd_bind (nullable (elements StringsT rd) (gm_Finalizers m)) (\<lambda>fs.
     rd (gm_Name m, gm_Namespace m, gm_Generation m, t, list_of fs)))"

definition read_list_meta :: "gListMeta \<Rightarrow> (cell, string \<times> string \<times> int option) reader" where
  "read_list_meta m = rd_bind (plain Int64T (lm_RemainingItemCount m)) (\<lambda>n.
     rd (lm_ResourceVersion m, lm_Continue m, n))"

definition read_ref :: "gTypedLocalObjectReference \<Rightarrow> (cell, TypedLocalObjectReference) reader" where
  "read_ref r = rd_bind (plain StringT (gr_APIGroup r)) (\<lambda>g.
     rd \<lparr>ref_APIGroup = g, ref_Kind = gr_Kind r, ref_Name = gr_Name r\<rparr>)"

definition read_source :: "gRestoreSource \<Rightarrow> (cell, RestoreSource) reader" where
  "read_source s = rd_bind (plain PVCSourceT (gsrc_PVC s)) (\<lambda>pvc.
     rd_bind (plain SnapshotSourceT (gsrc_Snapshot s)) (\<lambda>snap.
     rd_bind (plain RemoteSourceT (gsrc_Remote s)) (\<lambda>remote.
     rd \<lparr>src_PVC = pvc, src_Snapshot = snap, src_Remote = remote\<rparr>)))"

definition read_spec :: "gRestoreSpec \<Rightarrow> (cell, VirtualMachineFileRestoreSpec) reader" where
  "read_spec s = rd_bind (read_ref (gsp_Target s)) (\<lambda>target.
     rd_bind (read_source (gsp_Source s)) (\<lambda>source.
     rd \<lparr>Target = target, Source = source, SourcePath = gsp_SourcePath s\<rparr>))"

definition read_status :: "gRestoreStatus \<Rightarrow> (cell, VirtualMachineFileRestoreStatus) reader" where
  "read_status s = rd_bind (nullable (elements ConditionsT rd) (gs_Conditions s)) (\<lambda>cs.
     rd_bind (plain TimeT (gs_StartTime s)) (\<lambda>started.
     rd_bind (plain TimeT (gs_CompletionTime s)) (\<lambda>completed.
     rd_bind (plain Int32T (gs_RestoredFilesCount s)) (\<lambda>count.
     rd_bind (plain TimeT (gs_LastAttachmentCheckTime s)) (\<lambda>attachment.
     rd_bind (plain TimeT (gs_LastSSHCheckTime s)) (\<lambda>ssh.
     rd \<lparr>Phase = gs_Phase s, Conditions = list_of cs, StartTime = started, CompletionTime = completed,
         RestoredFilesCount = count, ErrorMessage = gs_ErrorMessage s, MountPath = gs_MountPath s,
         AttachmentRetries = gs_AttachmentRetries s, SSHRetries = gs_SSHRetries s,
         LastAttachmentCheckTime = attachment, LastSSHCheckTime = ssh\<rparr>))))))"

definition read_restore :: "gRestore \<Rightarrow> (cell, gTypeMeta \<times> vmfr) reader" where
  "read_restore v = rd_bind (read_meta (gv_ObjectMeta v)) (\<lambda>(name, namespace, generation, deleted, finalizers).
     rd_bind (read_spec (gv_Spec v)) (\<lambda>spec.
     rd_bind (read_status (gv_Status v)) (\<lambda>status.
     rd (gv_TypeMeta v, \<lparr>vmfr_Name = name, vmfr_Namespace = namespace, vmfr_Generation = generation,
       vmfr_DeletionTimestamp = deleted, vmfr_Finalizers = finalizers, vmfr_Spec = spec, vmfr_Status = status\<rparr>))))"

definition read_restore_list ::
  "gRestoreList \<Rightarrow> (cell, gTypeMeta \<times> (string \<times> string \<times> int option) \<times> (gTypeMeta \<times> vmfr) list option) reader" where
  "read_restore_list l = rd_bind (read_list_meta (gvl_ListMeta l)) (\<lambda>m.
     rd_bind (nullable (elements RestoresT read_restore) (gvl_Items l)) (\<lambda>items.
     rd (gvl_TypeMeta l, m, items)))"

definition read_profile_spec :: "gTLSProfileSpec \<Rightarrow> (cell, TLSProfileSpec) reader" where
  "read_profile_spec p = rd_bind (nullable (elements StringsT rd) (gp_Ciphers p)) (\<lambda>cs.
     rd \<lparr>Ciphers = list_of cs, MinTLSVersion = gp_MinTLSVersion p\<rparr>)"

definition read_custom :: "gCustomTLSProfile \<Rightarrow> (cell, TLSProfileSpec) reader" where
  "read_custom p = read_profile_spec (gc_TLSProfileSpec p)"

definition read_security_profile :: "gTLSSecurityProfile \<Rightarrow> (cell, TLSSecurityProfile) reader" where
  "read_security_profile p = rd_bind (plain OldT (gt_Old p)) (\<lambda>old.
     rd_bind (plain IntermediateT (gt_Intermediate p)) (\<lambda>intermediate.
     rd_bind (plain ModernT (gt_Modern p)) (\<lambda>modern.
     rd_bind (nullable (pointee CustomT read_custom) (gt_Custom p)) (\<lambda>custom.
     rd \<lparr>prof_Type = gt_Type p, prof_Old = old, prof_Intermediate = intermediate, prof_Modern = modern,
         prof_Custom = custom\<rparr>))))"

definition read_operator_spec :: "gOperatorSpec \<Rightarrow> (cell, FileRestoreOperatorSpec) reader" where
  "read_operator_spec s = rd_bind (nullable (pointee SecurityProfileT read_security_profile) (gos_TLSSecurityProfile s)) (\<lambda>p.
     rd \<lparr>ImagePullPolicy = gos_ImagePullPolicy s, SecurityProfile = p\<rparr>)"

definition read_operator_status :: "gOperatorStatus \<Rightarrow> (cell, FileRestoreOperatorStatus) reader" where
  "read_operator_status s = rd_bind (nullable (elements ConditionsT rd) (got_Conditions s)) (\<lambda>cs.
     rd \<lparr>op_Conditions = list_of cs, op_OperatorVersion = got_OperatorVersion s, op_TargetVersion = got_TargetVersion s,
         op_ObservedVersion = got_ObservedVersion s, op_ObservedGeneration = got_ObservedGeneration s\<rparr>)"

definition read_operator :: "gOperator \<Rightarrow> (cell, gTypeMeta \<times> (time option \<times> string list) \<times> FileRestoreOperator) reader" where
  "read_operator v = rd_bind (read_meta (go_ObjectMeta v)) (\<lambda>(name, namespace, generation, deleted, finalizers).
     rd_bind (read_operator_spec (go_Spec v)) (\<lambda>spec.
     rd_bind (read_operator_status (go_Status v)) (\<lambda>status.
     rd (go_TypeMeta v, (deleted, finalizers), \<lparr>fro_Name = name, fro_Namespace = namespace, fro_Generation = generation,
       fro_Spec = spec, fro_Status = status\<rparr>))))"

definition read_operator_list ::
  "gOperatorList \<Rightarrow> (cell, gTypeMeta \<times> (string \<times> string \<times> int option) \<times>
     (gTypeMeta \<times> (time option \<times> string list) \<times> FileRestoreOperator) list option) reader" where
  "read_operator_list l = rd_bind (read_list_meta (gol_ListMeta l)) (\<lambda>m.
     rd_bind (nullable (elements OperatorsT read_operator) (gol_Items l)) (\<lambda>items.
     rd (gol_TypeMeta l, m, items)))"

lemmas read_defs = read_meta_def read_list_meta_def read_ref_def read_source_def read_spec_def read_status_def
  read_restore_def read_restore_list_def read_profile_spec_def read_custom_def read_security_profile_def
  read_operator_spec_def read_operator_status_def read_operator_def read_operator_list_def

lemma read_local [local_rules]:
  "local (read_meta m)" "local (read_list_meta lm)" "local (read_ref r)" "local (read_source src)"
  "local (read_status st)" "local (read_profile_spec ps)" "local (read_operator_status os)"
  by (auto simp: read_defs intro!: local_rules)

lemma read_local_nested [local_rules]:
  "local (read_spec sp)" "local (read_custom cu)"
  by (auto simp: read_spec_def read_custom_def intro!: local_rules)

lemma read_local_profile [local_rules]: "local (read_security_profile p)"
  by (auto simp: read_security_profile_def intro!: local_rules)

lemma read_local_restore [local_rules]: "local (read_restore v)"
  by (auto simp: read_restore_def intro!: local_rules split: prod.split)

lemma read_local_operator_spec [local_rules]: "local (read_operator_spec s)"
  by (auto simp: read_operator_spec_def intro!: local_rules)

lemma read_local_operator [local_rules]: "local (read_operator v)"
  by (auto simp: read_operator_def intro!: local_rules split: prod.split)

lemma read_local_lists [local_rules]: "local (read_restore_list vl)" "local (read_operator_list ol)"
  by (auto simp: read_restore_list_def read_operator_list_def intro!: local_rules)

end
