(* ===== verification/DeepCopies.thy ===== *)
theory DeepCopies
  imports GoObjects
begin

text \<open>
  api/v1alpha1/zz_generated.deepcopy.go: the deep copies of the API types. A \<open>DeepCopyInto\<close> takes the
  structure and returns what it writes into \<open>out\<close>; \<open>DeepCopy\<close> and \<open>DeepCopyObject\<close> work on pointers.
  The copies of \<open>metav1.Time\<close>, \<open>metav1.Condition\<close>, the metadata and the object reference belong to
  the API machinery: they are the parameter \<open>meta_copies\<close>, of which \<open>meta_copiers\<close> asks that they are
  deep copies.
\<close>

subsection \<open>The code\<close>

record meta_copies =
  time_DeepCopy :: "addr \<Rightarrow> (cell, addr) gm"
  condition_DeepCopyInto :: "Condition \<Rightarrow> (cell, Condition) gm"
  meta_DeepCopyInto :: "gObjectMeta \<Rightarrow> (cell, gObjectMeta) gm"
  list_meta_DeepCopyInto :: "gListMeta \<Rightarrow> (cell, gListMeta) gm"
  ref_DeepCopyInto :: "gTypedLocalObjectReference \<Rightarrow> (cell, gTypedLocalObjectReference) gm"

definition TLSProfileSpec_DeepCopyInto :: "gTLSProfileSpec \<Rightarrow> (cell, gTLSProfileSpec) gm" where
  "TLSProfileSpec_DeepCopyInto s = do {
     ciphers \<leftarrow> copy_slice StringsT '''' State_Monad.return (gp_Ciphers s);
     State_Monad.return (s\<lparr>gp_Ciphers := ciphers\<rparr>)
   }"

definition CustomTLSProfile_DeepCopyInto :: "gCustomTLSProfile \<Rightarrow> (cell, gCustomTLSProfile) gm" where
  "CustomTLSProfile_DeepCopyInto s = do {
     spec \<leftarrow> TLSProfileSpec_DeepCopyInto (gc_TLSProfileSpec s);
     State_Monad.return (s\<lparr>gc_TLSProfileSpec := spec\<rparr>)
   }"

definition TLSSecurityProfile_DeepCopyInto :: "gTLSSecurityProfile \<Rightarrow> (cell, gTLSSecurityProfile) gm" where
  "TLSSecurityProfile_DeepCopyInto s = do {
     old \<leftarrow> DeepCopy OldT State_Monad.return (gt_Old s);
     intermediate \<leftarrow> DeepCopy IntermediateT State_Monad.return (gt_Intermediate s);
     modern \<leftarrow> DeepCopy ModernT State_Monad.return (gt_Modern s);
     custom \<leftarrow> DeepCopy CustomT CustomTLSProfile_DeepCopyInto (gt_Custom s);
     State_Monad.return (s\<lparr>gt_Old := old, gt_Intermediate := intermediate, gt_Modern := modern, gt_Custom := custom\<rparr>)
   }"

definition FileRestoreOperatorSpec_DeepCopyInto :: "gOperatorSpec \<Rightarrow> (cell, gOperatorSpec) gm" where
  "FileRestoreOperatorSpec_DeepCopyInto s = do {
     profile \<leftarrow> DeepCopy SecurityProfileT TLSSecurityProfile_DeepCopyInto (gos_TLSSecurityProfile s);
     State_Monad.return (s\<lparr>gos_TLSSecurityProfile := profile\<rparr>)
   }"

definition FileRestoreOperatorStatus_DeepCopyInto :: "meta_copies \<Rightarrow> gOperatorStatus \<Rightarrow> (cell, gOperatorStatus) gm" where
  "FileRestoreOperatorStatus_DeepCopyInto K s = do {
     conditions \<leftarrow> copy_slice ConditionsT zero_condition (condition_DeepCopyInto K) (got_Conditions s);
     State_Monad.return (s\<lparr>got_Conditions := conditions\<rparr>)
   }"

definition FileRestoreOperator_DeepCopyInto :: "meta_copies \<Rightarrow> gOperator \<Rightarrow> (cell, gOperator) gm" where
  "FileRestoreOperator_DeepCopyInto K s = do {
     m \<leftarrow> meta_DeepCopyInto K (go_ObjectMeta s);
     spec \<leftarrow> FileRestoreOperatorSpec_DeepCopyInto (go_Spec s);
     status \<leftarrow> FileRestoreOperatorStatus_DeepCopyInto K (go_Status s);
     State_Monad.return (s\<lparr>go_ObjectMeta := m, go_Spec := spec, go_Status := status\<rparr>)
   }"

definition FileRestoreOperatorList_DeepCopyInto :: "meta_copies \<Rightarrow> gOperatorList \<Rightarrow> (cell, gOperatorList) gm" where
  "FileRestoreOperatorList_DeepCopyInto K s = do {
     m \<leftarrow> list_meta_DeepCopyInto K (gol_ListMeta s);
     items \<leftarrow> copy_slice OperatorsT zero_operator (FileRestoreOperator_DeepCopyInto K) (gol_Items s);
     State_Monad.return (s\<lparr>gol_ListMeta := m, gol_Items := items\<rparr>)
   }"

definition RestoreSource_DeepCopyInto :: "gRestoreSource \<Rightarrow> (cell, gRestoreSource) gm" where
  "RestoreSource_DeepCopyInto s = do {
     pvc \<leftarrow> DeepCopy PVCSourceT State_Monad.return (gsrc_PVC s);
     snapshot \<leftarrow> DeepCopy SnapshotSourceT State_Monad.return (gsrc_Snapshot s);
     remote \<leftarrow> DeepCopy RemoteSourceT State_Monad.return (gsrc_Remote s);
     State_Monad.return (s\<lparr>gsrc_PVC := pvc, gsrc_Snapshot := snapshot, gsrc_Remote := remote\<rparr>)
   }"

definition VirtualMachineFileRestoreSpec_DeepCopyInto :: "meta_copies \<Rightarrow> gRestoreSpec \<Rightarrow> (cell, gRestoreSpec) gm" where
  "VirtualMachineFileRestoreSpec_DeepCopyInto K s = do {
     target \<leftarrow> ref_DeepCopyInto K (gsp_Target s);
     source \<leftarrow> RestoreSource_DeepCopyInto (gsp_Source s);
     State_Monad.return (s\<lparr>gsp_Target := target, gsp_Source := source\<rparr>)
   }"

definition VirtualMachineFileRestoreStatus_DeepCopyInto :: "meta_copies \<Rightarrow> gRestoreStatus \<Rightarrow> (cell, gRestoreStatus) gm" where
  "VirtualMachineFileRestoreStatus_DeepCopyInto K s = do {
     conditions \<leftarrow> copy_slice ConditionsT zero_condition (condition_DeepCopyInto K) (gs_Conditions s);
     started \<leftarrow> when_set (time_DeepCopy K) (gs_StartTime s);
     completed \<leftarrow> when_set (time_DeepCopy K) (gs_CompletionTime s);
     count \<leftarrow> DeepCopy Int32T State_Monad.return (gs_RestoredFilesCount s);
     attachment \<leftarrow> when_set (time_DeepCopy K) (gs_LastAttachmentCheckTime s);
     ssh \<leftarrow> when_set (time_DeepCopy K) (gs_LastSSHCheckTime s);
     State_Monad.return (s\<lparr>gs_Conditions := conditions, gs_StartTime := started, gs_CompletionTime := completed,
       gs_RestoredFilesCount := count, gs_LastAttachmentCheckTime := attachment, gs_LastSSHCheckTime := ssh\<rparr>)
   }"

definition VirtualMachineFileRestore_DeepCopyInto :: "meta_copies \<Rightarrow> gRestore \<Rightarrow> (cell, gRestore) gm" where
  "VirtualMachineFileRestore_DeepCopyInto K s = do {
     m \<leftarrow> meta_DeepCopyInto K (gv_ObjectMeta s);
     spec \<leftarrow> VirtualMachineFileRestoreSpec_DeepCopyInto K (gv_Spec s);
     status \<leftarrow> VirtualMachineFileRestoreStatus_DeepCopyInto K (gv_Status s);
     State_Monad.return (s\<lparr>gv_ObjectMeta := m, gv_Spec := spec, gv_Status := status\<rparr>)
   }"

definition VirtualMachineFileRestoreList_DeepCopyInto :: "meta_copies \<Rightarrow> gRestoreList \<Rightarrow> (cell, gRestoreList) gm" where
  "VirtualMachineFileRestoreList_DeepCopyInto K s = do {
     m \<leftarrow> list_meta_DeepCopyInto K (gvl_ListMeta s);
     items \<leftarrow> copy_slice RestoresT zero_restore (VirtualMachineFileRestore_DeepCopyInto K) (gvl_Items s);
     State_Monad.return (s\<lparr>gvl_ListMeta := m, gvl_Items := items\<rparr>)
   }"

text \<open>Types without pointers.\<close>

definition PVCSource_DeepCopyInto :: "PVCSource \<Rightarrow> (cell, PVCSource) gm" where
  "PVCSource_DeepCopyInto = State_Monad.return"

definition VolumeSnapshotSource_DeepCopyInto :: "VolumeSnapshotSource \<Rightarrow> (cell, VolumeSnapshotSource) gm" where
  "VolumeSnapshotSource_DeepCopyInto = State_Monad.return"

definition RemoteSource_DeepCopyInto :: "RemoteSource \<Rightarrow> (cell, RemoteSource) gm" where
  "RemoteSource_DeepCopyInto = State_Monad.return"

definition OldTLSProfile_DeepCopyInto :: "unit \<Rightarrow> (cell, unit) gm" where
  "OldTLSProfile_DeepCopyInto = State_Monad.return"

definition IntermediateTLSProfile_DeepCopyInto :: "unit \<Rightarrow> (cell, unit) gm" where
  "IntermediateTLSProfile_DeepCopyInto = State_Monad.return"

definition ModernTLSProfile_DeepCopyInto :: "unit \<Rightarrow> (cell, unit) gm" where
  "ModernTLSProfile_DeepCopyInto = State_Monad.return"

text \<open>\<open>DeepCopy\<close> of every type.\<close>

definition PVCSource_DeepCopy :: "addr option \<Rightarrow> (cell, addr option) gm" where
  "PVCSource_DeepCopy = DeepCopy PVCSourceT PVCSource_DeepCopyInto"

definition VolumeSnapshotSource_DeepCopy :: "addr option \<Rightarrow> (cell, addr option) gm" where
  "VolumeSnapshotSource_DeepCopy = DeepCopy SnapshotSourceT VolumeSnapshotSource_DeepCopyInto"

definition RemoteSource_DeepCopy :: "addr option \<Rightarrow> (cell, addr option) gm" where
  "RemoteSource_DeepCopy = DeepCopy RemoteSourceT RemoteSource_DeepCopyInto"

definition OldTLSProfile_DeepCopy :: "addr option \<Rightarrow> (cell, addr option) gm" where
  "OldTLSProfile_DeepCopy = DeepCopy OldT OldTLSProfile_DeepCopyInto"

definition IntermediateTLSProfile_DeepCopy :: "addr option \<Rightarrow> (cell, addr option) gm" where
  "IntermediateTLSProfile_DeepCopy = DeepCopy IntermediateT IntermediateTLSProfile_DeepCopyInto"

definition ModernTLSProfile_DeepCopy :: "addr option \<Rightarrow> (cell, addr option) gm" where
  "ModernTLSProfile_DeepCopy = DeepCopy ModernT ModernTLSProfile_DeepCopyInto"

definition TLSProfileSpec_DeepCopy :: "addr option \<Rightarrow> (cell, addr option) gm" where
  "TLSProfileSpec_DeepCopy = DeepCopy TLSProfileSpecT TLSProfileSpec_DeepCopyInto"

definition CustomTLSProfile_DeepCopy :: "addr option \<Rightarrow> (cell, addr option) gm" where
  "CustomTLSProfile_DeepCopy = DeepCopy CustomT CustomTLSProfile_DeepCopyInto"

definition TLSSecurityProfile_DeepCopy :: "addr option \<Rightarrow> (cell, addr option) gm" where
  "TLSSecurityProfile_DeepCopy = DeepCopy SecurityProfileT TLSSecurityProfile_DeepCopyInto"

definition FileRestoreOperatorSpec_DeepCopy :: "addr option \<Rightarrow> (cell, addr option) gm" where
  "FileRestoreOperatorSpec_DeepCopy = DeepCopy OperatorSpecT FileRestoreOperatorSpec_DeepCopyInto"

definition FileRestoreOperatorStatus_DeepCopy :: "meta_copies \<Rightarrow> addr option \<Rightarrow> (cell, addr option) gm" where
  "FileRestoreOperatorStatus_DeepCopy K = DeepCopy OperatorStatusT (FileRestoreOperatorStatus_DeepCopyInto K)"

definition FileRestoreOperator_DeepCopy :: "meta_copies \<Rightarrow> addr option \<Rightarrow> (cell, addr option) gm" where
  "FileRestoreOperator_DeepCopy K = DeepCopy OperatorT (FileRestoreOperator_DeepCopyInto K)"

definition FileRestoreOperatorList_DeepCopy :: "meta_copies \<Rightarrow> addr option \<Rightarrow> (cell, addr option) gm" where
  "FileRestoreOperatorList_DeepCopy K = DeepCopy OperatorListT (FileRestoreOperatorList_DeepCopyInto K)"

definition RestoreSource_DeepCopy :: "addr option \<Rightarrow> (cell, addr option) gm" where
  "RestoreSource_DeepCopy = DeepCopy RestoreSourceT RestoreSource_DeepCopyInto"

definition VirtualMachineFileRestoreSpec_DeepCopy :: "meta_copies \<Rightarrow> addr option \<Rightarrow> (cell, addr option) gm" where
  "VirtualMachineFileRestoreSpec_DeepCopy K = DeepCopy RestoreSpecT (VirtualMachineFileRestoreSpec_DeepCopyInto K)"

definition VirtualMachineFileRestoreStatus_DeepCopy :: "meta_copies \<Rightarrow> addr option \<Rightarrow> (cell, addr option) gm" where
  "VirtualMachineFileRestoreStatus_DeepCopy K = DeepCopy RestoreStatusT (VirtualMachineFileRestoreStatus_DeepCopyInto K)"

definition VirtualMachineFileRestore_DeepCopy :: "meta_copies \<Rightarrow> addr option \<Rightarrow> (cell, addr option) gm" where
  "VirtualMachineFileRestore_DeepCopy K = DeepCopy RestoreT (VirtualMachineFileRestore_DeepCopyInto K)"

definition VirtualMachineFileRestoreList_DeepCopy :: "meta_copies \<Rightarrow> addr option \<Rightarrow> (cell, addr option) gm" where
  "VirtualMachineFileRestoreList_DeepCopy K = DeepCopy RestoreListT (VirtualMachineFileRestoreList_DeepCopyInto K)"

text \<open>\<open>DeepCopyObject\<close>: an interface value holds the type and the pointer, or is nil.\<close>

datatype runtime_Object = RestoreObject addr | RestoreListObject addr | OperatorObject addr | OperatorListObject addr

definition VirtualMachineFileRestore_DeepCopyObject :: "meta_copies \<Rightarrow> addr option \<Rightarrow> (cell, runtime_Object option) gm" where
  "VirtualMachineFileRestore_DeepCopyObject K p = do {
     c \<leftarrow> VirtualMachineFileRestore_DeepCopy K p;
     State_Monad.return (case c of Some a \<Rightarrow> Some (RestoreObject a) | None \<Rightarrow> None)
   }"

definition VirtualMachineFileRestoreList_DeepCopyObject :: "meta_copies \<Rightarrow> addr option \<Rightarrow> (cell, runtime_Object option) gm" where
  "VirtualMachineFileRestoreList_DeepCopyObject K p = do {
     c \<leftarrow> VirtualMachineFileRestoreList_DeepCopy K p;
     State_Monad.return (case c of Some a \<Rightarrow> Some (RestoreListObject a) | None \<Rightarrow> None)
   }"

definition FileRestoreOperator_DeepCopyObject :: "meta_copies \<Rightarrow> addr option \<Rightarrow> (cell, runtime_Object option) gm" where
  "FileRestoreOperator_DeepCopyObject K p = do {
     c \<leftarrow> FileRestoreOperator_DeepCopy K p;
     State_Monad.return (case c of Some a \<Rightarrow> Some (OperatorObject a) | None \<Rightarrow> None)
   }"

definition FileRestoreOperatorList_DeepCopyObject :: "meta_copies \<Rightarrow> addr option \<Rightarrow> (cell, runtime_Object option) gm" where
  "FileRestoreOperatorList_DeepCopyObject K p = do {
     c \<leftarrow> FileRestoreOperatorList_DeepCopy K p;
     State_Monad.return (case c of Some a \<Rightarrow> Some (OperatorListObject a) | None \<Rightarrow> None)
   }"

subsection \<open>They are deep copies\<close>

locale meta_copiers =
  fixes K :: meta_copies
  assumes time_copied: "copier (pointee TimeT rd) (time_DeepCopy K)"
    and condition_copied: "copier rd (condition_DeepCopyInto K)"
    and meta_copied: "copier read_meta (meta_DeepCopyInto K)"
    and list_meta_copied: "copier read_list_meta (list_meta_DeepCopyInto K)"
    and ref_copied: "copier read_ref (ref_DeepCopyInto K)"

lemma copier_rd: "copier rd State_Monad.return"
  using copier_plain [of "\<lambda>s. s"] by simp

text \<open>Each copy that is known to be one is a step of the copies it is used in.\<close>

named_theorems copy_steps \<open>steps of a deep copy\<close>

lemmas [copy_steps] = go_types [THEN copier_DeepCopy, OF copier_rd, THEN builds_bind]
  go_types(5) [THEN copier_slice, OF copier_rd, THEN builds_bind]

interpretation restore_source: copier read_source RestoreSource_DeepCopyInto
proof
  show "builds h h (RestoreSource_DeepCopyInto s) read_source v"
    if "wf_heap h" and "read_source s h = Some (v, A)" for h s v A
    using that unfolding RestoreSource_DeepCopyInto_def
    by (auto simp: read_source_def dest!: rd_bindD intro!: copy_steps builds_result)
qed (rule local_rules)

interpretation profile_spec: copier read_profile_spec TLSProfileSpec_DeepCopyInto
proof
  show "builds h h (TLSProfileSpec_DeepCopyInto s) read_profile_spec v"
    if "wf_heap h" and "read_profile_spec s h = Some (v, A)" for h s v A
    using that unfolding TLSProfileSpec_DeepCopyInto_def
    by (auto simp: read_profile_spec_def dest!: rd_bindD intro!: copy_steps builds_result)
qed (rule local_rules)

lemmas [copy_steps] = restore_source.copier_axioms [THEN builds_bind] profile_spec.copier_axioms [THEN builds_bind]

interpretation custom_profile: copier read_custom CustomTLSProfile_DeepCopyInto
proof
  show "builds h h (CustomTLSProfile_DeepCopyInto s) read_custom v"
    if "wf_heap h" and "read_custom s h = Some (v, A)" for h s v A
    using that unfolding CustomTLSProfile_DeepCopyInto_def read_custom_def
    by (auto simp: read_custom_def reads_fresh_def intro!: copy_steps builds_result)
qed (rule local_rules)

lemmas [copy_steps] = copier_DeepCopy [OF go_types(20) custom_profile.copier_axioms, THEN builds_bind]

interpretation security_profile: copier read_security_profile TLSSecurityProfile_DeepCopyInto
proof
  show "builds h h (TLSSecurityProfile_DeepCopyInto s) read_security_profile v"
    if "wf_heap h" and "read_security_profile s h = Some (v, A)" for h s v A
    using that unfolding TLSSecurityProfile_DeepCopyInto_def
    by (auto simp: read_security_profile_def dest!: rd_bindD intro!: copy_steps builds_result)
qed (rule local_rules)

lemmas [copy_steps] = copier_DeepCopy [OF go_types(21) security_profile.copier_axioms, THEN builds_bind]

interpretation operator_spec: copier read_operator_spec FileRestoreOperatorSpec_DeepCopyInto
proof
  show "builds h h (FileRestoreOperatorSpec_DeepCopyInto s) read_operator_spec v"
    if "wf_heap h" and "read_operator_spec s h = Some (v, A)" for h s v A
    using that unfolding FileRestoreOperatorSpec_DeepCopyInto_def
    by (auto simp: read_operator_spec_def dest!: rd_bindD intro!: copy_steps builds_result)
qed (rule local_rules)

lemmas [copy_steps] = operator_spec.copier_axioms [THEN builds_bind]

context meta_copiers
begin

lemmas [copy_steps] = time_copied [THEN copier_when_set, THEN builds_bind] meta_copied [THEN builds_bind]
  list_meta_copied [THEN builds_bind] ref_copied [THEN builds_bind]
  copier_slice [OF go_types(6) condition_copied, THEN builds_bind]

end

sublocale meta_copiers \<subseteq> restore_spec: copier read_spec "VirtualMachineFileRestoreSpec_DeepCopyInto K"
proof
  show "builds h h (VirtualMachineFileRestoreSpec_DeepCopyInto K s) read_spec v"
    if "wf_heap h" and "read_spec s h = Some (v, A)" for h s v A
    using that unfolding VirtualMachineFileRestoreSpec_DeepCopyInto_def
    by (auto simp: read_spec_def dest!: rd_bindD intro!: copy_steps builds_result)
qed (rule local_rules)

sublocale meta_copiers \<subseteq> restore_status: copier read_status "VirtualMachineFileRestoreStatus_DeepCopyInto K"
proof
  show "builds h h (VirtualMachineFileRestoreStatus_DeepCopyInto K s) read_status v"
    if "wf_heap h" and "read_status s h = Some (v, A)" for h s v A
    using that unfolding VirtualMachineFileRestoreStatus_DeepCopyInto_def
    by (auto simp: read_status_def dest!: rd_bindD intro!: copy_steps builds_result)
qed (rule local_rules)

sublocale meta_copiers \<subseteq> operator_status: copier read_operator_status "FileRestoreOperatorStatus_DeepCopyInto K"
proof
  show "builds h h (FileRestoreOperatorStatus_DeepCopyInto K s) read_operator_status v"
    if "wf_heap h" and "read_operator_status s h = Some (v, A)" for h s v A
    using that unfolding FileRestoreOperatorStatus_DeepCopyInto_def
    by (auto simp: read_operator_status_def dest!: rd_bindD intro!: copy_steps builds_result)
qed (rule local_rules)

context meta_copiers
begin

lemmas [copy_steps] = restore_spec.copier_axioms [THEN builds_bind] restore_status.copier_axioms [THEN builds_bind]
  operator_status.copier_axioms [THEN builds_bind]

end

sublocale meta_copiers \<subseteq> restore: copier read_restore "VirtualMachineFileRestore_DeepCopyInto K"
proof
  show "builds h h (VirtualMachineFileRestore_DeepCopyInto K s) read_restore v"
    if "wf_heap h" and "read_restore s h = Some (v, A)" for h s v A
    using that unfolding VirtualMachineFileRestore_DeepCopyInto_def
    by (auto simp: read_restore_def dest!: rd_bindD intro!: copy_steps builds_result)
qed (rule local_rules)

sublocale meta_copiers \<subseteq> operator: copier read_operator "FileRestoreOperator_DeepCopyInto K"
proof
  show "builds h h (FileRestoreOperator_DeepCopyInto K s) read_operator v"
    if "wf_heap h" and "read_operator s h = Some (v, A)" for h s v A
    using that unfolding FileRestoreOperator_DeepCopyInto_def
    by (auto simp: read_operator_def dest!: rd_bindD intro!: copy_steps builds_result)
qed (rule local_rules)

context meta_copiers
begin

lemmas [copy_steps] = copier_slice [OF go_types(14) restore.copier_axioms, THEN builds_bind]
  copier_slice [OF go_types(25) operator.copier_axioms, THEN builds_bind]

end

sublocale meta_copiers \<subseteq> restore_list: copier read_restore_list "VirtualMachineFileRestoreList_DeepCopyInto K"
proof
  show "builds h h (VirtualMachineFileRestoreList_DeepCopyInto K s) read_restore_list v"
    if "wf_heap h" and "read_restore_list s h = Some (v, A)" for h s v A
    using that unfolding VirtualMachineFileRestoreList_DeepCopyInto_def
    by (auto simp: read_restore_list_def dest!: rd_bindD intro!: copy_steps builds_result)
qed (rule local_rules)

sublocale meta_copiers \<subseteq> operator_list: copier read_operator_list "FileRestoreOperatorList_DeepCopyInto K"
proof
  show "builds h h (FileRestoreOperatorList_DeepCopyInto K s) read_operator_list v"
    if "wf_heap h" and "read_operator_list s h = Some (v, A)" for h s v A
    using that unfolding FileRestoreOperatorList_DeepCopyInto_def
    by (auto simp: read_operator_list_def dest!: rd_bindD intro!: copy_steps builds_result)
qed (rule local_rules)

subsection \<open>Copies of the metadata\<close>

text \<open>Deep copies of the metadata, field by field, as their types ask for: they meet \<open>meta_copiers\<close>.\<close>

definition mem_copies :: meta_copies where
  "mem_copies = \<lparr>
     time_DeepCopy = (\<lambda>a. do { q \<leftarrow> DeepCopy TimeT State_Monad.return (Some a); State_Monad.return (the q) }),
     condition_DeepCopyInto = State_Monad.return,
     meta_DeepCopyInto = (\<lambda>m. do {
       t \<leftarrow> DeepCopy TimeT State_Monad.return (gm_DeletionTimestamp m);
       fs \<leftarrow> copy_slice StringsT '''' State_Monad.return (gm_Finalizers m);
       State_Monad.return (m\<lparr>gm_DeletionTimestamp := t, gm_Finalizers := fs\<rparr>)
     }),
     list_meta_DeepCopyInto = (\<lambda>m. do {
       n \<leftarrow> DeepCopy Int64T State_Monad.return (lm_RemainingItemCount m);
       State_Monad.return (m\<lparr>lm_RemainingItemCount := n\<rparr>)
     }),
     ref_DeepCopyInto = (\<lambda>r. do {
       g \<leftarrow> DeepCopy StringT State_Monad.return (gr_APIGroup r);
       State_Monad.return (r\<lparr>gr_APIGroup := g\<rparr>)
     })\<rparr>"

lemma copier_pointer:
  assumes "copier (nullable r) m" and "\<And>q. local (r q)"
  shows "copier r (\<lambda>p. do { q \<leftarrow> m (Some p); State_Monad.return (the q) })"
proof
  show "local (r p)" for p by (rule assms)
  show "builds h h (do { q \<leftarrow> m (Some p); State_Monad.return (the q) }) r v" if "wf_heap h" and "r p h = Some (v, A)" for h p v A
    using assms(1) that(1) order_refl nullableI [of r, OF that(2)]
  proof (rule builds_bind)
    fix q h' B
    assume h': "wf_heap h'" and q: "\<And>h''. h' \<le> h'' \<Longrightarrow> nullable r q h'' = Some (Some v, B)" and "fresh_in h B"
    from q [OF order_refl] obtain p' where "q = Some p'" by (cases q) (auto simp: rd_def)
    with q [OF order_refl] have "r (the q) h' = Some (v, B)" by (metis nullableD option.inject option.sel)
    with h' \<open>fresh_in h B\<close> show "builds h h' (State_Monad.return (the q)) r v" by (rule_tac builds_return)
  qed
qed

interpretation mem_copy: meta_copiers mem_copies
proof (rule meta_copiers.intro)
  show "copier (pointee TimeT rd) (time_DeepCopy mem_copies)"
    by (simp add: mem_copies_def copier_pointer copier_DeepCopy go_types copier_rd local_pointee local_rd)
  show "copier rd (condition_DeepCopyInto mem_copies)" by (simp add: mem_copies_def copier_rd)
  show "copier read_meta (meta_DeepCopyInto mem_copies)"
    by unfold_locales (auto simp: mem_copies_def read_meta_def dest!: rd_bindD intro!: copy_steps builds_result local_rules)
  show "copier read_list_meta (list_meta_DeepCopyInto mem_copies)"
    by unfold_locales (auto simp: mem_copies_def read_list_meta_def dest!: rd_bindD intro!: copy_steps builds_result local_rules)
  show "copier read_ref (ref_DeepCopyInto mem_copies)"
    by unfold_locales (auto simp: mem_copies_def read_ref_def dest!: rd_bindD intro!: copy_steps builds_result local_rules)
qed

subsection \<open>Objects\<close>

text \<open>What an interface value holds, and the method it dispatches to.\<close>

datatype object_value =
    RestoreValue "gTypeMeta \<times> vmfr"
  | RestoreListValue "gTypeMeta \<times> (string \<times> string \<times> int option) \<times> (gTypeMeta \<times> vmfr) list option"
  | OperatorValue "gTypeMeta \<times> (time option \<times> string list) \<times> FileRestoreOperator"
  | OperatorListValue "gTypeMeta \<times> (string \<times> string \<times> int option) \<times>
      (gTypeMeta \<times> (time option \<times> string list) \<times> FileRestoreOperator) list option"

fun read_object :: "runtime_Object \<Rightarrow> (cell, object_value) reader" where
  "read_object (RestoreObject a) = rd_bind (pointee RestoreT read_restore a) (\<lambda>v. rd (RestoreValue v))"
| "read_object (RestoreListObject a) = rd_bind (pointee RestoreListT read_restore_list a) (\<lambda>v. rd (RestoreListValue v))"
| "read_object (OperatorObject a) = rd_bind (pointee OperatorT read_operator a) (\<lambda>v. rd (OperatorValue v))"
| "read_object (OperatorListObject a) = rd_bind (pointee OperatorListT read_operator_list a) (\<lambda>v. rd (OperatorListValue v))"

fun object_DeepCopyObject :: "meta_copies \<Rightarrow> runtime_Object \<Rightarrow> (cell, runtime_Object option) gm" where
  "object_DeepCopyObject K (RestoreObject a) = VirtualMachineFileRestore_DeepCopyObject K (Some a)"
| "object_DeepCopyObject K (RestoreListObject a) = VirtualMachineFileRestoreList_DeepCopyObject K (Some a)"
| "object_DeepCopyObject K (OperatorObject a) = FileRestoreOperator_DeepCopyObject K (Some a)"
| "object_DeepCopyObject K (OperatorListObject a) = FileRestoreOperatorList_DeepCopyObject K (Some a)"

lemma yields_copy_as:
  assumes "yields_copy m h r v" and "\<And>p. r' (f p) = rd_bind (r p) (\<lambda>v. rd (g v))"
  shows "yields_copy (do { c \<leftarrow> m; State_Monad.return (case c of Some a \<Rightarrow> Some (f a) | None \<Rightarrow> None) }) h r' (g v)"
proof -
  from assms(1) obtain p h' B where "run_state m h = (Some p, h')" "wf_heap h'" "h \<le> h'" "dom (cells h) \<inter> B = {}" "r p h' = Some (v, B)"
    and "\<forall>h''. (\<forall>a. a \<notin> dom (cells h) \<longrightarrow> cells h'' a = cells h' a) \<longrightarrow> r p h'' = Some (v, B)"
    unfolding yields_copy_def by blast
  then show ?thesis
    unfolding yields_copy_def by (intro exI [of _ "f p"] exI [of _ h'] exI [of _ B]) (simp add: assms(2) rd_bind_def rd_def)
qed

lemma rd_mapD: "rd_bind r (\<lambda>u. rd (g u)) h = Some (v, A) \<Longrightarrow> \<exists>u. v = g u \<and> r h = Some (u, A)"
  by (auto simp: rd_bind_def rd_def split: option.splits)

context meta_copiers
begin

lemma copies_independent:
  assumes "wf_heap h"
  shows "pointee RestoreT read_restore a h = Some (rv, A) \<Longrightarrow>
      yields_copy (VirtualMachineFileRestore_DeepCopy K (Some a)) h (pointee RestoreT read_restore) rv"
    and "pointee RestoreListT read_restore_list a h = Some (rl, A) \<Longrightarrow>
      yields_copy (VirtualMachineFileRestoreList_DeepCopy K (Some a)) h (pointee RestoreListT read_restore_list) rl"
    and "pointee OperatorT read_operator a h = Some (ov, A) \<Longrightarrow>
      yields_copy (FileRestoreOperator_DeepCopy K (Some a)) h (pointee OperatorT read_operator) ov"
    and "pointee OperatorListT read_operator_list a h = Some (ol, A) \<Longrightarrow>
      yields_copy (FileRestoreOperatorList_DeepCopy K (Some a)) h (pointee OperatorListT read_operator_list) ol"
  unfolding VirtualMachineFileRestore_DeepCopy_def VirtualMachineFileRestoreList_DeepCopy_def
    FileRestoreOperator_DeepCopy_def FileRestoreOperatorList_DeepCopy_def
  by (rule deep_copy_is_independent [OF _ _ assms], (rule go_types restore.copier_axioms restore_list.copier_axioms
        operator.copier_axioms operator_list.copier_axioms local_rules | assumption)+)+

lemma object_copied:
  assumes "wf_heap h" and "read_object ob h = Some (v, A)"
  shows "yields_copy (object_DeepCopyObject K ob) h read_object v"
  using assms
  by (cases ob)
    (auto simp: VirtualMachineFileRestore_DeepCopyObject_def VirtualMachineFileRestoreList_DeepCopyObject_def
      FileRestoreOperator_DeepCopyObject_def FileRestoreOperatorList_DeepCopyObject_def
      intro!: yields_copy_as [where g = RestoreValue] yields_copy_as [where g = RestoreListValue]
      yields_copy_as [where g = OperatorValue] yields_copy_as [where g = OperatorListValue] copies_independent
      dest!: rd_mapD)

end

text \<open>C7. \<open>DeepCopyObject\<close> of each of the four object types, where the copies of the metadata that it calls are deep:
  the answer is a pointer to an object with the same value; no cell that was allocated before is changed, and the
  copy lies on new cells only, so that no later write to the receiver, or to anything it points to, changes it.\<close>

theorem objects_are_copied_deeply:
  assumes "meta_copiers K" and "wf_heap h" and "read_object ob h = Some (v, A)"
  shows "yields_copy (object_DeepCopyObject K ob) h read_object v"
  using assms by (rule meta_copiers.object_copied)

definition sample_condition :: Condition where
  "sample_condition = zero_condition\<lparr>c_Type := ''RestoreCompleted'', c_Reason := ''Pending''\<rparr>"

definition sample_object :: gRestore where
  "sample_object = zero_restore\<lparr>
     gv_ObjectMeta := zero_object_meta\<lparr>gm_Name := ''r'', gm_Namespace := ''ns'', gm_Finalizers := Some \<lparr>sl_array = 4, sl_len = 1\<rparr>\<rparr>,
     gv_Spec := zero_spec\<lparr>gsp_Source := zero_source\<lparr>gsrc_PVC := Some 3\<rparr>\<rparr>,
     gv_Status := zero_status\<lparr>gs_Phase := RestorePhaseRestoring, gs_Conditions := Some \<lparr>sl_array = 1, sl_len = 1\<rparr>,
       gs_StartTime := Some 2\<rparr>\<rparr>"

definition sample_heap :: "cell goheap" where
  "sample_heap = GoHeap [0 \<mapsto> RestoreCell sample_object, 1 \<mapsto> ConditionsCell [sample_condition, zero_condition],
     2 \<mapsto> TimeCell 7, 3 \<mapsto> PVCSourceCell \<lparr>pvcs_Name = ''claim'', pvcs_Namespace = ''''\<rparr>,
     4 \<mapsto> StringsCell [''filerestore.kubevirt.io/cleanup'']] 5"

definition sample_restore :: vmfr where
  "sample_restore = \<lparr>vmfr_Name = ''r'', vmfr_Namespace = ''ns'', vmfr_Generation = 0, vmfr_DeletionTimestamp = None,
     vmfr_Finalizers = [''filerestore.kubevirt.io/cleanup''],
     vmfr_Spec = \<lparr>Target = \<lparr>ref_APIGroup = None, ref_Kind = '''', ref_Name = ''''\<rparr>,
       Source = \<lparr>src_PVC = Some \<lparr>pvcs_Name = ''claim'', pvcs_Namespace = ''''\<rparr>, src_Snapshot = None, src_Remote = None\<rparr>,
       SourcePath = ''''\<rparr>,
     vmfr_Status = \<lparr>Phase = RestorePhaseRestoring, Conditions = [sample_condition], StartTime = Some 7, CompletionTime = None,
       RestoredFilesCount = None, ErrorMessage = '''', MountPath = '''', AttachmentRetries = 0, SSHRetries = 0,
       LastAttachmentCheckTime = None, LastSSHCheckTime = None\<rparr>\<rparr>"

lemma sample_heap_wf: "wf_heap sample_heap"
  by (simp add: wf_heap_def sample_heap_def)

lemma sample_reads: "pointee RestoreT read_restore 0 sample_heap = Some ((zero_type_meta, sample_restore), {0, 1, 2, 3, 4})"
  by (auto simp: pointee_def rd_bind_def rd_def at_def elements_def read_defs type_defs list_of_def sample_heap_def sample_object_def
      sample_restore_def zero_restore_def zero_object_meta_def zero_spec_def zero_source_def zero_status_def)

theorem objects_are_copied_deeply_witness:
  "yields_copy (object_DeepCopyObject mem_copies (RestoreObject 0)) sample_heap read_object
     (RestoreValue (zero_type_meta, sample_restore))"
  by (rule objects_are_copied_deeply [OF mem_copy.meta_copiers_axioms sample_heap_wf])
    (simp add: sample_reads rd_bind_def rd_def)

end
