(* ===== verification/PatchBase.thy ===== *)
theory PatchBase
  imports DeepCopies Phases
begin

text \<open>
  The status patches of internal/controller/phases.go in memory. Every one is made the same way: a deep copy of the
  resource is the base of the patch, the resource is changed in place, and the patch is what differs. The
  handlers of \<open>Phases\<close> give the two values to \<open>PatchStatus\<close>. Here the assignments run on the heap, with
  \<open>setCondition\<close> and its \<open>append\<close> on arrays that may have room left, and the base is shown to keep its value.
\<close>

subsection \<open>Assignments\<close>

definition assign_status :: "addr \<Rightarrow> (gRestoreStatus \<Rightarrow> gRestoreStatus) \<Rightarrow> (cell, unit) gm" where
  "assign_status p f = do {
     v \<leftarrow> deref RestoreT p;
     store RestoreT p (v\<lparr>gv_Status := f (gv_Status v)\<rparr>)
   }"

text \<open>\<open>now := metav1.Now()\<close>, whose address is then stored.\<close>

definition assign_time :: "addr \<Rightarrow> (addr \<Rightarrow> gRestoreStatus \<Rightarrow> gRestoreStatus) \<Rightarrow> time \<Rightarrow> (cell, unit) gm" where
  "assign_time p f now = do { t \<leftarrow> new TimeT now; assign_status p (f t) }"

text \<open>The loop of \<open>setCondition\<close>: the first condition of the type.\<close>

fun position :: "('a \<Rightarrow> bool) \<Rightarrow> 'a list \<Rightarrow> nat option" where
  "position P [] = None"
| "position P (x # xs) = (if P x then Some 0 else map_option Suc (position P xs))"

text \<open>The slice behind the pointer, after the call; a nil pointer is left alone.\<close>

definition memory_setCondition :: "nat \<Rightarrow> slice option option \<Rightarrow> Condition \<Rightarrow> (cell, slice option option) gm" where
  "memory_setCondition spare conditions c = (case conditions of
     None \<Rightarrow> State_Monad.return None
   | Some None \<Rightarrow> do { sl' \<leftarrow> go_append ConditionsT zero_condition spare None c; State_Monad.return (Some sl') }
   | Some (Some sl) \<Rightarrow> do {
       xs \<leftarrow> deref ConditionsT (sl_array sl);
       case position (\<lambda>d. c_Type d = c_Type c) (take (sl_len sl) xs) of
         Some i \<Rightarrow> do {
           store ConditionsT (sl_array sl) (xs[i := c]);
           State_Monad.return (Some (Some sl))
         }
       | None \<Rightarrow> do { sl' \<leftarrow> go_append ConditionsT zero_condition spare (Some sl) c; State_Monad.return (Some sl') }
     })"

definition assign_condition :: "nat \<Rightarrow> addr \<Rightarrow> Condition \<Rightarrow> (cell, unit) gm" where
  "assign_condition spare p c = do {
     v \<leftarrow> deref RestoreT p;
     r \<leftarrow> memory_setCondition spare (Some (gs_Conditions (gv_Status v))) c;
     assign_status p (\<lambda>s. s\<lparr>gs_Conditions := the r\<rparr>)
   }"

subsection \<open>The sites\<close>

text \<open>\<open>patch := client.MergeFrom(vmfr.DeepCopy())\<close> and the assignments that follow; the answer is the base.\<close>

definition patched :: "meta_copies \<Rightarrow> addr \<Rightarrow> (cell, unit) gm \<Rightarrow> (cell, addr option) gm" where
  "patched K p m = do {
     base \<leftarrow> VirtualMachineFileRestore_DeepCopy K (Some p);
     m;
     State_Monad.return base
   }"

definition transition_assigns :: "addr \<Rightarrow> RestorePhase \<Rightarrow> RestorePhase \<Rightarrow> time \<Rightarrow> time \<Rightarrow> (cell, unit) gm" where
  "transition_assigns p oldPhase newPhase started completed = do {
     assign_status p (\<lambda>s. s\<lparr>gs_Phase := newPhase\<rparr>);
     (if oldPhase = RestorePhaseUnset \<or> oldPhase = RestorePhaseNew
      then assign_time p (\<lambda>t s. s\<lparr>gs_StartTime := Some t\<rparr>) started else State_Monad.return ());
     (if newPhase = RestorePhaseSucceeded \<or> newPhase = RestorePhaseFailed
      then assign_time p (\<lambda>t s. s\<lparr>gs_CompletionTime := Some t\<rparr>) completed else State_Monad.return ())
   }"

definition transition_memory :: "meta_copies \<Rightarrow> addr \<Rightarrow> RestorePhase \<Rightarrow> time \<Rightarrow> time \<Rightarrow> (cell, addr option) gm" where
  "transition_memory K p newPhase started completed = do {
     v \<leftarrow> deref RestoreT p;
     patched K p (transition_assigns p (gs_Phase (gv_Status v)) newPhase started completed)
   }"

definition retry_memory :: "meta_copies \<Rightarrow> addr \<Rightarrow> string \<Rightarrow> (cell, addr option) gm" where
  "retry_memory K p retryType = patched K p
     (if retryType = ''attachment'' then assign_status p (\<lambda>s. s\<lparr>gs_AttachmentRetries := gs_AttachmentRetries s + 1\<rparr>)
      else if retryType = ''ssh'' then assign_status p (\<lambda>s. s\<lparr>gs_SSHRetries := gs_SSHRetries s + 1\<rparr>)
      else State_Monad.return ())"

definition fail_memory :: "meta_copies \<Rightarrow> nat \<Rightarrow> addr \<Rightarrow> time \<Rightarrow> time \<Rightarrow> goerror \<Rightarrow> string \<Rightarrow> (cell, addr option) gm" where
  "fail_memory K spare p now now' err detail = patched K p (do {
     assign_status p (\<lambda>s. s\<lparr>gs_Phase := RestorePhaseFailed\<rparr>);
     assign_status p (\<lambda>s. s\<lparr>gs_ErrorMessage := Error err\<rparr>);
     assign_time p (\<lambda>t s. s\<lparr>gs_CompletionTime := Some t\<rparr>) now;
     v \<leftarrow> deref RestoreT p;
     assign_condition spare p
       \<lparr>c_Type = ''RestoreCompleted'', c_Status = ConditionFalse,
        c_ObservedGeneration = gm_Generation (gv_ObjectMeta v), c_LastTransitionTime = now',
        c_Reason = ''RestoreFailed'', c_Message = TruncateOutput detail 100\<rparr>
   })"

definition mount_path_memory :: "meta_copies \<Rightarrow> addr \<Rightarrow> string \<Rightarrow> (cell, addr option) gm" where
  "mount_path_memory K p mountPath = patched K p (assign_status p (\<lambda>s. s\<lparr>gs_MountPath := mountPath\<rparr>))"

text \<open>The two polling phases take the time first and then copy.\<close>

definition attachment_check_memory :: "meta_copies \<Rightarrow> addr \<Rightarrow> time \<Rightarrow> (cell, addr option) gm" where
  "attachment_check_memory K p now = do {
     t \<leftarrow> new TimeT now;
     patched K p (assign_status p (\<lambda>s. s\<lparr>gs_LastAttachmentCheckTime := Some t\<rparr>))
   }"

definition ssh_check_memory :: "meta_copies \<Rightarrow> addr \<Rightarrow> time \<Rightarrow> (cell, addr option) gm" where
  "ssh_check_memory K p now = do {
     t \<leftarrow> new TimeT now;
     patched K p (assign_status p (\<lambda>s. s\<lparr>gs_LastSSHCheckTime := Some t\<rparr>))
   }"

definition attachment_reset_memory :: "meta_copies \<Rightarrow> addr \<Rightarrow> (cell, addr option) gm" where
  "attachment_reset_memory K p = patched K p (assign_status p (\<lambda>s. s\<lparr>gs_AttachmentRetries := 0\<rparr>))"

definition ssh_reset_memory :: "meta_copies \<Rightarrow> addr \<Rightarrow> (cell, addr option) gm" where
  "ssh_reset_memory K p = patched K p (assign_status p (\<lambda>s. s\<lparr>gs_SSHRetries := 0\<rparr>))"

definition finish_memory :: "meta_copies \<Rightarrow> addr \<Rightarrow> string \<Rightarrow> (cell, addr option) gm" where
  "finish_memory K p stdout = patched K p (do {
     v \<leftarrow> deref RestoreT p;
     if gsp_SourcePath (gv_Spec v) = '''' then assign_status p (\<lambda>s. s\<lparr>gs_Phase := RestorePhaseVolumeReady\<rparr>)
     else do {
       n \<leftarrow> new Int32T (if sint (ParseRestoredFileCount stdout) < 0 then 0 else ParseRestoredFileCount stdout);
       assign_status p (\<lambda>s. s\<lparr>gs_RestoredFilesCount := Some n\<rparr>);
       assign_status p (\<lambda>s. s\<lparr>gs_Phase := RestorePhaseCleanup\<rparr>)
     }
   })"

subsection \<open>What an assignment leaves alone\<close>

text \<open>\<open>keeps M\<close>: cells stay, but those of the kinds \<open>M\<close> may get another content of these kinds. A reader that does not look
  at such cells is \<open>steady\<close>: two fields of different types do not overlap.\<close>

definition keeps :: "(cell \<Rightarrow> bool) \<Rightarrow> cell goheap \<Rightarrow> cell goheap \<Rightarrow> bool" where
  "keeps M h h' \<longleftrightarrow> (\<forall>a c. cells h a = Some c \<longrightarrow> (\<exists>c'. cells h' a = Some c' \<and> (c' = c \<or> M c \<and> M c')))"

definition steady :: "(cell \<Rightarrow> bool) \<Rightarrow> (cell, 'v) reader \<Rightarrow> bool" where
  "steady M r \<longleftrightarrow> (\<forall>h h' x. keeps M h h' \<longrightarrow> r h = Some x \<longrightarrow> r h' = Some x)"

fun is_object :: "cell \<Rightarrow> bool" where
  "is_object (RestoreCell v) = True" | "is_object c = False"

fun is_conditions :: "cell \<Rightarrow> bool" where
  "is_conditions (ConditionsCell cs) = True" | "is_conditions c = False"

abbreviation changeable :: "cell \<Rightarrow> bool" where
  "changeable c \<equiv> is_object c \<or> is_conditions c"

lemma keeps_refl [simp]: "keeps M h h"
  by (simp add: keeps_def)

lemma keeps_trans: "keeps M h h' \<Longrightarrow> keeps M h' h'' \<Longrightarrow> keeps M h h''"
  unfolding keeps_def by metis

lemma keeps_weaken: "keeps M h h' \<Longrightarrow> (\<And>c. M c \<Longrightarrow> N c) \<Longrightarrow> keeps N h h'"
  unfolding keeps_def by metis

lemma keeps_grown: "h \<le> h' \<Longrightarrow> keeps M h h'"
  by (auto simp: keeps_def dest: cells_mono)

lemma keeps_store: "cells h a = Some c \<Longrightarrow> M c \<Longrightarrow> M c' \<Longrightarrow> keeps M h (GoHeap ((cells h)(a \<mapsto> c')) n)"
  by (auto simp: keeps_def)

named_theorems steady_rules \<open>readers that do not look at changed cells\<close>

lemma steadyD: "steady M r \<Longrightarrow> keeps M h h' \<Longrightarrow> r h = Some x \<Longrightarrow> r h' = Some x"
  unfolding steady_def by blast

lemma steady_rd [steady_rules]: "steady M (rd v)"
  by (simp add: steady_def rd_def)

lemma steady_none [steady_rules]: "steady M (\<lambda>_. None)"
  by (simp add: steady_def)

lemma steady_bind [steady_rules]: "steady M r \<Longrightarrow> (\<And>u. steady M (f u)) \<Longrightarrow> steady M (rd_bind r f)"
  unfolding steady_def rd_bind_def by (fastforce split: option.splits)

lemma steady_at [steady_rules]: "(\<And>c. M c \<Longrightarrow> unwrap T c = None) \<Longrightarrow> steady M (at T a)"
  unfolding steady_def keeps_def at_def by (fastforce split: option.splits)

lemma steady_pointee [steady_rules]:
  "(\<And>c. M c \<Longrightarrow> unwrap T c = None) \<Longrightarrow> (\<And>s. steady M (r s)) \<Longrightarrow> steady M (pointee T r a)"
  by (auto simp: pointee_def intro!: steady_rules)

lemma steady_nullable [steady_rules]: "(\<And>p. steady M (r p)) \<Longrightarrow> steady M (nullable r p)"
  by (cases p) (auto intro!: steady_rules)

lemma steady_read_all [steady_rules]: "(\<And>s. steady M (r s)) \<Longrightarrow> steady M (read_all r ss)"
  by (induction ss) (auto intro!: steady_rules)

lemma steady_elements [steady_rules]:
  "(\<And>c. M c \<Longrightarrow> unwrap T c = None) \<Longrightarrow> (\<And>s. steady M (r s)) \<Longrightarrow> steady M (elements T r sl)"
  by (auto simp: elements_def intro!: steady_rules)

lemma steady_types:
  "changeable c \<Longrightarrow> unwrap TimeT c = None" "changeable c \<Longrightarrow> unwrap Int32T c = None" "changeable c \<Longrightarrow> unwrap StringT c = None"
  "changeable c \<Longrightarrow> unwrap StringsT c = None" "changeable c \<Longrightarrow> unwrap PVCSourceT c = None"
  "changeable c \<Longrightarrow> unwrap SnapshotSourceT c = None" "changeable c \<Longrightarrow> unwrap RemoteSourceT c = None"
  "is_object c \<Longrightarrow> unwrap ConditionsT c = None"
  by (cases c; simp add: type_defs)+

lemma steady_fields:
  "steady changeable (read_meta m)" "steady changeable (read_spec sp)" "steady changeable (plain TimeT t)"
  "steady changeable (plain Int32T t)"
  by (auto simp: read_meta_def read_spec_def read_ref_def read_source_def intro!: steady_rules steady_types)

lemma steady_status: "steady is_object (read_status s)"
  by (auto simp: read_status_def intro!: steady_rules steady_types)

lemma read_plain_elements:
  "elements ConditionsT rd sl h = Some (xs, D) \<longleftrightarrow>
     (\<exists>ys. cells h (sl_array sl) = Some (ConditionsCell ys) \<and> sl_len sl \<le> length ys \<and> xs = take (sl_len sl) ys \<and> D = {sl_array sl})"
proof -
  have all: "read_all rd ss h = Some (ss, {})" for ss :: "Condition list"
    by (induction ss) (simp_all add: rd_bind_def rd_def)
  show ?thesis
    by (auto simp: elements_def pointee_def rd_bind_def at_def ConditionsT_def all split: option.splits cell.splits if_splits)
qed

subsection \<open>Assignments to the status\<close>

text \<open>The object at \<open>p\<close> is \<open>g\<close> with a status that reads as \<open>st\<close>.\<close>

definition has_status :: "gRestore \<Rightarrow> addr \<Rightarrow> cell goheap \<Rightarrow> VirtualMachineFileRestoreStatus \<Rightarrow> addr set \<Rightarrow> bool" where
  "has_status g p h st C \<longleftrightarrow> (\<exists>s. cells h p = Some (RestoreCell (g\<lparr>gv_Status := s\<rparr>)) \<and> read_status s h = Some (st, C))"

definition writes_within :: "addr set \<Rightarrow> cell goheap \<Rightarrow> cell goheap \<Rightarrow> bool" where
  "writes_within W h h' \<longleftrightarrow> wf_heap h' \<and> limit h \<le> limit h' \<and> keeps changeable h h' \<and>
     (\<forall>a \<in> dom (cells h) - W. cells h' a = cells h a)"

text \<open>Where \<open>P\<close> holds, the routine \<open>m\<close> changes the status by \<open>F\<close>. It writes to the object, to the footprint of the status,
  to \<open>X\<close> and to new cells only.\<close>

definition sets_status ::
  "(cell goheap \<Rightarrow> bool) \<Rightarrow> addr set \<Rightarrow> gRestore \<Rightarrow> addr \<Rightarrow> (cell, unit) gm \<Rightarrow>
     (VirtualMachineFileRestoreStatus \<Rightarrow> VirtualMachineFileRestoreStatus) \<Rightarrow> bool" where
  "sets_status P X g p m F \<longleftrightarrow> (\<forall>h st C. wf_heap h \<longrightarrow> P h \<longrightarrow> has_status g p h st C \<longrightarrow>
     (\<exists>h' C'. run_state m h = ((), h') \<and> writes_within (insert p (C \<union> X)) h h' \<and> has_status g p h' (F st) C' \<and>
        C' \<subseteq> C \<union> X \<union> {limit h..}))"

lemma sets_statusD:
  assumes "sets_status P X g p m F" and "wf_heap h" and "P h" and "has_status g p h st C"
  obtains h' C' where "run_state m h = ((), h')" and "writes_within (insert p (C \<union> X)) h h'" and "has_status g p h' (F st) C'"
    and "C' \<subseteq> C \<union> X \<union> {limit h..}"
  using assms unfolding sets_status_def by blast

text \<open>A condition on cells that assignments do not change.\<close>

definition stable :: "(cell goheap \<Rightarrow> bool) \<Rightarrow> bool" where
  "stable P \<longleftrightarrow> (\<forall>h h'. keeps changeable h h' \<longrightarrow> P h \<longrightarrow> P h')"

lemma stable_cell: "\<not> changeable c \<Longrightarrow> stable P \<Longrightarrow> stable (\<lambda>h. P h \<and> cells h a = Some c)"
  unfolding stable_def keeps_def by fastforce

lemma stable_true [simp]: "stable (\<lambda>_. True)"
  by (simp add: stable_def)

lemma wf_limit: "wf_heap h \<Longrightarrow> a \<in> dom (cells h) \<Longrightarrow> a < limit h"
  by (simp add: wf_heap_def)

lemma writes_within_refl: "wf_heap h \<Longrightarrow> writes_within W h h"
  by (simp add: writes_within_def)

lemma writes_within_grown: "wf_heap h' \<Longrightarrow> h \<le> h' \<Longrightarrow> writes_within W h h'"
  by (auto simp: writes_within_def keeps_grown dest: limit_mono cells_mono)

lemma writes_within_trans:
  assumes 1: "writes_within V h h1" and 2: "writes_within W h1 h2" and "wf_heap h" and "W \<subseteq> V \<union> {limit h..}"
  shows "writes_within V h h2"
proof -
  have "cells h2 a = cells h a" if a: "a \<in> dom (cells h) - V" for a
  proof -
    have "cells h1 a = cells h a" using 1 a by (simp add: writes_within_def)
    moreover have "a \<notin> W" using a assms(4) wf_limit [OF assms(3), of a] by auto
    ultimately show ?thesis using 2 a by (auto simp: writes_within_def dom_def)
  qed
  with 1 2 show ?thesis by (auto simp: writes_within_def intro: keeps_trans)
qed

lemma sets_status_skip: "sets_status P X g p (State_Monad.return ()) (\<lambda>st. st)"
  unfolding sets_status_def by (auto intro: writes_within_refl)

lemma sets_status_seq:
  assumes 1: "sets_status P X g p m1 F1" and 2: "sets_status P X g p m2 F2" and "stable P"
  shows "sets_status P X g p (do { m1; m2 }) (\<lambda>st. F2 (F1 st))"
  unfolding sets_status_def
proof (intro allI impI)
  fix h st C
  assume h: "wf_heap h" "P h" "has_status g p h st C"
  from sets_statusD [OF 1 h] obtain h1 C1 where h1: "run_state m1 h = ((), h1)" "writes_within (insert p (C \<union> X)) h h1"
    "has_status g p h1 (F1 st) C1" "C1 \<subseteq> C \<union> X \<union> {limit h..}" .
  then have "wf_heap h1" and "P h1" and le: "limit h \<le> limit h1"
    using assms(3) h(2) by (auto simp: writes_within_def stable_def)
  from sets_statusD [OF 2 this(1,2) h1(3)] obtain h2 C2 where h2: "run_state m2 h1 = ((), h2)"
    "writes_within (insert p (C1 \<union> X)) h1 h2" "has_status g p h2 (F2 (F1 st)) C2" "C2 \<subseteq> C1 \<union> X \<union> {limit h1..}" .
  have "writes_within (insert p (C \<union> X)) h h2"
    using h1(2) h2(2) h(1) by (rule writes_within_trans) (use h1(4) in auto)
  moreover have "C2 \<subseteq> C \<union> X \<union> {limit h..}" using h1(4) h2(4) le by fastforce
  ultimately show "\<exists>h' C'. run_state (do { m1; m2 }) h = ((), h') \<and> writes_within (insert p (C \<union> X)) h h' \<and>
      has_status g p h' (F2 (F1 st)) C' \<and> C' \<subseteq> C \<union> X \<union> {limit h..}"
    using h1(1) h2(1,3) by auto
qed

lemma assign_status_runs:
  assumes "wf_heap h" and p: "cells h p = Some (RestoreCell (g\<lparr>gv_Status := s\<rparr>))" and "read_status (f s) h = Some (st, C)"
  shows "\<exists>h'. run_state (assign_status p f) h = ((), h') \<and> writes_within {p} h h' \<and> has_status g p h' st C"
proof -
  let ?h = "GoHeap ((cells h)(p \<mapsto> RestoreCell (g\<lparr>gv_Status := f s\<rparr>))) (limit h)"
  have k: "keeps is_object h ?h" using p by (rule keeps_store) simp_all
  have "run_state (assign_status p f) h = ((), ?h)"
    using p by (simp add: assign_status_def deref_def store_def content_def RestoreT_def)
  moreover have "writes_within {p} h ?h"
    using assms(1) p keeps_weaken [OF k] by (auto simp: writes_within_def wf_heap_def)
  moreover have "has_status g p ?h st C"
    using steadyD [OF steady_status k assms(3)] by (auto simp: has_status_def)
  ultimately show ?thesis by blast
qed

lemma writes_within_mono: "writes_within V h h' \<Longrightarrow> V \<subseteq> W \<Longrightarrow> writes_within W h h'"
  by (auto simp: writes_within_def)

lemma sets_status_assign:
  assumes "\<And>h s st C. P h \<Longrightarrow> read_status s h = Some (st, C) \<Longrightarrow> \<exists>C'. read_status (f s) h = Some (F st, C') \<and> C' \<subseteq> C \<union> X"
  shows "sets_status P X g p (assign_status p f) F"
  unfolding sets_status_def
proof (intro allI impI)
  fix h st C
  assume h: "wf_heap h" "P h" and "has_status g p h st C"
  then obtain s where p: "cells h p = Some (RestoreCell (g\<lparr>gv_Status := s\<rparr>))" and s: "read_status s h = Some (st, C)"
    unfolding has_status_def by blast
  from assms [OF h(2) s] obtain C' where C': "read_status (f s) h = Some (F st, C')" "C' \<subseteq> C \<union> X" by blast
  from assign_status_runs [where f = f and s = s, OF h(1) p C'(1)] C'(2)
  show "\<exists>h' C'. run_state (assign_status p f) h = ((), h') \<and> writes_within (insert p (C \<union> X)) h h' \<and>
      has_status g p h' (F st) C' \<and> C' \<subseteq> C \<union> X \<union> {limit h..}"
    by (blast intro: writes_within_mono)
qed

lemma sets_status_deref:
  assumes "\<And>s. sets_status P X g p (f (g\<lparr>gv_Status := s\<rparr>)) F"
  shows "sets_status P X g p (do { v \<leftarrow> deref RestoreT p; f v }) F"
  unfolding sets_status_def
proof (intro allI impI)
  fix h st C
  assume h: "wf_heap h" "P h" and st: "has_status g p h st C"
  then obtain s where "cells h p = Some (RestoreCell (g\<lparr>gv_Status := s\<rparr>))" unfolding has_status_def by blast
  then have "run_state (do { v \<leftarrow> deref RestoreT p; f v }) h = run_state (f (g\<lparr>gv_Status := s\<rparr>)) h"
    by (simp add: deref_def content_def RestoreT_def)
  with assms [of s] h st show "\<exists>h' C'. run_state (do { v \<leftarrow> deref RestoreT p; f v }) h = ((), h') \<and>
      writes_within (insert p (C \<union> X)) h h' \<and> has_status g p h' (F st) C' \<and> C' \<subseteq> C \<union> X \<union> {limit h..}"
    unfolding sets_status_def by simp
qed

lemma sets_status_new:
  assumes "\<And>a. sets_status (\<lambda>h. P h \<and> cells h a = Some (wrap T x)) (insert a X) g p (f a) F" and "stable P"
  shows "sets_status P X g p (do { a \<leftarrow> new T x; f a }) F"
  unfolding sets_status_def
proof (intro allI impI)
  fix h st C
  assume h: "wf_heap h" "P h" and "has_status g p h st C"
  then obtain s where p: "cells h p = Some (RestoreCell (g\<lparr>gv_Status := s\<rparr>))" and s: "read_status s h = Some (st, C)"
    unfolding has_status_def by blast
  let ?h = "GoHeap ((cells h)(limit h \<mapsto> wrap T x)) (Suc (limit h))"
  have h1: "wf_heap ?h" "h \<le> ?h" using grown [OF h(1)] by simp_all
  have "has_status g p ?h st C"
    using cells_mono [OF h1(2) p] reads_later [OF read_local(5) s h1(2)] by (auto simp: has_status_def)
  moreover have "P ?h" using assms(2) h(2) keeps_grown [OF h1(2)] unfolding stable_def by blast
  then have "P ?h \<and> cells ?h (limit h) = Some (wrap T x)" by simp
  ultimately obtain h' C' where h': "run_state (f (limit h)) ?h = ((), h')"
    "writes_within (insert p (C \<union> insert (limit h) X)) ?h h'" "has_status g p h' (F st) C'"
    "C' \<subseteq> C \<union> insert (limit h) X \<union> {limit ?h..}"
    using sets_statusD [OF assms(1) h1(1)] by blast
  have "writes_within (insert p (C \<union> X)) h h'"
    using writes_within_grown [OF h1] h'(2) h(1) by (rule writes_within_trans) auto
  moreover have "C' \<subseteq> C \<union> X \<union> {limit h..}" using h'(4) by fastforce
  ultimately show "\<exists>h' C'. run_state (do { a \<leftarrow> new T x; f a }) h = ((), h') \<and> writes_within (insert p (C \<union> X)) h h' \<and>
      has_status g p h' (F st) C' \<and> C' \<subseteq> C \<union> X \<union> {limit h..}"
    using h'(1,3) by (auto simp: new_def)
qed

subsection \<open>\<open>setCondition\<close> on arrays\<close>

lemma position_Some: "position P xs = Some i \<Longrightarrow> i < length xs"
  by (induction xs arbitrary: i) (auto split: if_splits)

lemma set_condition_position:
  "set_condition cs c = (case position (\<lambda>d. c_Type d = c_Type c) cs of Some i \<Rightarrow> cs[i := c] | None \<Rightarrow> cs @ [c])"
  by (induction cs) (auto split: option.splits)

abbreviation read_conditions :: "slice option \<Rightarrow> (cell, Condition list option) reader" where
  "read_conditions \<equiv> nullable (elements ConditionsT rd)"

lemma read_conditions_Some:
  "read_conditions (Some sl) h = Some (xs, D) \<longleftrightarrow>
     (\<exists>ys. cells h (sl_array sl) = Some (ConditionsCell ys) \<and> sl_len sl \<le> length ys \<and> xs = Some (take (sl_len sl) ys) \<and> D = {sl_array sl})"
  using read_plain_elements [of sl h] by (auto simp: rd_bind_def rd_def split: option.splits)

text \<open>What is left in memory after conditions are changed by \<open>m\<close>, which yields the new slice.\<close>

definition sets_conditions :: "(cell, slice option option) gm \<Rightarrow> cell goheap \<Rightarrow> addr set \<Rightarrow> Condition list \<Rightarrow> bool" where
  "sets_conditions m h D cs \<longleftrightarrow> (\<exists>h' sl ys D'. run_state m h = (Some sl, h') \<and> writes_within D h h' \<and> keeps is_conditions h h' \<and>
     read_conditions sl h' = Some (ys, D') \<and> list_of ys = cs \<and> D' \<subseteq> D \<union> {limit h..})"

lemma sets_conditions_store:
  assumes "wf_heap h" and "cells h (sl_array sl) = Some (ConditionsCell ys)" and "length zs = length ys" and "n \<le> length ys"
    and "run_state m h = (Some (Some (sl\<lparr>sl_len := n\<rparr>)), GoHeap ((cells h)(sl_array sl \<mapsto> ConditionsCell zs)) (limit h))"
  shows "sets_conditions m h {sl_array sl} (take n zs)"
proof -
  let ?h = "GoHeap ((cells h)(sl_array sl \<mapsto> ConditionsCell zs)) (limit h)"
  have k: "keeps is_conditions h ?h" using assms(2) by (rule keeps_store) simp_all
  then have "writes_within {sl_array sl} h ?h"
    using assms(1,2) keeps_weaken [OF k] by (auto simp: writes_within_def wf_heap_def)
  moreover have "read_conditions (Some (sl\<lparr>sl_len := n\<rparr>)) ?h = Some (Some (take n zs), {sl_array sl})"
    using assms(3,4) by (simp add: read_conditions_Some del: nullable.simps)
  ultimately show ?thesis using k assms(5) unfolding sets_conditions_def by (force simp: list_of_def)
qed

lemma sets_conditions_new:
  assumes "wf_heap h" and "n \<le> length zs"
    and "run_state m h = (Some (Some \<lparr>sl_array = limit h, sl_len = n\<rparr>),
      GoHeap ((cells h)(limit h \<mapsto> ConditionsCell zs)) (Suc (limit h)))"
  shows "sets_conditions m h D (take n zs)"
proof -
  let ?h = "GoHeap ((cells h)(limit h \<mapsto> ConditionsCell zs)) (Suc (limit h))"
  have h: "wf_heap ?h" "h \<le> ?h" using grown [OF assms(1)] by simp_all
  have "read_conditions (Some \<lparr>sl_array = limit h, sl_len = n\<rparr>) ?h = Some (Some (take n zs), {limit h})"
    using assms(2) by (simp add: read_conditions_Some del: nullable.simps)
  then show ?thesis
    using assms(3) writes_within_grown [OF h, of D] keeps_grown [OF h(2)] unfolding sets_conditions_def by (force simp: list_of_def)
qed

lemma memory_setCondition_sets:
  assumes "wf_heap h" and "read_conditions sl h = Some (xs, D)"
  shows "sets_conditions (memory_setCondition spare (Some sl) c) h D (set_condition (list_of xs) c)"
proof (cases sl)
  case None
  have "sets_conditions (memory_setCondition spare (Some None) c) h D (take 1 (c # replicate spare zero_condition))"
    by (rule sets_conditions_new [OF assms(1)])
      (simp_all add: memory_setCondition_def go_append_def new_def ConditionsT_def)
  with assms(2) None show ?thesis by (simp add: rd_def list_of_def)
next
  case (Some s)
  let ?n = "sl_len s" and ?a = "sl_array s" and ?P = "\<lambda>d. c_Type d = c_Type c"
  from assms(2) Some obtain ys where a: "cells h ?a = Some (ConditionsCell ys)" and n: "?n \<le> length ys"
    and xs: "xs = Some (take ?n ys)" and D: "D = {?a}"
    by (auto simp: read_conditions_Some simp del: nullable.simps)
  note memory = memory_setCondition_def go_append_def new_def store_def deref_def content_def ConditionsT_def a
  show ?thesis
  proof (cases "position ?P (take ?n ys)")
    case (Some i)
    with n have "i < ?n" by (auto dest: position_Some)
    then have "take ?n (ys[i := c]) = (take ?n ys)[i := c]" by (simp add: take_update_swap)
    moreover have "sets_conditions (memory_setCondition spare (Some (Some s)) c) h {?a} (take ?n (ys[i := c]))"
      by (rule sets_conditions_store [OF assms(1) a]) (simp_all add: memory n Some)
    ultimately show ?thesis by (simp add: \<open>sl = Some s\<close> xs D list_of_def set_condition_position Some)
  next
    case None
    then have goal: "set_condition (list_of xs) c = take ?n ys @ [c]" by (simp add: xs list_of_def set_condition_position)
    show ?thesis
    proof (cases "?n < length ys")
      case True
      have "sets_conditions (memory_setCondition spare (Some (Some s)) c) h {?a} (take (Suc ?n) (ys[?n := c]))"
        by (rule sets_conditions_store [OF assms(1) a]) (use True in \<open>simp_all add: memory None\<close>)
      with True show ?thesis by (simp add: \<open>sl = Some s\<close> D goal take_Suc_conv_app_nth)
    next
      case False
      with None n have "position ?P ys = None" by simp
      then have "sets_conditions (memory_setCondition spare (Some (Some s)) c) h {?a}
          (take (Suc ?n) (take ?n ys @ c # replicate spare zero_condition))"
        by (intro sets_conditions_new [OF assms(1)]) (use False n in \<open>simp_all add: memory\<close>)
      with False n show ?thesis by (simp add: \<open>sl = Some s\<close> D goal)
    qed
  qed
qed

text \<open>The fields.\<close>

lemma read_status_field:
  assumes "read_status s h = Some (st, C)"
  shows "read_status (s\<lparr>gs_Phase := ph\<rparr>) h = Some (st\<lparr>Phase := ph\<rparr>, C)"
    and "read_status (s\<lparr>gs_ErrorMessage := e\<rparr>) h = Some (st\<lparr>ErrorMessage := e\<rparr>, C)"
    and "read_status (s\<lparr>gs_MountPath := e\<rparr>) h = Some (st\<lparr>MountPath := e\<rparr>, C)"
    and "read_status (s\<lparr>gs_AttachmentRetries := n\<rparr>) h = Some (st\<lparr>AttachmentRetries := n\<rparr>, C)"
    and "read_status (s\<lparr>gs_SSHRetries := n\<rparr>) h = Some (st\<lparr>SSHRetries := n\<rparr>, C)"
    and "AttachmentRetries st = gs_AttachmentRetries s" and "SSHRetries st = gs_SSHRetries s" and "Phase st = gs_Phase s"
  using assms by (auto simp: read_status_def rd_bind_def rd_def split: option.splits prod.splits)

lemma read_pointer: "cells h a = Some (wrap T x) \<Longrightarrow> go_type T \<Longrightarrow> plain T (Some a) h = Some (Some x, {a})"
  by (simp add: rd_bind_def rd_def pointee_def at_def go_type.unwrap_wrap)

lemma read_status_pointer:
  assumes "read_status s h = Some (st, C)"
  shows "cells h a = Some (wrap TimeT t) \<Longrightarrow>
      \<exists>C'. read_status (s\<lparr>gs_StartTime := Some a\<rparr>) h = Some (st\<lparr>StartTime := Some t\<rparr>, C') \<and> C' \<subseteq> C \<union> {a}"
    and "cells h a = Some (wrap TimeT t) \<Longrightarrow>
      \<exists>C'. read_status (s\<lparr>gs_CompletionTime := Some a\<rparr>) h = Some (st\<lparr>CompletionTime := Some t\<rparr>, C') \<and> C' \<subseteq> C \<union> {a}"
    and "cells h a = Some (wrap TimeT t) \<Longrightarrow>
      \<exists>C'. read_status (s\<lparr>gs_LastAttachmentCheckTime := Some a\<rparr>) h = Some (st\<lparr>LastAttachmentCheckTime := Some t\<rparr>, C') \<and> C' \<subseteq> C \<union> {a}"
    and "cells h a = Some (wrap TimeT t) \<Longrightarrow>
      \<exists>C'. read_status (s\<lparr>gs_LastSSHCheckTime := Some a\<rparr>) h = Some (st\<lparr>LastSSHCheckTime := Some t\<rparr>, C') \<and> C' \<subseteq> C \<union> {a}"
    and "cells h a = Some (wrap Int32T n) \<Longrightarrow>
      \<exists>C'. read_status (s\<lparr>gs_RestoredFilesCount := Some a\<rparr>) h = Some (st\<lparr>RestoredFilesCount := Some n\<rparr>, C') \<and> C' \<subseteq> C \<union> {a}"
  using assms
  by (auto simp: read_status_def rd_bind_def rd_def read_pointer go_types simp del: nullable.simps
      split: option.splits prod.splits)

lemma read_status_conditions:
  assumes "read_status s h = Some (st, C)" and "keeps is_conditions h h'" and "read_conditions cs h' = Some (ys, D')"
  shows "\<exists>D C'. read_conditions (gs_Conditions s) h = Some (D, C') \<and> list_of D = Conditions st \<and> C' \<subseteq> C \<and>
    (\<exists>E. read_status (s\<lparr>gs_Conditions := cs\<rparr>) h' = Some (st\<lparr>Conditions := list_of ys\<rparr>, D' \<union> E) \<and> E \<subseteq> C)"
proof -
  have "keeps changeable h h'" using assms(2) by (rule keeps_weaken) simp
  note steady = steady_fields(3,4) [THEN steadyD, OF this]
  from assms(1) obtain xs D t1 A1 t2 A2 n A3 t4 A4 t5 A5 where "read_conditions (gs_Conditions s) h = Some (xs, D)"
    and st: "st = \<lparr>Phase = gs_Phase s, Conditions = list_of xs, StartTime = t1, CompletionTime = t2,
         RestoredFilesCount = n, ErrorMessage = gs_ErrorMessage s, MountPath = gs_MountPath s,
         AttachmentRetries = gs_AttachmentRetries s, SSHRetries = gs_SSHRetries s,
         LastAttachmentCheckTime = t4, LastSSHCheckTime = t5\<rparr>" and C: "C = D \<union> (A1 \<union> (A2 \<union> (A3 \<union> (A4 \<union> A5))))"
    and "plain TimeT (gs_StartTime s) h = Some (t1, A1)" "plain TimeT (gs_CompletionTime s) h = Some (t2, A2)"
      "plain Int32T (gs_RestoredFilesCount s) h = Some (n, A3)" "plain TimeT (gs_LastAttachmentCheckTime s) h = Some (t4, A4)"
      "plain TimeT (gs_LastSSHCheckTime s) h = Some (t5, A5)"
    unfolding read_status_def by (auto dest!: rd_bindD simp del: nullable.simps)
  note parts = this(1) this(4,5,7,8) [THEN steady(1)] this(6) [THEN steady(2)]
  show ?thesis
    using parts(1) by (auto simp: read_status_def rd_bind_def rd_def parts assms(3) st C simp del: nullable.simps)
qed

lemma sets_status_condition:
  "sets_status P X g p (assign_condition spare p c) (\<lambda>st. st\<lparr>Conditions := set_condition (Conditions st) c\<rparr>)"
  unfolding sets_status_def
proof (intro allI impI)
  fix h st C
  assume h: "wf_heap h" "P h" and "has_status g p h st C"
  then obtain s where p: "cells h p = Some (RestoreCell (g\<lparr>gv_Status := s\<rparr>))" and s: "read_status s h = Some (st, C)"
    unfolding has_status_def by blast
  then obtain xs D where xs: "read_conditions (gs_Conditions s) h = Some (xs, D)" "list_of xs = Conditions st" "D \<subseteq> C"
    using read_status_conditions [OF s keeps_refl, of "None"] by (auto simp: rd_def)
  let ?m = "memory_setCondition spare (Some (gs_Conditions s)) c"
  from memory_setCondition_sets [OF h(1) xs(1), of spare c] obtain h1 cs ys D' where h1: "run_state ?m h = (Some cs, h1)"
    "writes_within D h h1" "keeps is_conditions h h1" and ys: "read_conditions cs h1 = Some (ys, D')"
    "list_of ys = set_condition (Conditions st) c" "D' \<subseteq> D \<union> {limit h..}"
    unfolding sets_conditions_def xs(2) by blast
  have p1: "cells h1 p = Some (RestoreCell (g\<lparr>gv_Status := s\<rparr>))" using h1(3) p unfolding keeps_def by fastforce
  from read_status_conditions [OF s h1(3) ys(1)] obtain E
    where "read_status (s\<lparr>gs_Conditions := cs\<rparr>) h1 = Some (st\<lparr>Conditions := list_of ys\<rparr>, D' \<union> E)" and E: "E \<subseteq> C"
    by blast
  with ys(2) have read: "read_status ((\<lambda>s. s\<lparr>gs_Conditions := cs\<rparr>) s) h1 =
      Some (st\<lparr>Conditions := set_condition (Conditions st) c\<rparr>, D' \<union> E)" by simp
  have "wf_heap h1" using h1(2) by (simp add: writes_within_def)
  from assign_status_runs [where f = "\<lambda>s. s\<lparr>gs_Conditions := cs\<rparr>" and s = s, OF this p1 read]
  obtain h2 where h2: "run_state (assign_status p (\<lambda>s. s\<lparr>gs_Conditions := cs\<rparr>)) h1 = ((), h2)" "writes_within {p} h1 h2"
    "has_status g p h2 (st\<lparr>Conditions := set_condition (Conditions st) c\<rparr>) (D' \<union> E)"
    by blast
  have "run_state (assign_condition spare p c) h = ((), h2)"
    using p h1(1) h2(1) by (simp add: assign_condition_def deref_def content_def RestoreT_def)
  moreover have "writes_within (insert p (C \<union> X)) h h2"
  proof (rule writes_within_trans)
    show "writes_within (insert p (C \<union> X)) h h1" using h1(2) by (rule writes_within_mono) (use xs(3) in auto)
  qed (use h2(2) h(1) in auto)
  moreover have "D' \<union> E \<subseteq> C \<union> X \<union> {limit h..}" using ys(3) xs(3) E by auto
  ultimately show "\<exists>h' C'. run_state (assign_condition spare p c) h = ((), h') \<and> writes_within (insert p (C \<union> X)) h h' \<and>
      has_status g p h' (st\<lparr>Conditions := set_condition (Conditions st) c\<rparr>) C' \<and> C' \<subseteq> C \<union> X \<union> {limit h..}"
    using h2(3) by blast
qed

subsection \<open>The base of a patch\<close>

abbreviation restore_at :: "addr \<Rightarrow> (cell, gTypeMeta \<times> vmfr) reader" where
  "restore_at \<equiv> pointee RestoreT read_restore"

lemma restore_atD:
  assumes "restore_at p h = Some ((tm, v), A)"
  shows "\<exists>g C B. cells h p = Some (RestoreCell g) \<and> read_status (gv_Status g) h = Some (vmfr_Status v, C) \<and>
    A = insert p (B \<union> C) \<and> gm_Generation (gv_ObjectMeta g) = vmfr_Generation v \<and> gsp_SourcePath (gv_Spec g) = SourcePath (vmfr_Spec v) \<and>
    (\<forall>h' s' st C'. keeps changeable h h' \<longrightarrow> cells h' p = Some (RestoreCell (g\<lparr>gv_Status := s'\<rparr>)) \<longrightarrow>
       read_status s' h' = Some (st, C') \<longrightarrow> restore_at p h' = Some ((tm, v\<lparr>vmfr_Status := st\<rparr>), insert p (B \<union> C')))"
proof -
  from assms obtain g where p: "cells h p = Some (RestoreCell g)"
    by (auto simp: pointee_def rd_bind_def at_def RestoreT_def split: option.splits cell.splits)
  then obtain nm ns gen dt fs M spec S C where m: "read_meta (gv_ObjectMeta g) h = Some ((nm, ns, gen, dt, fs), M)"
    and spec: "read_spec (gv_Spec g) h = Some (spec, S)" and status: "read_status (gv_Status g) h = Some (vmfr_Status v, C)"
    and tm: "tm = gv_TypeMeta g" and v: "v = \<lparr>vmfr_Name = nm, vmfr_Namespace = ns, vmfr_Generation = gen,
       vmfr_DeletionTimestamp = dt, vmfr_Finalizers = fs, vmfr_Spec = spec, vmfr_Status = vmfr_Status v\<rparr>"
    and A: "A = insert p (M \<union> (S \<union> C))"
    using assms by (auto simp: pointee_def rd_bind_def rd_def at_def RestoreT_def read_restore_def split: option.splits prod.splits)
  have "restore_at p h' = Some ((tm, v\<lparr>vmfr_Status := st\<rparr>), insert p (M \<union> S \<union> C'))"
    if k: "keeps changeable h h'" and "cells h' p = Some (RestoreCell (g\<lparr>gv_Status := s'\<rparr>))" and "read_status s' h' = Some (st, C')"
    for h' s' st C'
    using that steady_fields(1) [THEN steadyD, OF k m] steady_fields(2) [THEN steadyD, OF k spec]
    by (subst v) (simp add: pointee_def rd_bind_def rd_def at_def RestoreT_def read_restore_def tm Un_assoc)
  moreover have "gm_Generation (gv_ObjectMeta g) = gen" and "gsp_SourcePath (gv_Spec g) = SourcePath spec"
    using m spec by (auto simp: read_meta_def read_spec_def dest!: rd_bindD)
  moreover have "vmfr_Generation v = gen" and "vmfr_Spec v = spec" by (subst v, simp)+
  ultimately show ?thesis using p status A by (intro exI [of _ g] exI [of _ C] exI [of _ "M \<union> S"]) (auto simp: Un_assoc)
qed

text \<open>After \<open>m\<close>, which yields the base of a patch, the base reads as \<open>v\<close> and the resource at \<open>p\<close> as \<open>v'\<close>, and they have
  no memory in common.\<close>

definition carries :: "(cell, addr option) gm \<Rightarrow> cell goheap \<Rightarrow> addr \<Rightarrow> gTypeMeta \<Rightarrow> vmfr \<Rightarrow> vmfr \<Rightarrow> bool" where
  "carries m h p tm v v' \<longleftrightarrow> (\<exists>base h' A B. run_state m h = (Some base, h') \<and> restore_at base h' = Some ((tm, v), B) \<and>
     restore_at p h' = Some ((tm, v'), A) \<and> A \<inter> B = {})"

lemma carries_after:
  assumes "restore_at p h = Some ((tm, v), A)" and "\<And>a h1. wf_heap h1 \<Longrightarrow> cells h1 a = Some (wrap T x) \<Longrightarrow> a \<in> dom (cells h1) \<Longrightarrow>
      restore_at p h1 = Some ((tm, v), A) \<Longrightarrow> carries (f a) h1 p tm v n" and "wf_heap h"
  shows "carries (do { a \<leftarrow> new T x; f a }) h p tm v n"
proof -
  let ?h = "GoHeap ((cells h)(limit h \<mapsto> wrap T x)) (Suc (limit h))"
  have h: "wf_heap ?h" "h \<le> ?h" using grown [OF assms(3)] by simp_all
  have "local (restore_at p)" by (intro local_rules)
  from assms(2) [OF h(1), of "limit h"] reads_later [OF this assms(1) h(2)] show ?thesis
    by (simp add: carries_def new_def)
qed

context meta_copiers
begin

lemma patched_carries:
  assumes "wf_heap h" and "restore_at p h = Some ((tm, v), A)" and "stable P" and "P h" and "X \<subseteq> dom (cells h)"
    and "\<And>g. gm_Generation (gv_ObjectMeta g) = vmfr_Generation v \<Longrightarrow> gsp_SourcePath (gv_Spec g) = SourcePath (vmfr_Spec v) \<Longrightarrow>
      sets_status P X g p m F"
  shows "carries (patched K p m) h p tm v (with_status v F)"
proof -
  have loc: "local (restore_at q)" for q by (intro local_rules)
  from copies_independent(1) [OF assms(1,2)] obtain base h1 B
    where copy: "run_state (VirtualMachineFileRestore_DeepCopy K (Some p)) h = (Some base, h1)" "wf_heap h1" "h \<le> h1"
      and apart: "dom (cells h) \<inter> B = {}" and base: "restore_at base h1 = Some ((tm, v), B)"
    unfolding yields_copy_def by blast
  have p: "restore_at p h1 = Some ((tm, v), A)" using loc assms(2) copy(3) by (rule reads_later)
  from restore_atD [OF p] obtain g C M where g: "cells h1 p = Some (RestoreCell g)"
    "read_status (gv_Status g) h1 = Some (vmfr_Status v, C)" "A = insert p (M \<union> C)"
    "gm_Generation (gv_ObjectMeta g) = vmfr_Generation v" "gsp_SourcePath (gv_Spec g) = SourcePath (vmfr_Spec v)"
    and after: "\<And>h' s' st C'. keeps changeable h1 h' \<Longrightarrow> cells h' p = Some (RestoreCell (g\<lparr>gv_Status := s'\<rparr>)) \<Longrightarrow>
       read_status s' h' = Some (st, C') \<Longrightarrow> restore_at p h' = Some ((tm, v\<lparr>vmfr_Status := st\<rparr>), insert p (M \<union> C'))"
    by blast
  have "P h1" using assms(3,4) keeps_grown [OF copy(3)] unfolding stable_def by blast
  moreover have "has_status g p h1 (vmfr_Status v) C" using g(1,2) by (auto simp: has_status_def intro!: exI [of _ "gv_Status g"])
  ultimately obtain h2 C' where h2: "run_state m h1 = ((), h2)" "writes_within (insert p (C \<union> X)) h1 h2"
    "has_status g p h2 (F (vmfr_Status v)) C'" "C' \<subseteq> C \<union> X \<union> {limit h1..}"
    using sets_statusD [OF assms(6) [OF g(4,5)] copy(2)] by blast
  have "A \<subseteq> dom (cells h)" using reads_allocated [OF loc assms(2)] by blast
  then have old: "insert p (M \<union> C \<union> X) \<inter> B = {}" using apart assms(5) g(3) by blast
  have B: "B \<subseteq> dom (cells h1)" using reads_allocated [OF loc base] by blast
  have "restore_at base h2 = Some ((tm, v), B)"
    using loc base by (rule reads_elsewhere) (use B h2(2) old in \<open>auto simp: writes_within_def\<close>)
  moreover have "restore_at p h2 = Some ((tm, with_status v F), insert p (M \<union> C'))"
    using h2(2,3) after by (auto simp: has_status_def writes_within_def with_status_def)
  moreover have "insert p (M \<union> C') \<inter> B = {}"
    using old h2(4) B wf_limit [OF copy(2)] by fastforce
  ultimately show ?thesis
    using copy(1) h2(1) unfolding carries_def patched_def by auto
qed

lemma patched_plain:
  assumes "wf_heap h" and "restore_at p h = Some ((tm, v), A)"
    and "\<And>g. gm_Generation (gv_ObjectMeta g) = vmfr_Generation v \<Longrightarrow> gsp_SourcePath (gv_Spec g) = SourcePath (vmfr_Spec v) \<Longrightarrow>
      sets_status (\<lambda>_. True) {} g p m F"
  shows "carries (patched K p m) h p tm v (with_status v F)"
  using assms by (intro patched_carries [where P = "\<lambda>_. True" and X = "{}"]) simp_all

end

text \<open>The assignments of the sites.\<close>

lemma sets_phase: "sets_status P X g p (assign_status p (\<lambda>s. s\<lparr>gs_Phase := ph\<rparr>)) (\<lambda>st. st\<lparr>Phase := ph\<rparr>)"
  and sets_error: "sets_status P X g p (assign_status p (\<lambda>s. s\<lparr>gs_ErrorMessage := e\<rparr>)) (\<lambda>st. st\<lparr>ErrorMessage := e\<rparr>)"
  and sets_mount_path: "sets_status P X g p (assign_status p (\<lambda>s. s\<lparr>gs_MountPath := e\<rparr>)) (\<lambda>st. st\<lparr>MountPath := e\<rparr>)"
  and sets_attachment_retries: "sets_status P X g p (assign_status p (\<lambda>s. s\<lparr>gs_AttachmentRetries := n\<rparr>)) (\<lambda>st. st\<lparr>AttachmentRetries := n\<rparr>)"
  and sets_ssh_retries: "sets_status P X g p (assign_status p (\<lambda>s. s\<lparr>gs_SSHRetries := n\<rparr>)) (\<lambda>st. st\<lparr>SSHRetries := n\<rparr>)"
  by (rule sets_status_assign, auto dest: read_status_field)+

lemma sets_retries:
  "sets_status P X g p (assign_status p (\<lambda>s. s\<lparr>gs_AttachmentRetries := gs_AttachmentRetries s + 1\<rparr>))
     (\<lambda>st. st\<lparr>AttachmentRetries := AttachmentRetries st + 1\<rparr>)"
  "sets_status P X g p (assign_status p (\<lambda>s. s\<lparr>gs_SSHRetries := gs_SSHRetries s + 1\<rparr>))
     (\<lambda>st. st\<lparr>SSHRetries := SSHRetries st + 1\<rparr>)"
  by (rule sets_status_assign, auto simp: read_status_field)+

lemma footprint_grows:
  "\<exists>C'. r = Some (x, C') \<and> C' \<subseteq> C \<union> {a} \<Longrightarrow> a \<in> X \<Longrightarrow> \<exists>C'. r = Some (x, C') \<and> C' \<subseteq> C \<union> X"
  by blast

lemma sets_pointer:
  assumes "\<And>h. P h \<Longrightarrow> cells h a = Some (wrap TimeT t)" and "a \<in> X"
  shows "sets_status P X g p (assign_status p (\<lambda>s. s\<lparr>gs_StartTime := Some a\<rparr>)) (\<lambda>st. st\<lparr>StartTime := Some t\<rparr>)"
    and "sets_status P X g p (assign_status p (\<lambda>s. s\<lparr>gs_CompletionTime := Some a\<rparr>)) (\<lambda>st. st\<lparr>CompletionTime := Some t\<rparr>)"
    and "sets_status P X g p (assign_status p (\<lambda>s. s\<lparr>gs_LastAttachmentCheckTime := Some a\<rparr>)) (\<lambda>st. st\<lparr>LastAttachmentCheckTime := Some t\<rparr>)"
    and "sets_status P X g p (assign_status p (\<lambda>s. s\<lparr>gs_LastSSHCheckTime := Some a\<rparr>)) (\<lambda>st. st\<lparr>LastSSHCheckTime := Some t\<rparr>)"
  by (rule sets_status_assign, rule footprint_grows [OF _ assms(2)], rule read_status_pointer, assumption, rule assms(1), assumption)+

lemma sets_count:
  assumes "\<And>h. P h \<Longrightarrow> cells h a = Some (wrap Int32T n)" and "a \<in> X"
  shows "sets_status P X g p (assign_status p (\<lambda>s. s\<lparr>gs_RestoredFilesCount := Some a\<rparr>)) (\<lambda>st. st\<lparr>RestoredFilesCount := Some n\<rparr>)"
  by (rule sets_status_assign, rule footprint_grows [OF _ assms(2)], rule read_status_pointer, assumption, rule assms(1), assumption)

lemma sets_time:
  assumes "stable P"
  shows "sets_status P X g p (assign_time p (\<lambda>t s. s\<lparr>gs_StartTime := Some t\<rparr>) now) (\<lambda>st. st\<lparr>StartTime := Some now\<rparr>)"
    and "sets_status P X g p (assign_time p (\<lambda>t s. s\<lparr>gs_CompletionTime := Some t\<rparr>) now) (\<lambda>st. st\<lparr>CompletionTime := Some now\<rparr>)"
  unfolding assign_time_def using assms by (auto intro!: sets_status_new sets_pointer)

lemmas assign_rules = sets_status_skip sets_phase sets_error sets_mount_path sets_attachment_retries sets_ssh_retries
  sets_retries sets_time sets_status_condition sets_status_seq

end
