(* ===== verification/PatchSites.thy ===== *)
theory PatchSites
  imports PatchBase Progress Scenario
begin

text \<open>
  The nine places of internal/controller/phases.go that patch the status. Every status patch of a reconciliation is made at
  one of them, and what the memory holds there is what the handlers of \<open>Phases\<close> hand to \<open>PatchStatus\<close>.
\<close>

datatype patch_site =
    Transition RestorePhase time time
  | Retry string
  | Fail time time goerror string
  | SetMountPath string
  | AttachmentCheck time
  | AttachmentReset
  | SSHCheck time
  | SSHReset
  | Finish string

text \<open>The new status of a resource.\<close>

fun site_status :: "patch_site \<Rightarrow> vmfr \<Rightarrow> VirtualMachineFileRestoreStatus \<Rightarrow> VirtualMachineFileRestoreStatus" where
  "site_status (Transition newPhase started completed) v = (\<lambda>s. s\<lparr>Phase := newPhase,
     StartTime := (if Phase (vmfr_Status v) = RestorePhaseUnset \<or> Phase (vmfr_Status v) = RestorePhaseNew
       then Some started else StartTime (vmfr_Status v)),
     CompletionTime := (if newPhase = RestorePhaseSucceeded \<or> newPhase = RestorePhaseFailed
       then Some completed else CompletionTime (vmfr_Status v))\<rparr>)"
| "site_status (Retry retryType) v = bump_retry retryType"
| "site_status (Fail now now' err detail) v = failed_status v now now' err detail"
| "site_status (SetMountPath path) v = (\<lambda>s. s\<lparr>MountPath := path\<rparr>)"
| "site_status (AttachmentCheck now) v = (\<lambda>s. s\<lparr>LastAttachmentCheckTime := Some now\<rparr>)"
| "site_status AttachmentReset v = (\<lambda>s. s\<lparr>AttachmentRetries := 0\<rparr>)"
| "site_status (SSHCheck now) v = (\<lambda>s. s\<lparr>LastSSHCheckTime := Some now\<rparr>)"
| "site_status SSHReset v = (\<lambda>s. s\<lparr>SSHRetries := 0\<rparr>)"
| "site_status (Finish stdout) v =
     (if SourcePath (vmfr_Spec v) = '''' then (\<lambda>s. s\<lparr>Phase := RestorePhaseVolumeReady\<rparr>)
      else (\<lambda>s. s\<lparr>RestoredFilesCount := Some (if sint (ParseRestoredFileCount stdout) < 0 then 0 else ParseRestoredFileCount stdout),
        Phase := RestorePhaseCleanup\<rparr>))"

fun site_memory :: "meta_copies \<Rightarrow> nat \<Rightarrow> addr \<Rightarrow> patch_site \<Rightarrow> (cell, addr option) gm" where
  "site_memory K spare p (Transition newPhase started completed) = transition_memory K p newPhase started completed"
| "site_memory K spare p (Retry retryType) = retry_memory K p retryType"
| "site_memory K spare p (Fail now now' err detail) = fail_memory K spare p now now' err detail"
| "site_memory K spare p (SetMountPath path) = mount_path_memory K p path"
| "site_memory K spare p (AttachmentCheck now) = attachment_check_memory K p now"
| "site_memory K spare p AttachmentReset = attachment_reset_memory K p"
| "site_memory K spare p (SSHCheck now) = ssh_check_memory K p now"
| "site_memory K spare p SSHReset = ssh_reset_memory K p"
| "site_memory K spare p (Finish stdout) = finish_memory K p stdout"

subsection \<open>In memory\<close>

lemma restore_content:
  assumes "restore_at p h = Some ((tm, v), A)"
  shows "gs_Phase (gv_Status (content RestoreT p h)) = Phase (vmfr_Status v)"
proof -
  from restore_atD [OF assms] obtain g C where "cells h p = Some (RestoreCell g)"
    and "read_status (gv_Status g) h = Some (vmfr_Status v, C)" by blast
  with read_status_field(8) show ?thesis by (simp add: content_def RestoreT_def)
qed

context meta_copiers
begin

lemma transition_carries:
  assumes "wf_heap h" and "restore_at p h = Some ((tm, v), A)"
  shows "carries (transition_memory K p newPhase started completed) h p tm v
    (with_status v (site_status (Transition newPhase started completed) v))"
proof -
  let ?F = "\<lambda>st. (if newPhase = RestorePhaseSucceeded \<or> newPhase = RestorePhaseFailed
      then (\<lambda>st. st\<lparr>CompletionTime := Some completed\<rparr>) else (\<lambda>st. st))
     ((if Phase (vmfr_Status v) = RestorePhaseUnset \<or> Phase (vmfr_Status v) = RestorePhaseNew
      then (\<lambda>st. st\<lparr>StartTime := Some started\<rparr>) else (\<lambda>st. st)) (st\<lparr>Phase := newPhase\<rparr>))"
  have "sets_status (\<lambda>_. True) {} g p (transition_assigns p (Phase (vmfr_Status v)) newPhase started completed) ?F" for g
    unfolding transition_assigns_def by (rule sets_status_seq sets_phase stable_true | simp add: assign_rules)+
  from patched_plain [OF assms this]
  have "carries (transition_memory K p newPhase started completed) h p tm v (with_status v ?F)"
    using restore_content [OF assms(2)] by (simp add: transition_memory_def carries_def deref_def)
  moreover have "with_status v ?F = with_status v (site_status (Transition newPhase started completed) v)"
    by (simp add: with_status_def)
  ultimately show ?thesis by (simp only:)
qed

lemma fail_carries:
  assumes "wf_heap h" and "restore_at p h = Some ((tm, v), A)"
  shows "carries (fail_memory K spare p now now' err detail) h p tm v (with_status v (failed_status v now now' err detail))"
proof -
  have "sets_status (\<lambda>_. True) {} g p (do {
      assign_status p (\<lambda>s. s\<lparr>gs_Phase := RestorePhaseFailed\<rparr>);
      assign_status p (\<lambda>s. s\<lparr>gs_ErrorMessage := Error err\<rparr>);
      assign_time p (\<lambda>t s. s\<lparr>gs_CompletionTime := Some t\<rparr>) now;
      v \<leftarrow> deref RestoreT p;
      assign_condition spare p
        \<lparr>c_Type = ''RestoreCompleted'', c_Status = ConditionFalse,
         c_ObservedGeneration = gm_Generation (gv_ObjectMeta v), c_LastTransitionTime = now',
         c_Reason = ''RestoreFailed'', c_Message = TruncateOutput detail 100\<rparr> })
    (\<lambda>st. (\<lambda>st. st\<lparr>Conditions := set_condition (Conditions st) (failed_condition v now' detail)\<rparr>)
       (st\<lparr>Phase := RestorePhaseFailed, ErrorMessage := Error err, CompletionTime := Some now\<rparr>))"
    if "gm_Generation (gv_ObjectMeta g) = vmfr_Generation v" for g
    unfolding failed_condition_def that [symmetric]
    by (intro assign_rules stable_true sets_status_deref) (simp add: sets_status_condition)
  from patched_plain [OF assms this]
  show ?thesis by (simp add: fail_memory_def failed_status_def setCondition_def with_status_def)
qed

lemma finish_carries:
  assumes "wf_heap h" and "restore_at p h = Some ((tm, v), A)"
  shows "carries (finish_memory K p stdout) h p tm v (with_status v (site_status (Finish stdout) v))"
proof -
  let ?n = "if sint (ParseRestoredFileCount stdout) < 0 then 0 else ParseRestoredFileCount stdout"
  have "sets_status (\<lambda>_. True) {} g p (do {
      n \<leftarrow> new Int32T ?n;
      assign_status p (\<lambda>s. s\<lparr>gs_RestoredFilesCount := Some n\<rparr>);
      assign_status p (\<lambda>s. s\<lparr>gs_Phase := RestorePhaseCleanup\<rparr>) })
    (\<lambda>st. (st\<lparr>RestoredFilesCount := Some ?n\<rparr>)\<lparr>Phase := RestorePhaseCleanup\<rparr>)" for g
    by (intro sets_status_new sets_status_seq sets_count sets_phase stable_cell stable_true) (auto simp: Int32T_def)
  then have "sets_status (\<lambda>_. True) {} g p (do {
      v \<leftarrow> deref RestoreT p;
      if gsp_SourcePath (gv_Spec v) = '''' then assign_status p (\<lambda>s. s\<lparr>gs_Phase := RestorePhaseVolumeReady\<rparr>)
      else do {
        n \<leftarrow> new Int32T ?n;
        assign_status p (\<lambda>s. s\<lparr>gs_RestoredFilesCount := Some n\<rparr>);
        assign_status p (\<lambda>s. s\<lparr>gs_Phase := RestorePhaseCleanup\<rparr>) } }) (site_status (Finish stdout) v)"
    if "gsp_SourcePath (gv_Spec g) = SourcePath (vmfr_Spec v)" for g
    using that by (intro sets_status_deref) (auto simp: sets_phase)
  from patched_plain [OF assms this] show ?thesis by (simp add: finish_memory_def)
qed

lemma check_carries:
  assumes "wf_heap h" and "restore_at p h = Some ((tm, v), A)"
  shows "carries (attachment_check_memory K p now) h p tm v (with_status v (site_status (AttachmentCheck now) v))"
    and "carries (ssh_check_memory K p now) h p tm v (with_status v (site_status (SSHCheck now) v))"
  unfolding attachment_check_memory_def ssh_check_memory_def site_status.simps
  by (rule carries_after [OF assms(2) _ assms(1)];
      auto intro!: patched_carries [where X = "{a}" and P = "\<lambda>h. True \<and> cells h a = Some (wrap TimeT now)" for a]
        sets_pointer stable_cell simp: TimeT_def)+

lemma site_carries:
  assumes "wf_heap h" and "restore_at p h = Some ((tm, v), A)"
  shows "carries (site_memory K spare p site) h p tm v (with_status v (site_status site v))"
proof (cases site)
  case (Retry retryType)
  then show ?thesis
    by (auto simp: retry_memory_def bump_retry_def [abs_def] intro!: patched_plain [OF assms] assign_rules)
next
  case (SetMountPath path)
  then show ?thesis by (auto simp: mount_path_memory_def intro!: patched_plain [OF assms] assign_rules)
next
  case AttachmentReset
  then show ?thesis by (auto simp: attachment_reset_memory_def intro!: patched_plain [OF assms] assign_rules)
next
  case SSHReset
  then show ?thesis by (auto simp: ssh_reset_memory_def intro!: patched_plain [OF assms] assign_rules)
qed (use transition_carries [OF assms] fail_carries [OF assms] check_carries [OF assms] finish_carries [OF assms] in simp_all)

end

subsection \<open>In the handlers\<close>

definition site_patch :: "request \<Rightarrow> bool" where
  "site_patch q \<longleftrightarrow> (\<forall>b n. q = ReqPatchStatus b n \<longrightarrow> (\<exists>site. n = with_status b (site_status site b)))"

abbreviation patches_at_sites :: "('w, 'a) cmd \<Rightarrow> bool" where
  "patches_at_sites \<equiv> emits site_patch (\<lambda>_. True)"

lemma site_patchI: "n = with_status b (site_status site b) \<Longrightarrow> site_patch (ReqPatchStatus b n)"
  by (auto simp: site_patch_def)

lemma quiet_at_sites: "quiet m \<Longrightarrow> patches_at_sites m"
  by (erule emits_weaken) (auto simp: site_patch_def)

lemmas site_quiet = quiet_UnplugVolume [THEN quiet_at_sites, THEN emits_bind] quiet_HotplugVolume [THEN quiet_at_sites, THEN emits_bind]
  quiet_key [THEN quiet_at_sites, THEN emits_bind] quiet_connect [THEN quiet_at_sites, THEN emits_bind]
  quiet_command [THEN quiet_at_sites, THEN emits_bind] quiet_ip [THEN quiet_at_sites, THEN emits_bind]
  quiet_rate_limit [THEN quiet_at_sites, THEN emits_bind] quiet_cleanup [THEN quiet_at_sites, THEN emits_bind]

lemma site_patch_other [simp]: "\<forall>b n. q \<noteq> ReqPatchStatus b n \<Longrightarrow> site_patch q"
  by (simp add: site_patch_def)

lemma site_patch_field [simp]:
  "site_patch (ReqPatchStatus v (with_status v (\<lambda>s. s\<lparr>MountPath := path\<rparr>)))"
  "site_patch (ReqPatchStatus v (with_status v (\<lambda>s. s\<lparr>LastAttachmentCheckTime := Some now\<rparr>)))"
  "site_patch (ReqPatchStatus v (with_status v (\<lambda>s. s\<lparr>AttachmentRetries := 0\<rparr>)))"
  "site_patch (ReqPatchStatus v (with_status v (\<lambda>s. s\<lparr>LastSSHCheckTime := Some now\<rparr>)))"
  "site_patch (ReqPatchStatus v (with_status v (\<lambda>s. s\<lparr>SSHRetries := 0\<rparr>)))"
  by (rule site_patchI [where site = "SetMountPath path"] site_patchI [where site = "AttachmentCheck now"]
      site_patchI [where site = AttachmentReset] site_patchI [where site = "SSHCheck now"] site_patchI [where site = SSHReset], simp)+

lemma site_transition: "patches_at_sites (transitionPhase E v newPhase msg)"
proof -
  have "site_patch (ReqPatchStatus v (with_status v (\<lambda>s. s\<lparr>Phase := newPhase, StartTime := started, CompletionTime := completed\<rparr>)))"
    if "started = (if Phase (vmfr_Status v) = RestorePhaseUnset \<or> Phase (vmfr_Status v) = RestorePhaseNew then Some t1
          else StartTime (vmfr_Status v))"
      and "completed = (if newPhase = RestorePhaseSucceeded \<or> newPhase = RestorePhaseFailed then Some t2
          else CompletionTime (vmfr_Status v))"
    for started completed t1 t2
    using that by (intro site_patchI [where site = "Transition newPhase t1 t2"]) simp
  then show ?thesis
    unfolding transitionPhase_def PatchStatus_def call_defs Let_def
    by (auto intro!: emit_rules split: if_split sum.split)
qed

lemma site_failRestore: "patches_at_sites (failRestore E R v err detail)"
  unfolding failRestore_def PatchStatus_def call_defs
  by (auto intro!: emit_rules site_quiet site_patchI [where site = "Fail now now' err detail" for now now'] split: sum.split)

lemma site_retry: "patches_at_sites (incrementRetryAndRequeue E v retryType d)"
  unfolding incrementRetryAndRequeue_def PatchStatus_def
  by (auto intro!: emit_rules site_patchI [where site = "Retry retryType"])

lemma site_reset:
  "patches_at_sites (reset_counter E AttachmentRetries (\<lambda>s. s\<lparr>AttachmentRetries := 0\<rparr>) v)"
  "patches_at_sites (reset_counter E SSHRetries (\<lambda>s. s\<lparr>SSHRetries := 0\<rparr>) v)"
  unfolding reset_counter_def PatchStatus_def
  by (auto intro!: emit_rules)

lemma site_init_accept: "patches_at_sites (init_accept E v vmi)"
  unfolding init_accept_def PatchStatus_def Let_def
  by (auto intro!: emit_rules site_transition split: sum.split)

lemmas site_steps = emit_rules site_quiet site_transition site_failRestore site_retry site_init_accept site_reset [THEN emits_bind]

lemma site_init: "patches_at_sites (handleInitPhase E R v)"
  unfolding handleInitPhase_def init_source_def Let_def call_defs
  by (auto intro!: site_steps split: sum.split option.split)

lemma site_hotplugging: "patches_at_sites (handleHotpluggingPhase E R v)"
  unfolding handleHotpluggingPhase_def call_defs
  by (auto intro!: site_steps split: sum.split option.split go.split)

lemma site_waiting: "patches_at_sites (handleWaitingForAttachmentPhase E R v)"
  unfolding handleWaitingForAttachmentPhase_def attachment_check_def PatchStatus_def call_defs
  by (auto intro!: site_steps split: sum.split option.split go.split)

lemma site_connecting: "patches_at_sites (handleSSHConnectingPhase E R v)"
  unfolding handleSSHConnectingPhase_def ssh_attempt_def PatchStatus_def call_defs
  by (auto intro!: site_steps emits_bind [OF site_transition]
      split: sum.split option.split go.split)

lemma site_finish: "patches_at_sites (restore_finish E v stdout)"
  unfolding restore_finish_def PatchStatus_def call_defs Let_def
  by (auto intro!: emit_rules site_patchI [where site = "Finish stdout"] split: sum.split)

lemma site_restoring: "patches_at_sites (handleRestoringPhase E R v)"
proof -
  have "patches_at_sites (restore_run E R v vmi c)" for vmi c
    unfolding restore_run_def call_defs
    by (auto intro!: site_steps site_finish split: sum.split option.split go.split)
  note run = emits_bind [OF this]
  show ?thesis
    unfolding handleRestoringPhase_def call_defs by (auto intro!: site_steps run split: sum.split option.split go.split)
qed

lemma site_cleanup: "patches_at_sites (handleCleanupPhase E R v)"
  unfolding handleCleanupPhase_def cleanup_done_def call_defs
  by (auto intro!: site_steps split: sum.split option.split go.split)

lemma site_remove_finalizer: "patches_at_sites (remove_finalizer_loop E k n v)"
  by (induction n arbitrary: v) (auto simp: Let_def call_defs intro!: emit_rules split: sum.split)

lemma site_Reconcile: "patches_at_sites (Reconcile E R k)"
proof -
  have "patches_at_sites (h E R v)" if "getPhaseHandler ph = Some h" for h v ph
    using that by (auto simp: getPhaseHandler_def handleVolumeReadyPhase_def split: RestorePhase.splits
        intro!: emit_rules site_init site_hotplugging site_waiting site_connecting site_restoring site_cleanup)
  then show ?thesis
    unfolding Reconcile_def reconcile_found_def call_defs
    by (auto intro!: site_steps site_remove_finalizer split: sum.split option.split go.split)
qed

subsection \<open>Properties\<close>

text \<open>C6. For every status patch of a reconciliation there is a place in the handlers at which memory yields it: run on any heap
  that holds the resource, the code at that place answers a base that still reads as the old resource, although the
  resource was changed in place, the conditions in their array included, and the resource then reads as the new one.\<close>

theorem status_patches_are_made_in_memory:
  assumes "ReqPatchStatus b n \<in> set (requests (Reconcile E R k) w)"
    and "meta_copiers K" and "wf_heap h" and "restore_at p h = Some ((tm, b), A)"
  shows "\<exists>site. carries (site_memory K spare p site) h p tm b n"
proof -
  from emits_requests [OF site_Reconcile assms(1)] obtain site where "n = with_status b (site_status site b)"
    by (auto simp: site_patch_def)
  with meta_copiers.site_carries [OF assms(2-4)] show ?thesis by blast
qed

text \<open>A restore whose volume did not attach in time, in memory, with a condition that the failure replaces.\<close>

definition late_restore :: vmfr where
  "late_restore = demo_in (\<lambda>s. s\<lparr>Phase := RestorePhaseWaitingForAttachment, AttachmentRetries := 60, Conditions := [sample_condition]\<rparr>)"

definition late_object :: gRestore where
  "late_object = \<lparr>gv_TypeMeta = zero_type_meta,
     gv_ObjectMeta = \<lparr>gm_Name = ''r1'', gm_Namespace = ''ns'', gm_Generation = 1, gm_DeletionTimestamp = None,
       gm_Finalizers = Some \<lparr>sl_array = 1, sl_len = 1\<rparr>\<rparr>,
     gv_Spec = \<lparr>gsp_Target = \<lparr>gr_APIGroup = Some 2, gr_Kind = ''VirtualMachine'', gr_Name = ''vm1''\<rparr>,
       gsp_Source = zero_source\<lparr>gsrc_PVC := Some 3\<rparr>, gsp_SourcePath = ''/etc''\<rparr>,
     gv_Status = zero_status\<lparr>gs_Phase := RestorePhaseWaitingForAttachment, gs_AttachmentRetries := 60,
       gs_Conditions := Some \<lparr>sl_array = 4, sl_len = 1\<rparr>\<rparr>\<rparr>"

definition late_heap :: "cell goheap" where
  "late_heap = GoHeap [0 \<mapsto> RestoreCell late_object, 1 \<mapsto> StringsCell [finalizerName], 2 \<mapsto> StringCell ''kubevirt.io'',
     3 \<mapsto> PVCSourceCell \<lparr>pvcs_Name = ''bkp'', pvcs_Namespace = ''''\<rparr>, 4 \<mapsto> ConditionsCell [sample_condition]] 5"

lemma late_heap_wf: "wf_heap late_heap"
  by (simp add: wf_heap_def late_heap_def)

lemma late_reads: "restore_at 0 late_heap = Some ((zero_type_meta, late_restore), {0, 1, 2, 3, 4})"
  by (auto simp: pointee_def rd_bind_def rd_def at_def elements_def read_defs type_defs list_of_def late_heap_def late_object_def
      zero_source_def zero_status_def late_restore_def demo_in_def demo_restore_def demo_spec_def empty_status_def with_status_def)

theorem status_patches_are_made_in_memory_witness:
  "\<exists>n site. Phase (vmfr_Status n) = RestorePhaseFailed \<and>
     carries (site_memory mem_copies 1 0 site) late_heap 0 zero_type_meta late_restore n"
proof -
  let ?ps = "status_patches (requests (Reconcile mem_env demo_reconciler demo_key) (demo_world late_restore demo_vm))"
  have "\<exists>p \<in> set ?ps. fst p = late_restore \<and> Phase (vmfr_Status (snd p)) = RestorePhaseFailed"
    by code_simp
  then obtain n where "(late_restore, n) \<in> set ?ps" and failed: "Phase (vmfr_Status n) = RestorePhaseFailed" by auto
  then have "ReqPatchStatus late_restore n \<in> set (requests (Reconcile mem_env demo_reconciler demo_key) (demo_world late_restore demo_vm))"
    by (simp only: status_patches_iff)
  from status_patches_are_made_in_memory [OF this mem_copy.meta_copiers_axioms late_heap_wf late_reads] failed
  show ?thesis by blast
qed

end
