(* ===== verification/OptionSlices.thy ===== *)
theory OptionSlices
  imports GoHeap Bootstrap
begin

text \<open>
  The TLS options of the two servers in memory (cmd/main.go). The options of the webhook server and those of the
  metrics server are appended to the same slice. Whether they then share an array depends on the room that the first
  \<open>append\<close> leaves.
\<close>

type_synonym tls_option = "tls_Config \<Rightarrow> tls_Config"

definition OptionsT :: "(tls_option list, tls_option list) gotype" where
  "OptionsT = \<lparr>wrap = (\<lambda>xs. xs), unwrap = Some, zero = []\<rparr>"

interpretation options_array: go_type OptionsT
  by unfold_locales (simp add: OptionsT_def)

text \<open>\<open>nil\<close> fills the elements that are not in use, and \<open>spare n\<close> is the room in a new array of \<open>n\<close> elements.\<close>

definition options_memory :: "tls_option \<Rightarrow> (nat \<Rightarrow> nat) \<Rightarrow> flags \<Rightarrow> (tls_option list, slice option \<times> slice option) gm" where
  "options_memory nil spare fl = do {
     opts \<leftarrow> (if \<not> enableHTTP2 fl then go_append OptionsT nil (spare 1) None disableHTTP2 else State_Monad.return None);
     webhook \<leftarrow> (if webhookCertPath fl \<noteq> '''' then go_append OptionsT nil (spare (length (tlsOpts fl) + 1)) opts (certificateOpt ''webhook'')
        else State_Monad.return opts);
     metrics \<leftarrow> go_append OptionsT nil (spare (length (tlsOpts fl) + 1)) opts cryptoPolicyOpt;
     metrics' \<leftarrow> (if metricsCertPath fl \<noteq> '''' then go_append OptionsT nil (spare (length (tlsOpts fl) + 2)) metrics (certificateOpt ''metrics'')
        else State_Monad.return metrics);
     State_Monad.return (webhook, metrics')
   }"

definition slice_list :: "slice option \<Rightarrow> tls_option list goheap \<Rightarrow> tls_option list" where
  "slice_list p h = (case p of None \<Rightarrow> [] | Some sl \<Rightarrow> take (sl_len sl) (content OptionsT (sl_array sl) h))"

lemma take_written: "0 < n \<Longrightarrow> take (Suc 0) ((replicate n z)[0 := x]) = [x]"
  by (cases n) simp_all

text \<open>C27. The metrics server gets the options that are meant for it. The webhook server does so when the array of the first option
  has no room to spare; with HTTP/2 disabled, a certificate, and room to spare, its certificate option would be
  replaced by the callback of the metrics server. (The Go runtime leaves no room for a single pointer; the language
  does not promise it.)\<close>

theorem options_do_not_overlap:
  "case run_state (options_memory nil spare fl) h of ((webhook, metrics), h') \<Rightarrow>
     slice_list metrics h' = metricsTLSOpts fl \<and>
     slice_list webhook h' = (if \<not> enableHTTP2 fl \<and> webhookCertPath fl \<noteq> '''' \<and> 0 < spare 1
       then [disableHTTP2, cryptoPolicyOpt] else webhookTLSOpts fl)"
  by (cases "spare 1"; cases "enableHTTP2 fl"; cases "webhookCertPath fl = ''''"; cases "metricsCertPath fl = ''''")
    (auto simp: options_memory_def go_append_def new_def store_def deref_def content_def OptionsT_def slice_list_def
      metricsTLSOpts_def webhookTLSOpts_def tlsOpts_def take_written)

end
