(* ===== verification/Scheme.thy ===== *)
theory Scheme
  imports GoHeap Bootstrap
begin

text \<open>
  The registration of types before \<open>main\<close> runs: api/v1alpha1/groupversion_info.go, the two \<open>init\<close> functions of the
  API types, and \<open>init\<close> of cmd/main.go. A client refuses every object whose kind is not registered with its scheme.

  Schemes, the builder of controller-runtime and the \<open>AddToScheme\<close> of the packages are parameters. The builder lies in
  memory: \<open>AddToScheme\<close> of this package is a method value, bound before the types are registered, and works since it is
  bound to the pointer.
\<close>

record gvk =
  gvk_Group :: string
  gvk_Version :: string
  gvk_Kind :: string

record schema_GroupVersion =
  gv_Group :: string
  gv_Version :: string

definition GroupVersion :: schema_GroupVersion where
  "GroupVersion = \<lparr>gv_Group = ''filerestore.kubevirt.io'', gv_Version = ''v1alpha1''\<rparr>"

text \<open>Of the packages: an empty scheme and whether it knows a kind; a new builder, its \<open>Register\<close> and \<open>AddToScheme\<close>, and the
  \<open>AddToScheme\<close> of client-go, CDI, KubeVirt and the snapshot API. Objects are given by their kinds.\<close>

record ('s, 'b) packages =
  NewScheme :: 's
  Recognizes :: "'s \<Rightarrow> gvk \<Rightarrow> bool"
  NewBuilder :: "schema_GroupVersion \<Rightarrow> 'b"
  Register :: "'b \<Rightarrow> string list \<Rightarrow> 'b"
  AddTypes :: "'b \<Rightarrow> 's \<Rightarrow> goerror option \<times> 's"
  clientgo_AddToScheme :: "'s \<Rightarrow> goerror option \<times> 's"
  cdi_AddToScheme :: "'s \<Rightarrow> goerror option \<times> 's"
  kubevirt_AddToScheme :: "'s \<Rightarrow> goerror option \<times> 's"
  snapshot_AddToScheme :: "'s \<Rightarrow> goerror option \<times> 's"

subsection \<open>The code\<close>

definition BuilderT :: "'b \<Rightarrow> ('b, 'b) gotype" where
  "BuilderT z = \<lparr>wrap = (\<lambda>b. b), unwrap = Some, zero = z\<rparr>"

abbreviation builder_type :: "('s, 'b) packages \<Rightarrow> ('b, 'b) gotype" where
  "builder_type A \<equiv> BuilderT (NewBuilder A GroupVersion)"

text \<open>\<open>SchemeBuilder\<close>, a pointer.\<close>

definition SchemeBuilder :: "('s, 'b) packages \<Rightarrow> ('b, addr) gm" where
  "SchemeBuilder A = new (builder_type A) (NewBuilder A GroupVersion)"

text \<open>\<open>AddToScheme = SchemeBuilder.AddToScheme\<close>: the method value of a pointer.\<close>

definition AddToScheme :: "('s, 'b) packages \<Rightarrow> addr \<Rightarrow> 's \<Rightarrow> ('b, goerror option \<times> 's) gm" where
  "AddToScheme A p s = do {
     b \<leftarrow> deref (builder_type A) p;
     State_Monad.return (AddTypes A b s)
   }"

definition register_at :: "('s, 'b) packages \<Rightarrow> addr \<Rightarrow> string list \<Rightarrow> ('b, unit) gm" where
  "register_at A p kinds = do {
     b \<leftarrow> deref (builder_type A) p;
     store (builder_type A) p (Register A b kinds)
   }"

definition operator_types_init :: "('s, 'b) packages \<Rightarrow> addr \<Rightarrow> ('b, unit) gm" where
  "operator_types_init A p = register_at A p [''FileRestoreOperator'', ''FileRestoreOperatorList'']"

definition restore_types_init :: "('s, 'b) packages \<Rightarrow> addr \<Rightarrow> ('b, unit) gm" where
  "restore_types_init A p = register_at A p [''VirtualMachineFileRestore'', ''VirtualMachineFileRestoreList'']"

text \<open>\<open>utilruntime.Must\<close> panics on an error.\<close>

definition Must :: "goerror option \<times> 's \<Rightarrow> 's go" where
  "Must r = (case r of (Some err, _) \<Rightarrow> Panicked (Error err) | (None, s) \<Rightarrow> Ran s)"

fun then_go :: "'a go \<Rightarrow> ('a \<Rightarrow> 'b go) \<Rightarrow> 'b go" where
  "then_go (Panicked p) f = Panicked p"
| "then_go (Ran x) f = f x"

text \<open>A sequence of \<open>Must(f(scheme))\<close>.\<close>

fun must_all :: "('s \<Rightarrow> goerror option \<times> 's) list \<Rightarrow> 's \<Rightarrow> 's go" where
  "must_all [] s = Ran s"
| "must_all (f # fs) s = then_go (Must (f s)) (must_all fs)"

definition main_init :: "('s, 'b) packages \<Rightarrow> addr \<Rightarrow> 's \<Rightarrow> ('b, 's go) gm" where
  "main_init A p scheme =
     (case must_all [clientgo_AddToScheme A, cdi_AddToScheme A, kubevirt_AddToScheme A, snapshot_AddToScheme A] scheme of
        Panicked err \<Rightarrow> State_Monad.return (Panicked err)
      | Ran s \<Rightarrow> do { r \<leftarrow> AddToScheme A p s; State_Monad.return (Must r) })"

text \<open>The variables of the API package, its \<open>init\<close> functions in the order of their files, and the main package.\<close>

definition process_init :: "('s, 'b) packages \<Rightarrow> ('b, 's go) gm" where
  "process_init A = do {
     p \<leftarrow> SchemeBuilder A;
     operator_types_init A p;
     restore_types_init A p;
     main_init A p (NewScheme A)
   }"

subsection \<open>What the packages promise\<close>

definition own_kind :: "string \<Rightarrow> gvk" where
  "own_kind k = \<lparr>gvk_Group = ''filerestore.kubevirt.io'', gvk_Version = ''v1alpha1'', gvk_Kind = k\<rparr>"

definition core_kind :: "string \<Rightarrow> gvk" where
  "core_kind k = \<lparr>gvk_Group = '''', gvk_Version = ''v1'', gvk_Kind = k\<rparr>"

definition kubevirt_kind :: "string \<Rightarrow> gvk" where
  "kubevirt_kind k = \<lparr>gvk_Group = ''kubevirt.io'', gvk_Version = ''v1'', gvk_Kind = k\<rparr>"

definition cdi_kind :: "string \<Rightarrow> gvk" where
  "cdi_kind k = \<lparr>gvk_Group = ''cdi.kubevirt.io'', gvk_Version = ''v1beta1'', gvk_Kind = k\<rparr>"

definition snapshot_kind :: "string \<Rightarrow> gvk" where
  "snapshot_kind k = \<lparr>gvk_Group = ''snapshot.storage.k8s.io'', gvk_Version = ''v1'', gvk_Kind = k\<rparr>"

text \<open>An \<open>AddToScheme\<close> that succeeds adds its kinds and forgets none.\<close>

definition adds :: "('s \<Rightarrow> gvk \<Rightarrow> bool) \<Rightarrow> ('s \<Rightarrow> goerror option \<times> 's) \<Rightarrow> gvk list \<Rightarrow> bool" where
  "adds knows f ks \<longleftrightarrow> (\<forall>s s'. f s = (None, s') \<longrightarrow> (\<forall>k. k \<in> set ks \<or> knows s k \<longrightarrow> knows s' k))"

text \<open>Of the kinds the packages add, those that matter here. With the kind of an object they add the kind of its lists.\<close>

definition core_kinds :: "string list" where
  "core_kinds = [''Secret'', ''ConfigMap'', ''PersistentVolumeClaim'', ''PersistentVolumeClaimList'', ''Pod'', ''PodList'', ''Event'']"

definition kubevirt_kinds :: "string list" where
  "kubevirt_kinds = [''VirtualMachine'', ''VirtualMachineList'', ''VirtualMachineInstance'', ''VirtualMachineInstanceList'']"

definition snapshot_kinds :: "string list" where
  "snapshot_kinds = [''VolumeSnapshot'', ''VolumeSnapshotList'', ''VolumeSnapshotContent'']"

locale scheme_packages =
  fixes A :: "('s, 'b) packages" and types_of :: "'b \<Rightarrow> schema_GroupVersion \<times> string list"
  assumes new_types: "types_of (NewBuilder A gv) = (gv, [])"
    and register_types: "types_of (Register A b ks) = (fst (types_of b), snd (types_of b) @ ks)"
    and builder_adds: "adds (Recognizes A) (AddTypes A b)
      (map (\<lambda>k. \<lparr>gvk_Group = gv_Group (fst (types_of b)), gvk_Version = gv_Version (fst (types_of b)), gvk_Kind = k\<rparr>)
        (snd (types_of b)))"
    and clientgo_adds: "adds (Recognizes A) (clientgo_AddToScheme A)
      (map core_kind core_kinds)"
    and cdi_adds: "adds (Recognizes A) (cdi_AddToScheme A) [cdi_kind ''DataVolume'']"
    and kubevirt_adds: "adds (Recognizes A) (kubevirt_AddToScheme A) (map kubevirt_kind kubevirt_kinds)"
    and snapshot_adds: "adds (Recognizes A) (snapshot_AddToScheme A) (map snapshot_kind snapshot_kinds)"

text \<open>The calls of the start of the process, in their order; \<open>b\<close> is the builder with what has been registered.\<close>

definition add_calls :: "('s, 'b) packages \<Rightarrow> 'b \<Rightarrow> ('s \<Rightarrow> goerror option \<times> 's) list" where
  "add_calls A b =
     [clientgo_AddToScheme A, cdi_AddToScheme A, kubevirt_AddToScheme A, snapshot_AddToScheme A] @ [AddTypes A b]"

definition full_builder :: "('s, 'b) packages \<Rightarrow> 'b" where
  "full_builder A = Register A (Register A (NewBuilder A GroupVersion) [''FileRestoreOperator'', ''FileRestoreOperatorList''])
     [''VirtualMachineFileRestore'', ''VirtualMachineFileRestoreList'']"

lemma must_all_snoc: "must_all (fs @ [f]) s = then_go (must_all fs s) (\<lambda>s. Must (f s))"
proof (induction fs arbitrary: s)
  case Nil
  show ?case by (cases "Must (f s)") simp_all
next
  case (Cons g fs)
  then show ?case by (cases "Must (g s)") simp_all
qed

lemma process_init_calls: "fst (run_state (process_init A) h) = must_all (add_calls A (full_builder A)) (NewScheme A)"
proof -
  have main: "fst (run_state (main_init A p s) h') = must_all (add_calls A b) s" if "cells h' p = Some b" for p s h' b
    using that unfolding main_init_def add_calls_def must_all_snoc
    by (simp add: AddToScheme_def deref_def content_def BuilderT_def del: must_all.simps split: go.split)
  show ?thesis
    unfolding process_init_def SchemeBuilder_def operator_types_init_def restore_types_init_def register_at_def full_builder_def
    by (simp add: new_def deref_def store_def content_def BuilderT_def main)
qed

lemma must_all_adds:
  assumes "list_all2 (adds knows) fs kss" and "must_all fs s = Ran s'" and "k \<in> set (concat kss) \<or> knows s k"
  shows "knows s' k"
  using assms
proof (induction arbitrary: s rule: list_all2_induct)
  case (Cons f fs ks kss)
  then obtain s1 where f: "f s = (None, s1)" and fs: "must_all fs s1 = Ran s'"
    by (cases "f s" rule: prod.exhaust) (auto simp: Must_def split: option.splits)
  from Cons.hyps(1) f have "knows s1 k" if "k \<in> set ks \<or> knows s k" using that by (auto simp: adds_def)
  with Cons.prems(2) Cons.IH [OF fs] show ?case by auto
qed simp

subsection \<open>What the controllers use\<close>

text \<open>A read through the cached client starts an informer, which lists the kind: it needs the kind of the list as well.
  Data volumes, snapshot contents and secrets are read without the cache.\<close>

fun request_kinds :: "request \<Rightarrow> gvk list" where
  "request_kinds (ReqGetVMFR k) = [own_kind ''VirtualMachineFileRestore'', own_kind ''VirtualMachineFileRestoreList'']"
| "request_kinds (ReqUpdateVMFR v) = [own_kind ''VirtualMachineFileRestore'']"
| "request_kinds (ReqPatchStatus b n) = [own_kind ''VirtualMachineFileRestore'']"
| "request_kinds (ReqGetVM k) = [kubevirt_kind ''VirtualMachine'', kubevirt_kind ''VirtualMachineList'']"
| "request_kinds (ReqPatchVM b n) = [kubevirt_kind ''VirtualMachine'']"
| "request_kinds (ReqGetVMI k) = [kubevirt_kind ''VirtualMachineInstance'', kubevirt_kind ''VirtualMachineInstanceList'']"
| "request_kinds (ReqGetPVC k) = [core_kind ''PersistentVolumeClaim'', core_kind ''PersistentVolumeClaimList'']"
| "request_kinds (ReqGetSnapshot k) = [snapshot_kind ''VolumeSnapshot'', snapshot_kind ''VolumeSnapshotList'']"
| "request_kinds (ReqListPods n d) = [core_kind ''Pod'', core_kind ''PodList'']"
| "request_kinds (ReqCreateDV dv) = [cdi_kind ''DataVolume'']"
| "request_kinds (ReqDeleteDV k) = [cdi_kind ''DataVolume'']"
| "request_kinds (ReqReadSnapshot k) = [snapshot_kind ''VolumeSnapshot'']"
| "request_kinds (ReqReadContent n) = [snapshot_kind ''VolumeSnapshotContent'']"
| "request_kinds (ReqReadDV k) = [cdi_kind ''DataVolume'']"
| "request_kinds (ReqReadSecret k) = [core_kind ''Secret'']"
| "request_kinds (ReqEvent t r m) = [own_kind ''VirtualMachineFileRestore'', core_kind ''Event'']"
| "request_kinds _ = []"

fun key_kinds :: "key_request \<Rightarrow> gvk list" where
  "key_kinds (KGetSecret k) = [core_kind ''Secret'']"
| "key_kinds (KCreateSecret s) = [core_kind ''Secret'']"
| "key_kinds (KGetConfigMap k) = [core_kind ''ConfigMap'']"
| "key_kinds (KCreateConfigMap c) = [core_kind ''ConfigMap'']"
| "key_kinds (KUpdateConfigMap c) = [core_kind ''ConfigMap'']"
| "key_kinds (KDeleteConfigMap k) = [core_kind ''ConfigMap'']"
| "key_kinds _ = []"

fun operator_kinds :: "operator_request \<Rightarrow> gvk list" where
  "operator_kinds (OGet k) = [own_kind ''FileRestoreOperator'', own_kind ''FileRestoreOperatorList'']"
| "operator_kinds (OUpdateStatus f) = [own_kind ''FileRestoreOperator'']"

fun watcher_kinds :: "tls_request \<Rightarrow> gvk list" where
  "watcher_kinds TListOperators = [own_kind ''FileRestoreOperator'', own_kind ''FileRestoreOperatorList'']"
| "watcher_kinds TWaitForSync = []"

text \<open>The kind a controller is registered for, which it watches through an informer.\<close>

fun controller_kinds :: "main_request \<Rightarrow> gvk list" where
  "controller_kinds (MSetupRestore b r) = [own_kind (cb_For b), own_kind (cb_For b @ ''List'')]"
| "controller_kinds (MSetupOperator b r) = [own_kind (cb_For b), own_kind (cb_For b @ ''List'')]"
| "controller_kinds _ = []"

text \<open>All of them.\<close>

definition all_kinds :: "gvk list" where
  "all_kinds = map own_kind [''FileRestoreOperator'', ''FileRestoreOperatorList'', ''VirtualMachineFileRestore'', ''VirtualMachineFileRestoreList''] @
     map core_kind core_kinds @ [cdi_kind ''DataVolume''] @ map kubevirt_kind kubevirt_kinds @ map snapshot_kind snapshot_kinds"

context scheme_packages
begin

lemma init_recognizes:
  assumes "fst (run_state (process_init A) h) = Ran s" and "k \<in> set all_kinds"
  shows "Recognizes A s k"
proof -
  have types: "types_of (full_builder A) = (GroupVersion, [''FileRestoreOperator'', ''FileRestoreOperatorList'',
      ''VirtualMachineFileRestore'', ''VirtualMachineFileRestoreList''])"
    by (simp add: full_builder_def new_types register_types)
  have own: "adds (Recognizes A) (AddTypes A (full_builder A)) (map own_kind [''FileRestoreOperator'', ''FileRestoreOperatorList'',
      ''VirtualMachineFileRestore'', ''VirtualMachineFileRestoreList''])"
    using builder_adds [of "full_builder A"] by (simp add: types GroupVersion_def own_kind_def)
  have "list_all2 (adds (Recognizes A)) (add_calls A (full_builder A)) [map core_kind core_kinds,
      [cdi_kind ''DataVolume''], map kubevirt_kind kubevirt_kinds, map snapshot_kind snapshot_kinds, map own_kind [''FileRestoreOperator'', ''FileRestoreOperatorList'',
      ''VirtualMachineFileRestore'', ''VirtualMachineFileRestoreList'']]"
    unfolding add_calls_def using clientgo_adds cdi_adds kubevirt_adds snapshot_adds own by simp
  from must_all_adds [OF this, of "NewScheme A" s k] assms show ?thesis
    by (auto simp: process_init_calls all_kinds_def)
qed

lemma init_recognizes_all:
  assumes "fst (run_state (process_init A) h) = Ran s"
  shows "list_all (Recognizes A s) (request_kinds q)" and "list_all (Recognizes A s) (key_kinds kq)"
    and "list_all (Recognizes A s) (operator_kinds oq)" and "list_all (Recognizes A s) (watcher_kinds tq)"
    and "list_all (Recognizes A s) (controller_kinds (SetupRestoreWithManager r))"
    and "list_all (Recognizes A s) (controller_kinds (SetupOperatorWithManager r'))"
proof -
  note known = init_recognizes [OF assms] all_kinds_def core_kinds_def kubevirt_kinds_def snapshot_kinds_def
  show "list_all (Recognizes A s) (request_kinds q)" by (cases q) (simp_all add: known)
  show "list_all (Recognizes A s) (key_kinds kq)" by (cases kq) (simp_all add: known)
  show "list_all (Recognizes A s) (operator_kinds oq)" by (cases oq) (simp_all add: known)
  show "list_all (Recognizes A s) (watcher_kinds tq)" by (cases tq) (simp_all add: known)
qed (simp_all add: SetupRestoreWithManager_def SetupOperatorWithManager_def Let_def init_recognizes [OF assms] all_kinds_def)

end

subsection \<open>Properties\<close>

text \<open>C26. When the process gets to \<open>main\<close>, the scheme knows the kind of every object that the controllers, the start-up and the TLS
  watcher exchange with the API server, the kind of every list that the informers of the cached reads exchange, and the
  kinds the two controllers are registered for, with their lists. The own types are among them
  although the package takes the method value of its builder before they are registered.\<close>

theorem used_kinds_are_registered:
  assumes "scheme_packages A types_of" and "fst (run_state (process_init A) h) = Ran s"
  shows "list_all (Recognizes A s) (request_kinds q @ key_kinds kq @ operator_kinds oq @ watcher_kinds tq @
    controller_kinds (SetupRestoreWithManager r) @ controller_kinds (SetupOperatorWithManager r'))"
  using scheme_packages.init_recognizes_all [OF assms] by simp

text \<open>Packages whose schemes are lists of kinds.\<close>

definition list_packages :: "(gvk list, schema_GroupVersion \<times> string list) packages" where
  "list_packages = \<lparr>NewScheme = [], Recognizes = List.member, NewBuilder = (\<lambda>gv. (gv, [])), Register = (\<lambda>(gv, ks) ls. (gv, ks @ ls)),
     AddTypes = (\<lambda>(gv, ks) s. (None, s @ map (\<lambda>k. \<lparr>gvk_Group = gv_Group gv, gvk_Version = gv_Version gv, gvk_Kind = k\<rparr>) ks)),
     clientgo_AddToScheme = (\<lambda>s. (None, s @ map core_kind core_kinds)),
     cdi_AddToScheme = (\<lambda>s. (None, s @ [cdi_kind ''DataVolume''])),
     kubevirt_AddToScheme = (\<lambda>s. (None, s @ map kubevirt_kind kubevirt_kinds)),
     snapshot_AddToScheme = (\<lambda>s. (None, s @ map snapshot_kind snapshot_kinds))\<rparr>"

interpretation listed: scheme_packages list_packages "\<lambda>b. b"
  by unfold_locales (auto simp: list_packages_def adds_def split: prod.splits)

theorem used_kinds_are_registered_witness:
  "\<exists>s. fst (run_state (process_init list_packages) (GoHeap Map.empty 0)) = Ran s \<and>
     List.member s (own_kind ''VirtualMachineFileRestore'') \<and> List.member s (own_kind ''VirtualMachineFileRestoreList'') \<and> List.member s (kubevirt_kind ''VirtualMachine'')"
proof -
  obtain s where s: "fst (run_state (process_init list_packages) (GoHeap Map.empty 0)) = Ran s"
    unfolding process_init_calls by (simp add: add_calls_def list_packages_def Must_def full_builder_def)
  from used_kinds_are_registered [OF listed.scheme_packages_axioms s, of "ReqGetVMFR k" _ _ _ _ _ for k]
    used_kinds_are_registered [OF listed.scheme_packages_axioms s, of "ReqGetVM k" _ _ _ _ _ for k]
  show ?thesis using s by (simp add: list_packages_def)
qed

end
