(* ===== verification/Spec2Isabelle.thy ===== *)
theory Spec2Isabelle
  imports RestoreSafety RestoreFunctional GuestAccess HelperOutput Budget Bootstrap Permissions CsvGenerator
    Liveness SnapshotLiveness Attachment Success Flags PatchSites OptionSlices Scheme
begin

text \<open>
  \<^bold>\<open>A verification development for the VM file restore operator\<close>

  The operator restores files into a running virtual machine: it attaches a backup volume to the
  machine, connects to the guest over SSH, runs a helper script there, and takes the volume out again.
  Its code is under src/internal/controller, src/api/v1alpha1, src/pkg/resources,
  src/cmd and src/tools.

  \<^bold>\<open>The program and the theories that model it\<close>

  \<^item> src/api/v1alpha1/virtualmachinefilerestore_types.go: \<open>ApiTypes\<close> has the specification, the status
    and the phases as records and a datatype with the names of the source.
  \<^item> src/internal/controller/errors.go: \<open>GoErrors\<close>; an error value is a term of the datatype
    \<open>goerror\<close>, with \<open>%w\<close> wrapping as a constructor.
  \<^item> src/internal/controller/os.go, network.go, ssh.go, hotplug.go: \<open>GuestOS\<close>, \<open>Network\<close>, \<open>SSH\<close>,
    \<open>Hotplug\<close>.
  \<^item> src/internal/controller/virtualmachinefilerestore_controller.go: \<open>Reconciler\<close> (helpers and the
    clean-up) and \<open>Reconcile\<close> (the reconciliation with the finalizer).
  \<^item> src/internal/controller/phases.go: \<open>Phases\<close>, one definition per handler.
  \<^item> src/internal/controller/keypair.go: \<open>Keypair\<close>.
  \<^item> src/internal/controller/filerestoreoperator_controller.go: \<open>OperatorController\<close>.
  \<^item> src/pkg/resources/utils/tls_watcher.go, src/api/v1alpha1/types_tlssecurityprofile.go and
    filerestoreoperator_types.go: \<open>TLSWatcher\<close>.
  \<^item> src/cmd/main.go: \<open>Bootstrap\<close>, with the registration of the two controllers; \<open>Flags\<close>, its command line;
    \<open>OptionSlices\<close>, the TLS options of its servers as slices in memory.
  \<^item> src/api/v1alpha1/groupversion_info.go and the \<open>init\<close> functions of the API types and of main.go: \<open>Scheme\<close>.
  \<^item> src/api/v1alpha1/zz_generated.deepcopy.go: \<open>DeepCopies\<close>, on the structures of \<open>GoObjects\<close> in the memory of
    \<open>GoHeap\<close>.
  \<^item> src/pkg/resources/operator/csv.go: \<open>Csv\<close>, the manifest the operator is deployed with;
    \<open>Permissions\<close> compares the access it grants with the requests of the controllers.
  \<^item> src/tools/csv-generator/csv-generator.go: \<open>CsvGenerator\<close>, the command that prints the manifest.

  A reconciliation is triggered by the controller framework for the name of a resource. It reads the
  resource, and dispatches on its phase; the handler calls the hotplug, network and SSH routines and
  ends by patching the status, from which the next reconciliation starts. All state that survives a
  reconciliation is in the cluster. At start-up the process makes sure of the SSH keypair, which
  every later connection to a guest uses.

  \<^bold>\<open>Effects\<close>

  A routine is a state monad over a world and a trace of the requests it sent (\<open>Prelude\<close>, \<open>Cluster\<close>).
  The world is abstract: the API server, the guest, the clock and the libraries are the parameter
  \<open>env\<close> (\<open>keyenv\<close>, \<open>openv\<close>, \<open>tls_cache\<close>, \<open>mainenv\<close> for the other components), a record of functions
  that may answer anything, errors included, and change the world in any way. A property that needs
  more of them says so by a locale:

  \<^item> \<open>restore_api\<close> (\<open>Lawful\<close>): a status patch answers the patched object, its times possibly rounded;
    reads answer the object that was asked for.
  \<^item> \<open>cluster_api\<close> (\<open>Totality\<close>): moreover, machines that are read have a template.
  \<^item> \<open>finalizer_api\<close> (\<open>Deletion\<close>): the finalizer helpers of the controller library.
  \<^item> \<open>healthy_cluster\<close> (\<open>Healthy\<close>, on top of it): a cluster in which the calls of a restore succeed;
    \<open>healthy_deletion\<close> (\<open>HealthyDeletion\<close>): it also accepts that a resource is given up;
    \<open>healthy_snapshots\<close> (\<open>HealthySnapshot\<close>): snapshots are cloned into data volumes, after some delay.
  \<^item> \<open>plugs\<close> (\<open>Attachment\<close>): what plugging and unplugging do to the maps of volumes and disks.
  \<^item> \<open>retry_budget\<close> (\<open>Budget\<close>) and \<open>condition_update\<close> (\<open>Conditions\<close>): a polling phase, a list of
    conditions.
  \<^item> \<open>key_store\<close> (\<open>KeypairStore\<close>): secrets, config maps and the key codecs.

  \<open>MemCluster\<close> and \<open>MemKeys\<close> keep a cluster in memory: they meet these contracts and let the model
  be run; \<open>Scenario\<close> has the resources of the concrete runs. The condition, budget and plugging locales
  are interpreted on the code's own definitions.

  Panics are values: a routine that can reach one returns \<open>Panicked\<close> or \<open>Ran\<close> (\<open>go\<close>). Counters are
  32-bit words, durations 64-bit integers with the wrap-around written out. Go strings are lists
  of characters; lower-casing is the ASCII one. Logging has no effect on the state and is
  left out.

  \<^bold>\<open>Memory\<close>

  The handlers are modelled on values: a status patch gets the resource before and after. In Go, the resource is
  changed in place and the old one is a deep copy, so that this rests on what the two share. \<open>GoHeap\<close> has pointers,
  slices with their capacity, \<open>new\<close>, \<open>append\<close> and assignment on a heap of cells; a \<open>reader\<close> gives the value of an
  object with its footprint, the addresses it depends on. \<open>PatchBase\<close> runs the assignments of phases.go on this heap,
  \<open>setCondition\<close> on the array of the conditions included; \<open>PatchSites\<close> ties them to the patches of \<open>Phases\<close>.
  The locales here are \<open>go_type\<close> (how values of a type are kept in cells), \<open>copier\<close> (the contract of a deep copy,
  interpreted on every \<open>DeepCopyInto\<close>), \<open>meta_copiers\<close> (the deep copies of the API machinery, a parameter) and
  \<open>scheme_packages\<close> (\<open>Scheme\<close>: what registering types promises).

  \<^bold>\<open>The lemmas\<close>

  Four small logics carry the proofs. \<open>emits\<close> bounds each request of a routine, whatever the world does
  (\<open>Prelude\<close>); \<open>Contracts\<close> and \<open>Lawful\<close> use it to show that all requests of a reconciliation are
  lawful: its status patches follow the phase machine \<open>phase_step\<close> and keep the invariant \<open>status_ok\<close>,
  its machine patches are those of \<open>plug\<close> and \<open>unplug\<close>, its secrets, addresses and commands
  are the intended ones. \<open>returning\<close> (\<open>Totality\<close>) excludes panics. \<open>traces\<close> relates
  the result to the whole list of requests, and gives progress, deletion and the order of start-up.
  \<open>holds\<close> tracks the world itself, for the keypair and for the run of a restore in a healthy cluster.

  \<^item> \<open>Lifecycle\<close>: the statuses that can be stored over the life of a restore (\<open>stored\<close>, a rule
    induction), the footprint of a machine patch.
  \<^item> \<open>RestoreSafety\<close>: phase steps, status invariant, no panic, footprint, finalizer coverage.
  \<^item> \<open>RestoreFunctional\<close>: progress, failure reports, timeouts, deletion.
  \<^item> \<open>Attachment\<close>: \<open>HotplugVolume\<close> and \<open>UnplugVolume\<close> refine operations on finite maps.
  \<^item> \<open>Success\<close>: success is reported only when the volume is out of the machine.
  \<^item> \<open>Healthy\<close>, \<open>HealthyDeletion\<close>, \<open>Liveness\<close>: where the calls succeed, a restore is carried to its end,
    and a deleted one is cleaned up and given up.
  \<^item> \<open>HealthySnapshot\<close>, \<open>SnapshotLiveness\<close>: the same for a restore of a snapshot, whose data volume may take any
    number of reconciliations to become ready (\<open>follows\<close>: reconciliations with their answers).
  \<^item> \<open>GuestAccess\<close>: what reaches the guest, and which address is taken.
  \<^item> \<open>HelperOutput\<close>: reading back the helper's report among the helper's other messages; truncation.
  \<^item> \<open>Budget\<close>: bounds of the delays and the total waiting time.
  \<^item> \<open>TLSWatcher\<close>, \<open>OperatorController\<close>, \<open>KeypairStore\<close>: the settings of a handshake, the table of
    cipher names against the naming rule of OpenSSL, the operator's status, the keypair.
  \<^item> \<open>Bootstrap\<close>: the start of the process as two plans of calls with the keypair in between, each carried out up to
    its first failure (\<open>start_outcome\<close>).
  \<^item> \<open>Flags\<close>: the command line determines the flags.
  \<^item> \<open>DeepCopies\<close>, \<open>PatchBase\<close>, \<open>PatchSites\<close>: deep copies are equal and independent; every status patch is the
    difference between such a copy and the resource changed in place. \<open>builds\<close> and \<open>sets_status\<close> are the logics of
    routines that allocate and of assignments to the status.
  \<^item> \<open>OptionSlices\<close>, \<open>Scheme\<close>: the TLS options of the two servers do not overlap; the scheme knows the kinds
    that are used.
  \<^item> \<open>Permissions\<close>, \<open>CsvGenerator\<close>: the manifest permits what the controllers ask for and what the process does
    when it is started with the manifest's arguments, and is what the generator prints.

  \<^bold>\<open>Loops\<close>

  Every loop of the code is bounded and modelled by recursion on the attempts or elements left: three attempts to remove
  the finalizer (\<open>remove_finalizer_loop\<close>), five attempts to store the keypair (\<open>ensure_loop\<close>), and loops
  over lists. No definition needs fuel.

  \<^bold>\<open>Assumptions and limits\<close>

  In the life of a restore its specification does not change and the controller is the only writer of
  its status. A reconciliation runs by itself; the framework never runs two of them for the same
  resource at once. Not modelled: what the framework does with the registered
  controllers (its queues and caches), logging, the network and the SSH protocol, and the helper scripts inside the
  guest, which the operator only starts. Of the metadata of an object, \<open>GoObjects\<close> has the fields the controllers use.
\<close>

text \<open>C23. The keypair made sure of at start-up is the one restores connect with: as long as the secret stays
  as start-up left it, the restore controller reads a private key that parses, and the config map
  offers its public half to guests.\<close>

theorem restores_use_the_published_key:
  assumes "key_store K secret_at cm_at"
    and "fitting K (secret_at w (resource_key ns)) (cm_at w (resource_key ns))"
    and "ns = operator_namespace OPERATOR_NAMESPACE" and "R = \<lparr>OperatorNamespace = ns\<rparr>"
    and "answer (ensure_keypair K ns) w = None"
    and "w' = after (ensure_keypair K ns) w" and "secret_at w' (resource_key ns) = Some s"
    and "fst (read_secret E (resource_key ns) v) = Inr s" and "parse_private_key E = k_parse_private K"
  shows "\<exists>privateKey signer cm. answer (getSSHPrivateKey E R) v = Inr privateKey \<and> privateKey \<noteq> '''' \<and>
    parse_private_key E privateKey = Inr signer \<and> cm_at w' (resource_key ns) = Some cm \<and>
    cm_Data cm cmKeyPublicKey = Some (k_authorized K (k_public_of K signer))"
proof -
  have "keypair_ready K (secret_at w' (resource_key ns)) (cm_at w' (resource_key ns))"
    using key_store.ensure_keypair_settles [OF assms(1,2)] assms(5,6) by (simp add: settled_def)
  with assms(7) obtain cm where cm: "cm_at w' (resource_key ns) = Some cm" and "matches K s cm"
    by (auto simp: keypair_ready_def)
  then obtain pem signer where pem: "sec_Data s SSHAuthPrivateKey = Some pem" "pem \<noteq> ''''"
    "k_parse_private K pem = Inr signer" "cm_Data cm cmKeyPublicKey = Some (k_authorized K (k_public_of K signer))"
    unfolding matches_def by blast
  have "getOperatorNamespace R = ns"
    using assms(3,4) by (simp add: getOperatorNamespace_def operator_namespace_def)
  with assms(8) pem have "answer (getSSHPrivateKey E R) v = Inr pem"
    by (simp add: getSSHPrivateKey_def ReadSecret_def answer_def split: prod.split)
  with pem cm assms(9) show ?thesis by auto
qed

theorem restores_use_the_published_key_witness:
  "let w' = after (ensure_keypair mem_keyenv ''file-restore'') (empty_keys 1);
       E = mem_env\<lparr>parse_private_key := k_parse_private mem_keyenv\<rparr> in
   \<exists>privateKey signer cm.
     answer (getSSHPrivateKey E demo_reconciler) (demo\<lparr>st_secret := kw_secret w'\<rparr>) = Inr privateKey \<and>
     parse_private_key E privateKey = Inr signer \<and> kw_cm w' (resource_key ''file-restore'') = Some cm \<and>
     cm_Data cm cmKeyPublicKey = Some (k_authorized mem_keyenv (k_public_of mem_keyenv signer))"
proof -
  let ?m = "ensure_keypair mem_keyenv ''file-restore''"
  let ?w' = "after ?m (empty_keys 1)"
  have run: "answer ?m (empty_keys 1) = None"
    and "\<not> Option.is_none (kw_secret ?w' (resource_key ''file-restore''))"
    by code_simp+
  then obtain s where s: "kw_secret ?w' (resource_key ''file-restore'') = Some s"
    by (auto simp: Option.is_none_def)
  have "fitting mem_keyenv (kw_secret (empty_keys 1) (resource_key ''file-restore''))
      (kw_cm (empty_keys 1) (resource_key ''file-restore''))"
    by (simp add: fitting_def empty_keys_def)
  note published = restores_use_the_published_key [where K = mem_keyenv and secret_at = kw_secret and cm_at = kw_cm
      and w = "empty_keys 1" and w' = ?w' and ns = "''file-restore''" and OPERATOR_NAMESPACE = "''''"
      and R = demo_reconciler and s = s and E = "mem_env\<lparr>parse_private_key := k_parse_private mem_keyenv\<rparr>"
      and v = "demo\<lparr>st_secret := kw_secret ?w'\<rparr>", OF mem_keys.key_store_axioms this _ _ run refl s]
  have "fst (read_secret (mem_env\<lparr>parse_private_key := k_parse_private mem_keyenv\<rparr>)
      (resource_key ''file-restore'') (demo\<lparr>st_secret := kw_secret ?w'\<rparr>)) = Inr s"
    using s by (simp add: mem_env_def lookup_def)
  with published show ?thesis
    unfolding Let_def by (auto simp: operator_namespace_def demo_reconciler_def)
qed

end
